(* ===== verification/Validator_Prelude.thy ===== *)
theory Validator_Prelude
  imports Main "HOL-Library.State_Monad" "HOL-Library.Word"
begin

text \<open>
  Shared vocabulary of the development: Go's error values, effectful computations over an
  arbitrary world, the predicates used to reason about them, and the pieces of Go's standard
  library (packages \<open>strings\<close>, \<open>strconv\<close>, \<open>encoding/hex\<close>, \<open>math/big\<close>) that the validator calls.
  Strings are byte strings; the case functions treat the ASCII letters, which are the only letters
  that occur in addresses, hashes, statuses and numbers.
\<close>

section \<open>Errors and results\<close>

text \<open>
  The sentinel errors the validator compares or produces by name; every other error is
  \<open>Err\<close> with its message. \<open>Panic\<close> stands for a Go run-time panic, \<open>Fatal\<close> for
  \<open>log.Fatal\<close>, which ends the process.
\<close>

datatype error =
    ErrNoDocuments
  | ErrDuplicateKey
  | ErrAlreadySigned
  | ErrInvalidAddressLength
  | ErrInvalidPublicKeyLength
  | Err string
  | Panic string
  | Fatal string

type_synonym 'a result = "error + 'a"

type_synonym byte = "8 word"

type_synonym bytes = "byte list"

section \<open>Effectful computations\<close>

text \<open>
  A call that reaches the database, a chain client or the clock is a state transformer over the
  world \<open>'w\<close>. The world is a type variable: nothing is assumed about it except what the
  interfaces promise.
\<close>

type_synonym ('w, 'a) io = "('w, 'a) State_Monad.state"

abbreviation ret :: "'a \<Rightarrow> ('w, 'a) io" where
  "ret \<equiv> State_Monad.return"

named_theorems run_simps \<open>evaluation of computations\<close>

declare State_Monad.run_state_bind [simp del] State_Monad.run_state_return [simp del]

lemma run_bind [run_simps]:
  "run_state (State_Monad.bind m f) w = run_state (f (fst (run_state m w))) (snd (run_state m w))"
  by (simp add: State_Monad.bind_def split_beta)

lemma run_ret [run_simps]: "run_state (ret a) w = (a, w)"
  by (simp add: State_Monad.return_def)

text \<open>
  \<open>can_return m a\<close>: some run of \<open>m\<close> yields \<open>a\<close>. \<open>writes R v m\<close>: whatever \<open>m\<close> does to the
  part of the world observed by \<open>v\<close> is a sequence of \<open>R\<close>-steps.
\<close>

definition can_return :: "('w, 'a) io \<Rightarrow> 'a \<Rightarrow> bool" where
  "can_return m a \<longleftrightarrow> (\<exists>w. fst (run_state m w) = a)"

definition writes :: "('v \<Rightarrow> 'v \<Rightarrow> bool) \<Rightarrow> ('w \<Rightarrow> 'v) \<Rightarrow> ('w, 'a) io \<Rightarrow> bool" where
  "writes R v m \<longleftrightarrow> (\<forall>w. R\<^sup>*\<^sup>* (v w) (v (snd (run_state m w))))"

definition quiet :: "('w \<Rightarrow> 'v) \<Rightarrow> ('w, 'a) io \<Rightarrow> bool" where
  "quiet v m \<longleftrightarrow> (\<forall>w. v (snd (run_state m w)) = v w)"

lemma can_return_run: "can_return m (fst (run_state m w))"
  by (auto simp: can_return_def)

lemma can_return_ret [simp]: "can_return (ret a) b \<longleftrightarrow> a = b"
  by (simp add: can_return_def run_simps)

lemma can_return_bindE:
  assumes "can_return (State_Monad.bind m f) b"
  obtains a where "can_return m a" "can_return (f a) b"
proof -
  from assms obtain w where w: "fst (run_state (State_Monad.bind m f) w) = b"
    by (auto simp: can_return_def)
  show thesis
  proof (rule that)
    show "can_return m (fst (run_state m w))" by (rule can_return_run)
    show "can_return (f (fst (run_state m w))) b"
      using w by (auto simp: can_return_def run_simps)
  qed
qed

named_theorems writes_intros \<open>compositional rules for \<open>writes\<close>\<close>

lemma writes_ret [writes_intros]: "writes R v (ret a)"
  by (simp add: writes_def run_simps)

lemma writes_bind:
  assumes "writes R v m" and "\<And>a. can_return m a \<Longrightarrow> writes R v (f a)"
  shows "writes R v (State_Monad.bind m f)"
  unfolding writes_def
proof
  fix w
  let ?w = "snd (run_state m w)" and ?a = "fst (run_state m w)"
  have "R\<^sup>*\<^sup>* (v w) (v ?w)" using assms(1) by (simp add: writes_def)
  moreover have "R\<^sup>*\<^sup>* (v ?w) (v (snd (run_state (f ?a) ?w)))"
    using assms(2) [OF can_return_run] by (simp add: writes_def)
  ultimately show "R\<^sup>*\<^sup>* (v w) (v (snd (run_state (State_Monad.bind m f) w)))"
    by (simp add: run_simps)
qed

lemma writes_bind_quiet [writes_intros]:
  assumes "writes R v m" and "\<And>a. writes R v (f a)"
  shows "writes R v (State_Monad.bind m f)"
  using assms by (blast intro: writes_bind)

lemma writes_if [writes_intros]:
  "\<lbrakk>b \<Longrightarrow> writes R v m; \<not> b \<Longrightarrow> writes R v n\<rbrakk> \<Longrightarrow> writes R v (if b then m else n)"
  by simp

lemma writes_option [writes_intros]:
  "\<lbrakk>x = None \<Longrightarrow> writes R v m; \<And>a. x = Some a \<Longrightarrow> writes R v (f a)\<rbrakk>
    \<Longrightarrow> writes R v (case x of None \<Rightarrow> m | Some a \<Rightarrow> f a)"
  by (cases x) auto

lemma writes_sum [writes_intros]:
  "\<lbrakk>\<And>a. x = Inl a \<Longrightarrow> writes R v (f a); \<And>b. x = Inr b \<Longrightarrow> writes R v (g b)\<rbrakk>
    \<Longrightarrow> writes R v (case x of Inl a \<Rightarrow> f a | Inr b \<Rightarrow> g b)"
  by (cases x) auto

lemma writes_prod [writes_intros]:
  "(\<And>a b. x = (a, b) \<Longrightarrow> writes R v (f a b)) \<Longrightarrow> writes R v (case x of (a, b) \<Rightarrow> f a b)"
  by (cases x) auto

lemma writes_let [writes_intros]: "writes R v (f x) \<Longrightarrow> writes R v (let y = x in f y)"
  by simp

lemma quiet_writes [intro]: "quiet v m \<Longrightarrow> writes R v m"
  by (simp add: quiet_def writes_def)

lemma writes_mono: "writes R v m \<Longrightarrow> (\<And>a b. R a b \<Longrightarrow> S a b) \<Longrightarrow> writes S v m"
  unfolding writes_def by (metis rtranclp_mono predicate2I predicate2D)

lemma writesD: "writes R v m \<Longrightarrow> R\<^sup>*\<^sup>* (v w) (v (snd (run_state m w)))"
  by (simp add: writes_def)

named_theorems quiet_intros \<open>compositional rules for \<open>quiet\<close>\<close>

lemma quiet_ret [quiet_intros]: "quiet v (ret a)"
  by (simp add: quiet_def run_simps)

lemma quiet_bind [quiet_intros]:
  "quiet v m \<Longrightarrow> (\<And>a. quiet v (f a)) \<Longrightarrow> quiet v (State_Monad.bind m f)"
  by (simp add: quiet_def run_simps)

lemma quiet_if [quiet_intros]: "quiet v m \<Longrightarrow> quiet v n \<Longrightarrow> quiet v (if b then m else n)"
  by simp

lemma quiet_option [quiet_intros]:
  "quiet v m \<Longrightarrow> (\<And>a. quiet v (f a)) \<Longrightarrow> quiet v (case x of None \<Rightarrow> m | Some a \<Rightarrow> f a)"
  by (cases x) auto

lemma quiet_sum [quiet_intros]:
  "(\<And>a. quiet v (f a)) \<Longrightarrow> (\<And>b. quiet v (g b)) \<Longrightarrow> quiet v (case x of Inl a \<Rightarrow> f a | Inr b \<Rightarrow> g b)"
  by (cases x) auto

lemma quiet_prod [quiet_intros]:
  "(\<And>a b. quiet v (f a b)) \<Longrightarrow> quiet v (case x of (a, b) \<Rightarrow> f a b)"
  by (cases x) auto

lemma quietD: "quiet v m \<Longrightarrow> v (snd (run_state m w)) = v w"
  by (simp add: quiet_def)

lemma quiet_let [quiet_intros]: "quiet v (f x) \<Longrightarrow> quiet v (let y = x in f y)"
  by simp

section \<open>Sequencing past a possible error\<close>

text \<open>
  \<open>then_ok m f\<close>: run \<open>m\<close>; if it ends in an error value, that is the result, otherwise go on with
  its value. It renders both Go's \<open>if err != nil { return err }\<close> and the propagation of a panic.
\<close>

definition then_ok :: "('w, 'a result) io \<Rightarrow> ('a \<Rightarrow> ('w, 'b result) io) \<Rightarrow> ('w, 'b result) io" where
  "then_ok m f = do { r \<leftarrow> m; case r of Inl e \<Rightarrow> ret (Inl e) | Inr a \<Rightarrow> f a }"

lemma run_then_ok [run_simps]:
  "run_state (then_ok m f) w = (case run_state m w of
     (Inl e, w') \<Rightarrow> (Inl e, w') | (Inr a, w') \<Rightarrow> run_state (f a) w')"
  by (auto simp: then_ok_def run_simps split: prod.splits sum.splits)

lemma writes_then_ok:
  "writes R v m \<Longrightarrow> (\<And>a. can_return m (Inr a) \<Longrightarrow> writes R v (f a)) \<Longrightarrow> writes R v (then_ok m f)"
  unfolding then_ok_def by (rule writes_bind) (auto intro: writes_ret split: sum.splits)

lemma writes_then_ok_quiet [writes_intros]:
  "writes R v m \<Longrightarrow> (\<And>a. writes R v (f a)) \<Longrightarrow> writes R v (then_ok m f)"
  by (rule writes_then_ok)

text \<open>The same rules, keeping what a computation can return.\<close>

lemmas writes_rules = writes_ret writes_bind writes_then_ok writes_if writes_option writes_sum
  writes_prod writes_let

lemma quiet_then_ok [quiet_intros]: "quiet v m \<Longrightarrow> (\<And>a. quiet v (f a)) \<Longrightarrow> quiet v (then_ok m f)"
  unfolding then_ok_def by (intro quiet_intros)

lemma can_return_then_okE:
  assumes "can_return (then_ok m f) (Inr b)"
  obtains a where "can_return m (Inr a)" "can_return (f a) (Inr b)"
  using assms unfolding then_ok_def by (auto elim!: can_return_bindE split: sum.splits)

section \<open>Pre- and postconditions\<close>

text \<open>
  \<open>triple v P m Q\<close>: from a state whose observation satisfies \<open>P\<close>, the result and the final
  observation of \<open>m\<close> satisfy \<open>Q\<close>.
\<close>

definition triple :: "('w \<Rightarrow> 'v) \<Rightarrow> ('v \<Rightarrow> bool) \<Rightarrow> ('w, 'a) io \<Rightarrow> ('a \<Rightarrow> 'v \<Rightarrow> bool) \<Rightarrow> bool" where
  "triple v P m Q \<longleftrightarrow> (\<forall>w. P (v w) \<longrightarrow> Q (fst (run_state m w)) (v (snd (run_state m w))))"

named_theorems triple_intros \<open>compositional rules for \<open>triple\<close>\<close>

lemma tripleD: "triple v P m Q \<Longrightarrow> run_state m w = (r, w') \<Longrightarrow> P (v w) \<Longrightarrow> Q r (v w')"
  by (auto simp: triple_def)

lemma tripleI: "(\<And>w r w'. run_state m w = (r, w') \<Longrightarrow> P (v w) \<Longrightarrow> Q r (v w')) \<Longrightarrow> triple v P m Q"
  by (simp add: triple_def)

lemma triple_ret [triple_intros]: "(\<And>s. P s \<Longrightarrow> Q a s) \<Longrightarrow> triple v P (ret a) Q"
  by (simp add: triple_def run_simps)

lemma triple_bind:
  assumes "triple v P m R" "\<And>a. can_return m a \<Longrightarrow> triple v (R a) (f a) Q"
  shows "triple v P (State_Monad.bind m f) Q"
  unfolding triple_def
proof (intro allI impI)
  fix w
  assume "P (v w)"
  with assms(1) have "R (fst (run_state m w)) (v (snd (run_state m w)))" by (simp add: triple_def)
  with assms(2) [OF can_return_run]
  show "Q (fst (run_state (State_Monad.bind m f) w)) (v (snd (run_state (State_Monad.bind m f) w)))"
    by (simp add: triple_def run_simps)
qed

lemma triple_then_ok:
  assumes "triple v P m R" "\<And>a. can_return m (Inr a) \<Longrightarrow> triple v (R (Inr a)) (f a) Q"
    "\<And>e s. R (Inl e) s \<Longrightarrow> Q (Inl e) s"
  shows "triple v P (then_ok m f) Q"
  unfolding then_ok_def using assms
  by (intro triple_bind [OF assms(1)]) (auto intro: triple_ret split: sum.splits)

lemma triple_weaken:
  "triple v P m Q \<Longrightarrow> (\<And>s. P' s \<Longrightarrow> P s) \<Longrightarrow> (\<And>a s. can_return m a \<Longrightarrow> Q a s \<Longrightarrow> Q' a s)
     \<Longrightarrow> triple v P' m Q'"
  unfolding triple_def by (meson can_return_run)

lemma triple_conj:
  "triple v P m Q \<Longrightarrow> triple v P' m Q' \<Longrightarrow> triple v (\<lambda>s. P s \<and> P' s) m (\<lambda>a s. Q a s \<and> Q' a s)"
  by (simp add: triple_def)

text \<open>What the steps of a computation keep, the computation keeps.\<close>

lemma triple_stable:
  assumes "writes R v m" "\<And>s s'. R s s' \<Longrightarrow> P s \<Longrightarrow> P s'"
  shows "triple v P m (\<lambda>_. P)"
  unfolding triple_def
proof (intro allI impI)
  fix w
  assume "P (v w)"
  have "P s'" if "R\<^sup>*\<^sup>* s s'" "P s" for s s'
    using that by (induction rule: rtranclp_induct) (auto intro: assms(2))
  with writesD [OF assms(1)] \<open>P (v w)\<close> show "P (v (snd (run_state m w)))" by blast
qed

lemma triple_stable_can:
  "writes R v m \<Longrightarrow> (\<And>s s'. R s s' \<Longrightarrow> P s \<Longrightarrow> P s') \<Longrightarrow>
     triple v P m (\<lambda>a s. P s \<and> can_return m a)"
  using triple_stable [of R v m P] by (auto simp: triple_def can_return_run)

section \<open>Fixed-width integers\<close>

text \<open>Go's \<open>int64(x)\<close> and \<open>uint64(x)\<close>: the value modulo \<open>2^64\<close>, read with and without sign.\<close>

definition int64 :: "int \<Rightarrow> int" where
  "int64 x = (x + 2 ^ 63) mod 2 ^ 64 - 2 ^ 63"

definition uint64 :: "int \<Rightarrow> int" where
  "uint64 x = x mod 2 ^ 64"

definition is_int64 :: "int \<Rightarrow> bool" where
  "is_int64 x \<longleftrightarrow> - (2 ^ 63) \<le> x \<and> x < 2 ^ 63"

lemma int64_id [simp]: "is_int64 x \<Longrightarrow> int64 x = x"
  by (simp add: is_int64_def int64_def)

lemma is_int64_int64: "is_int64 (int64 x)"
  by (simp add: is_int64_def int64_def)

lemma uint64_id: "0 \<le> x \<Longrightarrow> x < 2 ^ 64 \<Longrightarrow> uint64 x = x"
  by (simp add: uint64_def)

end
