(* ===== verification/Go_Std.thy ===== *)
theory Go_Std
  imports Validator_Prelude "HOL-Library.Multiset"
begin

text \<open>
  The functions of Go's standard library that the validator calls: packages \<open>strings\<close>,
  \<open>strconv\<close>, \<open>encoding/hex\<close>, the decimal part of \<open>math/big\<close>, and \<open>sort.Slice\<close> on keys.
\<close>

section \<open>Package strings\<close>

definition lower_char :: "char \<Rightarrow> char" where
  "lower_char c = (let n = of_char c :: nat in
     if 65 \<le> n \<and> n \<le> 90 then char_of (n + 32) else c)"

definition ToLower :: "string \<Rightarrow> string" where
  "ToLower s = map lower_char s"

definition EqualFold :: "string \<Rightarrow> string \<Rightarrow> bool" where
  "EqualFold s t \<longleftrightarrow> ToLower s = ToLower t"

definition HasPrefix :: "string \<Rightarrow> string \<Rightarrow> bool" where
  "HasPrefix s p \<longleftrightarrow> take (length p) s = p"

definition TrimPrefix :: "string \<Rightarrow> string \<Rightarrow> string" where
  "TrimPrefix s p = (if HasPrefix s p then drop (length p) s else s)"

definition Trim :: "string \<Rightarrow> char \<Rightarrow> string" where
  "Trim s c = rev (dropWhile (\<lambda>x. x = c) (rev (dropWhile (\<lambda>x. x = c) s)))"

fun Split :: "string \<Rightarrow> char \<Rightarrow> string list" where
  "Split [] sep = [[]]"
| "Split (c # s) sep =
     (if c = sep then [] # Split s sep
      else case Split s sep of [] \<Rightarrow> [[c]] | t # ts \<Rightarrow> (c # t) # ts)"

lemma lower_char_idem [simp]: "lower_char (lower_char c) = lower_char c"
  by (simp add: lower_char_def Let_def)

lemma ToLower_idem [simp]: "ToLower (ToLower s) = ToLower s"
  by (simp add: ToLower_def)

lemma length_ToLower [simp]: "length (ToLower s) = length s"
  by (simp add: ToLower_def)

lemma ToLower_append: "ToLower (s @ t) = ToLower s @ ToLower t"
  by (simp add: ToLower_def)

lemma ToLower_simps [simp]:
  "ToLower [] = []" "ToLower (c # s) = lower_char c # ToLower s"
  "lower_char CHR ''0'' = CHR ''0''" "lower_char CHR ''x'' = CHR ''x''"
  by (simp_all add: ToLower_def lower_char_def)

lemma EqualFold_refl [simp]: "EqualFold s s"
  by (simp add: EqualFold_def)

lemma EqualFold_sym: "EqualFold s t \<Longrightarrow> EqualFold t s"
  by (simp add: EqualFold_def)

lemma EqualFold_trans: "EqualFold s t \<Longrightarrow> EqualFold t u \<Longrightarrow> EqualFold s u"
  by (simp add: EqualFold_def)

lemma EqualFold_ToLower [simp]: "EqualFold (ToLower s) t \<longleftrightarrow> EqualFold s t"
  by (simp add: EqualFold_def)

lemma HasPrefix_append [simp]: "HasPrefix (p @ s) p"
  by (simp add: HasPrefix_def)

lemma TrimPrefix_append [simp]: "TrimPrefix (p @ s) p = s"
  by (simp add: TrimPrefix_def HasPrefix_def)

lemma HasPrefix_iff: "HasPrefix s p \<longleftrightarrow> (\<exists>t. s = p @ t)"
  by (metis HasPrefix_append HasPrefix_def append_take_drop_id)

section \<open>Package strconv and decimal big.Int\<close>

definition digit_char :: "nat \<Rightarrow> char" where
  "digit_char n = char_of (48 + n)"

definition is_digit :: "char \<Rightarrow> bool" where
  "is_digit c \<longleftrightarrow> 48 \<le> (of_char c :: nat) \<and> (of_char c :: nat) \<le> 57"

definition digit_val :: "char \<Rightarrow> nat" where
  "digit_val c = of_char c - 48"

fun nat_digits :: "nat \<Rightarrow> string" where
  "nat_digits n = (if n < 10 then [digit_char n] else nat_digits (n div 10) @ [digit_char (n mod 10)])"

declare nat_digits.simps [simp del]

definition parse_digits :: "string \<Rightarrow> nat option" where
  "parse_digits s =
     (if s \<noteq> [] \<and> list_all is_digit s then Some (foldl (\<lambda>n c. 10 * n + digit_val c) 0 s) else None)"

text \<open>\<open>(*big.Int).String\<close> and \<open>(*big.Int).SetString(s, 10)\<close>: an optional sign, then digits.\<close>

definition FormatInt :: "int \<Rightarrow> string" where
  "FormatInt i = (if i < 0 then CHR ''-'' # nat_digits (nat (- i)) else nat_digits (nat i))"

definition SetString10 :: "string \<Rightarrow> int option" where
  "SetString10 s = (case s of
       [] \<Rightarrow> None
     | c # t \<Rightarrow>
         if c = CHR ''-'' then map_option (\<lambda>n. - int n) (parse_digits t)
         else if c = CHR ''+'' then map_option int (parse_digits t)
         else map_option int (parse_digits s))"

definition ParseInt :: "string \<Rightarrow> int option" where
  "ParseInt s = (case SetString10 s of
       None \<Rightarrow> None
     | Some i \<Rightarrow> if is_int64 i then Some i else None)"

definition ParseUint :: "string \<Rightarrow> int option" where
  "ParseUint s = (case parse_digits s of
       None \<Rightarrow> None
     | Some n \<Rightarrow> if int n < 2 ^ 64 then Some (int n) else None)"

definition ParseBool :: "string \<Rightarrow> bool option" where
  "ParseBool s =
     (if s \<in> set [''1'', ''t'', ''T'', ''TRUE'', ''true'', ''True''] then Some True
      else if s \<in> set [''0'', ''f'', ''F'', ''FALSE'', ''false'', ''False''] then Some False
      else None)"

lemma digit_char_lt10: "n < 10 \<Longrightarrow> is_digit (digit_char n) \<and> digit_val (digit_char n) = n"
  by (simp add: is_digit_def digit_char_def digit_val_def)

lemma nat_digits_nonempty [simp]: "nat_digits n \<noteq> []"
  by (subst nat_digits.simps) simp

lemma nat_digits_all [simp]: "list_all is_digit (nat_digits n)"
proof (induction n rule: nat_digits.induct)
  case (1 n)
  then show ?case
    by (subst nat_digits.simps) (auto simp: digit_char_lt10)
qed

lemma foldl_nat_digits: "foldl (\<lambda>n c. 10 * n + digit_val c) 0 (nat_digits n) = n"
proof (induction n rule: nat_digits.induct)
  case (1 n)
  then show ?case
    by (subst nat_digits.simps) (auto simp: digit_char_lt10)
qed

lemma parse_nat_digits [simp]: "parse_digits (nat_digits n) = Some n"
  by (simp add: parse_digits_def foldl_nat_digits)

lemma nat_digits_head: "is_digit (hd (nat_digits n))"
  by (metis list.set_sel(1) list_all_iff nat_digits_all nat_digits_nonempty)

lemma SetString10_FormatInt [simp]: "SetString10 (FormatInt i) = Some i"
proof (cases "i < 0")
  case True
  then show ?thesis by (simp add: FormatInt_def SetString10_def)
next
  case False
  obtain c t where ct: "nat_digits (nat i) = c # t"
    using nat_digits_nonempty [of "nat i"] by (cases "nat_digits (nat i)") auto
  have "is_digit c" using nat_digits_head [of "nat i"] ct by simp
  then have "c \<noteq> CHR ''-''" "c \<noteq> CHR ''+''" by (auto simp: is_digit_def)
  moreover have "parse_digits (c # t) = Some (nat i)"
    using parse_nat_digits [of "nat i"] by (simp add: ct)
  ultimately show ?thesis using False by (simp add: FormatInt_def SetString10_def ct)
qed

lemma ParseInt_FormatInt [simp]: "is_int64 i \<Longrightarrow> ParseInt (FormatInt i) = Some i"
  by (simp add: ParseInt_def)

lemma ParseInt_Some_int64: "ParseInt s = Some i \<Longrightarrow> is_int64 i"
  by (auto simp: ParseInt_def split: option.splits if_splits)

lemma FormatInt_inject [simp]: "FormatInt i = FormatInt j \<longleftrightarrow> i = j"
  by (metis SetString10_FormatInt option.inject)

lemma FormatInt_nonempty [simp]: "FormatInt i \<noteq> []"
  by (simp add: FormatInt_def)

lemma FormatInt_zero: "FormatInt 0 = ''0''"
  by code_simp

lemma FormatInt_eq_zero [simp]: "FormatInt i = ''0'' \<longleftrightarrow> i = 0"
  by (metis FormatInt_inject FormatInt_zero)

section \<open>Package encoding/hex\<close>

definition hex_digit :: "nat \<Rightarrow> char" where
  "hex_digit n = (if n < 10 then char_of (48 + n) else char_of (87 + n))"

definition hex_val :: "char \<Rightarrow> nat option" where
  "hex_val c = (let n = of_char c :: nat in
     if 48 \<le> n \<and> n \<le> 57 then Some (n - 48)
     else if 97 \<le> n \<and> n \<le> 102 then Some (n - 87)
     else if 65 \<le> n \<and> n \<le> 70 then Some (n - 55)
     else None)"

fun EncodeToString :: "bytes \<Rightarrow> string" where
  "EncodeToString [] = []"
| "EncodeToString (b # bs) = hex_digit (unat b div 16) # hex_digit (unat b mod 16) # EncodeToString bs"

fun DecodeString :: "string \<Rightarrow> bytes result" where
  "DecodeString [] = Inr []"
| "DecodeString [c] = Inl (Err ''encoding/hex: odd length hex string'')"
| "DecodeString (c # d # s) =
     (case (hex_val c, hex_val d) of
        (Some m, Some n) \<Rightarrow>
          (case DecodeString s of Inl e \<Rightarrow> Inl e | Inr bs \<Rightarrow> Inr (of_nat (16 * m + n) # bs))
      | _ \<Rightarrow> Inl (Err ''encoding/hex: invalid byte''))"

lemma hex_val_digit: "n < 16 \<Longrightarrow> hex_val (hex_digit n) = Some n"
  by (auto simp: hex_val_def hex_digit_def Let_def)

lemma lower_hex_digit: "n < 16 \<Longrightarrow> lower_char (hex_digit n) = hex_digit n"
  by (auto simp: lower_char_def hex_digit_def Let_def)

lemma byte_div16: "unat (b :: byte) div 16 < 16"
  using unsigned_less [of b, where 'a = nat] by (simp add: less_mult_imp_div_less)

lemma DecodeString_EncodeToString [simp]: "DecodeString (EncodeToString bs) = Inr bs"
proof (induction bs)
  case (Cons b bs)
  have "of_nat (16 * (unat b div 16) + unat b mod 16) = b"
    by (simp only: mult_div_mod_eq) simp
  then show ?case
    using Cons by (simp add: hex_val_digit byte_div16)
qed simp

lemma length_EncodeToString [simp]: "length (EncodeToString bs) = 2 * length bs"
  by (induction bs) auto

lemma ToLower_EncodeToString [simp]: "ToLower (EncodeToString bs) = EncodeToString bs"
  by (induction bs) (auto simp: ToLower_def lower_hex_digit byte_div16)

lemma length_DecodeString: "DecodeString s = Inr bs \<Longrightarrow> length s = 2 * length bs"
  by (induction s arbitrary: bs rule: DecodeString.induct)
     (auto split: option.splits sum.splits)

lemma hex_val_bound: "hex_val c = Some n \<Longrightarrow> n < 16"
  by (auto simp: hex_val_def Let_def split: if_splits)

lemma hex_val_lower: "hex_val (lower_char c) = hex_val c"
  by (auto simp: hex_val_def lower_char_def Let_def)

lemma DecodeString_ToLower [simp]: "DecodeString (ToLower s) = DecodeString s"
  by (induction s rule: DecodeString.induct)
     (auto simp: ToLower_def hex_val_lower split: option.splits sum.splits)

lemma hex_digit_val: "hex_val c = Some n \<Longrightarrow> hex_digit n = lower_char c"
  by (auto simp: hex_val_def hex_digit_def lower_char_def Let_def split: if_splits)

lemma EncodeToString_DecodeString: "DecodeString s = Inr bs \<Longrightarrow> EncodeToString bs = ToLower s"
proof (induction s arbitrary: bs rule: DecodeString.induct)
  case (3 c d s)
  then obtain m n bs' where *: "hex_val c = Some m" "hex_val d = Some n" "DecodeString s = Inr bs'"
    "bs = of_nat (16 * m + n) # bs'"
    by (auto split: option.splits sum.splits)
  have lt: "m < 16" "n < 16" using * hex_val_bound by auto
  then have u: "unat (of_nat (16 * m + n) :: byte) = 16 * m + n"
    by (simp add: unat_of_nat del: of_nat_add of_nat_mult)
  have "EncodeToString bs' = ToLower s" using 3 * by simp
  moreover have "(16 * m + n) div 16 = m" "(16 * m + n) mod 16 = n" using lt by simp_all
  ultimately show ?case
    using * by (simp only: EncodeToString.simps u) (simp add: hex_digit_val ToLower_def)
qed (simp_all add: ToLower_def)

end
