(* ===== verification/Models.thy ===== *)
theory Models
  imports Go_Std "HOL-Library.AList"
begin

text \<open>
  Package \<open>models\<close>: the documents kept in the shared database (\<open>Mint\<close>, \<open>InvalidMint\<close>, \<open>Burn\<close>,
  \<open>Health\<close>), their statuses, the configuration, and the BSON form the struct tags give each
  document. Field names carry a prefix per struct, since Isabelle's record fields are global. A Go
  slice is a list (the code never distinguishes a nil slice from an empty one), a pointer an
  \<open>option\<close>, a time stamp a natural number.
\<close>

section \<open>BSON values, queries and updates\<close>

datatype bson =
    BNull
  | BStr string
  | BBool bool
  | BInt int
  | BTime nat
  | BOid nat
  | BArr "bson list"
  | BDoc "(string \<times> bson) list"

type_synonym doc = "(string \<times> bson) list"

text \<open>The query operators that occur in the validator's filters.\<close>

datatype cond =
    CEq bson
  | CNe bson
  | CIn "bson list"
  | CNin "bson list"
  | CElemMatch "(string \<times> bson) list"

datatype query =
    Fld string cond
  | QAnd "query list"
  | QOr "query list"
  | QNor "query list"

text \<open>A \<open>$set\<close> document, and the stages of the only aggregation pipeline shape in use.\<close>

type_synonym update = "(string \<times> bson) list"

datatype stage =
    SMatch query
  | SGroupMax string string

text \<open>
  The documented meaning of the operators: a condition on an array field also looks at the
  elements, a missing field compares like \<open>null\<close>.
\<close>

definition field_values :: "bson option \<Rightarrow> bson list" where
  "field_values f = (case f of
       None \<Rightarrow> [BNull]
     | Some (BArr xs) \<Rightarrow> BArr xs # xs
     | Some v \<Rightarrow> [v])"

definition elem_matches :: "(string \<times> bson) list \<Rightarrow> bson \<Rightarrow> bool" where
  "elem_matches fs b = (case b of
       BDoc d \<Rightarrow> list_all (\<lambda>(k, v). List.member (field_values (map_of d k)) v) fs
     | _ \<Rightarrow> False)"

fun cond_matches :: "cond \<Rightarrow> bson option \<Rightarrow> bool" where
  "cond_matches (CEq v) f = List.member (field_values f) v"
| "cond_matches (CNe v) f = (\<not> List.member (field_values f) v)"
| "cond_matches (CIn vs) f = list_ex (List.member (field_values f)) vs"
| "cond_matches (CNin vs) f = (\<not> list_ex (List.member (field_values f)) vs)"
| "cond_matches (CElemMatch fs) f =
     (case f of Some (BArr xs) \<Rightarrow> list_ex (elem_matches fs) xs | _ \<Rightarrow> False)"

fun matches :: "query \<Rightarrow> doc \<Rightarrow> bool" where
  "matches (Fld k c) d = cond_matches c (map_of d k)"
| "matches (QAnd qs) d = list_all (\<lambda>q. matches q d) qs"
| "matches (QOr qs) d = list_ex (\<lambda>q. matches q d) qs"
| "matches (QNor qs) d = (\<not> list_ex (\<lambda>q. matches q d) qs)"

definition apply_set :: "update \<Rightarrow> doc \<Rightarrow> doc" where
  "apply_set u d = foldl (\<lambda>d (k, v). AList.update k v d) d u"

lemma map_of_apply_set:
  "map_of (apply_set u d) k = (case map_of (rev u) k of Some v \<Rightarrow> Some v | None \<Rightarrow> map_of d k)"
proof (induction u arbitrary: d)
  case (Cons kv u)
  obtain a b where kv: "kv = (a, b)" by (cases kv)
  show ?case
    using Cons.IH [of "AList.update a b d"]
    by (auto simp: apply_set_def kv update_conv' map_add_def split: option.splits)
qed (simp add: apply_set_def)

lemma apply_set_untouched:
  "k \<notin> fst ` set u \<Longrightarrow> map_of (apply_set u d) k = map_of d k"
  by (simp add: map_of_apply_set map_of_eq_None_iff [THEN iffD2])

lemma list_ex_iff_set: "list_ex P xs \<longleftrightarrow> (\<exists>x \<in> set xs. P x)"
  by (induction xs) auto

lemma field_eq_str:
  "List.member (field_values f) (BStr s) \<Longrightarrow> f = Some (BStr s) \<or> (\<exists>xs. f = Some (BArr xs) \<and> BStr s \<in> set xs)"
  by (auto simp: field_values_def split: option.splits bson.splits)

section \<open>Statuses and collections\<close>

definition StatusPending :: string where "StatusPending = ''pending''"

definition StatusConfirmed :: string where "StatusConfirmed = ''confirmed''"

definition StatusSigned :: string where "StatusSigned = ''signed''"

definition StatusSubmitted :: string where "StatusSubmitted = ''submitted''"

definition StatusSuccess :: string where "StatusSuccess = ''success''"

definition StatusFailed :: string where "StatusFailed = ''failed''"

lemmas status_defs = StatusPending_def StatusConfirmed_def StatusSigned_def StatusSubmitted_def
  StatusSuccess_def StatusFailed_def

lemma status_distinct [simp]:
  "StatusPending \<noteq> StatusConfirmed" "StatusPending \<noteq> StatusSigned"
  "StatusPending \<noteq> StatusSubmitted" "StatusPending \<noteq> StatusSuccess"
  "StatusPending \<noteq> StatusFailed" "StatusConfirmed \<noteq> StatusSigned"
  "StatusConfirmed \<noteq> StatusSubmitted" "StatusConfirmed \<noteq> StatusSuccess"
  "StatusConfirmed \<noteq> StatusFailed" "StatusSigned \<noteq> StatusSubmitted"
  "StatusSigned \<noteq> StatusSuccess" "StatusSigned \<noteq> StatusFailed"
  "StatusSubmitted \<noteq> StatusSuccess" "StatusSubmitted \<noteq> StatusFailed"
  "StatusSuccess \<noteq> StatusFailed"
  by (simp_all add: status_defs)

lemmas status_distinct' [simp] = status_distinct [symmetric]

definition CollectionMints :: string where "CollectionMints = ''mints''"

definition CollectionInvalidMints :: string where "CollectionInvalidMints = ''invalidMints''"

definition CollectionBurns :: string where "CollectionBurns = ''burns''"

definition CollectionHealthChecks :: string where "CollectionHealthChecks = ''healthchecks''"

lemmas collection_defs = CollectionMints_def CollectionInvalidMints_def CollectionBurns_def
  CollectionHealthChecks_def

lemma collection_distinct [simp]:
  "CollectionMints \<noteq> CollectionInvalidMints" "CollectionMints \<noteq> CollectionBurns"
  "CollectionMints \<noteq> CollectionHealthChecks" "CollectionInvalidMints \<noteq> CollectionBurns"
  "CollectionInvalidMints \<noteq> CollectionHealthChecks" "CollectionBurns \<noteq> CollectionHealthChecks"
  by (simp_all add: collection_defs)

lemmas collection_distinct' [simp] = collection_distinct [symmetric]

section \<open>Documents\<close>

record MintMemo =
  memo_Address :: string
  memo_ChainID :: string

record MintData =
  data_Recipient :: string
  data_Amount :: string
  data_Nonce :: string

record Signature =
  sig_Signer :: string
  sig_Signature :: string

record Mint =
  m_Id :: "nat option"
  m_TransactionHash :: string
  m_Height :: string
  m_Confirmations :: string
  m_SenderAddress :: string
  m_SenderChainID :: string
  m_RecipientAddress :: string
  m_RecipientChainID :: string
  m_WPOKTAddress :: string
  m_VaultAddress :: string
  m_Amount :: string
  m_Nonce :: string
  m_Memo :: "MintMemo option"
  m_CreatedAt :: nat
  m_UpdatedAt :: nat
  m_Status :: string
  m_Data :: "MintData option"
  m_Signers :: "string list"
  m_Signatures :: "string list"
  m_MintTransactionHash :: string

record InvalidMint =
  im_Id :: "nat option"
  im_TransactionHash :: string
  im_Height :: string
  im_Confirmations :: string
  im_SenderAddress :: string
  im_SenderChainID :: string
  im_VaultAddress :: string
  im_Amount :: string
  im_CreatedAt :: nat
  im_UpdatedAt :: nat
  im_Status :: string
  im_Memo :: string
  im_ReturnTransactionBody :: string
  im_Signatures :: "Signature list"
  im_Sequence :: "int option"
  im_ReturnTransactionHash :: string

record Burn =
  b_Id :: "nat option"
  b_TransactionHash :: string
  b_LogIndex :: string
  b_BlockNumber :: string
  b_Confirmations :: string
  b_SenderAddress :: string
  b_SenderChainID :: string
  b_RecipientAddress :: string
  b_RecipientChainID :: string
  b_WPOKTAddress :: string
  b_Amount :: string
  b_CreatedAt :: nat
  b_UpdatedAt :: nat
  b_Status :: string
  b_ReturnTransactionBody :: string
  b_Signatures :: "Signature list"
  b_Sequence :: "int option"
  b_ReturnTransactionHash :: string

record ServiceHealth =
  sh_Name :: string
  sh_Healthy :: bool
  sh_EthBlockNumber :: string
  sh_PoktHeight :: string
  sh_LastSyncTime :: nat
  sh_NextSyncTime :: nat

record RunnerStatus =
  rs_EthBlockNumber :: string
  rs_PoktHeight :: string

definition empty_ServiceHealth :: ServiceHealth where
  "empty_ServiceHealth = \<lparr>sh_Name = [], sh_Healthy = False, sh_EthBlockNumber = [],
     sh_PoktHeight = [], sh_LastSyncTime = 0, sh_NextSyncTime = 0\<rparr>"

section \<open>BSON form of the documents\<close>

text \<open>
  One entry per struct tag, in the struct's order. \<open>_id\<close> is \<open>omitempty\<close>: a document without an
  id has no \<open>_id\<close> field and the database assigns one.
\<close>

definition id_field :: "nat option \<Rightarrow> doc" where
  "id_field i = (case i of None \<Rightarrow> [] | Some n \<Rightarrow> [(''_id'', BOid n)])"

definition strs :: "string list \<Rightarrow> bson" where
  "strs ss = BArr (map BStr ss)"

definition marshal_memo :: "MintMemo option \<Rightarrow> bson" where
  "marshal_memo m = (case m of None \<Rightarrow> BNull
     | Some x \<Rightarrow> BDoc [(''address'', BStr (memo_Address x)), (''chain_id'', BStr (memo_ChainID x))])"

definition marshal_data :: "MintData option \<Rightarrow> bson" where
  "marshal_data m = (case m of None \<Rightarrow> BNull
     | Some x \<Rightarrow> BDoc [(''recipient'', BStr (data_Recipient x)), (''amount'', BStr (data_Amount x)),
                   (''nonce'', BStr (data_Nonce x))])"

definition marshal_sig :: "Signature \<Rightarrow> bson" where
  "marshal_sig s = BDoc [(''signer'', BStr (sig_Signer s)), (''signature'', BStr (sig_Signature s))]"

definition marshal_sigs :: "Signature list \<Rightarrow> bson" where
  "marshal_sigs ss = BArr (map marshal_sig ss)"

lemma strs_inject [simp]: "strs a = strs b \<longleftrightarrow> a = b"
  by (simp add: strs_def inj_map_eq_map inj_def)

lemma marshal_sig_inject [simp]: "marshal_sig a = marshal_sig b \<longleftrightarrow> a = b"
  by (cases a; cases b) (simp add: marshal_sig_def)

lemma marshal_sigs_inject [simp]: "marshal_sigs a = marshal_sigs b \<longleftrightarrow> a = b"
  by (simp add: marshal_sigs_def inj_map_eq_map inj_def)

definition marshal_seq :: "int option \<Rightarrow> bson" where
  "marshal_seq s = (case s of None \<Rightarrow> BNull | Some n \<Rightarrow> BInt n)"

definition marshal_Mint :: "Mint \<Rightarrow> doc" where
  "marshal_Mint m = id_field (m_Id m) @
    [(''transaction_hash'', BStr (m_TransactionHash m)),
     (''height'', BStr (m_Height m)),
     (''confirmations'', BStr (m_Confirmations m)),
     (''sender_address'', BStr (m_SenderAddress m)),
     (''sender_chain_id'', BStr (m_SenderChainID m)),
     (''recipient_address'', BStr (m_RecipientAddress m)),
     (''recipient_chain_id'', BStr (m_RecipientChainID m)),
     (''wpokt_address'', BStr (m_WPOKTAddress m)),
     (''vault_address'', BStr (m_VaultAddress m)),
     (''amount'', BStr (m_Amount m)),
     (''nonce'', BStr (m_Nonce m)),
     (''memo'', marshal_memo (m_Memo m)),
     (''created_at'', BTime (m_CreatedAt m)),
     (''updated_at'', BTime (m_UpdatedAt m)),
     (''status'', BStr (m_Status m)),
     (''data'', marshal_data (m_Data m)),
     (''signers'', strs (m_Signers m)),
     (''signatures'', strs (m_Signatures m)),
     (''mint_transaction_hash'', BStr (m_MintTransactionHash m))]"

definition marshal_InvalidMint :: "InvalidMint \<Rightarrow> doc" where
  "marshal_InvalidMint m = id_field (im_Id m) @
    [(''transaction_hash'', BStr (im_TransactionHash m)),
     (''height'', BStr (im_Height m)),
     (''confirmations'', BStr (im_Confirmations m)),
     (''sender_address'', BStr (im_SenderAddress m)),
     (''sender_chain_id'', BStr (im_SenderChainID m)),
     (''vault_address'', BStr (im_VaultAddress m)),
     (''amount'', BStr (im_Amount m)),
     (''created_at'', BTime (im_CreatedAt m)),
     (''updated_at'', BTime (im_UpdatedAt m)),
     (''status'', BStr (im_Status m)),
     (''memo'', BStr (im_Memo m)),
     (''return_transaction_body'', BStr (im_ReturnTransactionBody m)),
     (''signatures'', marshal_sigs (im_Signatures m)),
     (''sequence'', marshal_seq (im_Sequence m)),
     (''return_transaction_hash'', BStr (im_ReturnTransactionHash m))]"

definition marshal_Burn :: "Burn \<Rightarrow> doc" where
  "marshal_Burn b = id_field (b_Id b) @
    [(''transaction_hash'', BStr (b_TransactionHash b)),
     (''log_index'', BStr (b_LogIndex b)),
     (''block_number'', BStr (b_BlockNumber b)),
     (''confirmations'', BStr (b_Confirmations b)),
     (''sender_address'', BStr (b_SenderAddress b)),
     (''sender_chain_id'', BStr (b_SenderChainID b)),
     (''recipient_address'', BStr (b_RecipientAddress b)),
     (''recipient_chain_id'', BStr (b_RecipientChainID b)),
     (''wpokt_address'', BStr (b_WPOKTAddress b)),
     (''amount'', BStr (b_Amount b)),
     (''created_at'', BTime (b_CreatedAt b)),
     (''updated_at'', BTime (b_UpdatedAt b)),
     (''status'', BStr (b_Status b)),
     (''return_transaction_body'', BStr (b_ReturnTransactionBody b)),
     (''signatures'', marshal_sigs (b_Signatures b)),
     (''sequence'', marshal_seq (b_Sequence b)),
     (''return_transaction_hash'', BStr (b_ReturnTransactionHash b))]"

end
