(* ===== verification/Codec.thy ===== *)
theory Codec
  imports Models
begin

text \<open>
  Decoding of database documents into the structs of package \<open>models\<close>, following the same struct
  tags as the encoding in theory \<open>Models\<close>: a missing or null field decodes to the zero value, a
  field of another BSON type is a decoding error (\<open>None\<close>). The round trips
  \<open>unmarshal (marshal x) = Some x\<close> close the theory, with the facts that carry a status selected by
  a filter over to the decoded struct.
\<close>

section \<open>Field decoders\<close>

definition get_str :: "doc \<Rightarrow> string \<Rightarrow> string option" where
  "get_str d k = (case map_of d k of
       None \<Rightarrow> Some [] | Some BNull \<Rightarrow> Some [] | Some (BStr s) \<Rightarrow> Some s | Some _ \<Rightarrow> None)"

definition get_bool :: "doc \<Rightarrow> string \<Rightarrow> bool option" where
  "get_bool d k = (case map_of d k of
       None \<Rightarrow> Some False | Some BNull \<Rightarrow> Some False | Some (BBool b) \<Rightarrow> Some b | Some _ \<Rightarrow> None)"

definition get_time :: "doc \<Rightarrow> string \<Rightarrow> nat option" where
  "get_time d k = (case map_of d k of
       None \<Rightarrow> Some 0 | Some BNull \<Rightarrow> Some 0 | Some (BTime t) \<Rightarrow> Some t | Some _ \<Rightarrow> None)"

definition get_id :: "doc \<Rightarrow> string \<Rightarrow> nat option option" where
  "get_id d k = (case map_of d k of
       None \<Rightarrow> Some None | Some BNull \<Rightarrow> Some None | Some (BOid i) \<Rightarrow> Some (Some i) | Some _ \<Rightarrow> None)"

definition get_seq :: "doc \<Rightarrow> string \<Rightarrow> int option option" where
  "get_seq d k = (case map_of d k of
       None \<Rightarrow> Some None | Some BNull \<Rightarrow> Some None
     | Some (BInt i) \<Rightarrow> if 0 \<le> i then Some (Some i) else None | Some _ \<Rightarrow> None)"

definition bson_str :: "bson \<Rightarrow> string option" where
  "bson_str b = (case b of BStr s \<Rightarrow> Some s | BNull \<Rightarrow> Some [] | _ \<Rightarrow> None)"

definition get_list :: "(bson \<Rightarrow> 'a option) \<Rightarrow> doc \<Rightarrow> string \<Rightarrow> 'a list option" where
  "get_list f d k = (case map_of d k of
       None \<Rightarrow> Some [] | Some BNull \<Rightarrow> Some [] | Some (BArr xs) \<Rightarrow> those (map f xs) | Some _ \<Rightarrow> None)"

definition get_doc :: "(doc \<Rightarrow> 'a option) \<Rightarrow> doc \<Rightarrow> string \<Rightarrow> 'a option option" where
  "get_doc f d k = (case map_of d k of
       None \<Rightarrow> Some None | Some BNull \<Rightarrow> Some None | Some (BDoc e) \<Rightarrow> map_option Some (f e)
     | Some _ \<Rightarrow> None)"

definition unmarshal_memo :: "doc \<Rightarrow> MintMemo option" where
  "unmarshal_memo d = do {
     a \<leftarrow> get_str d ''address'';
     c \<leftarrow> get_str d ''chain_id'';
     Some \<lparr>memo_Address = a, memo_ChainID = c\<rparr> }"

definition unmarshal_data :: "doc \<Rightarrow> MintData option" where
  "unmarshal_data d = do {
     r \<leftarrow> get_str d ''recipient'';
     a \<leftarrow> get_str d ''amount'';
     n \<leftarrow> get_str d ''nonce'';
     Some \<lparr>data_Recipient = r, data_Amount = a, data_Nonce = n\<rparr> }"

definition unmarshal_sig :: "bson \<Rightarrow> Signature option" where
  "unmarshal_sig b = (case b of
       BDoc d \<Rightarrow> do {
         s \<leftarrow> get_str d ''signer'';
         g \<leftarrow> get_str d ''signature'';
         Some \<lparr>sig_Signer = s, sig_Signature = g\<rparr> }
     | BNull \<Rightarrow> Some \<lparr>sig_Signer = [], sig_Signature = []\<rparr>
     | _ \<Rightarrow> None)"

section \<open>Structs\<close>

definition unmarshal_Mint :: "doc \<Rightarrow> Mint option" where
  "unmarshal_Mint d = do {
     i \<leftarrow> get_id d ''_id'';
     th \<leftarrow> get_str d ''transaction_hash'';
     h \<leftarrow> get_str d ''height'';
     c \<leftarrow> get_str d ''confirmations'';
     sa \<leftarrow> get_str d ''sender_address'';
     sc \<leftarrow> get_str d ''sender_chain_id'';
     ra \<leftarrow> get_str d ''recipient_address'';
     rc \<leftarrow> get_str d ''recipient_chain_id'';
     wa \<leftarrow> get_str d ''wpokt_address'';
     va \<leftarrow> get_str d ''vault_address'';
     am \<leftarrow> get_str d ''amount'';
     n \<leftarrow> get_str d ''nonce'';
     me \<leftarrow> get_doc unmarshal_memo d ''memo'';
     ca \<leftarrow> get_time d ''created_at'';
     ua \<leftarrow> get_time d ''updated_at'';
     st \<leftarrow> get_str d ''status'';
     da \<leftarrow> get_doc unmarshal_data d ''data'';
     sr \<leftarrow> get_list bson_str d ''signers'';
     sg \<leftarrow> get_list bson_str d ''signatures'';
     mh \<leftarrow> get_str d ''mint_transaction_hash'';
     Some \<lparr>m_Id = i, m_TransactionHash = th, m_Height = h, m_Confirmations = c,
       m_SenderAddress = sa, m_SenderChainID = sc, m_RecipientAddress = ra, m_RecipientChainID = rc,
       m_WPOKTAddress = wa, m_VaultAddress = va, m_Amount = am, m_Nonce = n, m_Memo = me,
       m_CreatedAt = ca, m_UpdatedAt = ua, m_Status = st, m_Data = da, m_Signers = sr,
       m_Signatures = sg, m_MintTransactionHash = mh\<rparr> }"

definition unmarshal_InvalidMint :: "doc \<Rightarrow> InvalidMint option" where
  "unmarshal_InvalidMint d = do {
     i \<leftarrow> get_id d ''_id'';
     th \<leftarrow> get_str d ''transaction_hash'';
     h \<leftarrow> get_str d ''height'';
     c \<leftarrow> get_str d ''confirmations'';
     sa \<leftarrow> get_str d ''sender_address'';
     sc \<leftarrow> get_str d ''sender_chain_id'';
     va \<leftarrow> get_str d ''vault_address'';
     am \<leftarrow> get_str d ''amount'';
     ca \<leftarrow> get_time d ''created_at'';
     ua \<leftarrow> get_time d ''updated_at'';
     st \<leftarrow> get_str d ''status'';
     me \<leftarrow> get_str d ''memo'';
     rb \<leftarrow> get_str d ''return_transaction_body'';
     sg \<leftarrow> get_list unmarshal_sig d ''signatures'';
     sq \<leftarrow> get_seq d ''sequence'';
     rh \<leftarrow> get_str d ''return_transaction_hash'';
     Some \<lparr>im_Id = i, im_TransactionHash = th, im_Height = h, im_Confirmations = c,
       im_SenderAddress = sa, im_SenderChainID = sc, im_VaultAddress = va, im_Amount = am,
       im_CreatedAt = ca, im_UpdatedAt = ua, im_Status = st, im_Memo = me,
       im_ReturnTransactionBody = rb, im_Signatures = sg, im_Sequence = sq,
       im_ReturnTransactionHash = rh\<rparr> }"

definition unmarshal_Burn :: "doc \<Rightarrow> Burn option" where
  "unmarshal_Burn d = do {
     i \<leftarrow> get_id d ''_id'';
     th \<leftarrow> get_str d ''transaction_hash'';
     li \<leftarrow> get_str d ''log_index'';
     bn \<leftarrow> get_str d ''block_number'';
     c \<leftarrow> get_str d ''confirmations'';
     sa \<leftarrow> get_str d ''sender_address'';
     sc \<leftarrow> get_str d ''sender_chain_id'';
     ra \<leftarrow> get_str d ''recipient_address'';
     rc \<leftarrow> get_str d ''recipient_chain_id'';
     wa \<leftarrow> get_str d ''wpokt_address'';
     am \<leftarrow> get_str d ''amount'';
     ca \<leftarrow> get_time d ''created_at'';
     ua \<leftarrow> get_time d ''updated_at'';
     st \<leftarrow> get_str d ''status'';
     rb \<leftarrow> get_str d ''return_transaction_body'';
     sg \<leftarrow> get_list unmarshal_sig d ''signatures'';
     sq \<leftarrow> get_seq d ''sequence'';
     rh \<leftarrow> get_str d ''return_transaction_hash'';
     Some \<lparr>b_Id = i, b_TransactionHash = th, b_LogIndex = li, b_BlockNumber = bn,
       b_Confirmations = c, b_SenderAddress = sa, b_SenderChainID = sc, b_RecipientAddress = ra,
       b_RecipientChainID = rc, b_WPOKTAddress = wa, b_Amount = am, b_CreatedAt = ca,
       b_UpdatedAt = ua, b_Status = st, b_ReturnTransactionBody = rb, b_Signatures = sg,
       b_Sequence = sq, b_ReturnTransactionHash = rh\<rparr> }"

section \<open>Round trips\<close>

lemma those_map_str [simp]: "those (map bson_str (map BStr ss)) = Some ss"
  by (induction ss) (auto simp: bson_str_def)

lemma unmarshal_marshal_sig [simp]: "unmarshal_sig (marshal_sig s) = Some s"
  by (simp add: unmarshal_sig_def marshal_sig_def get_str_def)

lemma those_map_sig [simp]: "those (map unmarshal_sig (map marshal_sig ss)) = Some ss"
  by (induction ss) auto

lemmas getter_defs = get_str_def get_bool_def get_time_def get_id_def get_seq_def get_list_def
  get_doc_def

lemma id_field_other [simp]: "k \<noteq> ''_id'' \<Longrightarrow> map_of (id_field i) k = None"
  by (simp add: id_field_def split: option.splits)

lemma get_id_field: "map_of d ''_id'' = None \<Longrightarrow> get_id (id_field i @ d) ''_id'' = Some i"
  by (simp add: id_field_def get_id_def map_add_def split: option.splits)

lemma get_other [simp]:
  assumes "k \<noteq> ''_id''"
  shows "get_str (id_field i @ d) k = get_str d k" "get_time (id_field i @ d) k = get_time d k"
    "get_bool (id_field i @ d) k = get_bool d k" "get_seq (id_field i @ d) k = get_seq d k"
    "get_list f (id_field i @ d) k = get_list f d k"
    "get_doc g (id_field i @ d) k = get_doc g d k"
  using assms by (simp_all add: getter_defs map_add_def)

lemma decode_memo [simp]:
  "(case marshal_memo m of BNull \<Rightarrow> Some None | BDoc e \<Rightarrow> map_option Some (unmarshal_memo e) | _ \<Rightarrow> None)
     = Some m"
  by (auto simp: marshal_memo_def unmarshal_memo_def get_str_def split: option.splits)

lemma decode_data [simp]:
  "(case marshal_data m of BNull \<Rightarrow> Some None | BDoc e \<Rightarrow> map_option Some (unmarshal_data e) | _ \<Rightarrow> None)
     = Some m"
  by (auto simp: marshal_data_def unmarshal_data_def get_str_def split: option.splits)

lemma decode_seq [simp]:
  "(\<And>n. s = Some n \<Longrightarrow> 0 \<le> n) \<Longrightarrow> (case marshal_seq s of BNull \<Rightarrow> Some None
     | BInt i \<Rightarrow> if 0 \<le> i then Some (Some i) else None | _ \<Rightarrow> None) = Some s"
  by (auto simp: marshal_seq_def split: option.splits)

lemma decode_strs [simp]: "get_list bson_str [] k = Some []"
  by (simp add: get_list_def)

lemma unmarshal_marshal_Mint: "unmarshal_Mint (marshal_Mint m) = Some m"
  unfolding unmarshal_Mint_def marshal_Mint_def
  by (simp add: get_id_field map_add_def get_str_def get_time_def get_list_def get_doc_def strs_def del: map_map)

lemma unmarshal_marshal_InvalidMint:
  assumes "\<And>n. im_Sequence m = Some n \<Longrightarrow> 0 \<le> n"
  shows "unmarshal_InvalidMint (marshal_InvalidMint m) = Some m"
  unfolding unmarshal_InvalidMint_def marshal_InvalidMint_def using assms
  by (simp add: get_id_field map_add_def get_str_def get_time_def get_list_def get_seq_def marshal_sigs_def
      del: map_map)

lemma unmarshal_marshal_Burn:
  assumes "\<And>n. b_Sequence b = Some n \<Longrightarrow> 0 \<le> n"
  shows "unmarshal_Burn (marshal_Burn b) = Some b"
  unfolding unmarshal_Burn_def marshal_Burn_def using assms
  by (simp add: get_id_field map_add_def get_str_def get_time_def get_list_def get_seq_def marshal_sigs_def
      del: map_map)

section \<open>What a decoded document says of the stored one\<close>

lemma get_str_field:
  "get_str d k = Some s \<Longrightarrow> s \<noteq> [] \<Longrightarrow> map_of d k = Some (BStr s)"
  by (auto simp: get_str_def split: option.splits bson.splits)

lemma get_str_member:
  assumes "get_str d k = Some s" "cond_matches (CIn (map BStr ss)) (map_of d k)"
  shows "s \<in> set ss"
  using assms
  by (auto simp: get_str_def field_values_def list_ex_iff_set split: option.splits bson.splits)

lemma unmarshal_Mint_fields:
  assumes "unmarshal_Mint d = Some m"
  shows "get_str d ''status'' = Some (m_Status m)" "get_id d ''_id'' = Some (m_Id m)"
    "get_str d ''amount'' = Some (m_Amount m)" "get_str d ''transaction_hash'' = Some (m_TransactionHash m)"
    "get_list bson_str d ''signers'' = Some (m_Signers m)"
    "get_str d ''recipient_address'' = Some (m_RecipientAddress m)"
    "get_doc unmarshal_data d ''data'' = Some (m_Data m)"
  using assms by (auto simp: unmarshal_Mint_def bind_eq_Some_conv)

lemma unmarshal_InvalidMint_fields:
  assumes "unmarshal_InvalidMint d = Some m"
  shows "get_str d ''status'' = Some (im_Status m)" "get_id d ''_id'' = Some (im_Id m)"
    "get_str d ''amount'' = Some (im_Amount m)"
    "get_str d ''transaction_hash'' = Some (im_TransactionHash m)"
    "get_list unmarshal_sig d ''signatures'' = Some (im_Signatures m)"
    "get_seq d ''sequence'' = Some (im_Sequence m)"
  using assms by (auto simp: unmarshal_InvalidMint_def bind_eq_Some_conv)

lemma unmarshal_Burn_fields:
  assumes "unmarshal_Burn d = Some b"
  shows "get_str d ''status'' = Some (b_Status b)" "get_id d ''_id'' = Some (b_Id b)"
    "get_str d ''amount'' = Some (b_Amount b)"
    "get_str d ''transaction_hash'' = Some (b_TransactionHash b)"
    "get_list unmarshal_sig d ''signatures'' = Some (b_Signatures b)"
    "get_seq d ''sequence'' = Some (b_Sequence b)"
  using assms by (auto simp: unmarshal_Burn_def bind_eq_Some_conv)

end
