(* ===== verification/Config_Types.thy ===== *)
theory Config_Types
  imports Go_Std
begin

text \<open>
  The configuration tree of \<open>models/config.go\<close>: one record per struct, \<open>int64\<close> fields as
  integers in range, \<open>uint64\<close> fields as non-negative integers.
\<close>

record GoogleSecretManagerConfig =
  gsm_Enabled :: bool
  gsm_MongoSecretName :: string
  gsm_PoktSecretName :: string
  gsm_EthSecretName :: string

record HealthCheckConfig =
  hc_IntervalMillis :: int
  hc_ReadLastHealth :: bool

record LoggerConfig =
  lg_Level :: string

record MongoConfig =
  mdb_URI :: string
  mdb_Database :: string
  mdb_TimeoutMillis :: int

record EthereumConfig =
  eth_StartBlockNumber :: int
  eth_Confirmations :: int
  eth_PrivateKey :: string
  eth_RPCURL :: string
  eth_RPCTimeoutMillis :: int
  eth_ChainID :: string
  eth_WrappedPocketAddress :: string
  eth_MintControllerAddress :: string
  eth_ValidatorAddresses :: "string list"

record CosmosConfig =
  pokt_StartHeight :: int
  pokt_Confirmations :: int
  pokt_Mnemonic :: string
  pokt_GcpKmsKeyName :: string
  pokt_RPCURL :: string
  pokt_GRPCEnabled :: bool
  pokt_GRPCHost :: string
  pokt_GRPCPort :: int
  pokt_RPCTimeoutMillis :: int
  pokt_ChainID :: string
  pokt_TxFee :: int
  pokt_Bech32Prefix :: string
  pokt_CoinDenom :: string
  pokt_MultisigAddress :: string
  pokt_MultisigPublicKeys :: "string list"
  pokt_MultisigThreshold :: int
  pokt_MintDisabled :: bool

record ServiceConfig =
  svc_Enabled :: bool
  svc_IntervalMillis :: int

record Config =
  cfg_GoogleSecretManager :: GoogleSecretManagerConfig
  cfg_HealthCheck :: HealthCheckConfig
  cfg_Logger :: LoggerConfig
  cfg_MongoDB :: MongoConfig
  cfg_Ethereum :: EthereumConfig
  cfg_Pocket :: CosmosConfig
  cfg_MintMonitor :: ServiceConfig
  cfg_MintSigner :: ServiceConfig
  cfg_MintExecutor :: ServiceConfig
  cfg_BurnMonitor :: ServiceConfig
  cfg_BurnSigner :: ServiceConfig
  cfg_BurnExecutor :: ServiceConfig

text \<open>Go's zero value of the whole tree, the state of the configuration before it is read.\<close>

definition zero_Service :: ServiceConfig where
  "zero_Service = \<lparr>svc_Enabled = False, svc_IntervalMillis = 0\<rparr>"

definition zero_Ethereum :: EthereumConfig where
  "zero_Ethereum = \<lparr>eth_StartBlockNumber = 0, eth_Confirmations = 0, eth_PrivateKey = [],
     eth_RPCURL = [], eth_RPCTimeoutMillis = 0, eth_ChainID = [], eth_WrappedPocketAddress = [],
     eth_MintControllerAddress = [], eth_ValidatorAddresses = []\<rparr>"

definition zero_Pocket :: CosmosConfig where
  "zero_Pocket = \<lparr>pokt_StartHeight = 0, pokt_Confirmations = 0, pokt_Mnemonic = [],
     pokt_GcpKmsKeyName = [], pokt_RPCURL = [], pokt_GRPCEnabled = False, pokt_GRPCHost = [],
     pokt_GRPCPort = 0, pokt_RPCTimeoutMillis = 0, pokt_ChainID = [], pokt_TxFee = 0,
     pokt_Bech32Prefix = [], pokt_CoinDenom = [], pokt_MultisigAddress = [],
     pokt_MultisigPublicKeys = [], pokt_MultisigThreshold = 0, pokt_MintDisabled = False\<rparr>"

definition zero_Config :: Config where
  "zero_Config = \<lparr>
     cfg_GoogleSecretManager = \<lparr>gsm_Enabled = False, gsm_MongoSecretName = [],
       gsm_PoktSecretName = [], gsm_EthSecretName = []\<rparr>,
     cfg_HealthCheck = \<lparr>hc_IntervalMillis = 0, hc_ReadLastHealth = False\<rparr>,
     cfg_Logger = \<lparr>lg_Level = []\<rparr>,
     cfg_MongoDB = \<lparr>mdb_URI = [], mdb_Database = [], mdb_TimeoutMillis = 0\<rparr>,
     cfg_Ethereum = zero_Ethereum,
     cfg_Pocket = zero_Pocket,
     cfg_MintMonitor = zero_Service,
     cfg_MintSigner = zero_Service,
     cfg_MintExecutor = zero_Service,
     cfg_BurnMonitor = zero_Service,
     cfg_BurnSigner = zero_Service,
     cfg_BurnExecutor = zero_Service\<rparr>"

end
