(* ===== verification/Interfaces.thy ===== *)
theory Interfaces
  imports Codec Config_Types
begin

text \<open>
  The interfaces the validator is written against. The Go interfaces \<open>Database\<close>,
  \<open>CosmosClient\<close>, \<open>EthereumClient\<close>, \<open>WrappedPocketContract\<close>, \<open>MintControllerContract\<close>
  and \<open>Signer\<close> are records of operations over an arbitrary world \<open>'w\<close>; the pure functions the
  code takes from the Cosmos SDK and from go-ethereum are the record \<open>Lib\<close>. None of that code is
  in the repository, so every definition takes these records as arguments.
\<close>

section \<open>Cosmos SDK values\<close>

text \<open>A coin's amount is \<open>None\<close> for the zero value \<open>sdk.Coin{}\<close>, whose integer is nil.\<close>

record Coin =
  coin_Denom :: string
  coin_Amount :: "int option"

record EventAttribute =
  attr_Key :: string
  attr_Value :: string

record Event =
  ev_Type :: string
  ev_Attributes :: "EventAttribute list"

record TxResponse =
  txr_Height :: int
  txr_TxHash :: string
  txr_Code :: int
  txr_Events :: "Event list"
  txr_Tx :: bytes

text \<open>The part of \<open>tx.Tx\<close> the code reads: the memo of the body, if there is a body.\<close>

record Tx =
  tx_BodyMemo :: "string option"

text \<open>\<open>uint64\<close> fields of an account are machine words.\<close>

record BaseAccount =
  acc_AccountNumber :: "64 word"
  acc_Sequence :: "64 word"

datatype PubKey =
    Secp256k1PubKey bytes
  | MultisigPubKey nat "PubKey list"

datatype SignatureData =
    SingleSignatureData bytes
  | MultiSignatureData "(nat \<times> SignatureData) list"

text \<open>The two selectors of a multisig key; \<open>GetPubKeys\<close> keeps the order of its construction.\<close>

fun GetThreshold :: "PubKey \<Rightarrow> nat" where
  "GetThreshold (MultisigPubKey k keys) = k"
| "GetThreshold (Secp256k1PubKey bs) = 0"

fun GetPubKeys :: "PubKey \<Rightarrow> PubKey list" where
  "GetPubKeys (MultisigPubKey k keys) = keys"
| "GetPubKeys (Secp256k1PubKey bs) = []"

record SignatureV2 =
  sv2_PubKey :: PubKey
  sv2_Data :: SignatureData
  sv2_Sequence :: int

record SignerData =
  sd_ChainID :: string
  sd_AccountNumber :: int
  sd_Sequence :: int
  sd_PubKey :: PubKey
  sd_Address :: string

record MsgSend =
  send_FromAddress :: string
  send_ToAddress :: string
  send_Amount :: "Coin list"

section \<open>Ethereum values\<close>

record BurnAndBridge =
  bb_Amount :: int
  bb_PoktAddress :: bytes
  bb_From :: bytes
  bb_TxHash :: bytes
  bb_LogIndex :: int
  bb_BlockNumber :: int
  bb_Address :: bytes
  bb_Removed :: bool

record Minted =
  mt_Recipient :: bytes
  mt_Amount :: int
  mt_Nonce :: int
  mt_TxHash :: bytes
  mt_LogIndex :: int
  mt_Removed :: bool

record Log =
  log_Index :: int
  log_Raw :: string

text \<open>
  A log iterator: for every successful \<open>Next\<close> the values of \<open>Error\<close> and \<open>Event\<close> at that point,
  and the value of \<open>Error\<close> once the loop has been left.
\<close>

record 'e LogIterator =
  it_Items :: "(error option \<times> 'e option) list"
  it_FinalError :: "error option"

record DomainData =
  dom_Name :: string
  dom_Version :: string
  dom_ChainId :: int
  dom_VerifyingContract :: bytes

record MintControllerMintData =
  md_Recipient :: bytes
  md_Amount :: int
  md_Nonce :: int

section \<open>Pure third-party functions\<close>

text \<open>
  \<open>'t\<close> is the SDK's transaction builder. \<open>Panic\<close> values stand for the documented panics of the
  SDK (a coin with a negative amount, a subtraction below zero).
\<close>

record 't Lib =
  StringToBytes :: "string \<Rightarrow> string \<Rightarrow> bytes result"
  ConvertAndEncode :: "string \<Rightarrow> bytes \<Rightarrow> string result"
  Address_Hex :: "bytes \<Rightarrow> string"
  HexToAddress :: "string \<Rightarrow> bytes"
  Hash_String :: "bytes \<Rightarrow> string"
  NewIntFromString :: "string \<Rightarrow> int option"
  ParseUint64 :: "string \<Rightarrow> int option"
  ParseCoinNormalized :: "string \<Rightarrow> Coin result"
  NewCoin :: "string \<Rightarrow> int \<Rightarrow> Coin result"
  Coin_Sub :: "Coin \<Rightarrow> Coin \<Rightarrow> Coin result"
  NewCoins :: "Coin \<Rightarrow> Coin list result"
  json_Unmarshal :: "string \<Rightarrow> MintMemo result"
  Tx_Unmarshal :: "bytes \<Rightarrow> Tx result"
  PubKey_Address :: "PubKey \<Rightarrow> bytes"
  PubKey_Bytes :: "PubKey \<Rightarrow> bytes"
  AccAddress_String :: "bytes \<Rightarrow> string"
  NewTxBuilder :: "string \<Rightarrow> 't"
  SetMsgs :: "'t \<Rightarrow> MsgSend list \<Rightarrow> 't result"
  SetMemo :: "'t \<Rightarrow> string \<Rightarrow> 't"
  SetFeeAmount :: "'t \<Rightarrow> Coin list \<Rightarrow> 't"
  SetGasLimit :: "'t \<Rightarrow> int \<Rightarrow> 't"
  TxJSONEncoder :: "string \<Rightarrow> ('t \<Rightarrow> string result) option"
  TxJSONDecoder :: "string \<Rightarrow> (string \<Rightarrow> 't result) option"
  TxEncoder :: "'t \<Rightarrow> bytes result"
  WrapTx :: "'t \<Rightarrow> 't result"
  GetSigners :: "'t \<Rightarrow> bytes list result"
  GetSignaturesV2 :: "'t \<Rightarrow> SignatureV2 list result"
  SetSignatures :: "'t \<Rightarrow> SignatureV2 list \<Rightarrow> 't result"
  GetSignBytes :: "SignerData \<Rightarrow> 't \<Rightarrow> bytes result"
  VerifySignature :: "PubKey \<Rightarrow> SignerData \<Rightarrow> SignatureData \<Rightarrow> 't \<Rightarrow> error option"
  IsV2AdaptableTx :: "'t \<Rightarrow> bool"
  NewAnyWithValue :: "PubKey \<Rightarrow> error option"
  AddSignatureV2 :: "SignatureData \<Rightarrow> SignatureV2 \<Rightarrow> PubKey list \<Rightarrow> SignatureData result"

section \<open>Effectful interfaces\<close>

record 'w Database =
  InsertOne :: "string \<Rightarrow> doc \<Rightarrow> ('w, nat result) io"
  FindOne :: "string \<Rightarrow> query \<Rightarrow> ('w, doc result) io"
  FindMany :: "string \<Rightarrow> query \<Rightarrow> ('w, doc list result) io"
  AggregateOne :: "string \<Rightarrow> stage list \<Rightarrow> ('w, doc result) io"
  UpdateOne :: "string \<Rightarrow> query \<Rightarrow> update \<Rightarrow> ('w, nat result) io"
  UpsertOne :: "string \<Rightarrow> query \<Rightarrow> update \<Rightarrow> update \<Rightarrow> ('w, nat result) io"
  XLock :: "string \<Rightarrow> ('w, string result) io"
  SLock :: "string \<Rightarrow> ('w, string result) io"
  Unlock :: "string \<Rightarrow> ('w, error option) io"

record 'w CosmosClient =
  GetLatestBlockHeight :: "('w, int result) io"
  GetTxsSentToAddressAfterHeight :: "string \<Rightarrow> int \<Rightarrow> ('w, TxResponse list result) io"
  GetAccount :: "string \<Rightarrow> ('w, BaseAccount result) io"
  BroadcastTx :: "bytes \<Rightarrow> ('w, string result) io"
  GetTx :: "string \<Rightarrow> ('w, TxResponse option result) io"

record 'w EthereumClient =
  GetBlockNumber :: "('w, int result) io"
  GetTransactionReceipt :: "string \<Rightarrow> ('w, Log list result) io"

record 'w WrappedPocketContract =
  GetUserNonce :: "bytes \<Rightarrow> ('w, int result) io"
  FilterMinted :: "int \<Rightarrow> int \<Rightarrow> ('w, Minted LogIterator result) io"
  FilterBurnAndBridge :: "int \<Rightarrow> int \<Rightarrow> ('w, BurnAndBridge LogIterator result) io"
  ParseBurnAndBridge :: "Log \<Rightarrow> BurnAndBridge result"

record 'w MintControllerContract =
  ValidatorCount :: "('w, int result) io"
  SignerThreshold :: "('w, int result) io"
  Eip712Domain :: "('w, DomainData result) io"
  MaxMintLimit :: "('w, int result) io"

text \<open>The Cosmos signer of one validator: its public key and its signing operation.\<close>

record 'w CosmosSigner =
  CosmosPublicKey :: PubKey
  CosmosSign :: "bytes \<Rightarrow> ('w, bytes result) io"

text \<open>
  The Ethereum key of one validator: its checksummed address, the EIP-712 struct hashes and
  \<open>crypto.Sign\<close>, which returns the signature (empty on failure) and an error.
\<close>

record TypedDataDomain =
  tdd_Name :: string
  tdd_Version :: string
  tdd_ChainId :: int
  tdd_VerifyingContract :: string

record EthKey =
  key_AddressHex :: string
  HashStructDomain :: "TypedDataDomain \<Rightarrow> bytes result"
  HashStructMessage :: "(string \<times> string) list \<Rightarrow> bytes result"
  Keccak256 :: "bytes \<Rightarrow> bytes"
  key_Sign :: "bytes \<Rightarrow> bytes \<times> error option"

text \<open>Everything a service of one validator reaches: the process-wide globals and its clients.\<close>

record ('w, 't) Env =
  Cfg :: Config
  lib :: "'t Lib"
  DB :: "'w Database"
  Cosmos :: "'w CosmosClient"
  Eth :: "'w EthereumClient"
  WPokt :: "'w WrappedPocketContract"
  MintCtl :: "'w MintControllerContract"
  Now :: "('w, nat) io"

abbreviation Pocket :: "('w, 't) Env \<Rightarrow> CosmosConfig" where
  "Pocket env \<equiv> cfg_Pocket (Cfg env)"

abbreviation Ethereum :: "('w, 't) Env \<Rightarrow> EthereumConfig" where
  "Ethereum env \<equiv> cfg_Ethereum (Cfg env)"

section \<open>Panics and errors\<close>

text \<open>
  A handler returns \<open>Inr b\<close> for Go's \<open>return b\<close> and \<open>Inl p\<close> when it panics. An error from a
  callee makes it return false, a panic in a callee ends it.
\<close>

definition is_panic :: "error \<Rightarrow> bool" where
  "is_panic e = (case e of Panic _ \<Rightarrow> True | Fatal _ \<Rightarrow> True | _ \<Rightarrow> False)"

definition keep_going :: "'a \<Rightarrow> error \<Rightarrow> 'a result" where
  "keep_going a e = (if is_panic e then Inl e else Inr a)"

definition on_error :: "error \<Rightarrow> bool result" where
  "on_error e = (if is_panic e then Inl e else Inr False)"

text \<open>Go's \<open>fmt.Errorf(... %w)\<close> and \<open>errors.New(... + err.Error())\<close>: a new error; a panic passes.\<close>

definition wrap_error :: "string \<Rightarrow> error \<Rightarrow> error" where
  "wrap_error msg e = (if is_panic e then e else Err msg)"

lemma is_panic_simps [simp]:
  "\<not> is_panic (Err s)" "\<not> is_panic ErrNoDocuments" "\<not> is_panic ErrDuplicateKey"
  "\<not> is_panic ErrAlreadySigned" "\<not> is_panic ErrInvalidAddressLength"
  "\<not> is_panic ErrInvalidPublicKeyLength" "is_panic (Panic s)" "is_panic (Fatal s)"
  "is_panic (wrap_error s e) = is_panic e"
  by (simp_all add: is_panic_def wrap_error_def)

lemma on_error_simps [simp]:
  "on_error (Err s) = Inr False" "on_error ErrNoDocuments = Inr False"
  "on_error ErrDuplicateKey = Inr False" "on_error ErrAlreadySigned = Inr False"
  "on_error (Panic s) = Inl (Panic s)" "on_error (Fatal s) = Inl (Fatal s)"
  by (simp_all add: on_error_def is_panic_def)

lemma on_error_not_True [simp]: "on_error e \<noteq> Inr True"
  by (simp add: on_error_def)

definition find_decoded ::
    "'w Database \<Rightarrow> (doc \<Rightarrow> 'a option) \<Rightarrow> string \<Rightarrow> query \<Rightarrow> ('w, 'a list result) io" where
  "find_decoded db dec c q = do {
     r \<leftarrow> FindMany db c q;
     ret (case r of
         Inl e \<Rightarrow> Inl e
       | Inr ds \<Rightarrow> (case those (map dec ds) of
             None \<Rightarrow> Inl (Err ''error decoding documents'')
           | Some xs \<Rightarrow> Inr xs)) }"

end
