(* ===== verification/Database_Model.thy ===== *)
theory Database_Model
  imports Interfaces
begin

text \<open>
  \<open>app/database.go\<close>: the wrapper \<open>MongoDatabase\<close> over the MongoDB driver and the lock client,
  the unique indexes it creates, and the contract of the \<open>Database\<close> interface as a locale. The
  driver is third-party code, hence a record of operations.
\<close>

section \<open>The driver\<close>

text \<open>
  \<open>drv_Find\<close> yields the result of \<open>cursor.All\<close> and of \<open>cursor.Err\<close>, \<open>drv_Aggregate\<close> the documents
  the cursor delivers and its final error. \<open>drv_FindOneAndUpdate\<close> takes the upsert option.
\<close>

record 'w Driver =
  drv_InsertOne :: "string \<Rightarrow> doc \<Rightarrow> ('w, bson result) io"
  drv_FindOne :: "string \<Rightarrow> query \<Rightarrow> ('w, doc result) io"
  drv_Find :: "string \<Rightarrow> query \<Rightarrow> ('w, (doc list result \<times> error option) result) io"
  drv_Aggregate :: "string \<Rightarrow> stage list \<Rightarrow> ('w, (doc list \<times> error option) result) io"
  drv_FindOneAndUpdate :: "bool \<Rightarrow> string \<Rightarrow> query \<Rightarrow> update \<Rightarrow> update \<Rightarrow> ('w, doc result) io"
  drv_XLock :: "string \<Rightarrow> string \<Rightarrow> ('w, error option) io"
  drv_SLock :: "string \<Rightarrow> string \<Rightarrow> ('w, error option) io"
  drv_Unlock :: "string \<Rightarrow> ('w, error option) io"
  rand_Read :: "nat \<Rightarrow> ('w, bytes result) io"

section \<open>MongoDatabase\<close>

definition alphanum :: string where
  "alphanum = ''0123456789ABCDEFGHIJKLMNOPQRSTUVWXYZabcdefghijklmnopqrstuvwxyz''"

definition randomString :: "'w Driver \<Rightarrow> nat \<Rightarrow> ('w, string result) io" where
  "randomString drv n = do {
     r \<leftarrow> rand_Read drv n;
     ret (case r of
         Inl e \<Rightarrow> Inl e
       | Inr bs \<Rightarrow> Inr (map (\<lambda>b. alphanum ! (unat b mod length alphanum)) bs)) }"

definition MongoDatabase_XLock :: "'w Driver \<Rightarrow> string \<Rightarrow> ('w, string result) io" where
  "MongoDatabase_XLock drv resourceID = do {
     r \<leftarrow> randomString drv 32;
     case r of
       Inl e \<Rightarrow> ret (Inl e)
     | Inr lockID \<Rightarrow> do {
         err \<leftarrow> drv_XLock drv resourceID lockID;
         ret (case err of Some e \<Rightarrow> Inl e | None \<Rightarrow> Inr lockID) } }"

definition MongoDatabase_SLock :: "'w Driver \<Rightarrow> string \<Rightarrow> ('w, string result) io" where
  "MongoDatabase_SLock drv resourceID = do {
     r \<leftarrow> randomString drv 32;
     case r of
       Inl e \<Rightarrow> ret (Inl e)
     | Inr lockID \<Rightarrow> do {
         err \<leftarrow> drv_SLock drv resourceID lockID;
         ret (case err of Some e \<Rightarrow> Inl e | None \<Rightarrow> Inr lockID) } }"

definition MongoDatabase_Unlock :: "'w Driver \<Rightarrow> string \<Rightarrow> ('w, error option) io" where
  "MongoDatabase_Unlock drv lockID = drv_Unlock drv lockID"

definition MongoDatabase_InsertOne :: "'w Driver \<Rightarrow> string \<Rightarrow> doc \<Rightarrow> ('w, nat result) io" where
  "MongoDatabase_InsertOne drv collection data = do {
     r \<leftarrow> drv_InsertOne drv collection data;
     ret (case r of
         Inl e \<Rightarrow> Inl e
       | Inr (BOid i) \<Rightarrow> Inr i
       | Inr _ \<Rightarrow> Inl (Panic ''InsertedID is not an ObjectID'')) }"

definition MongoDatabase_FindOne :: "'w Driver \<Rightarrow> string \<Rightarrow> query \<Rightarrow> ('w, doc result) io" where
  "MongoDatabase_FindOne drv collection q = drv_FindOne drv collection q"

definition MongoDatabase_FindMany :: "'w Driver \<Rightarrow> string \<Rightarrow> query \<Rightarrow> ('w, doc list result) io" where
  "MongoDatabase_FindMany drv collection q = do {
     r \<leftarrow> drv_Find drv collection q;
     ret (case r of
         Inl e \<Rightarrow> Inl e
       | Inr (Inl e, _) \<Rightarrow> Inl e
       | Inr (Inr ds, Some e) \<Rightarrow> Inl e
       | Inr (Inr ds, None) \<Rightarrow> Inr ds) }"

text \<open>
  The counting loop over the cursor: more than one document is an error, none is
  \<open>ErrNoDocuments\<close> whatever the cursor's error is, and the cursor's error is looked at last.
\<close>

definition MongoDatabase_AggregateOne ::
    "'w Driver \<Rightarrow> string \<Rightarrow> stage list \<Rightarrow> ('w, doc result) io" where
  "MongoDatabase_AggregateOne drv collection pipeline = do {
     r \<leftarrow> drv_Aggregate drv collection pipeline;
     ret (case r of
         Inl e \<Rightarrow> Inl e
       | Inr (ds, err) \<Rightarrow>
           if length ds > 1 then Inl (Err ''expected 1 result'')
           else if length ds = 0 then Inl ErrNoDocuments
           else (case err of Some e \<Rightarrow> Inl e | None \<Rightarrow> Inr (last ds))) }"

text \<open>
  \<open>FindManySorted\<close> and \<open>AggregateMany\<close> read the whole cursor (\<open>cursor.All\<close>) and report its error. Nothing
  in the program calls them; \<open>find_sorted\<close> is the driver's \<open>Find\<close> with the option \<open>SetSort\<close>.
\<close>

definition MongoDatabase_FindManySorted ::
    "(string \<Rightarrow> query \<Rightarrow> 'sort \<Rightarrow> ('w, (doc list result \<times> error option) result) io) \<Rightarrow>
       string \<Rightarrow> query \<Rightarrow> 'sort \<Rightarrow> ('w, doc list result) io" where
  "MongoDatabase_FindManySorted find_sorted collection q srt = do {
     r \<leftarrow> find_sorted collection q srt;
     ret (case r of
         Inl e \<Rightarrow> Inl e
       | Inr (Inl e, _) \<Rightarrow> Inl e
       | Inr (Inr ds, Some e) \<Rightarrow> Inl e
       | Inr (Inr ds, None) \<Rightarrow> Inr ds) }"

definition MongoDatabase_AggregateMany ::
    "'w Driver \<Rightarrow> string \<Rightarrow> stage list \<Rightarrow> ('w, doc list result) io" where
  "MongoDatabase_AggregateMany drv collection pipeline = do {
     r \<leftarrow> drv_Aggregate drv collection pipeline;
     ret (case r of
         Inl e \<Rightarrow> Inl e
       | Inr (ds, Some e) \<Rightarrow> Inl e
       | Inr (ds, None) \<Rightarrow> Inr ds) }"

definition oid_of :: "string \<Rightarrow> doc \<Rightarrow> nat result" where
  "oid_of msg d = (case map_of d ''_id'' of Some (BOid i) \<Rightarrow> Inr i | _ \<Rightarrow> Inl (Err msg))"

definition MongoDatabase_UpdateOne ::
    "'w Driver \<Rightarrow> string \<Rightarrow> query \<Rightarrow> update \<Rightarrow> ('w, nat result) io" where
  "MongoDatabase_UpdateOne drv collection q u = do {
     r \<leftarrow> drv_FindOneAndUpdate drv False collection q u [];
     ret (case r of Inl e \<Rightarrow> Inl e | Inr d \<Rightarrow> oid_of ''failed to get updated id'' d) }"

definition MongoDatabase_UpsertOne ::
    "'w Driver \<Rightarrow> string \<Rightarrow> query \<Rightarrow> update \<Rightarrow> update \<Rightarrow> ('w, nat result) io" where
  "MongoDatabase_UpsertOne drv collection q u onInsert = do {
     r \<leftarrow> drv_FindOneAndUpdate drv True collection q u onInsert;
     ret (case r of Inl e \<Rightarrow> Inl e | Inr d \<Rightarrow> oid_of ''failed to get upserted id'' d) }"

definition MongoDatabase_DB :: "'w Driver \<Rightarrow> 'w Database" where
  "MongoDatabase_DB drv = \<lparr>
     InsertOne = MongoDatabase_InsertOne drv,
     FindOne = MongoDatabase_FindOne drv,
     FindMany = MongoDatabase_FindMany drv,
     AggregateOne = MongoDatabase_AggregateOne drv,
     UpdateOne = MongoDatabase_UpdateOne drv,
     UpsertOne = MongoDatabase_UpsertOne drv,
     XLock = MongoDatabase_XLock drv,
     SLock = MongoDatabase_SLock drv,
     Unlock = MongoDatabase_Unlock drv\<rparr>"

text \<open>The lock identifiers are 32 alphanumeric characters.\<close>

lemma randomString_alphanum:
  assumes "can_return (randomString drv n) (Inr s)" "\<And>bs. can_return (rand_Read drv n) (Inr bs) \<Longrightarrow> length bs = n"
  shows "length s = n \<and> set s \<subseteq> set alphanum"
proof -
  obtain bs where bs: "can_return (rand_Read drv n) (Inr bs)"
    and s: "s = map (\<lambda>b. alphanum ! (unat b mod length alphanum)) bs"
    using assms(1) unfolding randomString_def
    by (auto elim!: can_return_bindE split: sum.splits)
  have "alphanum ! (unat b mod length alphanum) \<in> set alphanum" for b :: byte
    by (rule nth_mem) (simp add: alphanum_def)
  then show ?thesis using assms(2) [OF bs] by (auto simp: s)
qed

section \<open>Unique indexes\<close>

text \<open>
  An index: its keys, and whether it is partial, restricted to documents whose first key holds a
  \<open>long\<close>.
\<close>

record index =
  ix_Keys :: "string list"
  ix_PartialLong :: bool

definition unique_indexes :: "string \<Rightarrow> index list" where
  "unique_indexes c =
     (if c = CollectionMints then
        [\<lparr>ix_Keys = [''transaction_hash''], ix_PartialLong = False\<rparr>]
      else if c = CollectionInvalidMints then
        [\<lparr>ix_Keys = [''transaction_hash''], ix_PartialLong = False\<rparr>,
         \<lparr>ix_Keys = [''sequence''], ix_PartialLong = True\<rparr>]
      else if c = CollectionBurns then
        [\<lparr>ix_Keys = [''transaction_hash'', ''d.logger.index''], ix_PartialLong = False\<rparr>,
         \<lparr>ix_Keys = [''sequence''], ix_PartialLong = True\<rparr>]
      else if c = CollectionHealthChecks then
        [\<lparr>ix_Keys = [''validator_id'', ''hostname''], ix_PartialLong = False\<rparr>]
      else [])"

definition is_long :: "bson option \<Rightarrow> bool" where
  "is_long f = (case f of Some (BInt _) \<Rightarrow> True | _ \<Rightarrow> False)"

text \<open>The key under which a document is entered; a missing field is entered as \<open>null\<close>.\<close>

definition index_key :: "index \<Rightarrow> doc \<Rightarrow> bson list option" where
  "index_key ix d =
     (if ix_PartialLong ix \<and> \<not> list_all (\<lambda>k. is_long (map_of d k)) (ix_Keys ix) then None
      else Some (map (\<lambda>k. case map_of d k of None \<Rightarrow> BNull | Some v \<Rightarrow> v) (ix_Keys ix)))"

definition same_key :: "doc \<Rightarrow> doc \<Rightarrow> index \<Rightarrow> bool" where
  "same_key d d' ix \<longleftrightarrow> index_key ix d \<noteq> None \<and> index_key ix d = index_key ix d'"

definition conflict :: "string \<Rightarrow> doc list \<Rightarrow> doc \<Rightarrow> bool" where
  "conflict c ds d \<longleftrightarrow> list_ex (\<lambda>d'. list_ex (same_key d d') (unique_indexes c)) ds"

lemma unique_indexes_simps [simp]:
  "unique_indexes CollectionMints = [\<lparr>ix_Keys = [''transaction_hash''], ix_PartialLong = False\<rparr>]"
  "unique_indexes CollectionInvalidMints =
     [\<lparr>ix_Keys = [''transaction_hash''], ix_PartialLong = False\<rparr>,
      \<lparr>ix_Keys = [''sequence''], ix_PartialLong = True\<rparr>]"
  "unique_indexes CollectionBurns =
     [\<lparr>ix_Keys = [''transaction_hash'', ''d.logger.index''], ix_PartialLong = False\<rparr>,
      \<lparr>ix_Keys = [''sequence''], ix_PartialLong = True\<rparr>]"
  by (simp_all add: unique_indexes_def)

section \<open>The contract of the Database interface\<close>

type_synonym store = "string \<Rightarrow> doc list"

definition with_id :: "nat \<Rightarrow> doc \<Rightarrow> doc" where
  "with_id i d = (if map_of d ''_id'' = None then (''_id'', BOid i) # d else d)"

definition inserted :: "string \<Rightarrow> doc \<Rightarrow> store \<Rightarrow> store \<Rightarrow> bool" where
  "inserted c d st st' \<longleftrightarrow> (\<exists>i. (\<forall>d' \<in> set (st c). map_of d' ''_id'' \<noteq> Some (BOid i)) \<and>
     \<not> conflict c (st c) d \<and> st' = st(c := st c @ [with_id i d]))"

definition updated :: "string \<Rightarrow> query \<Rightarrow> update \<Rightarrow> store \<Rightarrow> store \<Rightarrow> bool" where
  "updated c q u st st' \<longleftrightarrow> (\<exists>n < length (st c). matches q (st c ! n) \<and>
     \<not> conflict c (take n (st c) @ drop (Suc n) (st c)) (apply_set u (st c ! n)) \<and>
     st' = st(c := (st c)[n := apply_set u (st c ! n)]))"

text \<open>
  An operation that reports an error other than a duplicate key or a missing document (a time-out,
  say) may still have taken effect on the server.
\<close>

definition insert_outcome :: "string \<Rightarrow> doc \<Rightarrow> nat result \<Rightarrow> store \<Rightarrow> store \<Rightarrow> bool" where
  "insert_outcome c d r st st' = (case r of
       Inr _ \<Rightarrow> inserted c d st st'
     | Inl e \<Rightarrow> if e = ErrDuplicateKey then conflict c (st c) d \<and> st' = st
                else st' = st \<or> inserted c d st st')"

definition update_outcome :: "string \<Rightarrow> query \<Rightarrow> update \<Rightarrow> nat result \<Rightarrow> store \<Rightarrow> store \<Rightarrow> bool" where
  "update_outcome c q u r st st' = (case r of
       Inr _ \<Rightarrow> updated c q u st st'
     | Inl e \<Rightarrow> if e = ErrDuplicateKey \<or> e = ErrNoDocuments then st' = st
                else st' = st \<or> updated c q u st st')"

fun eq_fields :: "query \<Rightarrow> doc" where
  "eq_fields (Fld k (CEq v)) = [(k, v)]"
| "eq_fields (QAnd qs) = concat (map eq_fields qs)"
| "eq_fields _ = []"

definition upsert_outcome ::
    "string \<Rightarrow> query \<Rightarrow> update \<Rightarrow> update \<Rightarrow> nat result \<Rightarrow> store \<Rightarrow> store \<Rightarrow> bool" where
  "upsert_outcome c q u ui r st st' \<longleftrightarrow>
     (case r of Inl _ \<Rightarrow> st' = st | Inr _ \<Rightarrow> False) \<or> updated c q u st st' \<or>
     list_all (\<lambda>d. \<not> matches q d) (st c) \<and> inserted c (apply_set u (apply_set ui (eq_fields q))) st st'"

definition group_max :: "string \<Rightarrow> doc list \<Rightarrow> bson" where
  "group_max k ds = (case concat (map (\<lambda>d. case map_of d k of Some (BInt i) \<Rightarrow> [i] | _ \<Rightarrow> []) ds) of
       [] \<Rightarrow> BNull | i # is \<Rightarrow> BInt (foldl max i is))"

fun run_pipeline :: "stage list \<Rightarrow> doc list \<Rightarrow> doc list" where
  "run_pipeline [] ds = ds"
| "run_pipeline (SMatch q # ss) ds = run_pipeline ss (filter (matches q) ds)"
| "run_pipeline (SGroupMax out k # ss) ds =
     run_pipeline ss (if ds = [] then [] else [[(''_id'', BNull), (out, group_max k ds)]])"

text \<open>
  A database used by one validator at a time: what MongoDB documents of the operations the
  validator calls, relative to the documents \<open>docs w\<close> held in the world \<open>w\<close>.
\<close>

locale document_store =
  fixes db :: "'w Database" and docs :: "'w \<Rightarrow> store"
  assumes insert_law: "run_state (InsertOne db c d) w = (r, w') \<Longrightarrow>
      insert_outcome c d r (docs w) (docs w')"
    and update_law: "run_state (UpdateOne db c q u) w = (r', w') \<Longrightarrow>
      update_outcome c q u r' (docs w) (docs w')"
    and upsert_law: "run_state (UpsertOne db c q u ui) w = (r', w') \<Longrightarrow>
      upsert_outcome c q u ui r' (docs w) (docs w')"
    and find_many_law: "run_state (FindMany db c q) w = (rs, w') \<Longrightarrow> docs w' = docs w \<and>
      (\<forall>ds. rs = Inr ds \<longrightarrow> ds = filter (matches q) (docs w c))"
    and find_one_law: "run_state (FindOne db c q) w = (rd, w') \<Longrightarrow> docs w' = docs w \<and>
      (\<forall>d. rd = Inr d \<longrightarrow> d \<in> set (docs w c) \<and> matches q d) \<and>
      (rd = Inl ErrNoDocuments \<longrightarrow> (\<forall>d \<in> set (docs w c). \<not> matches q d))"
    and aggregate_law: "run_state (AggregateOne db c ss) w = (rd, w') \<Longrightarrow> docs w' = docs w \<and>
      (\<forall>d. rd = Inr d \<longrightarrow> run_pipeline ss (docs w c) = [d])"
    and lock_laws: "quiet docs (XLock db res)" "quiet docs (SLock db res)" "quiet docs (Unlock db res)"
begin

lemma quiet_reads [quiet_intros]:
  "quiet docs (FindMany db c q)" "quiet docs (FindOne db c q)" "quiet docs (AggregateOne db c ss)"
  "quiet docs (XLock db res)" "quiet docs (SLock db res)" "quiet docs (Unlock db res)"
  using find_many_law find_one_law aggregate_law lock_laws
  by (auto simp: quiet_def) (metis prod.collapse)+

lemma find_many_matches:
  assumes "can_return (FindMany db c q) (Inr ds)" "d \<in> set ds"
  shows "matches q d"
proof -
  from assms(1) obtain w where "fst (run_state (FindMany db c q) w) = Inr ds"
    by (auto simp: can_return_def)
  then have "ds = filter (matches q) (docs w c)"
    using find_many_law [of c q w] by (metis prod.collapse)
  then show ?thesis using assms(2) by simp
qed

end

text \<open>
  A database whose aggregations report \<open>ErrNoDocuments\<close> only when there is nothing to aggregate.
  \<open>AggregateOne\<close> does not guarantee it by itself: see \<open>AggregateOne_masks_cursor_error\<close>.
\<close>

locale exact_document_store = document_store +
  assumes aggregate_none: "run_state (AggregateOne db c ss) w = (Inl ErrNoDocuments, w') \<Longrightarrow>
      run_pipeline ss (docs w c) = []"

section \<open>The wrapper meets the contract\<close>

text \<open>What the driver documents of the calls \<open>MongoDatabase\<close> makes.\<close>

locale mongo_driver =
  fixes drv :: "'w Driver" and docs :: "'w \<Rightarrow> store"
  assumes driver_insert: "run_state (drv_InsertOne drv c d) w = (r, w') \<Longrightarrow>
      (case r of Inr b \<Rightarrow> inserted c d (docs w) (docs w')
       | Inl e \<Rightarrow> insert_outcome c d (Inl e) (docs w) (docs w'))"
    and driver_update: "run_state (drv_FindOneAndUpdate drv False c q u ui) w = (rd, w') \<Longrightarrow>
      (case rd of Inr d \<Rightarrow> updated c q u (docs w) (docs w')
       | Inl e \<Rightarrow> update_outcome c q u (Inl e) (docs w) (docs w'))"
    and driver_upsert: "run_state (drv_FindOneAndUpdate drv True c q u ui) w = (rd, w') \<Longrightarrow>
      upsert_outcome c q u ui (case rd of Inr _ \<Rightarrow> Inr 0 | Inl e \<Rightarrow> Inl e) (docs w) (docs w')"
    and driver_find: "run_state (drv_Find drv c q) w = (rs, w') \<Longrightarrow> docs w' = docs w \<and>
      (\<forall>ds. rs = Inr (Inr ds, None) \<longrightarrow> ds = filter (matches q) (docs w c))"
    and driver_find_one: "run_state (drv_FindOne drv c q) w = (rd, w') \<Longrightarrow> docs w' = docs w \<and>
      (\<forall>d. rd = Inr d \<longrightarrow> d \<in> set (docs w c) \<and> matches q d) \<and>
      (rd = Inl ErrNoDocuments \<longrightarrow> (\<forall>d \<in> set (docs w c). \<not> matches q d))"
    and driver_aggregate: "run_state (drv_Aggregate drv c ss) w = (ra, w') \<Longrightarrow> docs w' = docs w \<and>
      (\<forall>ds. ra = Inr (ds, None) \<longrightarrow> ds = run_pipeline ss (docs w c))"
    and driver_locks: "quiet docs (drv_XLock drv res i)" "quiet docs (drv_SLock drv res i)"
      "quiet docs (drv_Unlock drv i)" "quiet docs (rand_Read drv n)"

text \<open>A computation that only post-processes the result of another one.\<close>

lemma run_bind_retE:
  assumes "run_state (State_Monad.bind m (\<lambda>x. ret (f x))) w = (r, w')"
  obtains x where "run_state m w = (x, w')" "r = f x"
  using assms by (metis fst_conv prod.collapse run_bind run_ret snd_conv)

lemma last_only: "xs \<noteq> [] \<Longrightarrow> \<not> Suc 0 < length xs \<Longrightarrow> xs = [last xs]"
  by (cases xs) auto

lemma inserted_outcome: "inserted c d st st' \<Longrightarrow> r \<noteq> Inl ErrDuplicateKey \<Longrightarrow> insert_outcome c d r st st'"
  by (auto simp: insert_outcome_def split: sum.splits)

lemma updated_outcome:
  "updated c q u st st' \<Longrightarrow> r \<noteq> Inl ErrDuplicateKey \<Longrightarrow> r \<noteq> Inl ErrNoDocuments \<Longrightarrow>
     update_outcome c q u r st st'"
  by (auto simp: update_outcome_def split: sum.splits)

lemma oid_of_errors [simp]: "oid_of msg d \<noteq> Inl ErrDuplicateKey" "oid_of msg d \<noteq> Inl ErrNoDocuments"
  by (auto simp: oid_of_def split: option.splits bson.splits)

lemmas MongoDatabase_defs = MongoDatabase_DB_def MongoDatabase_InsertOne_def MongoDatabase_UpdateOne_def
  MongoDatabase_UpsertOne_def MongoDatabase_FindMany_def MongoDatabase_FindOne_def
  MongoDatabase_AggregateOne_def MongoDatabase_XLock_def MongoDatabase_SLock_def
  MongoDatabase_Unlock_def randomString_def

sublocale mongo_driver \<subseteq> document_store "MongoDatabase_DB drv" docs
proof unfold_locales
  fix c d w w' and r :: "nat result"
  assume "run_state (InsertOne (MongoDatabase_DB drv) c d) w = (r, w')"
  then obtain b where b: "run_state (drv_InsertOne drv c d) w = (b, w')"
    and r: "r = (case b of Inl e \<Rightarrow> Inl e | Inr (BOid i) \<Rightarrow> Inr i
              | Inr _ \<Rightarrow> Inl (Panic ''InsertedID is not an ObjectID''))"
    by (simp only: MongoDatabase_defs Database.simps) (erule run_bind_retE)
  from driver_insert [OF b] show "insert_outcome c d r (docs w) (docs w')"
    by (auto simp: r inserted_outcome split: sum.splits bson.splits)
next
  fix c q u w w' and r :: "nat result"
  assume "run_state (UpdateOne (MongoDatabase_DB drv) c q u) w = (r, w')"
  then obtain b where b: "run_state (drv_FindOneAndUpdate drv False c q u []) w = (b, w')"
    and r: "r = (case b of Inl e \<Rightarrow> Inl e | Inr d \<Rightarrow> oid_of ''failed to get updated id'' d)"
    by (simp only: MongoDatabase_defs Database.simps) (erule run_bind_retE)
  from driver_update [OF b] show "update_outcome c q u r (docs w) (docs w')"
    by (cases b) (simp_all add: r updated_outcome)
next
  fix c q u ui w w' and r :: "nat result"
  assume "run_state (UpsertOne (MongoDatabase_DB drv) c q u ui) w = (r, w')"
  then obtain b where b: "run_state (drv_FindOneAndUpdate drv True c q u ui) w = (b, w')"
    and r: "r = (case b of Inl e \<Rightarrow> Inl e | Inr d \<Rightarrow> oid_of ''failed to get upserted id'' d)"
    by (simp only: MongoDatabase_defs Database.simps) (erule run_bind_retE)
  from driver_upsert [OF b] show "upsert_outcome c q u ui r (docs w) (docs w')"
    by (cases b) (simp_all add: r upsert_outcome_def)
next
  fix c q w w' and rs :: "doc list result"
  assume "run_state (FindMany (MongoDatabase_DB drv) c q) w = (rs, w')"
  then obtain b where b: "run_state (drv_Find drv c q) w = (b, w')"
    and r: "rs = (case b of Inl e \<Rightarrow> Inl e | Inr (Inl e, _) \<Rightarrow> Inl e | Inr (Inr ds, Some e) \<Rightarrow> Inl e
       | Inr (Inr ds, None) \<Rightarrow> Inr ds)"
    by (simp only: MongoDatabase_defs Database.simps) (erule run_bind_retE)
  from driver_find [OF b]
  show "docs w' = docs w \<and> (\<forall>ds. rs = Inr ds \<longrightarrow> ds = filter (matches q) (docs w c))"
    by (auto simp: r split: sum.splits option.splits prod.splits)
next
  fix c q w w' and rd :: "doc result"
  assume "run_state (FindOne (MongoDatabase_DB drv) c q) w = (rd, w')"
  then show "docs w' = docs w \<and> (\<forall>d. rd = Inr d \<longrightarrow> d \<in> set (docs w c) \<and> matches q d) \<and>
      (rd = Inl ErrNoDocuments \<longrightarrow> (\<forall>d \<in> set (docs w c). \<not> matches q d))"
    by (intro driver_find_one) (simp add: MongoDatabase_defs)
next
  fix c ss w w' and rd :: "doc result"
  assume "run_state (AggregateOne (MongoDatabase_DB drv) c ss) w = (rd, w')"
  then obtain b where b: "run_state (drv_Aggregate drv c ss) w = (b, w')"
    and r: "rd = (case b of Inl e \<Rightarrow> Inl e | Inr (ds, err) \<Rightarrow>
           if length ds > 1 then Inl (Err ''expected 1 result'')
           else if length ds = 0 then Inl ErrNoDocuments
           else (case err of Some e \<Rightarrow> Inl e | None \<Rightarrow> Inr (last ds)))"
    by (simp only: MongoDatabase_defs Database.simps) (erule run_bind_retE)
  from driver_aggregate [OF b]
  show "docs w' = docs w \<and> (\<forall>d. rd = Inr d \<longrightarrow> run_pipeline ss (docs w c) = [d])"
    by (auto simp: r last_only split: sum.splits option.splits prod.splits if_splits)
next
  fix res
  show "quiet docs (XLock (MongoDatabase_DB drv) res)" "quiet docs (SLock (MongoDatabase_DB drv) res)"
    "quiet docs (Unlock (MongoDatabase_DB drv) res)"
    by (auto simp: MongoDatabase_defs intro!: quiet_intros driver_locks)
qed

context mongo_driver
begin

lemma mongo_store: "document_store (MongoDatabase_DB drv) docs"
  by (rule document_store_axioms)

end

end
