(* ===== verification/Protocol.thy ===== *)
theory Protocol
  imports Database_Model
begin

text \<open>
  The abstract specification of what the services may do to the shared database, independent of
  how each of them computes it: the inserts and updates they issue (\<open>legal_insert\<close>,
  \<open>legal_write\<close>), the step relation they generate on the stored documents (\<open>store_step\<close>), and what
  every run of such steps guarantees. The theories of the services prove that each service only
  performs such steps; this theory derives the invariants from the steps alone, so they hold for any
  interleaving of any number of validators. The two thresholds, of the Cosmos multisig and of the
  mint controller, are parameters.
\<close>

section \<open>The permitted writes\<close>

definition marshal_oid :: "nat option \<Rightarrow> bson" where
  "marshal_oid i = (case i of None \<Rightarrow> BNull | Some n \<Rightarrow> BOid n)"

definition open_filter :: "nat option \<Rightarrow> query" where
  "open_filter i = QAnd [Fld ''_id'' (CEq (marshal_oid i)),
     Fld ''status'' (CIn [BStr StatusPending, BStr StatusConfirmed])]"

definition status_filter :: "nat option \<Rightarrow> string \<Rightarrow> query" where
  "status_filter i s = QAnd [Fld ''_id'' (CEq (marshal_oid i)), Fld ''status'' (CEq (BStr s))]"

definition return_collections :: "string list" where
  "return_collections = [CollectionInvalidMints, CollectionBurns]"

definition tracked_collections :: "string list" where
  "tracked_collections = [CollectionMints, CollectionInvalidMints, CollectionBurns]"

inductive legal_write :: "int \<Rightarrow> int \<Rightarrow> string \<Rightarrow> query \<Rightarrow> update \<Rightarrow> bool" for thrC thrE where
  fail: "c \<in> set tracked_collections \<Longrightarrow> legal_write thrC thrE c (open_filter i)
     [(''status'', BStr StatusFailed), (''updated_at'', BTime t)]"
| progress: "c \<in> set tracked_collections \<Longrightarrow> s \<in> {StatusPending, StatusConfirmed} \<Longrightarrow>
     legal_write thrC thrE c (open_filter i)
     [(''status'', BStr s), (''confirmations'', BStr k), (''updated_at'', BTime t)]"
| sign_mint: "s \<in> {StatusConfirmed, StatusSigned} \<Longrightarrow> length gs = length ss \<Longrightarrow>
     (s = StatusSigned \<Longrightarrow> thrE \<le> int (length gs)) \<Longrightarrow>
     legal_write thrC thrE CollectionMints (open_filter i)
     [(''data'', marshal_data (Some dat)), (''nonce'', BStr n), (''signatures'', strs gs),
      (''signers'', strs ss), (''status'', BStr s), (''confirmations'', BStr k),
      (''updated_at'', BTime t)]"
| sign_return: "c \<in> set return_collections \<Longrightarrow> 0 \<le> n \<Longrightarrow>
     s = (if thrC \<le> int (length gs) then StatusSigned else StatusConfirmed) \<Longrightarrow>
     legal_write thrC thrE c (open_filter i)
     [(''status'', BStr s), (''return_transaction_body'', BStr body),
      (''signatures'', marshal_sigs gs), (''sequence'', BInt n), (''updated_at'', BTime t)]"
| submit: "c \<in> set return_collections \<Longrightarrow> h \<noteq> [] \<Longrightarrow>
     legal_write thrC thrE c (status_filter i StatusSigned)
     [(''status'', BStr StatusSubmitted), (''return_transaction_body'', BStr body),
      (''return_transaction_hash'', BStr h), (''updated_at'', BTime t)]"
| reset: "c \<in> set return_collections \<Longrightarrow>
     legal_write thrC thrE c (status_filter i StatusSubmitted)
     [(''status'', BStr StatusConfirmed), (''updated_at'', BTime t),
      (''return_transaction_hash'', BStr []), (''return_transaction_body'', BStr []),
      (''signatures'', marshal_sigs []), (''sequence'', BNull)]"
| succeed: "c \<in> set return_collections \<Longrightarrow>
     legal_write thrC thrE c (status_filter i StatusSubmitted)
     [(''status'', BStr StatusSuccess), (''updated_at'', BTime t)]"
| minted: "legal_write thrC thrE CollectionMints
     (QAnd [Fld ''wpokt_address'' (CEq (BStr wa)), Fld ''vault_address'' (CEq (BStr va)),
            Fld ''recipient_address'' (CEq (BStr ra)), Fld ''amount'' (CEq (BStr am)),
            Fld ''nonce'' (CEq (BStr no)),
            Fld ''status'' (CIn [BStr StatusConfirmed, BStr StatusSigned, BStr StatusSuccess])])
     [(''status'', BStr StatusSuccess), (''mint_transaction_hash'', BStr h),
      (''updated_at'', BTime t)]"

inductive legal_insert :: "string \<Rightarrow> doc \<Rightarrow> bool" where
  new_mint: "m_Id m = None \<Longrightarrow> m_Status m = StatusPending \<Longrightarrow> m_Signatures m = [] \<Longrightarrow>
     legal_insert CollectionMints (marshal_Mint m)"
| new_invalid_mint: "im_Id m = None \<Longrightarrow> im_Status m \<in> {StatusPending, StatusFailed} \<Longrightarrow>
     im_Signatures m = [] \<Longrightarrow> im_Sequence m = None \<Longrightarrow>
     legal_insert CollectionInvalidMints (marshal_InvalidMint m)"
| new_burn: "b_Id b = None \<Longrightarrow> b_Status b = StatusPending \<Longrightarrow> b_Signatures b = [] \<Longrightarrow>
     b_Sequence b = None \<Longrightarrow> legal_insert CollectionBurns (marshal_Burn b)"

inductive store_step :: "int \<Rightarrow> int \<Rightarrow> store \<Rightarrow> store \<Rightarrow> bool" for thrC thrE where
  insert: "legal_insert c d \<Longrightarrow> inserted c d st st' \<Longrightarrow> store_step thrC thrE st st'"
| update: "legal_write thrC thrE c q u \<Longrightarrow> updated c q u st st' \<Longrightarrow> store_step thrC thrE st st'"
| health: "(\<And>c. c \<noteq> CollectionHealthChecks \<Longrightarrow> st' c = st c) \<Longrightarrow> store_step thrC thrE st st'"

section \<open>The life of one document\<close>

definition mutable_fields :: "string list" where
  "mutable_fields = [''status'', ''updated_at'', ''confirmations'', ''data'', ''nonce'', ''signatures'',
     ''signers'', ''return_transaction_body'', ''return_transaction_hash'', ''sequence'',
     ''mint_transaction_hash'']"

text \<open>The status graph, for mints and for the documents that are paid back.\<close>

inductive next_status :: "string \<Rightarrow> string \<Rightarrow> string \<Rightarrow> bool" where
  still_open: "c \<in> set tracked_collections \<Longrightarrow> s \<in> {StatusPending, StatusConfirmed} \<Longrightarrow>
     s' \<in> {StatusPending, StatusConfirmed, StatusSigned, StatusFailed} \<Longrightarrow> next_status c s s'"
| executed: "s \<in> {StatusConfirmed, StatusSigned, StatusSuccess} \<Longrightarrow>
     next_status CollectionMints s StatusSuccess"
| submitted: "c \<in> set return_collections \<Longrightarrow> next_status c StatusSigned StatusSubmitted"
| returned: "c \<in> set return_collections \<Longrightarrow> s' \<in> {StatusConfirmed, StatusSuccess} \<Longrightarrow>
     next_status c StatusSubmitted s'"

inductive_simps next_status_from_failed: "next_status c StatusFailed s'"

inductive_simps next_status_from_success: "next_status c StatusSuccess s'"

definition doc_step :: "string \<Rightarrow> doc \<Rightarrow> doc \<Rightarrow> bool" where
  "doc_step c d d' \<longleftrightarrow>
     (\<forall>k. k \<notin> set mutable_fields \<longrightarrow> map_of d' k = map_of d k) \<and>
     (\<exists>s s'. map_of d ''status'' = Some (BStr s) \<and> map_of d' ''status'' = Some (BStr s') \<and>
       next_status c s s')"

lemmas collection_lists = tracked_collections_def return_collections_def

text \<open>The status a matching document has, from the two filters in use.\<close>

definition has_status :: "doc \<Rightarrow> string \<Rightarrow> bool" where
  "has_status d s \<longleftrightarrow> map_of d ''status'' = Some (BStr s)"

definition plain_status :: "doc \<Rightarrow> bool" where
  "plain_status d \<longleftrightarrow> (\<exists>s. has_status d s)"

lemma plain_member:
  "map_of d k = Some (BStr s) \<Longrightarrow> List.member (field_values (map_of d k)) v \<longleftrightarrow> v = BStr s"
  by (auto simp: field_values_def)

lemma matches_open_filter:
  "matches (open_filter i) d \<Longrightarrow> plain_status d \<Longrightarrow> has_status d StatusPending \<or> has_status d StatusConfirmed"
  by (auto simp: open_filter_def plain_status_def has_status_def field_values_def)

lemma matches_status_filter: "matches (status_filter i s) d \<Longrightarrow> plain_status d \<Longrightarrow> has_status d s"
  by (auto simp: status_filter_def plain_status_def has_status_def field_values_def)

lemma legal_write_keys: "legal_write thrC thrE c q u \<Longrightarrow> fst ` set u \<subseteq> set mutable_fields"
  by (induction rule: legal_write.induct) (simp_all add: mutable_fields_def)

lemma legal_write_tracked: "legal_write thrC thrE c q u \<Longrightarrow> c \<in> set tracked_collections"
  by (induction rule: legal_write.induct) (auto simp: collection_lists)

lemma legal_write_status:
  assumes "legal_write thrC thrE c q u" "matches q d" "plain_status d"
  shows "\<exists>s s'. has_status d s \<and> has_status (apply_set u d) s' \<and> next_status c s s'"
  using assms
proof (induction rule: legal_write.induct)
  case (minted wa va ra am no h t)
  then obtain s where "has_status d s" "s \<in> {StatusConfirmed, StatusSigned, StatusSuccess}"
    by (auto simp: plain_status_def has_status_def field_values_def)
  then show ?case
    by (auto simp: has_status_def map_of_apply_set intro: next_status.executed)
qed (auto dest!: matches_open_filter matches_status_filter
       simp: has_status_def map_of_apply_set next_status.simps collection_lists)

lemma legal_write_doc_step:
  assumes "legal_write thrC thrE c q u" "matches q d" "plain_status d"
  shows "doc_step c d (apply_set u d)"
proof -
  have "map_of (apply_set u d) k = map_of d k" if "k \<notin> set mutable_fields" for k
    using legal_write_keys [OF assms(1)] that by (intro apply_set_untouched) auto
  then show ?thesis
    using legal_write_status [OF assms] by (auto simp: doc_step_def has_status_def)
qed

section \<open>Invariants of the stored documents\<close>

text \<open>
  A signed document carries at least the threshold of signatures; a document that is being paid
  back also a sequence number, and, once broadcast, the hash of its transaction.
\<close>

definition mint_ok :: "int \<Rightarrow> doc \<Rightarrow> bool" where
  "mint_ok thrE d \<longleftrightarrow> (has_status d StatusSigned \<longrightarrow>
     (\<exists>gs. map_of d ''signatures'' = Some (strs gs) \<and> thrE \<le> int (length gs)))"

definition return_ok :: "int \<Rightarrow> doc \<Rightarrow> bool" where
  "return_ok thrC d \<longleftrightarrow>
     (has_status d StatusSigned \<or> has_status d StatusSubmitted \<or> has_status d StatusSuccess \<longrightarrow>
       (\<exists>gs n. map_of d ''signatures'' = Some (marshal_sigs gs) \<and> thrC \<le> int (length gs) \<and>
          map_of d ''sequence'' = Some (BInt n) \<and> 0 \<le> n)) \<and>
     (has_status d StatusSubmitted \<or> has_status d StatusSuccess \<longrightarrow>
       (\<exists>h. h \<noteq> [] \<and> map_of d ''return_transaction_hash'' = Some (BStr h)))"

definition doc_ok :: "int \<Rightarrow> int \<Rightarrow> string \<Rightarrow> doc \<Rightarrow> bool" where
  "doc_ok thrC thrE c d \<longleftrightarrow> plain_status d \<and>
     (c = CollectionMints \<longrightarrow> mint_ok thrE d) \<and>
     (c \<in> set return_collections \<longrightarrow> return_ok thrC d)"

definition store_ok :: "int \<Rightarrow> int \<Rightarrow> store \<Rightarrow> bool" where
  "store_ok thrC thrE st \<longleftrightarrow>
     (\<forall>c \<in> set tracked_collections. \<forall>d \<in> set (st c). doc_ok thrC thrE c d)"

definition empty_store :: store where
  "empty_store = (\<lambda>_. [])"

lemma store_ok_empty: "store_ok thrC thrE empty_store"
  by (simp add: store_ok_def empty_store_def)

lemma has_status_set:
  "has_status (apply_set u d) s \<longleftrightarrow> (case map_of (rev u) ''status'' of
     Some v \<Rightarrow> v = BStr s | None \<Rightarrow> has_status d s)"
  by (auto simp: has_status_def map_of_apply_set split: option.splits)

lemma status_after:
  "map_of (rev u) ''status'' = Some (BStr s) \<Longrightarrow> has_status (apply_set u d) s' \<longleftrightarrow> s' = s"
  by (auto simp: has_status_set)

lemma plain_after: "map_of (rev u) ''status'' = Some (BStr s) \<Longrightarrow> plain_status (apply_set u d)"
  by (simp add: plain_status_def status_after)

lemma doc_ok_unsigned:
  assumes "map_of (rev u) ''status'' = Some (BStr s)" "s \<in> {StatusPending, StatusConfirmed, StatusFailed}"
  shows "doc_ok thrC thrE c (apply_set u d)"
  using assms by (auto simp: doc_ok_def mint_ok_def return_ok_def plain_after status_after)

lemma mint_doc_ok:
  assumes "map_of (rev u) ''status'' = Some (BStr s)"
    "s = StatusSigned \<Longrightarrow> \<exists>gs. map_of (rev u) ''signatures'' = Some (strs gs) \<and> thrE \<le> int (length gs)"
  shows "doc_ok thrC thrE CollectionMints (apply_set u d)"
proof -
  have "CollectionMints \<notin> set return_collections" by (simp add: collection_lists)
  moreover have "mint_ok thrE (apply_set u d)"
    using assms by (auto simp: mint_ok_def status_after map_of_apply_set)
  ultimately show ?thesis using plain_after [OF assms(1)] by (simp add: doc_ok_def)
qed

lemma return_doc_ok:
  assumes "map_of (rev u) ''status'' = Some (BStr s)" "c \<in> set return_collections"
    "return_ok thrC (apply_set u d)"
  shows "doc_ok thrC thrE c (apply_set u d)"
proof -
  have "c \<noteq> CollectionMints" using assms(2) by (auto simp: collection_lists)
  then show ?thesis using assms plain_after [OF assms(1)] by (simp add: doc_ok_def)
qed

lemma legal_write_ok:
  assumes "legal_write thrC thrE c q u" "matches q d" "doc_ok thrC thrE c d"
  shows "doc_ok thrC thrE c (apply_set u d)"
  using assms
proof (induction rule: legal_write.induct)
  case (submit c h i body t)
  then have "has_status d StatusSigned" "return_ok thrC d"
    using matches_status_filter by (auto simp: doc_ok_def)
  then show ?case using submit.hyps
    by (intro return_doc_ok [where s = StatusSubmitted])
       (auto simp: return_ok_def has_status_set map_of_apply_set)
next
  case (succeed c i t)
  then have "has_status d StatusSubmitted" "return_ok thrC d"
    using matches_status_filter by (auto simp: doc_ok_def)
  then show ?case using succeed.hyps
    by (intro return_doc_ok [where s = StatusSuccess])
       (auto simp: return_ok_def has_status_set map_of_apply_set)
next
  case (sign_return c n s gs i body t)
  then show ?case
    by (intro return_doc_ok [where s = s])
       (auto simp: return_ok_def has_status_set map_of_apply_set split: if_splits)
next
  case (fail c i t)
  show ?case by (rule doc_ok_unsigned [where s = StatusFailed]) simp_all
next
  case (progress c s i k t)
  then show ?case by (intro doc_ok_unsigned [where s = s]) auto
next
  case (reset c i t)
  show ?case by (rule doc_ok_unsigned [where s = StatusConfirmed]) simp_all
next
  case (sign_mint s gs ss i dat n k t)
  then show ?case by (intro mint_doc_ok [where s = s]) auto
next
  case (minted wa va ra am no h t)
  show ?case by (rule mint_doc_ok [where s = StatusSuccess]) simp_all
qed

lemma has_status_with_id: "map_of (with_id i d) k = map_of d k \<or> k = ''_id''"
  by (simp add: with_id_def)

lemma map_of_with_id [simp]: "k \<noteq> ''_id'' \<Longrightarrow> map_of (with_id i d) k = map_of d k"
  by (simp add: with_id_def)

lemma legal_insert_ok: "legal_insert c d \<Longrightarrow> doc_ok thrC thrE c (with_id i d)"
  by (induction rule: legal_insert.induct)
     (auto simp: doc_ok_def mint_ok_def return_ok_def plain_status_def has_status_def
       marshal_Mint_def marshal_InvalidMint_def marshal_Burn_def id_field_def collection_lists)

lemma legal_insert_tracked: "legal_insert c d \<Longrightarrow> c \<in> set tracked_collections"
  by (induction rule: legal_insert.induct) (auto simp: collection_lists)

lemma tracked_not_health: "c \<in> set tracked_collections \<Longrightarrow> c \<noteq> CollectionHealthChecks"
  by (auto simp: collection_lists)

lemma updated_elem:
  assumes "updated c q u st st'" "d \<in> set (st' c)"
  shows "d \<in> set (st c) \<or> (\<exists>d0 \<in> set (st c). matches q d0 \<and> d = apply_set u d0)"
proof -
  obtain n where n: "n < length (st c)" "matches q (st c ! n)"
    "st' c = (st c)[n := apply_set u (st c ! n)]"
    using assms(1) by (auto simp: updated_def)
  have "d \<in> insert (apply_set u (st c ! n)) (set (st c))"
    using assms(2) set_update_subset_insert by (fastforce simp: n(3))
  then show ?thesis using n(1,2) by auto
qed

lemma store_step_ok:
  "store_step thrC thrE st st' \<Longrightarrow> store_ok thrC thrE st \<Longrightarrow> store_ok thrC thrE st'"
proof (induction rule: store_step.induct)
  case (insert c d st st')
  then obtain i where "st' = st(c := st c @ [with_id i d])" by (auto simp: inserted_def)
  then show ?case using insert legal_insert_ok by (auto simp: store_ok_def)
next
  case (update c q u st st')
  have other: "c' \<noteq> c \<Longrightarrow> st' c' = st c'" for c'
    using update.hyps by (auto simp: updated_def)
  show ?case unfolding store_ok_def
  proof (intro ballI)
    fix c' d assume c': "c' \<in> set tracked_collections" and d: "d \<in> set (st' c')"
    show "doc_ok thrC thrE c' d"
    proof (cases "c' = c")
      case True
      with d updated_elem [OF update.hyps(2)] c' update.prems legal_write_ok [OF update.hyps(1)]
      show ?thesis by (auto simp: store_ok_def)
    next
      case False
      with d c' update.prems other show ?thesis by (auto simp: store_ok_def)
    qed
  qed
next
  case (health st' st)
  then show ?case using tracked_not_health by (auto simp: store_ok_def)
qed

lemma store_steps_ok:
  "(store_step thrC thrE)\<^sup>*\<^sup>* st st' \<Longrightarrow> store_ok thrC thrE st \<Longrightarrow> store_ok thrC thrE st'"
  by (induction rule: rtranclp_induct) (auto intro: store_step_ok)

section \<open>Histories\<close>

lemma store_step_docs:
  assumes "store_step thrC thrE st st'" "store_ok thrC thrE st" "c \<in> set tracked_collections"
    "n < length (st c)"
  shows "n < length (st' c) \<and> (st' c ! n = st c ! n \<or> doc_step c (st c ! n) (st' c ! n))"
  using assms
proof (induction rule: store_step.induct)
  case (insert c' d st st')
  then show ?case by (auto simp: inserted_def nth_append)
next
  case (update c' q u st st')
  show ?case
  proof (cases "c' = c")
    case True
    then obtain m where m: "m < length (st c)" "matches q (st c ! m)"
      "st' = st(c := (st c)[m := apply_set u (st c ! m)])"
      using update.hyps(2) by (auto simp: updated_def)
    have "doc_step c (st c ! m) (apply_set u (st c ! m))"
      using update m True by (intro legal_write_doc_step) (auto simp: store_ok_def doc_ok_def)
    with m update.prems show ?thesis by (auto simp: nth_list_update)
  next
    case False
    with update show ?thesis by (auto simp: updated_def)
  qed
next
  case (health st' st)
  then show ?case using tracked_not_health by simp
qed

lemma store_steps_docs:
  assumes "(store_step thrC thrE)\<^sup>*\<^sup>* st st'" "store_ok thrC thrE st"
    "c \<in> set tracked_collections" "n < length (st c)"
  shows "n < length (st' c) \<and> (doc_step c)\<^sup>*\<^sup>* (st c ! n) (st' c ! n)"
  using assms
proof (induction rule: rtranclp_induct)
  case (step y z)
  then have ok: "store_ok thrC thrE y" by (auto intro: store_steps_ok)
  from step have "n < length (y c)" "(doc_step c)\<^sup>*\<^sup>* (st c ! n) (y c ! n)" by auto
  with store_step_docs [OF step.hyps(2) ok step.prems(2)] show ?case
    by (metis rtranclp.rtrancl_into_rtrancl)
qed simp

lemma doc_steps_fields:
  "(doc_step c)\<^sup>*\<^sup>* d d' \<Longrightarrow> k \<notin> set mutable_fields \<Longrightarrow> map_of d' k = map_of d k"
  by (induction rule: rtranclp_induct) (auto simp: doc_step_def)

lemma doc_steps_status:
  "(doc_step c)\<^sup>*\<^sup>* d d' \<Longrightarrow> has_status d s \<Longrightarrow>
     \<exists>s'. has_status d' s' \<and> (next_status c)\<^sup>*\<^sup>* s s'"
proof (induction rule: rtranclp_induct)
  case (step d1 d2)
  then obtain s1 where "has_status d1 s1" "(next_status c)\<^sup>*\<^sup>* s s1" by blast
  moreover obtain s2 where "has_status d2 s2" "next_status c s1 s2"
    using step.hyps(2) calculation(1) by (auto simp: doc_step_def has_status_def)
  ultimately show ?case by (meson rtranclp.rtrancl_into_rtrancl)
qed auto

lemma doc_step_terminal:
  assumes "doc_step c d d'" "has_status d StatusFailed \<or> has_status d StatusSuccess \<and> c \<in> set return_collections"
  shows False
  using assms
  by (auto simp: doc_step_def has_status_def next_status_from_failed next_status_from_success
      collection_lists)

lemma doc_steps_terminal:
  assumes "(doc_step c)\<^sup>*\<^sup>* d d'"
    "has_status d StatusFailed \<or> has_status d StatusSuccess \<and> c \<in> set return_collections"
  shows "d' = d"
  using assms by (induction rule: converse_rtranclp_induct) (auto dest: doc_step_terminal)

section \<open>Unique keys\<close>

text \<open>No two documents of a collection share the key of a unique index.\<close>

definition unique_keys :: "store \<Rightarrow> bool" where
  "unique_keys st \<longleftrightarrow> (\<forall>c \<in> set tracked_collections. \<forall>i < length (st c). \<forall>j < length (st c).
     i \<noteq> j \<longrightarrow> \<not> list_ex (same_key (st c ! i) (st c ! j)) (unique_indexes c))"

lemma same_key_sym: "same_key d d' ix \<longleftrightarrow> same_key d' d ix"
  unfolding same_key_def by metis

lemma list_ex_same_key_sym: "list_ex (same_key d d') ixs \<longleftrightarrow> list_ex (same_key d' d) ixs"
  by (auto simp: list_ex_iff_set same_key_sym)

lemma index_key_cong:
  assumes "\<And>k. k \<in> set (ix_Keys ix) \<Longrightarrow> map_of d k = map_of d' k"
  shows "index_key ix d = index_key ix d'"
proof -
  have "list_all (\<lambda>k. is_long (map_of d k)) (ix_Keys ix) = list_all (\<lambda>k. is_long (map_of d' k)) (ix_Keys ix)"
    using assms by (simp add: list_all_iff)
  then show ?thesis using assms by (simp add: index_key_def)
qed

lemma same_key_with_id:
  assumes "c \<in> set tracked_collections"
  shows "list_ex (same_key (with_id i d) d') (unique_indexes c) \<longleftrightarrow>
     list_ex (same_key d d') (unique_indexes c)"
proof -
  have "''_id'' \<notin> set (ix_Keys ix)" if "ix \<in> set (unique_indexes c)" for ix
    using that assms by (auto simp: collection_lists)
  then have "index_key ix (with_id i d) = index_key ix d" if "ix \<in> set (unique_indexes c)" for ix
    using that by (intro index_key_cong) (metis map_of_with_id)
  then show ?thesis by (auto simp: list_ex_iff_set same_key_def)
qed

lemma no_conflictD:
  "\<not> conflict c ds d \<Longrightarrow> d' \<in> set ds \<Longrightarrow> \<not> list_ex (same_key d d') (unique_indexes c)"
  by (auto simp: conflict_def list_ex_iff_set)

lemma unique_keys_insert:
  assumes "unique_keys st" "inserted c d st st'"
  shows "unique_keys st'"
proof -
  obtain i where i: "\<not> conflict c (st c) d" "st' = st(c := st c @ [with_id i d])"
    using assms(2) by (auto simp: inserted_def)
  show ?thesis unfolding unique_keys_def
  proof (intro ballI allI impI)
    fix c' m n
    assume c': "c' \<in> set tracked_collections" and mn: "m < length (st' c')" "n < length (st' c')" "m \<noteq> n"
    show "\<not> list_ex (same_key (st' c' ! m) (st' c' ! n)) (unique_indexes c')"
    proof (cases "c' = c")
      case True
      have new: "\<not> list_ex (same_key (with_id i d) d') (unique_indexes c)" if "d' \<in> set (st c)" for d'
        using no_conflictD [OF i(1) that] same_key_with_id c' True by simp
      have old: "\<not> list_ex (same_key (st c ! m) (st c ! n)) (unique_indexes c)"
        if "m < length (st c)" "n < length (st c)"
        using assms(1) c' True mn(3) that by (auto simp: unique_keys_def)
      from mn True i(2) have "m < length (st c) \<and> n < length (st c) \<or> m = length (st c) \<and> n < length (st c) \<or>
          m < length (st c) \<and> n = length (st c)" by auto
      then show ?thesis using old new [OF nth_mem] list_ex_same_key_sym
        unfolding i(2) True by (auto simp: nth_append)
    next
      case False
      then show ?thesis using assms(1) c' mn i(2) by (auto simp: unique_keys_def)
    qed
  qed
qed

lemma unique_keys_update:
  assumes "unique_keys st" "updated c q u st st'"
  shows "unique_keys st'"
proof -
  obtain k where k: "k < length (st c)"
    "\<not> conflict c (take k (st c) @ drop (Suc k) (st c)) (apply_set u (st c ! k))"
    "st' = st(c := (st c)[k := apply_set u (st c ! k)])"
    using assms(2) by (auto simp: updated_def)
  have others: "st c ! n \<in> set (take k (st c) @ drop (Suc k) (st c))" if "n < length (st c)" "n \<noteq> k" for n
  proof (cases "n < k")
    case True
    then have "take k (st c) ! n = st c ! n" "n < length (take k (st c))" using that by auto
    then show ?thesis by (metis UnI1 nth_mem set_append)
  next
    case False
    then have "drop (Suc k) (st c) ! (n - Suc k) = st c ! n" "n - Suc k < length (drop (Suc k) (st c))"
      using that by auto
    then show ?thesis by (metis UnI2 nth_mem set_append)
  qed
  have new: "\<not> list_ex (same_key (apply_set u (st c ! k)) (st c ! n)) (unique_indexes c)"
    if "n < length (st c)" "n \<noteq> k" for n
    using no_conflictD [OF k(2) others [OF that]] .
  show ?thesis unfolding unique_keys_def
  proof (intro ballI allI impI)
    fix c' m n
    assume *: "c' \<in> set tracked_collections" "m < length (st' c')" "n < length (st' c')" "m \<noteq> n"
    then have old: "\<not> list_ex (same_key (st c' ! m) (st c' ! n)) (unique_indexes c')"
      using assms(1) by (auto simp: unique_keys_def k(3) split: if_splits)
    show "\<not> list_ex (same_key (st' c' ! m) (st' c' ! n)) (unique_indexes c')"
    proof (cases "c' = c")
      case True
      then have "m < length (st c)" "n < length (st c)" using * by (simp_all add: k(3))
      then show ?thesis
        using old new [of n] new [of m, unfolded list_ex_same_key_sym [of _ "st c ! m"]] *(4) True k(1)
        by (cases "m = k"; cases "n = k") (simp_all add: k(3))
    next
      case False
      with old show ?thesis by (simp add: k(3))
    qed
  qed
qed

lemma unique_keys_step: "store_step thrC thrE st st' \<Longrightarrow> unique_keys st \<Longrightarrow> unique_keys st'"
proof (induction rule: store_step.induct)
  case (health st' st)
  then have "st' c = st c" if "c \<in> set tracked_collections" for c
    using tracked_not_health [OF that] by simp
  with health.prems show ?case by (simp add: unique_keys_def)
qed (auto intro: unique_keys_insert unique_keys_update)

lemma unique_keys_steps: "(store_step thrC thrE)\<^sup>*\<^sup>* st st' \<Longrightarrow> unique_keys st \<Longrightarrow> unique_keys st'"
  by (induction rule: rtranclp_induct) (auto intro: unique_keys_step)

lemma unique_keys_empty: "unique_keys empty_store"
  by (simp add: unique_keys_def empty_store_def)

text \<open>What the keys of the indexes mean.\<close>

lemma unique_keysD:
  assumes "unique_keys st" "c \<in> set tracked_collections" "i < length (st c)" "j < length (st c)"
    "ix \<in> set (unique_indexes c)" "same_key (st c ! i) (st c ! j) ix"
  shows "i = j"
  using assms by (auto simp: unique_keys_def list_ex_iff_set)

section \<open>Interfaces under interference\<close>

lemma insert_outcome_steps:
  "insert_outcome c d r st st' \<Longrightarrow> st' = st \<or> inserted c d st st'"
  by (auto simp: insert_outcome_def split: sum.splits if_splits)

lemma update_outcome_steps: "update_outcome c q u r st st' \<Longrightarrow> st' = st \<or> updated c q u st st'"
  by (auto simp: update_outcome_def split: sum.splits if_splits)

text \<open>
  The database as a validator sees it while the other validators keep working: around and during
  every operation the documents may move by steps of the specification. A read returns documents
  that matched the filter when they were read.
\<close>

locale shared_store =
  fixes db :: "'w Database" and docs :: "'w \<Rightarrow> store" and thrC thrE :: int
  assumes rely_find_many: "writes (store_step thrC thrE) docs (FindMany db c q)"
    and find_many_filter: "can_return (FindMany db c q) (Inr ds) \<Longrightarrow> d \<in> set ds \<Longrightarrow> matches q d"
    and rely_find_one: "writes (store_step thrC thrE) docs (FindOne db c q)"
    and rely_aggregate: "writes (store_step thrC thrE) docs (AggregateOne db c ss)"
    and rely_locks: "writes (store_step thrC thrE) docs (XLock db res)"
      "writes (store_step thrC thrE) docs (SLock db res)"
      "writes (store_step thrC thrE) docs (Unlock db res)"
    and find_one_found: "run_state (FindOne db c q) w = (Inr d, w') \<Longrightarrow>
      \<exists>a. (store_step thrC thrE)\<^sup>*\<^sup>* (docs w) a \<and> d \<in> set (a c) \<and> matches q d \<and>
        (store_step thrC thrE)\<^sup>*\<^sup>* a (docs w')"
    and rely_insert: "run_state (InsertOne db c d) w = (r, w') \<Longrightarrow>
      \<exists>a b. (store_step thrC thrE)\<^sup>*\<^sup>* (docs w) a \<and> insert_outcome c d r a b \<and>
        (store_step thrC thrE)\<^sup>*\<^sup>* b (docs w')"
    and rely_update: "run_state (UpdateOne db c q u) w = (r, w') \<Longrightarrow>
      \<exists>a b. (store_step thrC thrE)\<^sup>*\<^sup>* (docs w) a \<and> update_outcome c q u r a b \<and>
        (store_step thrC thrE)\<^sup>*\<^sup>* b (docs w')"
    and rely_upsert: "\<exists>a b. (store_step thrC thrE)\<^sup>*\<^sup>* (docs w) a \<and> (\<forall>c'. c' \<noteq> c \<longrightarrow> b c' = a c') \<and>
      (store_step thrC thrE)\<^sup>*\<^sup>* b (docs (snd (run_state (UpsertOne db c q u ui) w)))"
begin

lemma writes_insert:
  assumes "legal_insert c d"
  shows "writes (store_step thrC thrE) docs (InsertOne db c d)"
  unfolding writes_def
proof
  fix w
  obtain a b where "(store_step thrC thrE)\<^sup>*\<^sup>* (docs w) a"
    "insert_outcome c d (fst (run_state (InsertOne db c d) w)) a b"
    "(store_step thrC thrE)\<^sup>*\<^sup>* b (docs (snd (run_state (InsertOne db c d) w)))"
    using rely_insert [OF prod.collapse [symmetric]] by blast
  with assms show "(store_step thrC thrE)\<^sup>*\<^sup>* (docs w)
    (docs (snd (run_state (InsertOne db c d) w)))"
    by (metis insert_outcome_steps rtranclp.rtrancl_into_rtrancl rtranclp_trans store_step.insert)
qed

lemma writes_update:
  assumes "legal_write thrC thrE c q u"
  shows "writes (store_step thrC thrE) docs (UpdateOne db c q u)"
  unfolding writes_def
proof
  fix w
  obtain a b where "(store_step thrC thrE)\<^sup>*\<^sup>* (docs w) a"
    "update_outcome c q u (fst (run_state (UpdateOne db c q u) w)) a b"
    "(store_step thrC thrE)\<^sup>*\<^sup>* b (docs (snd (run_state (UpdateOne db c q u) w)))"
    using rely_update [OF prod.collapse [symmetric]] by blast
  with assms show "(store_step thrC thrE)\<^sup>*\<^sup>* (docs w)
    (docs (snd (run_state (UpdateOne db c q u) w)))"
    by (metis update_outcome_steps rtranclp.rtrancl_into_rtrancl rtranclp_trans store_step.update)
qed

lemma writes_upsert_health:
  "writes (store_step thrC thrE) docs (UpsertOne db CollectionHealthChecks q u ui)"
  unfolding writes_def
proof
  fix w
  from rely_upsert [of w CollectionHealthChecks q u ui] obtain a b where
    a: "(store_step thrC thrE)\<^sup>*\<^sup>* (docs w) a" and b: "\<And>c. c \<noteq> CollectionHealthChecks \<Longrightarrow> b c = a c" and
    c: "(store_step thrC thrE)\<^sup>*\<^sup>* b (docs (snd (run_state (UpsertOne db CollectionHealthChecks q u ui) w)))"
    by auto
  have "store_step thrC thrE a b" using b by (rule store_step.health)
  with a c show "(store_step thrC thrE)\<^sup>*\<^sup>* (docs w)
    (docs (snd (run_state (UpsertOne db CollectionHealthChecks q u ui) w)))"
    by simp
qed

lemmas rely_reads [writes_intros] = rely_find_many rely_find_one rely_aggregate rely_locks

lemma find_decoded_filter:
  assumes "can_return (find_decoded db dec c q) (Inr xs)" "x \<in> set xs"
  shows "\<exists>d. matches q d \<and> dec d = Some x"
proof -
  have those: "those (map dec ds) = Some xs \<Longrightarrow> x \<in> set xs \<Longrightarrow> \<exists>d \<in> set ds. dec d = Some x"
    for ds :: "doc list" and xs
    by (induction ds arbitrary: xs) (auto split: option.splits)
  from assms(1) obtain ds where "can_return (FindMany db c q) (Inr ds)" "those (map dec ds) = Some xs"
    unfolding find_decoded_def
    by (auto elim!: can_return_bindE split: sum.splits option.splits)
  then show ?thesis using those [OF _ assms(2)] find_many_filter by blast
qed

lemma writes_find_decoded [writes_intros]:
  "writes (store_step thrC thrE) docs (find_decoded db dec c q)"
  unfolding find_decoded_def by (intro writes_intros)

end

text \<open>A database of one's own meets the shared contract: nobody interferes.\<close>

lemma upsert_outcome_other: "upsert_outcome c q u ui r st st' \<Longrightarrow> c' \<noteq> c \<Longrightarrow> st' c' = st c'"
  by (auto simp: upsert_outcome_def updated_def inserted_def split: sum.splits)

sublocale document_store \<subseteq> shared: shared_store db docs thrC thrE for thrC thrE
proof unfold_locales
  fix w c d r w'
  assume "run_state (InsertOne db c d) w = (r, w')"
  from insert_law [OF this]
  show "\<exists>a b. (store_step thrC thrE)\<^sup>*\<^sup>* (docs w) a \<and> insert_outcome c d r a b \<and>
      (store_step thrC thrE)\<^sup>*\<^sup>* b (docs w')" by blast
next
  fix w c q u r w'
  assume "run_state (UpdateOne db c q u) w = (r, w')"
  from update_law [OF this]
  show "\<exists>a b. (store_step thrC thrE)\<^sup>*\<^sup>* (docs w) a \<and> update_outcome c q u r a b \<and>
      (store_step thrC thrE)\<^sup>*\<^sup>* b (docs w')" by blast
next
  fix w c q d w'
  assume "run_state (FindOne db c q) w = (Inr d, w')"
  from find_one_law [OF this]
  show "\<exists>a. (store_step thrC thrE)\<^sup>*\<^sup>* (docs w) a \<and> d \<in> set (a c) \<and> matches q d \<and>
      (store_step thrC thrE)\<^sup>*\<^sup>* a (docs w')" by auto
next
  fix w c q u ui
  have "docs (snd (run_state (UpsertOne db c q u ui) w)) c' = docs w c'" if "c' \<noteq> c" for c'
    by (rule upsert_outcome_other [OF upsert_law that]) (rule prod.collapse [symmetric])
  then show "\<exists>a b. (store_step thrC thrE)\<^sup>*\<^sup>* (docs w) a \<and> (\<forall>c'. c' \<noteq> c \<longrightarrow> b c' = a c') \<and>
      (store_step thrC thrE)\<^sup>*\<^sup>* b (docs (snd (run_state (UpsertOne db c q u ui) w)))"
    by (intro exI [of _ "docs w"] exI [of _ "docs (snd (run_state (UpsertOne db c q u ui) w))"]) simp
next
  fix c q ds d
  show "can_return (FindMany db c q) (Inr ds) \<Longrightarrow> d \<in> set ds \<Longrightarrow> matches q d"
    by (rule find_many_matches)
qed (intro quiet_writes quiet_intros)+

end
