(* ===== verification/Mongo_Reference.thy ===== *)
theory Mongo_Reference
  imports Protocol
begin

text \<open>
  A reference MongoDB server, executable, on which the driver's laws are discharged: documents in
  insertion order, the unique indexes of \<open>SetupIndexesAndLocker\<close>, locks, and an arbitrary schedule
  of time-outs that strike before or after an operation has taken effect, or while a cursor is read.
  \<open>MongoDatabase\<close>, the wrapper of \<open>app/database.go\<close>, runs on it. The server itself models no code
  of the repository; it shows the laws to be satisfiable and serves concrete evaluations.
\<close>

datatype fault = NoFault | FailBefore | FailAfter | FailCursor

record ref_world =
  rw_docs :: store
  rw_clock :: nat
  rw_faults :: "nat \<Rightarrow> fault"
  rw_locks :: "(string \<times> string \<times> bool) list"
  rw_sent :: "8 word list list"

definition with_fault :: "(store \<Rightarrow> 'a result \<times> store) \<Rightarrow> (ref_world, 'a result) io" where
  "with_fault f = State (\<lambda>w.
     let w1 = w\<lparr>rw_clock := Suc (rw_clock w)\<rparr>; (r, st) = f (rw_docs w) in
     (case rw_faults w (rw_clock w) of
        NoFault \<Rightarrow> (r, w1\<lparr>rw_docs := st\<rparr>)
      | FailCursor \<Rightarrow> (r, w1\<lparr>rw_docs := st\<rparr>)
      | FailBefore \<Rightarrow> (Inl (Err ''context deadline exceeded''), w1)
      | FailAfter \<Rightarrow> (Inl (Err ''context deadline exceeded''), w1\<lparr>rw_docs := st\<rparr>)))"

definition ref_ids :: "doc list \<Rightarrow> nat list" where
  "ref_ids ds = concat (map (\<lambda>d. case map_of d ''_id'' of Some (BOid i) \<Rightarrow> [i] | _ \<Rightarrow> []) ds)"

definition fresh_id :: "doc list \<Rightarrow> nat" where
  "fresh_id ds = Suc (foldr max (ref_ids ds) 0)"

definition ref_insert :: "string \<Rightarrow> doc \<Rightarrow> store \<Rightarrow> bson result \<times> store" where
  "ref_insert c d st =
     (if conflict c (st c) d then (Inl ErrDuplicateKey, st)
      else (Inr (BOid (fresh_id (st c))), st(c := st c @ [with_id (fresh_id (st c)) d])))"

fun find_index :: "('a \<Rightarrow> bool) \<Rightarrow> 'a list \<Rightarrow> nat option" where
  "find_index P [] = None"
| "find_index P (x # xs) = (if P x then Some 0 else map_option Suc (find_index P xs))"

definition project_id :: "doc \<Rightarrow> doc" where
  "project_id d = (case map_of d ''_id'' of None \<Rightarrow> [] | Some v \<Rightarrow> [(''_id'', v)])"

definition ref_find_and_update ::
    "bool \<Rightarrow> string \<Rightarrow> query \<Rightarrow> update \<Rightarrow> update \<Rightarrow> store \<Rightarrow> doc result \<times> store" where
  "ref_find_and_update upsert c q u ui st =
     (case find_index (matches q) (st c) of
        Some n \<Rightarrow>
          let d = apply_set u (st c ! n) in
          if conflict c (take n (st c) @ drop (Suc n) (st c)) d then (Inl ErrDuplicateKey, st)
          else (Inr (project_id d), st(c := (st c)[n := d]))
      | None \<Rightarrow>
          if upsert then
            let d = apply_set u (apply_set ui (eq_fields q)) in
            if conflict c (st c) d then (Inl ErrDuplicateKey, st)
            else (Inr (project_id (with_id (fresh_id (st c)) d)),
                  st(c := st c @ [with_id (fresh_id (st c)) d]))
          else (Inl ErrNoDocuments, st))"

definition ref_lock :: "bool \<Rightarrow> string \<Rightarrow> string \<Rightarrow> (ref_world, error option) io" where
  "ref_lock exclusive res lockID = State (\<lambda>w.
     if list_ex (\<lambda>(r, _, x). r = res \<and> (x \<or> exclusive)) (rw_locks w)
     then (Some (Err ''resource is locked''), w)
     else (None, w\<lparr>rw_locks := (res, lockID, exclusive) # rw_locks w\<rparr>))"

definition ref_unlock :: "string \<Rightarrow> (ref_world, error option) io" where
  "ref_unlock lockID = State (\<lambda>w.
     (None, w\<lparr>rw_locks := filter (\<lambda>(_, i, _). i \<noteq> lockID) (rw_locks w)\<rparr>))"

definition first_doc :: "(doc \<Rightarrow> bool) \<Rightarrow> doc list \<Rightarrow> doc result" where
  "first_doc P ds = (case filter P ds of [] \<Rightarrow> Inl ErrNoDocuments | d # _ \<Rightarrow> Inr d)"

definition ref_driver :: "ref_world Driver" where
  "ref_driver = \<lparr>
     drv_InsertOne = (\<lambda>c d. with_fault (ref_insert c d)),
     drv_FindOne = (\<lambda>c q. with_fault (\<lambda>st. (first_doc (matches q) (st c), st))),
     drv_Find = (\<lambda>c q. with_fault (\<lambda>st. (Inr (Inr (filter (matches q) (st c)), None), st))),
     drv_Aggregate = (\<lambda>c ss. State (\<lambda>w.
        if rw_faults w (rw_clock w) = FailCursor
        then (Inr ([], Some (Err ''cursor closed'')), w\<lparr>rw_clock := Suc (rw_clock w)\<rparr>)
        else run_state (with_fault (\<lambda>st. (Inr (run_pipeline ss (st c), None), st))) w)),
     drv_FindOneAndUpdate = (\<lambda>upsert c q u ui. with_fault (ref_find_and_update upsert c q u ui)),
     drv_XLock = ref_lock True,
     drv_SLock = ref_lock False,
     drv_Unlock = ref_unlock,
     rand_Read = (\<lambda>n. State (\<lambda>w.
        (Inr (replicate n (of_nat (rw_clock w))), w\<lparr>rw_clock := Suc (rw_clock w)\<rparr>)))\<rparr>"

definition ref_db :: "ref_world Database" where
  "ref_db = MongoDatabase_DB ref_driver"

definition ref_init :: ref_world where
  "ref_init = \<lparr>rw_docs = empty_store, rw_clock = 0, rw_faults = (\<lambda>_. NoFault), rw_locks = [],
     rw_sent = []\<rparr>"

section \<open>The reference server meets the contract\<close>

lemma foldr_max_ge: "x \<in> set xs \<Longrightarrow> x \<le> foldr max xs (0::nat)"
  by (induction xs) auto

lemma fresh_id_fresh: "d \<in> set ds \<Longrightarrow> map_of d ''_id'' \<noteq> Some (BOid (fresh_id ds))"
proof
  assume "d \<in> set ds" "map_of d ''_id'' = Some (BOid (fresh_id ds))"
  then have "fresh_id ds \<in> set (ref_ids ds)" by (auto simp: ref_ids_def intro!: bexI [of _ d])
  then show False using foldr_max_ge [of "fresh_id ds" "ref_ids ds"] by (simp add: fresh_id_def)
qed

lemma find_index_Some: "find_index P xs = Some n \<Longrightarrow> n < length xs \<and> P (xs ! n)"
  by (induction xs arbitrary: n) (auto split: if_splits)

lemma find_index_None: "find_index P xs = None \<Longrightarrow> list_all (\<lambda>x. \<not> P x) xs"
  by (induction xs) (auto split: if_splits)

text \<open>What a faulty operation can do to the documents, and its possible results.\<close>

lemma with_fault_cases:
  assumes "run_state (with_fault f) w = (r, w')"
  obtains "r = fst (f (rw_docs w))" "rw_docs w' = snd (f (rw_docs w))"
  | "r = Inl (Err ''context deadline exceeded'')" "rw_docs w' = rw_docs w"
  | "r = Inl (Err ''context deadline exceeded'')" "rw_docs w' = snd (f (rw_docs w))"
  using assms
  by (cases "rw_faults w (rw_clock w)") (auto simp: with_fault_def Let_def split_beta)

lemma ref_insert_outcome:
  assumes "ref_insert c d st = (r, st')"
  shows "(case r of Inr b \<Rightarrow> (\<exists>i. b = BOid i) \<and> inserted c d st st'
      | Inl e \<Rightarrow> e = ErrDuplicateKey \<and> conflict c (st c) d \<and> st' = st)"
proof (cases "conflict c (st c) d")
  case True
  then show ?thesis using assms by (auto simp: ref_insert_def)
next
  case False
  then have "inserted c d st (st(c := st c @ [with_id (fresh_id (st c)) d]))"
    unfolding inserted_def by (intro exI [of _ "fresh_id (st c)"]) (simp add: fresh_id_fresh)
  with False assms show ?thesis by (auto simp: ref_insert_def)
qed

lemma updated_found:
  assumes "find_index (matches q) (st c) = Some n"
    "\<not> conflict c (take n (st c) @ drop (Suc n) (st c)) (apply_set u (st c ! n))"
  shows "updated c q u st (st(c := (st c)[n := apply_set u (st c ! n)]))"
  unfolding updated_def using assms(2) find_index_Some [OF assms(1)]
  by (intro exI [of _ n]) simp

lemma ref_update_outcome:
  assumes "ref_find_and_update False c q u ui st = (r, st')"
  shows "(case r of Inr b \<Rightarrow> updated c q u st st'
      | Inl e \<Rightarrow> (e = ErrDuplicateKey \<or> e = ErrNoDocuments) \<and> st' = st)"
  using assms updated_found [of q st c _ u]
  by (auto simp: ref_find_and_update_def Let_def split: option.splits if_splits)

lemma ref_upsert_outcome:
  assumes "ref_find_and_update True c q u ui st = (r, st')"
  shows "(case r of Inr b \<Rightarrow> updated c q u st st' \<or> list_all (\<lambda>d. \<not> matches q d) (st c) \<and>
              inserted c (apply_set u (apply_set ui (eq_fields q))) st st'
          | Inl e \<Rightarrow> st' = st)"
proof (cases "find_index (matches q) (st c)")
  case None
  let ?d = "apply_set u (apply_set ui (eq_fields q))"
  have "\<not> conflict c (st c) ?d \<Longrightarrow>
      inserted c ?d st (st(c := st c @ [with_id (fresh_id (st c)) ?d]))"
    unfolding inserted_def by (intro exI [of _ "fresh_id (st c)"]) (simp add: fresh_id_fresh)
  with None assms find_index_None [OF None] show ?thesis
    by (auto simp: ref_find_and_update_def Let_def split: if_splits)
next
  case (Some n)
  then show ?thesis using assms updated_found [of q st c _ u]
    by (auto simp: ref_find_and_update_def Let_def split: if_splits)
qed

lemma first_doc:
  "first_doc P ds = Inr d \<Longrightarrow> d \<in> set ds \<and> P d"
  "first_doc P ds = Inl ErrNoDocuments \<Longrightarrow> d \<in> set ds \<Longrightarrow> \<not> P d"
  by (induction ds) (auto simp: first_doc_def split: if_splits)

lemma quiet_state: "(\<And>w. v (snd (f w)) = v w) \<Longrightarrow> quiet v (State f)"
  by (simp add: quiet_def)

interpretation mongo: mongo_driver ref_driver rw_docs
proof unfold_locales
  fix c d w w' and r :: "bson result"
  assume "run_state (drv_InsertOne ref_driver c d) w = (r, w')"
  then have *: "run_state (with_fault (ref_insert c d)) w = (r, w')" by (simp add: ref_driver_def)
  obtain x st where x: "ref_insert c d (rw_docs w) = (x, st)" by fastforce
  from * show "case r of Inr b \<Rightarrow> inserted c d (rw_docs w) (rw_docs w')
       | Inl e \<Rightarrow> insert_outcome c d (Inl e) (rw_docs w) (rw_docs w')"
    using ref_insert_outcome [OF x] x
    by (cases rule: with_fault_cases) (auto simp: insert_outcome_def split: sum.splits)
next
  fix c q u ui w w' and r :: "doc result"
  assume "run_state (drv_FindOneAndUpdate ref_driver False c q u ui) w = (r, w')"
  then have *: "run_state (with_fault (ref_find_and_update False c q u ui)) w = (r, w')"
    by (simp add: ref_driver_def)
  obtain x st where x: "ref_find_and_update False c q u ui (rw_docs w) = (x, st)" by fastforce
  from * show "case r of Inr d \<Rightarrow> updated c q u (rw_docs w) (rw_docs w')
       | Inl e \<Rightarrow> update_outcome c q u (Inl e) (rw_docs w) (rw_docs w')"
    using ref_update_outcome [OF x] x
    by (cases rule: with_fault_cases) (auto simp: update_outcome_def split: sum.splits)
next
  fix c q u ui w w' and r :: "doc result"
  assume "run_state (drv_FindOneAndUpdate ref_driver True c q u ui) w = (r, w')"
  then have *: "run_state (with_fault (ref_find_and_update True c q u ui)) w = (r, w')"
    by (simp add: ref_driver_def)
  obtain x st where x: "ref_find_and_update True c q u ui (rw_docs w) = (x, st)" by fastforce
  from * show "upsert_outcome c q u ui (case r of Inr _ \<Rightarrow> Inr 0 | Inl e \<Rightarrow> Inl e) (rw_docs w) (rw_docs w')"
    using ref_upsert_outcome [OF x] x
    by (cases rule: with_fault_cases) (auto simp: upsert_outcome_def split: sum.splits)
next
  fix c q w w' and r :: "(doc list result \<times> error option) result"
  assume "run_state (drv_Find ref_driver c q) w = (r, w')"
  then have "run_state (with_fault (\<lambda>st. (Inr (Inr (filter (matches q) (st c)), None), st))) w = (r, w')"
    by (simp add: ref_driver_def)
  then show "rw_docs w' = rw_docs w \<and>
      (\<forall>ds. r = Inr (Inr ds, None) \<longrightarrow> ds = filter (matches q) (rw_docs w c))"
    by (cases rule: with_fault_cases) auto
next
  fix c q w w' and r :: "doc result"
  assume "run_state (drv_FindOne ref_driver c q) w = (r, w')"
  then have "run_state (with_fault (\<lambda>st. (first_doc (matches q) (st c), st))) w = (r, w')"
    by (simp add: ref_driver_def)
  then have "rw_docs w' = rw_docs w \<and> (r = first_doc (matches q) (rw_docs w c) \<or>
      r = Inl (Err ''context deadline exceeded''))"
    by (cases rule: with_fault_cases) simp_all
  then show "rw_docs w' = rw_docs w \<and> (\<forall>d. r = Inr d \<longrightarrow> d \<in> set (rw_docs w c) \<and> matches q d) \<and>
      (r = Inl ErrNoDocuments \<longrightarrow> (\<forall>d \<in> set (rw_docs w c). \<not> matches q d))"
    by (auto dest: first_doc)
next
  fix c ss w w' and r :: "(doc list \<times> error option) result"
  assume "run_state (drv_Aggregate ref_driver c ss) w = (r, w')"
  then have "(r = Inr ([], Some (Err ''cursor closed'')) \<and> rw_docs w' = rw_docs w) \<or>
      run_state (with_fault (\<lambda>st. (Inr (run_pipeline ss (st c), None), st))) w = (r, w')"
    by (auto simp: ref_driver_def split: if_splits)
  then show "rw_docs w' = rw_docs w \<and> (\<forall>ds. r = Inr (ds, None) \<longrightarrow> ds = run_pipeline ss (rw_docs w c))"
    by (auto elim: with_fault_cases)
next
  fix res i n
  show "quiet rw_docs (drv_XLock ref_driver res i)" "quiet rw_docs (drv_SLock ref_driver res i)"
    "quiet rw_docs (drv_Unlock ref_driver i)" "quiet rw_docs (rand_Read ref_driver n)"
    by (auto simp: ref_driver_def ref_lock_def ref_unlock_def intro!: quiet_state)
qed

interpretation ref_store: document_store ref_db rw_docs
  unfolding ref_db_def by (rule mongo.document_store_axioms)

text \<open>The same server with cursors that never fail answers aggregations exactly.\<close>

definition calm_driver :: "ref_world Driver" where
  "calm_driver = ref_driver\<lparr>drv_Aggregate :=
     (\<lambda>c ss. with_fault (\<lambda>st. (Inr (run_pipeline ss (st c), None), st)))\<rparr>"

interpretation calm: mongo_driver calm_driver rw_docs
proof unfold_locales
  fix c ss w w' and r :: "(doc list \<times> error option) result"
  assume "run_state (drv_Aggregate calm_driver c ss) w = (r, w')"
  then have "run_state (with_fault (\<lambda>st. (Inr (run_pipeline ss (st c), None), st))) w = (r, w')"
    by (simp add: calm_driver_def)
  then show "rw_docs w' = rw_docs w \<and> (\<forall>ds. r = Inr (ds, None) \<longrightarrow> ds = run_pipeline ss (rw_docs w c))"
    by (auto elim: with_fault_cases)
qed (simp_all add: calm_driver_def mongo.driver_insert mongo.driver_update mongo.driver_upsert
      mongo.driver_find mongo.driver_find_one mongo.driver_locks)

interpretation calm: exact_document_store "MongoDatabase_DB calm_driver" rw_docs
proof unfold_locales
  fix c ss w w'
  assume "run_state (AggregateOne (MongoDatabase_DB calm_driver) c ss) w = (Inl ErrNoDocuments, w')"
  then obtain b where b: "run_state (with_fault (\<lambda>st.
        (Inr (run_pipeline ss (st c), None) :: (doc list \<times> error option) result, st))) w = (b, w')"
    and r: "Inl ErrNoDocuments = (case b of Inl e \<Rightarrow> Inl e | Inr (ds, err) \<Rightarrow>
           if length ds > 1 then Inl (Err ''expected 1 result'')
           else if length ds = 0 then Inl ErrNoDocuments
           else (case err of Some e \<Rightarrow> Inl e | None \<Rightarrow> Inr (last ds)))"
    by (simp only: MongoDatabase_defs Database.simps) (erule run_bind_retE, simp add: calm_driver_def)
  from b r show "run_pipeline ss (rw_docs w c) = []"
    by (cases rule: with_fault_cases) (auto split: if_splits)
qed

end
