(* ===== verification/Common_Util.thy ===== *)
theory Common_Util
  imports Interfaces
begin

text \<open>
  Package \<open>common\<close>: removal of duplicates (\<open>array.go\<close>), hexadecimal strings and addresses
  (\<open>hex.go\<close>, \<open>ethereum.go\<close>), bech32 addresses and public keys (\<open>cosmos.go\<close>). The bech32 codec
  of the SDK is part of \<open>Lib\<close>.
\<close>

section \<open>array.go\<close>

text \<open>The loop of \<open>RemoveDuplicates\<close> with its map of encountered keys.\<close>

fun RemoveDuplicates_loop :: "nat set \<Rightarrow> nat list \<Rightarrow> nat list \<Rightarrow> nat list" where
  "RemoveDuplicates_loop encountered result [] = result"
| "RemoveDuplicates_loop encountered result (e # es) =
     (if e \<notin> encountered then RemoveDuplicates_loop (insert e encountered) (result @ [e]) es
      else RemoveDuplicates_loop encountered result es)"

definition RemoveDuplicates :: "nat list \<Rightarrow> nat list" where
  "RemoveDuplicates elements = RemoveDuplicates_loop {} [] elements"

text \<open>The reference: the first occurrence of every element, in order.\<close>

lemma RemoveDuplicates_loop_eq:
  "RemoveDuplicates_loop seen acc xs = acc @ filter (\<lambda>x. x \<notin> seen) (rev (remdups (rev xs)))"
proof (induction xs arbitrary: seen acc)
  case (Cons x xs)
  have "filter (\<lambda>y. y \<notin> insert x seen) ys = filter (\<lambda>y. y \<notin> seen) (removeAll x ys)" for ys
    by (induction ys) auto
  moreover have "rev (remdups (rev xs @ [x])) = x # removeAll x (rev (remdups (rev xs)))"
    by (induction xs rule: rev_induct) auto
  ultimately show ?case using Cons by (auto simp: removeAll_filter_not_eq intro: filter_cong)
qed simp

lemma RemoveDuplicates_eq: "RemoveDuplicates xs = rev (remdups (rev xs))"
  by (simp add: RemoveDuplicates_def RemoveDuplicates_loop_eq)

section \<open>hex.go\<close>

definition AddressLength :: nat where "AddressLength = 20"

definition CosmosPublicKeyLength :: nat where "CosmosPublicKeyLength = 33"

definition ZeroAddress :: string where
  "ZeroAddress = ''0x0000000000000000000000000000000000000000''"

text \<open>\<open>(*big.Int).SetBytes\<close> and \<open>FillBytes\<close>: big-endian, padded on the left with zeros.\<close>

definition SetBytes :: "bytes \<Rightarrow> nat" where
  "SetBytes bs = foldl (\<lambda>v b. 256 * v + unat b) 0 bs"

fun FillBytes :: "nat \<Rightarrow> nat \<Rightarrow> bytes" where
  "FillBytes 0 v = []"
| "FillBytes (Suc n) v = FillBytes n (v div 256) @ [of_nat v]"

definition Bytes32FromAddressHex :: "string \<Rightarrow> bytes result" where
  "Bytes32FromAddressHex addr =
     (case DecodeString (TrimPrefix addr ''0x'') of
        Inl e \<Rightarrow> Inl e
      | Inr address \<Rightarrow>
          if length address \<noteq> AddressLength then Inl ErrInvalidAddressLength
          else Inr (FillBytes 32 (SetBytes address)))"

definition isZeroHex :: "string \<Rightarrow> bool" where
  "isZeroHex s = list_all (\<lambda>c. c = CHR ''0'') (TrimPrefix (ToLower s) ''0x'')"

definition BytesFromHex :: "string \<Rightarrow> bytes result" where
  "BytesFromHex hexStr =
     (if length hexStr = 0 then Inl (Err ''decoding hex string failed: empty hex string'')
      else DecodeString (TrimPrefix (ToLower hexStr) ''0x''))"

definition BytesFromAddressHex :: "string \<Rightarrow> bytes result" where
  "BytesFromAddressHex addr =
     (case BytesFromHex addr of
        Inl e \<Rightarrow> Inl e
      | Inr bs \<Rightarrow> if length bs \<noteq> AddressLength then Inl ErrInvalidAddressLength else Inr bs)"

definition IsValidAddressHex :: "string \<Rightarrow> bool" where
  "IsValidAddressHex s = (case BytesFromAddressHex s of Inl _ \<Rightarrow> False | Inr _ \<Rightarrow> True)"

definition Ensure0xPrefix :: "string \<Rightarrow> string" where
  "Ensure0xPrefix str =
     (let str = ToLower str in if \<not> HasPrefix str ''0x'' then ''0x'' @ str else str)"

definition AddressHexFromBytes :: "bytes \<Rightarrow> string result" where
  "AddressHexFromBytes address =
     (if length address \<noteq> AddressLength then Inl ErrInvalidAddressLength
      else Inr (Ensure0xPrefix (EncodeToString address)))"

definition HexFromBytes :: "bytes \<Rightarrow> string" where
  "HexFromBytes bs = Ensure0xPrefix (EncodeToString bs)"

section \<open>ethereum.go, cosmos.go\<close>

definition IsValidEthereumAddress :: "string \<Rightarrow> bool" where
  "IsValidEthereumAddress s =
     (let s = ToLower s in
        (case BytesFromAddressHex s of Inl _ \<Rightarrow> False | Inr _ \<Rightarrow> True) \<and> HasPrefix s ''0x'')"

text \<open>\<open>unmarshal\<close> stands for \<open>(*secp256k1.PubKey).UnmarshalAmino\<close>.\<close>

definition CosmosPublicKeyFromHex :: "(bytes \<Rightarrow> error option) \<Rightarrow> string \<Rightarrow> PubKey result" where
  "CosmosPublicKeyFromHex unmarshal pubKeyHex =
     (case DecodeString pubKeyHex of
        Inl e \<Rightarrow> Inl e
      | Inr pubKeyBytes \<Rightarrow>
          if length pubKeyBytes \<noteq> CosmosPublicKeyLength then Inl ErrInvalidPublicKeyLength
          else (case unmarshal pubKeyBytes of
                  Some e \<Rightarrow> Inl e
                | None \<Rightarrow> Inr (Secp256k1PubKey pubKeyBytes)))"

definition IsValidCosmosPublicKey :: "(bytes \<Rightarrow> error option) \<Rightarrow> string \<Rightarrow> bool" where
  "IsValidCosmosPublicKey unmarshal s =
     (case CosmosPublicKeyFromHex unmarshal s of Inl _ \<Rightarrow> False | Inr _ \<Rightarrow> True)"

definition BytesFromBech32 :: "'t Lib \<Rightarrow> string \<Rightarrow> string \<Rightarrow> bytes result" where
  "BytesFromBech32 l bech32Prefix address = StringToBytes l bech32Prefix address"

definition Bech32FromBytes :: "'t Lib \<Rightarrow> string \<Rightarrow> bytes \<Rightarrow> string result" where
  "Bech32FromBytes l bech32Prefix bs =
     (if length bs \<noteq> AddressLength then Inl ErrInvalidAddressLength
      else ConvertAndEncode l bech32Prefix bs)"

definition AddressBytesFromBech32 :: "'t Lib \<Rightarrow> string \<Rightarrow> string \<Rightarrow> bytes result" where
  "AddressBytesFromBech32 l bech32Prefix address =
     (case BytesFromBech32 l bech32Prefix address of
        Inl e \<Rightarrow> Inl e
      | Inr bs \<Rightarrow> if length bs \<noteq> AddressLength then Inl ErrInvalidAddressLength else Inr bs)"

definition IsValidBech32Address :: "'t Lib \<Rightarrow> string \<Rightarrow> string \<Rightarrow> bool" where
  "IsValidBech32Address l bech32Prefix address =
     (case AddressBytesFromBech32 l bech32Prefix address of Inl _ \<Rightarrow> False | Inr _ \<Rightarrow> True)"

section \<open>Facts\<close>

lemma length_FillBytes [simp]: "length (FillBytes n v) = n"
  by (induction n arbitrary: v) auto

lemma SetBytes_snoc [simp]: "SetBytes (bs @ [b]) = 256 * SetBytes bs + unat b"
  by (simp add: SetBytes_def)

lemma FillBytes_0: "FillBytes n 0 = replicate n 0"
  by (induction n) (auto simp: replicate_append_same)

lemma FillBytes_SetBytes:
  "length bs \<le> n \<Longrightarrow> FillBytes n (SetBytes bs) = replicate (n - length bs) 0 @ bs"
proof (induction bs arbitrary: n rule: rev_induct)
  case Nil
  then show ?case by (simp add: SetBytes_def FillBytes_0)
next
  case (snoc b bs)
  then obtain m where n: "n = Suc m" by (cases n) auto
  have lt: "unat b < 256"
    using unsigned_less [of b, where 'a = nat] by simp
  have "(256 * SetBytes bs + unat b) div 256 = SetBytes bs" using lt by simp
  moreover have "(of_nat (256 * SetBytes bs + unat b) :: byte) = b"
  proof -
    have z: "(256 :: byte) = 0" by code_simp
    show ?thesis unfolding of_nat_add of_nat_mult of_nat_numeral z by simp
  qed
  moreover have "FillBytes m (SetBytes bs) = replicate (m - length bs) 0 @ bs"
    using snoc n by simp
  ultimately show ?case by (simp add: n del: of_nat_add of_nat_mult)
qed

lemma Ensure0xPrefix_HasPrefix: "HasPrefix (Ensure0xPrefix s) ''0x''"
  by (simp add: Ensure0xPrefix_def Let_def HasPrefix_def)

lemma Ensure0xPrefix_lower [simp]: "ToLower (Ensure0xPrefix s) = Ensure0xPrefix s"
  by (simp add: Ensure0xPrefix_def Let_def)

lemma Ensure0xPrefix_idem [simp]: "Ensure0xPrefix (Ensure0xPrefix s) = Ensure0xPrefix s"
  by (subst Ensure0xPrefix_def) (simp add: Let_def Ensure0xPrefix_HasPrefix)

lemma Ensure0xPrefix_nonempty [simp]: "Ensure0xPrefix s \<noteq> []"
  using Ensure0xPrefix_HasPrefix [of s] by (auto simp: HasPrefix_def)

lemma EncodeToString_no_prefix: "\<not> HasPrefix (EncodeToString bs) ''0x''"
proof (cases bs)
  case (Cons b bs')
  have "hex_digit n \<noteq> CHR ''x''" if "n < 16" for n
    using that hex_val_digit [of n] by (auto simp: hex_val_def)
  then show ?thesis using Cons byte_div16 by (auto simp: HasPrefix_def)
qed (simp add: HasPrefix_def)

lemma HexFromBytes_eq: "HexFromBytes bs = ''0x'' @ EncodeToString bs"
  by (simp add: HexFromBytes_def Ensure0xPrefix_def Let_def EncodeToString_no_prefix)

lemma BytesFromHex_HexFromBytes [simp]: "BytesFromHex (HexFromBytes bs) = Inr bs"
proof -
  have "ToLower (''0x'' @ EncodeToString bs) = ''0x'' @ EncodeToString bs"
    by simp
  then show ?thesis
    unfolding BytesFromHex_def HexFromBytes_eq by (simp only: TrimPrefix_append) simp
qed

lemma AddressHexFromBytes_roundtrip:
  "AddressHexFromBytes bs = Inr s \<Longrightarrow> BytesFromAddressHex s = Inr bs"
  using BytesFromHex_HexFromBytes [of bs]
  by (auto simp: AddressHexFromBytes_def BytesFromAddressHex_def HexFromBytes_def split: if_splits)

lemma BytesFromAddressHex_roundtrip:
  assumes "BytesFromAddressHex t = Inr bs"
  shows "AddressHexFromBytes bs = Inr (Ensure0xPrefix t)"
proof -
  have "DecodeString (TrimPrefix (ToLower t) ''0x'') = Inr bs" and len: "length bs = AddressLength"
    using assms by (auto simp: BytesFromAddressHex_def BytesFromHex_def split: sum.splits if_splits)
  then have e: "EncodeToString bs = ToLower (TrimPrefix (ToLower t) ''0x'')"
    by (simp add: EncodeToString_DecodeString)
  have "Ensure0xPrefix t = ''0x'' @ EncodeToString bs"
  proof (cases "HasPrefix (ToLower t) ''0x''")
    case True
    then obtain u where u: "ToLower t = ''0x'' @ u" by (auto simp: HasPrefix_iff)
    then have "ToLower u = u" using ToLower_idem [of t] by simp
    then show ?thesis using e u by (simp add: Ensure0xPrefix_def Let_def HasPrefix_def TrimPrefix_def)
  next
    case False
    then show ?thesis using e by (simp add: Ensure0xPrefix_def Let_def TrimPrefix_def)
  qed
  then show ?thesis
    using len HexFromBytes_eq [of bs] by (simp add: AddressHexFromBytes_def HexFromBytes_def)
qed

lemma BytesFromAddressHex_length:
  "BytesFromAddressHex s = Inr bs \<Longrightarrow> length bs = AddressLength"
  by (auto simp: BytesFromAddressHex_def split: sum.splits if_splits)

lemma BytesFromHex_fold: "EqualFold s t \<Longrightarrow> BytesFromHex s = BytesFromHex t"
  by (auto simp: BytesFromHex_def EqualFold_def) (metis length_ToLower length_0_conv)+

lemma BytesFromAddressHex_fold:
  "EqualFold s t \<Longrightarrow> BytesFromAddressHex s = BytesFromAddressHex t"
  using BytesFromHex_fold by (simp add: BytesFromAddressHex_def)

lemma valid_ethereum_address_length:
  assumes "IsValidEthereumAddress s"
  shows "length s = 42"
proof -
  from assms obtain bs where bs: "BytesFromAddressHex (ToLower s) = Inr bs"
    and p: "HasPrefix (ToLower s) ''0x''"
    by (auto simp: IsValidEthereumAddress_def Let_def split: sum.splits)
  obtain t where t: "ToLower s = ''0x'' @ t" using p by (auto simp: HasPrefix_iff)
  have "DecodeString t = Inr bs"
  proof -
    have "ToLower t = t" using ToLower_idem [of s] unfolding t by simp
    then show ?thesis
      using bs t by (auto simp: BytesFromAddressHex_def BytesFromHex_def TrimPrefix_def HasPrefix_def
          split: sum.splits if_splits)
  qed
  then have "length t = 40"
    using length_DecodeString BytesFromAddressHex_length [OF bs] by (fastforce simp: AddressLength_def)
  then have "length (ToLower s) = 42" using t by simp
  then show ?thesis by simp
qed

lemma AddressBytesFromBech32_length:
  "AddressBytesFromBech32 l p a = Inr bs \<Longrightarrow> length bs = AddressLength"
  by (auto simp: AddressBytesFromBech32_def split: sum.splits if_splits)

end
