(* ===== verification/Cosmos_Util.thy ===== *)
theory Cosmos_Util
  imports Common_Util
begin

text \<open>
  Package \<open>cosmos/util\<close>: transfer events (\<open>events.go\<close>), memos (\<open>memo.go\<close>), the validation of an
  incoming transaction (\<open>validate_tx.go\<close>), the documents made from it (\<open>monitor.go\<close>), status and
  confirmations (\<open>signer.go\<close>), the outgoing transfer (\<open>tx.go\<close>) and its signatures
  (\<open>signature.go\<close>).
\<close>

section \<open>events.go\<close>

record TransferEvent =
  te_Sender :: string
  te_Receiver :: string
  te_Amount :: Coin

fun FindAttributeValue :: "EventAttribute list \<Rightarrow> string \<Rightarrow> string result" where
  "FindAttributeValue [] key = Inl (Err ''no attribute found with key'')"
| "FindAttributeValue (event # events) key =
     (if EqualFold (attr_Key event) key then Inr (attr_Value event)
      else FindAttributeValue events key)"

text \<open>One iteration of the loop: an error, a skipped event (\<open>None\<close>), or a transfer.\<close>

definition ParseTransferEvent ::
    "'t Lib \<Rightarrow> Event \<Rightarrow> string \<Rightarrow> string \<Rightarrow> TransferEvent option result" where
  "ParseTransferEvent l event recipient denom =
     (if \<not> EqualFold (ev_Type event) ''transfer'' then Inr None
      else case FindAttributeValue (ev_Attributes event) ''sender'' of
        Inl e \<Rightarrow> Inl e
      | Inr sender \<Rightarrow>
      (case FindAttributeValue (ev_Attributes event) ''recipient'' of
        Inl e \<Rightarrow> Inl e
      | Inr receiver \<Rightarrow>
          if \<not> EqualFold receiver recipient then Inr None
          else case FindAttributeValue (ev_Attributes event) ''amount'' of
            Inl e \<Rightarrow> Inl e
          | Inr amountStr \<Rightarrow>
          (case ParseCoinNormalized l amountStr of
            Inl e \<Rightarrow> Inl e
          | Inr amount \<Rightarrow>
              if coin_Denom amount \<noteq> denom then Inr None
              else Inr (Some \<lparr>te_Sender = sender, te_Receiver = receiver, te_Amount = amount\<rparr>))))"

fun ParseTransferEvents_loop ::
    "'t Lib \<Rightarrow> TransferEvent list \<Rightarrow> Event list \<Rightarrow> string \<Rightarrow> string \<Rightarrow> TransferEvent list result" where
  "ParseTransferEvents_loop l transfers [] recipient denom = Inr transfers"
| "ParseTransferEvents_loop l transfers (event # events) recipient denom =
     (case ParseTransferEvent l event recipient denom of
        Inl e \<Rightarrow> Inl e
      | Inr None \<Rightarrow> ParseTransferEvents_loop l transfers events recipient denom
      | Inr (Some t) \<Rightarrow> ParseTransferEvents_loop l (transfers @ [t]) events recipient denom)"

definition ParseTransferEvents ::
    "'t Lib \<Rightarrow> Event list \<Rightarrow> string \<Rightarrow> string \<Rightarrow> TransferEvent list result" where
  "ParseTransferEvents l events recipient denom = ParseTransferEvents_loop l [] events recipient denom"

section \<open>memo.go\<close>

definition ValidateMemo :: "'t Lib \<Rightarrow> Config \<Rightarrow> string \<Rightarrow> MintMemo result" where
  "ValidateMemo l cfg txMemo =
     (case json_Unmarshal l txMemo of
        Inl e \<Rightarrow> Inl (Err ''failed to unmarshal memo'')
      | Inr memo0 \<Rightarrow>
          let memo = \<lparr>memo_Address = Trim (ToLower (memo_Address memo0)) CHR '' '',
                      memo_ChainID = Trim (ToLower (memo_ChainID memo0)) CHR '' ''\<rparr> in
          if \<not> IsValidEthereumAddress (memo_Address memo) then Inl (Err ''invalid address'')
          else if EqualFold (memo_Address memo) ZeroAddress then Inl (Err ''zero address'')
          else if ParseUint64 l (memo_ChainID memo) = None then Inl (Err ''invalid chain id'')
          else if memo_ChainID memo \<noteq> eth_ChainID (cfg_Ethereum cfg)
            then Inl (Err ''unsupported chain id'')
          else Inr memo)"

section \<open>validate\_tx.go\<close>

record ValidateTxResult =
  vr_TxValid :: bool
  vr_Tx :: "Tx option"
  vr_TxHash :: string
  vr_Memo :: MintMemo
  vr_Amount :: Coin
  vr_SenderAddress :: string
  vr_NeedsRefund :: bool

definition empty_memo :: MintMemo where
  "empty_memo = \<lparr>memo_Address = [], memo_ChainID = []\<rparr>"

text \<open>
  \<open>Inl\<close> is a panic: comparing a nil amount, or reading the memo of a transaction without a body.
  The chain's own configuration (\<open>config\<close>) is a parameter of the function, the Ethereum chain id
  is read from the global configuration (\<open>cfg\<close>) by \<open>ValidateMemo\<close>. A maximum that has not been
  fetched yet is the zero \<open>math.Int\<close> (\<open>None\<close>); comparing with it panics.
\<close>

definition ValidateTxToCosmosMultisig ::
    "'t Lib \<Rightarrow> Config \<Rightarrow> TxResponse \<Rightarrow> CosmosConfig \<Rightarrow> int \<Rightarrow> int option \<Rightarrow>
      ValidateTxResult result" where
  "ValidateTxToCosmosMultisig l cfg txResponse config minAmount maxAmount =
     (let result = \<lparr>vr_TxValid = False, vr_Tx = None, vr_TxHash = Ensure0xPrefix (txr_TxHash txResponse),
                    vr_Memo = empty_memo, vr_Amount = \<lparr>coin_Denom = [], coin_Amount = None\<rparr>,
                    vr_SenderAddress = [], vr_NeedsRefund = False\<rparr> in
      if txr_Code txResponse \<noteq> 0 then Inr result
      else case ParseTransferEvents l (txr_Events txResponse) (pokt_MultisigAddress config)
                  (pokt_CoinDenom config) of
        Inl e \<Rightarrow> Inr result
      | Inr transfers \<Rightarrow>
      (if length transfers \<noteq> 1 then Inr result
       else let result = result\<lparr>vr_SenderAddress := te_Sender (transfers ! 0),
                                vr_Amount := te_Amount (transfers ! 0)\<rparr> in
         case coin_Amount (vr_Amount result) of
           None \<Rightarrow> Inl (Panic ''nil amount'')
         | Some amount \<Rightarrow>
         (if amount = 0 then Inr result
          else if amount \<le> minAmount then Inr result
          else case Tx_Unmarshal l (txr_Tx txResponse) of
            Inl e \<Rightarrow> Inr result
          | Inr tx \<Rightarrow>
          (let result = result\<lparr>vr_Tx := Some tx, vr_TxValid := True\<rparr> in
           case tx_BodyMemo tx of
             None \<Rightarrow> Inl (Panic ''nil tx body'')
           | Some txMemo \<Rightarrow>
           (case ValidateMemo l cfg txMemo of
              Inl e \<Rightarrow> Inr (result\<lparr>vr_NeedsRefund := True\<rparr>)
            | Inr memo \<Rightarrow>
                let result = result\<lparr>vr_Memo := memo\<rparr> in
                case maxAmount of
                  None \<Rightarrow> Inl (Panic ''nil amount'')
                | Some maxAmount \<Rightarrow>
                    if amount > maxAmount then Inr (result\<lparr>vr_NeedsRefund := True\<rparr>)
                    else Inr result)))))"

section \<open>monitor.go\<close>

text \<open>The decimal form of an amount; a nil \<open>big.Int\<close> prints as \<open><nil>\<close>.\<close>

definition amount_String :: "Coin \<Rightarrow> string" where
  "amount_String c = (case coin_Amount c of None \<Rightarrow> ''<nil>'' | Some a \<Rightarrow> FormatInt a)"

definition CreateMint ::
    "Config \<Rightarrow> nat \<Rightarrow> nat \<Rightarrow> TxResponse \<Rightarrow> ValidateTxResult \<Rightarrow> string \<Rightarrow> string \<Rightarrow> Mint" where
  "CreateMint cfg created updated tx result wpoktAddress vaultAddress = \<lparr>
     m_Id = None,
     m_TransactionHash = Ensure0xPrefix (txr_TxHash tx),
     m_Height = FormatInt (txr_Height tx),
     m_Confirmations = ''0'',
     m_SenderAddress = vr_SenderAddress result,
     m_SenderChainID = pokt_ChainID (cfg_Pocket cfg),
     m_RecipientAddress = ToLower (memo_Address (vr_Memo result)),
     m_RecipientChainID = memo_ChainID (vr_Memo result),
     m_WPOKTAddress = ToLower wpoktAddress,
     m_VaultAddress = ToLower vaultAddress,
     m_Amount = amount_String (vr_Amount result),
     m_Nonce = [],
     m_Memo = Some (vr_Memo result),
     m_CreatedAt = created,
     m_UpdatedAt = updated,
     m_Status = StatusPending,
     m_Data = None,
     m_Signers = [],
     m_Signatures = [],
     m_MintTransactionHash = []\<rparr>"

definition result_memo :: "ValidateTxResult \<Rightarrow> string" where
  "result_memo result = (case vr_Tx result of
       None \<Rightarrow> [] | Some tx \<Rightarrow> (case tx_BodyMemo tx of None \<Rightarrow> [] | Some m \<Rightarrow> m))"

definition CreateInvalidMint ::
    "Config \<Rightarrow> nat \<Rightarrow> nat \<Rightarrow> TxResponse \<Rightarrow> ValidateTxResult \<Rightarrow> string \<Rightarrow> InvalidMint" where
  "CreateInvalidMint cfg created updated tx result vaultAddress = \<lparr>
     im_Id = None,
     im_TransactionHash = Ensure0xPrefix (txr_TxHash tx),
     im_Height = FormatInt (txr_Height tx),
     im_Confirmations = ''0'',
     im_SenderAddress = vr_SenderAddress result,
     im_SenderChainID = pokt_ChainID (cfg_Pocket cfg),
     im_VaultAddress = ToLower vaultAddress,
     im_Amount = amount_String (vr_Amount result),
     im_CreatedAt = created,
     im_UpdatedAt = updated,
     im_Status = StatusPending,
     im_Memo = result_memo result,
     im_ReturnTransactionBody = [],
     im_Signatures = [],
     im_Sequence = None,
     im_ReturnTransactionHash = []\<rparr>"

definition CreateFailedMint ::
    "Config \<Rightarrow> nat \<Rightarrow> nat \<Rightarrow> TxResponse \<Rightarrow> ValidateTxResult \<Rightarrow> string \<Rightarrow> InvalidMint" where
  "CreateFailedMint cfg created updated tx result vaultAddress = \<lparr>
     im_Id = None,
     im_TransactionHash = Ensure0xPrefix (txr_TxHash tx),
     im_Height = FormatInt (txr_Height tx),
     im_Confirmations = ''0'',
     im_SenderAddress = vr_SenderAddress result,
     im_SenderChainID = pokt_ChainID (cfg_Pocket cfg),
     im_VaultAddress = ToLower vaultAddress,
     im_Amount = amount_String (vr_Amount result),
     im_CreatedAt = created,
     im_UpdatedAt = updated,
     im_Status = StatusFailed,
     im_Memo = result_memo result,
     im_ReturnTransactionBody = [],
     im_Signatures = [],
     im_Sequence = None,
     im_ReturnTransactionHash = []\<rparr>"

section \<open>signer.go: status and confirmations\<close>

text \<open>
  The computation shared by \<open>UpdateStatusAndConfirmationsForInvalidMint\<close>,
  \<open>UpdateStatusAndConfirmationsForBurn\<close> and \<open>UpdateStatusAndConfirmationsForMint\<close>, which are
  the same text over three structs: the new status and confirmations from the old ones, the
  recorded height, the current height and the required number of confirmations.
\<close>

definition status_and_confirmations ::
    "string \<Rightarrow> string \<Rightarrow> string \<Rightarrow> int \<Rightarrow> int \<Rightarrow> (string \<times> int) result" where
  "status_and_confirmations status0 confirmations0 height currentHeight required =
     (let confirmations = (case ParseInt confirmations0 of
            None \<Rightarrow> 0 | Some c \<Rightarrow> if c < 0 then 0 else c) in
      if status0 = StatusPending \<or> confirmations = 0 then
        (if required = 0 then Inr (StatusConfirmed, confirmations)
         else case ParseInt height of
             None \<Rightarrow> Inl (Err ''strconv.ParseInt'')
           | Some h \<Rightarrow>
               let confirmations = int64 (currentHeight - h) in
               Inr (if confirmations \<ge> required then StatusConfirmed else StatusPending, confirmations))
      else Inr (status0, confirmations))"

definition UpdateStatusAndConfirmationsForInvalidMint ::
    "Config \<Rightarrow> InvalidMint \<Rightarrow> int \<Rightarrow> InvalidMint result" where
  "UpdateStatusAndConfirmationsForInvalidMint cfg doc currentHeight =
     (case status_and_confirmations (im_Status doc) (im_Confirmations doc) (im_Height doc)
             currentHeight (pokt_Confirmations (cfg_Pocket cfg)) of
        Inl e \<Rightarrow> Inl e
      | Inr (status, confirmations) \<Rightarrow>
          Inr (doc\<lparr>im_Status := status, im_Confirmations := FormatInt confirmations\<rparr>))"

definition UpdateStatusAndConfirmationsForBurn ::
    "Config \<Rightarrow> Burn \<Rightarrow> int \<Rightarrow> Burn result" where
  "UpdateStatusAndConfirmationsForBurn cfg doc blockNumber =
     (case status_and_confirmations (b_Status doc) (b_Confirmations doc) (b_BlockNumber doc)
             blockNumber (eth_Confirmations (cfg_Ethereum cfg)) of
        Inl e \<Rightarrow> Inl e
      | Inr (status, confirmations) \<Rightarrow>
          Inr (doc\<lparr>b_Status := status, b_Confirmations := FormatInt confirmations\<rparr>))"

section \<open>tx.go\<close>

definition SendGasLimit :: int where "SendGasLimit = 200000"

definition NewSendTx ::
    "'t Lib \<Rightarrow> string \<Rightarrow> bytes \<Rightarrow> bytes \<Rightarrow> Coin \<Rightarrow> string \<Rightarrow> Coin \<Rightarrow> string result" where
  "NewSendTx l bech32Prefix fromAddr toAddr amountIncludingFees memo feeAmount =
     (case Coin_Sub l amountIncludingFees feeAmount of
        Inl p \<Rightarrow> Inl p
      | Inr finalAmount \<Rightarrow>
      (case Bech32FromBytes l bech32Prefix fromAddr of
        Inl e \<Rightarrow> Inl (wrap_error ''error converting from address'' e)
      | Inr fromAddress \<Rightarrow>
      (case Bech32FromBytes l bech32Prefix toAddr of
        Inl e \<Rightarrow> Inl (wrap_error ''error converting to address'' e)
      | Inr toAddress \<Rightarrow>
      (case NewCoins l finalAmount of
        Inl p \<Rightarrow> Inl p
      | Inr coins \<Rightarrow>
      (case SetMsgs l (NewTxBuilder l bech32Prefix)
              [\<lparr>send_FromAddress = fromAddress, send_ToAddress = toAddress, send_Amount = coins\<rparr>] of
        Inl e \<Rightarrow> Inl (wrap_error ''error setting msg'' e)
      | Inr refundTx \<Rightarrow>
      (case NewCoins l feeAmount of
        Inl p \<Rightarrow> Inl p
      | Inr fee \<Rightarrow>
      (let refundTx = SetGasLimit l (SetFeeAmount l (SetMemo l refundTx memo) fee) SendGasLimit in
       case TxJSONEncoder l bech32Prefix of
         None \<Rightarrow> Inl (Err ''error getting tx encoder'')
       | Some txEncoder \<Rightarrow>
       (case txEncoder refundTx of
          Inl e \<Rightarrow> Inl (wrap_error ''error encoding tx'' e)
        | Inr txBody \<Rightarrow> Inr txBody))))))))"

definition ParseTxBody :: "'t Lib \<Rightarrow> string \<Rightarrow> string \<Rightarrow> 't result" where
  "ParseTxBody l bech32Prefix txBody =
     (case TxJSONDecoder l bech32Prefix of
        None \<Rightarrow> Inl (Err ''error getting tx decoder'')
      | Some txDecoder \<Rightarrow>
          (case txDecoder txBody of
             Inl e \<Rightarrow> Inl (wrap_error ''error decoding tx'' e)
           | Inr tx \<Rightarrow> Inr tx))"

definition WrapTxBuilder :: "'t Lib \<Rightarrow> string \<Rightarrow> string \<Rightarrow> 't result" where
  "WrapTxBuilder l bech32Prefix txBody =
     (case ParseTxBody l bech32Prefix txBody of
        Inl e \<Rightarrow> Inl (wrap_error ''error parsing tx body'' e)
      | Inr tx \<Rightarrow> WrapTx l tx)"

section \<open>signature.go\<close>

definition SignWithPrivKey ::
    "'t Lib \<Rightarrow> SignerData \<Rightarrow> 't \<Rightarrow> 'w CosmosSigner \<Rightarrow> int \<Rightarrow> ('w, SignatureV2 result) io" where
  "SignWithPrivKey l signerData txBuilder signer accSeq =
     (case GetSignBytes l signerData txBuilder of
        Inl e \<Rightarrow> ret (Inl e)
      | Inr msg \<Rightarrow> do {
          r \<leftarrow> CosmosSign signer msg;
          ret (case r of
              Inl e \<Rightarrow> Inl e
            | Inr signature \<Rightarrow> Inr \<lparr>sv2_PubKey = CosmosPublicKey signer,
                                 sv2_Data = SingleSignatureData signature,
                                 sv2_Sequence = accSeq\<rparr>) })"

definition ValidateSignature ::
    "'t Lib \<Rightarrow> CosmosConfig \<Rightarrow> SignatureV2 \<Rightarrow> int \<Rightarrow> int \<Rightarrow> 't \<Rightarrow> error option" where
  "ValidateSignature l config sig accountNumber sequence txBuilder =
     (case NewAnyWithValue l (sv2_PubKey sig) of
        Some e \<Rightarrow> Some (wrap_error ''error creating any pubkey'' e)
      | None \<Rightarrow>
          let txSignerData = \<lparr>sd_ChainID = pokt_ChainID config, sd_AccountNumber = accountNumber,
                sd_Sequence = sequence, sd_PubKey = sv2_PubKey sig,
                sd_Address = AccAddress_String l (PubKey_Address l (sv2_PubKey sig))\<rparr> in
          if \<not> IsV2AdaptableTx l txBuilder then Some (Err ''expected Tx to be signing.V2AdaptableTx'')
          else case VerifySignature l (sv2_PubKey sig) txSignerData (sv2_Data sig) txBuilder of
            Some e \<Rightarrow> Some (wrap_error ''couldn't verify signature'' e)
          | None \<Rightarrow> None)"

section \<open>Facts: transfers and validation\<close>

text \<open>What a single event contributes, as a specification.\<close>

definition is_vault_transfer :: "'t Lib \<Rightarrow> string \<Rightarrow> string \<Rightarrow> Event \<Rightarrow> TransferEvent \<Rightarrow> bool" where
  "is_vault_transfer l recipient denom event t \<longleftrightarrow>
     EqualFold (ev_Type event) ''transfer'' \<and>
     FindAttributeValue (ev_Attributes event) ''sender'' = Inr (te_Sender t) \<and>
     FindAttributeValue (ev_Attributes event) ''recipient'' = Inr (te_Receiver t) \<and>
     EqualFold (te_Receiver t) recipient \<and>
     (\<exists>a. FindAttributeValue (ev_Attributes event) ''amount'' = Inr a \<and>
          ParseCoinNormalized l a = Inr (te_Amount t)) \<and>
     coin_Denom (te_Amount t) = denom"

lemma ParseTransferEvent_Some:
  "ParseTransferEvent l event recipient denom = Inr (Some t) \<longleftrightarrow>
     is_vault_transfer l recipient denom event t"
  by (cases t) (auto simp: ParseTransferEvent_def is_vault_transfer_def split: sum.splits if_splits)

lemma ParseTransferEvents_loop_Inr:
  "ParseTransferEvents_loop l acc events recipient denom = Inr ts \<longleftrightarrow>
     (\<exists>os. map (\<lambda>e. ParseTransferEvent l e recipient denom) events = map Inr os \<and>
       ts = acc @ concat (map (\<lambda>x. case x of None \<Rightarrow> [] | Some t \<Rightarrow> [t]) os))"
proof (induction events arbitrary: acc)
  case (Cons event events)
  show ?case
  proof (cases "ParseTransferEvent l event recipient denom")
    case (Inl e)
    then show ?thesis by (auto simp: Cons_eq_map_conv)
  next
    case (Inr x)
    show ?thesis
      by (cases x) (auto simp: Inr Cons.IH Cons_eq_map_conv)
  qed
qed auto

lemma ParseTransferEvents_single:
  assumes "ParseTransferEvents l events recipient denom = Inr [t]"
  shows "\<exists>event \<in> set events. is_vault_transfer l recipient denom event t"
proof -
  obtain os where os: "map (\<lambda>e. ParseTransferEvent l e recipient denom) events = map Inr os"
    and t: "[t] = concat (map (\<lambda>x. case x of None \<Rightarrow> [] | Some t \<Rightarrow> [t]) os)"
    using assms by (auto simp: ParseTransferEvents_def ParseTransferEvents_loop_Inr)
  have "Some t \<in> set os"
  proof -
    have "t \<in> set (concat (map (\<lambda>x. case x of None \<Rightarrow> [] | Some t \<Rightarrow> [t]) os))"
      by (simp flip: t)
    then show ?thesis by (auto split: option.splits)
  qed
  then have "Inr (Some t) \<in> set (map (\<lambda>e. ParseTransferEvent l e recipient denom) events)"
    by (simp add: os)
  then show ?thesis by (auto simp flip: ParseTransferEvent_Some)
qed

lemma ValidateMemo_Inr:
  assumes "ValidateMemo l cfg txMemo = Inr memo"
  shows "IsValidEthereumAddress (memo_Address memo)" "\<not> EqualFold (memo_Address memo) ZeroAddress"
    "memo_ChainID memo = eth_ChainID (cfg_Ethereum cfg)" "ParseUint64 l (memo_ChainID memo) \<noteq> None"
  using assms by (auto simp: ValidateMemo_def Let_def split: sum.splits if_splits)

lemmas validate_split = ValidateTxToCosmosMultisig_def Let_def

lemma validate_valid:
  assumes "ValidateTxToCosmosMultisig l cfg tx config minAmount maxAmount = Inr r" "vr_TxValid r"
  shows "txr_Code tx = 0"
    and "\<exists>t a. ParseTransferEvents l (txr_Events tx) (pokt_MultisigAddress config)
            (pokt_CoinDenom config) = Inr [t] \<and> vr_SenderAddress r = te_Sender t \<and>
            vr_Amount r = te_Amount t \<and> coin_Amount (te_Amount t) = Some a \<and> minAmount < a \<and> a \<noteq> 0"
    and "\<exists>x m. vr_Tx r = Some x \<and> Tx_Unmarshal l (txr_Tx tx) = Inr x \<and> tx_BodyMemo x = Some m \<and>
            (vr_NeedsRefund r \<or> ValidateMemo l cfg m = Inr (vr_Memo r))"
    and "\<not> vr_NeedsRefund r \<Longrightarrow> \<exists>a m. coin_Amount (vr_Amount r) = Some a \<and> maxAmount = Some m \<and> a \<le> m"
  using assms
  by (auto simp: validate_split length_Suc_conv split: sum.splits if_splits option.splits)

lemma validate_hash:
  "ValidateTxToCosmosMultisig l cfg tx config minAmount maxAmount = Inr r \<Longrightarrow>
     vr_TxHash r = Ensure0xPrefix (txr_TxHash tx)"
  by (auto simp: validate_split split: sum.splits if_splits option.splits)

section \<open>Facts: status and confirmations\<close>

lemma status_and_confirmations_status:
  assumes "status_and_confirmations s c h cur req = Inr (s', n)"
  shows "s' = s \<or> s' = StatusPending \<or> s' = StatusConfirmed"
  using assms by (auto simp: status_and_confirmations_def Let_def split: option.splits if_splits)

text \<open>A pending document becomes confirmed exactly when it is deep enough.\<close>

lemma status_and_confirmations_confirmed:
  assumes "status_and_confirmations StatusPending c h cur req = Inr (s', n)" "ParseInt h = Some height"
    and "0 < req" "is_int64 (cur - height)"
  shows "n = cur - height" "s' = StatusConfirmed \<longleftrightarrow> height + req \<le> cur"
    "s' = StatusPending \<longleftrightarrow> cur < height + req"
  using assms by (auto simp: status_and_confirmations_def Let_def split: option.splits if_splits)

text \<open>Validation returns when amounts and bodies are there to read.\<close>

lemma ValidateTx_returns:
  assumes coin: "\<And>s c. ParseCoinNormalized l s = Inr c \<Longrightarrow> coin_Amount c \<noteq> None"
    and body: "\<And>bs t. Tx_Unmarshal l bs = Inr t \<Longrightarrow> tx_BodyMemo t \<noteq> None"
    and lim: "maxAmount \<noteq> None"
  shows "\<exists>r. ValidateTxToCosmosMultisig l cfg tx config minAmount maxAmount = Inr r"
proof -
  obtain m where m: "maxAmount = Some m" using lim by auto
  have amount: "coin_Amount (te_Amount (ts ! 0)) \<noteq> None"
    if ts: "ParseTransferEvents l (txr_Events tx) (pokt_MultisigAddress config) (pokt_CoinDenom config) = Inr ts"
      "length ts = 1" for ts
  proof -
    obtain t where "ts = [t]" using ts(2) by (cases ts) auto
    with ParseTransferEvents_single ts(1) coin show ?thesis by (fastforce simp: is_vault_transfer_def)
  qed
  show ?thesis
    unfolding ValidateTxToCosmosMultisig_def m
    using amount body by (fastforce simp: Let_def split: sum.splits option.splits)
qed

end
