(* ===== verification/Eth_Util.thy ===== *)
theory Eth_Util
  imports Cosmos_Util
begin

text \<open>
  Package \<open>eth/util\<close>: the burn document made from a burn event (\<open>monitor.go\<close>), and the signing of
  a mint (\<open>signer.go\<close>): the EIP-712 digest, status and confirmations, and the list of signers kept
  sorted by address.
\<close>

section \<open>monitor.go\<close>

definition CreateBurn :: "'t Lib \<Rightarrow> Config \<Rightarrow> nat \<Rightarrow> nat \<Rightarrow> BurnAndBridge \<Rightarrow> Burn" where
  "CreateBurn l cfg created updated event =
     (let recipientAddress =
            (case Bech32FromBytes l (pokt_Bech32Prefix (cfg_Pocket cfg)) (bb_PoktAddress event) of
               Inl _ \<Rightarrow> [] | Inr s \<Rightarrow> s) in \<lparr>
     b_Id = None,
     b_TransactionHash = ToLower (Hash_String l (bb_TxHash event)),
     b_LogIndex = FormatInt (int64 (bb_LogIndex event)),
     b_BlockNumber = FormatInt (int64 (bb_BlockNumber event)),
     b_Confirmations = ''0'',
     b_SenderAddress = ToLower (Address_Hex l (bb_From event)),
     b_SenderChainID = eth_ChainID (cfg_Ethereum cfg),
     b_RecipientAddress = recipientAddress,
     b_RecipientChainID = pokt_ChainID (cfg_Pocket cfg),
     b_WPOKTAddress = ToLower (Address_Hex l (bb_Address event)),
     b_Amount = FormatInt (bb_Amount event),
     b_CreatedAt = created,
     b_UpdatedAt = updated,
     b_Status = StatusPending,
     b_ReturnTransactionBody = [],
     b_Signatures = [],
     b_Sequence = None,
     b_ReturnTransactionHash = []\<rparr>)"

section \<open>signer.go: the signed digest\<close>

text \<open>The bytes of \<open>fmt.Sprintf("\x19\x01%s%s", domainSeparator, typedDataHash)\<close>.\<close>

definition typed_data_message :: "'t Lib \<Rightarrow> MintControllerMintData \<Rightarrow> (string \<times> string) list" where
  "typed_data_message l mint =
     [(''recipient'', Address_Hex l (md_Recipient mint)),
      (''amount'', FormatInt (md_Amount mint)),
      (''nonce'', FormatInt (md_Nonce mint))]"

definition typed_data_domain :: "'t Lib \<Rightarrow> DomainData \<Rightarrow> TypedDataDomain" where
  "typed_data_domain l domainData = \<lparr>
     tdd_Name = dom_Name domainData,
     tdd_Version = dom_Version domainData,
     tdd_ChainId = int64 (dom_ChainId domainData),
     tdd_VerifyingContract = Address_Hex l (dom_VerifyingContract domainData)\<rparr>"

text \<open>
  The recovery byte is adjusted before the error of \<open>crypto.Sign\<close> is returned: a failed signature
  is empty and reading its byte 64 panics.
\<close>

definition signTypedData ::
    "'t Lib \<Rightarrow> DomainData \<Rightarrow> MintControllerMintData \<Rightarrow> EthKey \<Rightarrow> bytes result" where
  "signTypedData l domainData mint key =
     (case HashStructDomain key (typed_data_domain l domainData) of
        Inl e \<Rightarrow> Inl e
      | Inr domainSeparator \<Rightarrow>
      (case HashStructMessage key (typed_data_message l mint) of
        Inl e \<Rightarrow> Inl e
      | Inr typedDataHash \<Rightarrow>
      (let rawData = [0x19, 0x01] @ domainSeparator @ typedDataHash;
           sighash = Keccak256 key rawData in
       case key_Sign key sighash of
         (signature, err) \<Rightarrow>
           if length signature \<le> 64 then Inl (Panic ''index out of range'')
           else let signature = (if signature ! 64 = 0 \<or> signature ! 64 = 1
                                 then signature[64 := signature ! 64 + 27] else signature) in
           (case err of Some e \<Rightarrow> Inl e | None \<Rightarrow> Inr signature))))"

definition UpdateStatusAndConfirmationsForMint :: "Config \<Rightarrow> Mint \<Rightarrow> int \<Rightarrow> Mint result" where
  "UpdateStatusAndConfirmationsForMint cfg mint poktHeight =
     (case status_and_confirmations (m_Status mint) (m_Confirmations mint) (m_Height mint)
             poktHeight (pokt_Confirmations (cfg_Pocket cfg)) of
        Inl e \<Rightarrow> Inl e
      | Inr (status, confirmations) \<Rightarrow>
          Inr (mint\<lparr>m_Status := status, m_Confirmations := FormatInt confirmations\<rparr>))"

section \<open>signer.go: the list of signers\<close>

text \<open>
  \<open>signers[i]\<close> is paired with \<open>signatures[i]\<close>; indexing past the signatures panics. The pairs are
  sorted by the address read as a number. Go sorts up to twelve elements by insertion, which keeps
  the order of equal keys, as \<open>sort_key\<close> does.
\<close>

definition sort_address :: "'t Lib \<Rightarrow> string \<Rightarrow> nat" where
  "sort_address l s = SetBytes (HexToAddress l s)"

definition sortSignersAndSignatures ::
    "'t Lib \<Rightarrow> string list \<Rightarrow> string list \<Rightarrow> (string list \<times> string list) result" where
  "sortSignersAndSignatures l signers signatures =
     (if length signatures < length signers then Inl (Panic ''index out of range'')
      else let pairs = sort_key (\<lambda>p. sort_address l (fst p)) (zip signers signatures) in
        Inr (map fst pairs, map snd pairs @ drop (length signers) signatures))"

definition SignMint ::
    "'t Lib \<Rightarrow> Mint \<Rightarrow> MintControllerMintData \<Rightarrow> DomainData \<Rightarrow> EthKey \<Rightarrow> int \<Rightarrow> Mint result" where
  "SignMint l mint data domain privateKey signerThreshold =
     (case signTypedData l domain data privateKey of
        Inl e \<Rightarrow> Inl e
      | Inr signature \<Rightarrow>
          let signatureEncoded = ''0x'' @ EncodeToString signature;
              reset = length (m_Signatures mint) \<noteq> length (m_Signers mint) \<or>
                      length (m_Signatures mint) = 0;
              signatures = (if reset then [] else m_Signatures mint) @ [signatureEncoded];
              signers = (if reset then [] else m_Signers mint) @ [ToLower (key_AddressHex privateKey)] in
          (case sortSignersAndSignatures l signers signatures of
             Inl e \<Rightarrow> Inl e
           | Inr (sortedSigners, sortedSignatures) \<Rightarrow>
               let mint = (if int (length sortedSignatures) \<ge> signerThreshold
                           then mint\<lparr>m_Status := StatusSigned\<rparr> else mint) in
               Inr (mint\<lparr>m_Signatures := sortedSignatures, m_Signers := sortedSigners\<rparr>)))"

section \<open>Facts\<close>

lemma sortSignersAndSignatures_equal:
  assumes "length signatures = length signers"
  shows "sortSignersAndSignatures l signers signatures =
     Inr (map fst (sort_key (\<lambda>p. sort_address l (fst p)) (zip signers signatures)),
          map snd (sort_key (\<lambda>p. sort_address l (fst p)) (zip signers signatures)))"
  using assms by (simp add: sortSignersAndSignatures_def Let_def)

text \<open>Sorting keeps every signer with its own signature.\<close>

lemma sortSignersAndSignatures_pairs:
  assumes "length signatures = length signers"
    "sortSignersAndSignatures l signers signatures = Inr (ss, gs)"
  shows "mset (zip ss gs) = mset (zip signers signatures)" "length gs = length ss"
    "sorted (map (sort_address l) ss)" "length ss = length signers"
proof -
  let ?k = "\<lambda>p. sort_address l (fst p)" and ?z = "zip signers signatures"
  have ss: "ss = map fst (sort_key ?k ?z)" and gs: "gs = map snd (sort_key ?k ?z)"
    using assms by (auto simp: sortSignersAndSignatures_equal)
  have "zip ss gs = sort_key ?k ?z" unfolding ss gs by (rule zip_map_fst_snd)
  then show "mset (zip ss gs) = mset ?z" by simp
  show "length gs = length ss" by (simp add: ss gs)
  show "sorted (map (sort_address l) ss)"
    using sorted_sort_key [of ?k ?z] by (simp add: ss comp_def)
  show "length ss = length signers" using assms(1) by (simp add: ss)
qed

lemma signTypedData_recovery:
  assumes "signTypedData l d m k = Inr sig"
  shows "64 < length sig" "sig ! 64 \<noteq> 0" "sig ! 64 \<noteq> 1"
proof -
  have c: "(0 :: byte) + 27 \<noteq> 0" "(0 :: byte) + 27 \<noteq> 1" "(1 :: byte) + 27 \<noteq> 0" "(1 :: byte) + 27 \<noteq> 1"
    by code_simp+
  show "64 < length sig" "sig ! 64 \<noteq> 0" "sig ! 64 \<noteq> 1"
    using assms c
    by (auto simp: signTypedData_def Let_def split: sum.splits prod.splits if_splits option.splits)
qed

lemma SignMint_Inr:
  assumes "SignMint l mint data domain key thr = Inr mint'"
  shows "length (m_Signatures mint') = length (m_Signers mint')"
    "m_Signers mint' \<noteq> []" "sorted (map (sort_address l) (m_Signers mint'))"
    "ToLower (key_AddressHex key) \<in> set (m_Signers mint')"
    "m_Status mint' = (if thr \<le> int (length (m_Signatures mint')) then StatusSigned else m_Status mint)"
    "m_Confirmations mint' = m_Confirmations mint" "m_Id mint' = m_Id mint"
    "m_TransactionHash mint' = m_TransactionHash mint"
proof -
  define reset where "reset \<longleftrightarrow> length (m_Signatures mint) \<noteq> length (m_Signers mint) \<or>
                      length (m_Signatures mint) = 0"
  obtain signature ss gs where
    s: "sortSignersAndSignatures l
          ((if reset then [] else m_Signers mint) @ [ToLower (key_AddressHex key)])
          ((if reset then [] else m_Signatures mint) @ [''0x'' @ EncodeToString signature]) = Inr (ss, gs)"
    and m': "mint' = (if int (length gs) \<ge> thr then mint\<lparr>m_Status := StatusSigned\<rparr> else mint)
                \<lparr>m_Signatures := gs, m_Signers := ss\<rparr>"
    using assms unfolding SignMint_def Let_def reset_def [symmetric]
    by (auto split: sum.splits prod.splits)
  have len: "length ((if reset then [] else m_Signatures mint) @ [''0x'' @ EncodeToString signature])
      = length ((if reset then [] else m_Signers mint) @ [ToLower (key_AddressHex key)])"
    by (simp add: reset_def)
  note p = sortSignersAndSignatures_pairs [OF len s]
  have "(ToLower (key_AddressHex key), ''0x'' @ EncodeToString signature) \<in># mset (zip ss gs)"
    unfolding p(1) using len by (auto simp: zip_append split: if_splits)
  then have "ToLower (key_AddressHex key) \<in> set ss"
    by (auto dest: set_zip_leftD)
  then show "ToLower (key_AddressHex key) \<in> set (m_Signers mint')"
    and "m_Signers mint' \<noteq> []" by (auto simp: m')
  show "length (m_Signatures mint') = length (m_Signers mint')"
    "sorted (map (sort_address l) (m_Signers mint'))"
    "m_Status mint' = (if thr \<le> int (length (m_Signatures mint')) then StatusSigned else m_Status mint)"
    "m_Confirmations mint' = m_Confirmations mint" "m_Id mint' = m_Id mint"
    "m_TransactionHash mint' = m_TransactionHash mint"
    using p by (auto simp: m')
qed

lemma SignMint_pairs:
  assumes "SignMint l mint data domain key thr = Inr mint'"
  shows "\<exists>signature. signTypedData l domain data key = Inr signature \<and>
     mset (zip (m_Signers mint') (m_Signatures mint')) =
       add_mset (ToLower (key_AddressHex key), ''0x'' @ EncodeToString signature)
        (if length (m_Signatures mint) = length (m_Signers mint)
         then mset (zip (m_Signers mint) (m_Signatures mint)) else {#})"
proof -
  define reset where "reset \<longleftrightarrow> length (m_Signatures mint) \<noteq> length (m_Signers mint) \<or>
                      length (m_Signatures mint) = 0"
  obtain signature ss gs where sig: "signTypedData l domain data key = Inr signature"
    and s: "sortSignersAndSignatures l
          ((if reset then [] else m_Signers mint) @ [ToLower (key_AddressHex key)])
          ((if reset then [] else m_Signatures mint) @ [''0x'' @ EncodeToString signature]) = Inr (ss, gs)"
    and m': "mint' = (if int (length gs) \<ge> thr then mint\<lparr>m_Status := StatusSigned\<rparr> else mint)
                \<lparr>m_Signatures := gs, m_Signers := ss\<rparr>"
    using assms unfolding SignMint_def Let_def reset_def [symmetric]
    by (auto split: sum.splits prod.splits)
  have len: "length ((if reset then [] else m_Signatures mint) @ [''0x'' @ EncodeToString signature])
      = length ((if reset then [] else m_Signers mint) @ [ToLower (key_AddressHex key)])"
    by (simp add: reset_def)
  from sig sortSignersAndSignatures_pairs(1) [OF len s] show ?thesis
    by (auto simp: m' reset_def)
qed

end
