(* ===== verification/Service_Context.thy ===== *)
theory Service_Context
  imports Mongo_Reference Eth_Util
begin

text \<open>
  What the services share: the environment in which one validator runs while others work on the
  same documents (locale \<open>validator\<close>), the services they are built into, and the reasoning about
  documents that have been recorded. \<open>ref_env\<close> is a concrete environment for evaluations: the
  reference database and chain clients that give fixed answers.
\<close>

section \<open>Services\<close>

text \<open>
  \<open>app.Service\<close>: the empty service of a disabled component, or a runner with its name and interval
  in milliseconds.
\<close>

datatype 'x Service = EmptyService | RunnerService string 'x int

text \<open>What \<open>app.GetPocketSignerAndMultisig\<close> returns.\<close>

record 'w PocketSigner =
  ps_Signer :: "'w CosmosSigner"
  ps_SignerAddress :: string
  ps_SignerIndex :: int
  ps_Multisig :: PubKey
  ps_MultisigAddress :: string

text \<open>
  The loop over the documents found by a service: lock the document's resource, handle it, unlock.
  A lock that is not obtained or not released makes the result false. \<open>doc.Id\<close> is a pointer to a
  12-byte identifier.
\<close>

definition ObjectID_Hex :: "nat \<Rightarrow> string" where
  "ObjectID_Hex i = EncodeToString (FillBytes 12 i)"

definition resourceId :: "string \<Rightarrow> nat option \<Rightarrow> string result" where
  "resourceId collection i = (case i of
       None \<Rightarrow> Inl (Panic ''nil pointer dereference'')
     | Some n \<Rightarrow> Inr (collection @ ''/'' @ ObjectID_Hex n))"

fun sync_loop ::
    "('w, 't) Env \<Rightarrow> ('d \<Rightarrow> string result) \<Rightarrow> ('d \<Rightarrow> ('w, bool result) io) \<Rightarrow> bool \<Rightarrow> 'd list \<Rightarrow>
      ('w, bool result) io" where
  "sync_loop env resource handle success [] = ret (Inr success)"
| "sync_loop env resource handle success (doc # rest) =
     (case resource doc of
        Inl p \<Rightarrow> ret (Inl p)
      | Inr rid \<Rightarrow> do {
          lk \<leftarrow> XLock (DB env) rid;
          case lk of
            Inl e \<Rightarrow> (if is_panic e then ret (Inl e) else sync_loop env resource handle False rest)
          | Inr lockId \<Rightarrow>
              then_ok (handle doc) (\<lambda>ok. do {
                err \<leftarrow> Unlock (DB env) lockId;
                sync_loop env resource handle (ok \<and> success \<and> err = None) rest }) })"

lemma sync_loop_writes:
  assumes "\<And>r. writes R v (XLock (DB env) r)" "\<And>i. writes R v (Unlock (DB env) i)"
    and "\<And>d. d \<in> set ds \<Longrightarrow> writes R v (handle d)"
  shows "writes R v (sync_loop env resource handle success ds)"
  using assms(3) by (induction ds arbitrary: success) (auto intro!: writes_intros assms(1,2))

section \<open>A validator among others\<close>

locale validator =
  shared_store "DB env" docs thrC thrE
  for env :: "('w, 't) Env" and docs :: "'w \<Rightarrow> store" and thrC thrE :: int +
  assumes rely_now: "writes (store_step thrC thrE) docs (Now env)"
    and rely_cosmos: "writes (store_step thrC thrE) docs (GetLatestBlockHeight (Cosmos env))"
      "writes (store_step thrC thrE) docs (GetTxsSentToAddressAfterHeight (Cosmos env) a h)"
      "writes (store_step thrC thrE) docs (GetAccount (Cosmos env) a)"
      "writes (store_step thrC thrE) docs (BroadcastTx (Cosmos env) bs)"
      "writes (store_step thrC thrE) docs (GetTx (Cosmos env) a)"
    and rely_eth: "writes (store_step thrC thrE) docs (GetBlockNumber (Eth env))"
      "writes (store_step thrC thrE) docs (GetTransactionReceipt (Eth env) a)"
    and rely_wpokt: "writes (store_step thrC thrE) docs (GetUserNonce (WPokt env) bs)"
      "writes (store_step thrC thrE) docs (FilterMinted (WPokt env) i j)"
      "writes (store_step thrC thrE) docs (FilterBurnAndBridge (WPokt env) i j)"
    and rely_mint_controller: "writes (store_step thrC thrE) docs (ValidatorCount (MintCtl env))"
      "writes (store_step thrC thrE) docs (SignerThreshold (MintCtl env))"
      "writes (store_step thrC thrE) docs (Eip712Domain (MintCtl env))"
      "writes (store_step thrC thrE) docs (MaxMintLimit (MintCtl env))"
begin

lemmas rely_clients [writes_intros] = rely_now rely_cosmos rely_eth rely_wpokt rely_mint_controller

lemma writes_sync_loop:
  "(\<And>d. d \<in> set ds \<Longrightarrow> writes (store_step thrC thrE) docs (handle d)) \<Longrightarrow>
     writes (store_step thrC thrE) docs (sync_loop env resource handle success ds)"
  by (rule sync_loop_writes) (intro writes_intros | assumption)+

end

text \<open>
  A validator that works alone: nothing but its own writes changes the documents. The chain clients
  and the clock do not touch them.
\<close>

locale lone_validator =
  document_store "DB env" docs
  for env :: "('w, 't) Env" and docs :: "'w \<Rightarrow> store" +
  assumes quiet_now: "quiet docs (Now env)"
    and quiet_cosmos: "quiet docs (GetLatestBlockHeight (Cosmos env))"
      "quiet docs (GetTxsSentToAddressAfterHeight (Cosmos env) a h)"
      "quiet docs (GetAccount (Cosmos env) a)" "quiet docs (BroadcastTx (Cosmos env) bs)"
      "quiet docs (GetTx (Cosmos env) a)"
    and quiet_eth: "quiet docs (GetBlockNumber (Eth env))"
      "quiet docs (GetTransactionReceipt (Eth env) a)"
    and quiet_wpokt: "quiet docs (GetUserNonce (WPokt env) bs)"
      "quiet docs (FilterMinted (WPokt env) i j)"
      "quiet docs (FilterBurnAndBridge (WPokt env) i j)"
    and quiet_mint_controller: "quiet docs (ValidatorCount (MintCtl env))"
      "quiet docs (SignerThreshold (MintCtl env))" "quiet docs (Eip712Domain (MintCtl env))"
      "quiet docs (MaxMintLimit (MintCtl env))"
begin

lemmas quiet_clients [quiet_intros] = quiet_now quiet_cosmos quiet_eth quiet_wpokt quiet_mint_controller

lemmas quiet_all = quiet_clients quiet_reads

lemma quiet_find_decoded [quiet_intros]: "quiet docs (find_decoded (DB env) dec c q)"
  unfolding find_decoded_def by (intro quiet_intros)

lemma find_decoded_result:
  assumes "run_state (find_decoded (DB env) dec c q) w = (Inr xs, w')"
  shows "docs w' = docs w" "those (map dec (filter (matches q) (docs w c))) = Some xs"
proof -
  obtain r w1 where r: "run_state (FindMany (DB env) c q) w = (r, w1)" by fastforce
  have "w1 = w'" "\<exists>ds. r = Inr ds \<and> those (map dec ds) = Some xs"
    using assms by (auto simp: find_decoded_def run_simps r split: sum.splits option.splits)
  with find_many_law [OF r] show "docs w' = docs w"
    "those (map dec (filter (matches q) (docs w c))) = Some xs" by auto
qed

text \<open>An update that is found to have no document to apply to, and one that leaves a field alone.\<close>

lemma update_unmatched:
  assumes "run_state (UpdateOne (DB env) c q u) w = (Inr i, w')"
  shows "\<exists>d \<in> set (docs w c). matches q d"
  using update_law [OF assms] by (auto simp: update_outcome_def updated_def)

end

sublocale lone_validator \<subseteq> alone: validator env docs thrC thrE for thrC thrE
proof (rule validator.intro)
  show "shared_store (DB env) docs thrC thrE" by (rule shared.shared_store_axioms)
  show "validator_axioms env docs thrC thrE"
    unfolding validator_axioms_def by (intro conjI allI quiet_writes quiet_clients)
qed

context lone_validator
begin

lemma is_validator: "validator env docs thrC thrE"
  by (rule alone.validator_axioms)

lemma is_store: "document_store (DB env) docs"
  by (rule document_store_axioms)

end

text \<open>The values of one field in a collection.\<close>

definition field_in :: "string \<Rightarrow> string \<Rightarrow> store \<Rightarrow> bson option list" where
  "field_in c k st = map (\<lambda>d. map_of d k) (st c)"

context document_store
begin

lemma update_keeps_field:
  assumes "k \<notin> fst ` set u"
  shows "writes (\<lambda>st st'. field_in c k st' = field_in c k st) docs (UpdateOne db c' q u)"
  unfolding writes_def
proof
  fix w
  have "field_in c k st' = field_in c k st" if "updated c' q u st st'" for st st'
    using that apply_set_untouched [OF assms]
    by (auto simp: field_in_def updated_def map_update intro!: list_update_same_conv [THEN iffD2])
  then have "field_in c k (docs (snd (run_state (UpdateOne db c' q u) w))) = field_in c k (docs w)"
    using update_outcome_steps [OF update_law [OF prod.collapse [symmetric]], of c' q u w] by auto
  then show "(\<lambda>st st'. field_in c k st' = field_in c k st)\<^sup>*\<^sup>* (docs w)
      (docs (snd (run_state (UpdateOne db c' q u) w)))" by blast
qed

end

lemma field_in_kept:
  assumes "writes (\<lambda>st st'. field_in c k st' = field_in c k st) docs m"
  shows "field_in c k (docs (snd (run_state m w))) = field_in c k (docs w)"
proof -
  have "field_in c k s' = field_in c k s"
    if "(\<lambda>st st'. field_in c k st' = field_in c k st)\<^sup>*\<^sup>* s s'" for s s'
    using that by (induction rule: rtranclp_induct) auto
  from this [OF writesD [OF assms]] show ?thesis .
qed

section \<open>Recorded documents\<close>

definition recorded :: "string \<Rightarrow> (string \<times> bson) list \<Rightarrow> store \<Rightarrow> bool" where
  "recorded c fs st \<longleftrightarrow> list_ex (\<lambda>d. list_all (\<lambda>(k, v). map_of d k = Some v) fs) (st c)"

definition immutable :: "(string \<times> bson) list \<Rightarrow> bool" where
  "immutable fs \<longleftrightarrow> list_all (\<lambda>(k, v). k \<noteq> ''_id'' \<and> k \<notin> set mutable_fields) fs"

lemma recorded_iff:
  "recorded c fs st \<longleftrightarrow> (\<exists>d \<in> set (st c). \<forall>(k, v) \<in> set fs. map_of d k = Some v)"
  by (auto simp: recorded_def list_ex_iff_set list_all_iff)

text \<open>No step of the protocol loses a recorded document or alters its immutable fields.\<close>

lemma recorded_step:
  assumes "store_step thrC thrE st st'" "c \<in> set tracked_collections" "immutable fs" "recorded c fs st"
  shows "recorded c fs st'"
proof -
  obtain n where n: "n < length (st c)" "\<forall>(k, v) \<in> set fs. map_of (st c ! n) k = Some v"
    using assms(4) by (auto simp: recorded_iff in_set_conv_nth)
  have "\<exists>n' < length (st' c). \<forall>(k, v) \<in> set fs. map_of (st' c ! n') k = Some v"
    using assms(1)
  proof cases
    case (insert c' d)
    then show ?thesis using n by (auto simp: inserted_def nth_append intro!: exI [of _ n])
  next
    case (update c' q u)
    have "map_of (apply_set u d) k = map_of d k" if "(k, v) \<in> set fs" for d k v
      using that assms(3) legal_write_keys [OF update(1)]
      by (intro apply_set_untouched) (auto simp: immutable_def list_all_iff)
    then show ?thesis using n update(2)
      by (auto simp: updated_def nth_list_update split_beta intro!: exI [of _ n])
  next
    case health
    then show ?thesis using n tracked_not_health [OF assms(2)] by auto
  qed
  then obtain n' where "n' < length (st' c)" "\<forall>(k, v) \<in> set fs. map_of (st' c ! n') k = Some v"
    by blast
  then show ?thesis unfolding recorded_iff by (blast intro: nth_mem)
qed

lemma recorded_steps:
  "(store_step thrC thrE)\<^sup>*\<^sup>* st st' \<Longrightarrow> c \<in> set tracked_collections \<Longrightarrow> immutable fs \<Longrightarrow>
     recorded c fs st \<Longrightarrow> recorded c fs st'"
  by (induction rule: rtranclp_induct) (auto intro: recorded_step)

lemma inserted_recorded:
  assumes "inserted c d st st'" "immutable fs" "\<forall>(k, v) \<in> set fs. map_of d k = Some v"
  shows "recorded c fs st'"
proof -
  obtain i where "st' c = st c @ [with_id i d]" using assms(1) by (auto simp: inserted_def)
  moreover have "\<forall>(k, v) \<in> set fs. map_of (with_id i d) k = Some v"
    using assms(2,3) by (fastforce simp: immutable_def list_all_iff)
  ultimately show ?thesis by (auto simp: recorded_iff)
qed

lemma transaction_hash_immutable [simp]: "immutable [(''transaction_hash'', v)]"
  by (simp add: immutable_def mutable_fields_def)

text \<open>A new document is only ever a duplicate of one with the same transaction hash.\<close>

lemma conflict_hash:
  assumes "conflict c ds d" "legal_insert c d" "map_of d ''transaction_hash'' = Some v" "v \<noteq> BNull"
  shows "\<exists>d' \<in> set ds. map_of d' ''transaction_hash'' = Some v"
  using assms(2,1,3,4)
proof (induction rule: legal_insert.induct)
  case (new_mint m)
  then show ?case
    by (auto simp: conflict_def list_ex_iff_set same_key_def index_key_def split: option.splits)
next
  case (new_invalid_mint m)
  then have "map_of (marshal_InvalidMint m) ''sequence'' = Some BNull"
    by (simp add: marshal_InvalidMint_def id_field_def marshal_seq_def)
  then show ?case using new_invalid_mint
    by (auto simp: conflict_def list_ex_iff_set same_key_def index_key_def is_long_def
        split: option.splits)
next
  case (new_burn b)
  then have "map_of (marshal_Burn b) ''sequence'' = Some BNull"
    by (simp add: marshal_Burn_def id_field_def marshal_seq_def)
  then show ?case using new_burn
    by (auto simp: conflict_def list_ex_iff_set same_key_def index_key_def is_long_def
        split: option.splits)
qed

context shared_store
begin

lemma triple_recorded:
  "writes (store_step thrC thrE) docs m \<Longrightarrow> c \<in> set tracked_collections \<Longrightarrow> immutable fs \<Longrightarrow>
     triple docs (recorded c fs) m (\<lambda>_. recorded c fs)"
  by (erule triple_stable) (erule (3) recorded_step)

text \<open>An insert that succeeds or reports a duplicate leaves the transaction recorded.\<close>

lemma triple_insert_recorded:
  assumes "legal_insert c d" "map_of d ''transaction_hash'' = Some v" "v \<noteq> BNull"
  shows "triple docs P (InsertOne db c d)
     (\<lambda>r s. (\<exists>i. r = Inr i) \<or> r = Inl ErrDuplicateKey \<longrightarrow> recorded c [(''transaction_hash'', v)] s)"
proof (rule tripleI, rule impI)
  fix w r w'
  assume run: "run_state (InsertOne db c d) w = (r, w')"
    and r: "(\<exists>i. r = Inr i) \<or> r = Inl ErrDuplicateKey"
  obtain a b where *: "insert_outcome c d r a b" "(store_step thrC thrE)\<^sup>*\<^sup>* b (docs w')"
    using rely_insert [OF run] by blast
  have "recorded c [(''transaction_hash'', v)] b"
    using r
  proof
    assume "\<exists>i. r = Inr i"
    then show ?thesis using * assms(2) by (auto simp: insert_outcome_def intro: inserted_recorded)
  next
    assume "r = Inl ErrDuplicateKey"
    then show ?thesis using * conflict_hash [OF _ assms] by (auto simp: insert_outcome_def recorded_iff)
  qed
  then show "recorded c [(''transaction_hash'', v)] (docs w')"
    using *(2) legal_insert_tracked [OF assms(1)] by (auto intro: recorded_steps)
qed

lemma triple_find_one_recorded:
  assumes "c \<in> set tracked_collections"
  shows "triple docs P (FindOne db c (Fld ''transaction_hash'' (CEq (BStr h))))
     (\<lambda>r s. \<forall>d. r = Inr d \<and> get_str d ''transaction_hash'' \<noteq> None \<longrightarrow>
        recorded c [(''transaction_hash'', BStr h)] s)"
proof (rule tripleI, intro allI impI, elim conjE)
  fix w r w' d
  assume run: "run_state (FindOne db c (Fld ''transaction_hash'' (CEq (BStr h)))) w = (r, w')"
    and r: "r = Inr d" and s: "get_str d ''transaction_hash'' \<noteq> None"
  obtain a where a: "d \<in> set (a c)" "matches (Fld ''transaction_hash'' (CEq (BStr h))) d"
    "(store_step thrC thrE)\<^sup>*\<^sup>* a (docs w')"
    using find_one_found run r by blast
  have "map_of d ''transaction_hash'' = Some (BStr h)"
    using s a(2) by (auto simp: get_str_def field_values_def split: option.splits bson.splits)
  with a(1) have "recorded c [(''transaction_hash'', BStr h)] a" by (auto simp: recorded_iff)
  then show "recorded c [(''transaction_hash'', BStr h)] (docs w')"
    by (rule recorded_steps [OF a(3) assms transaction_hash_immutable])
qed

end

section \<open>A concrete environment\<close>

record answers =
  ans_Height :: "int result"
  ans_Txs :: "TxResponse list result"
  ans_Account :: "BaseAccount result"
  ans_Broadcast :: "string result"
  ans_Tx :: "TxResponse option result"
  ans_Block :: "int result"
  ans_Logs :: "Log list result"
  ans_Nonce :: "int result"
  ans_Minted :: "Minted LogIterator result"
  ans_Burns :: "BurnAndBridge LogIterator result"
  ans_Parse :: "BurnAndBridge result"
  ans_Count :: "int result"
  ans_Threshold :: "int result"
  ans_Domain :: "DomainData result"
  ans_Limit :: "int result"

definition no_answers :: answers where
  "no_answers = (let e = Err ''unavailable'' in \<lparr>ans_Height = Inl e, ans_Txs = Inl e,
     ans_Account = Inl e, ans_Broadcast = Inl e, ans_Tx = Inl e, ans_Block = Inl e, ans_Logs = Inl e,
     ans_Nonce = Inl e, ans_Minted = Inl e, ans_Burns = Inl e, ans_Parse = Inl e, ans_Count = Inl e,
     ans_Threshold = Inl e, ans_Domain = Inl e, ans_Limit = Inl e\<rparr>)"

definition ref_env :: "Config \<Rightarrow> 't Lib \<Rightarrow> answers \<Rightarrow> (ref_world, 't) Env" where
  "ref_env cfg l ans = \<lparr>
     Cfg = cfg, lib = l, DB = ref_db,
     Cosmos = \<lparr>GetLatestBlockHeight = ret (ans_Height ans),
       GetTxsSentToAddressAfterHeight = (\<lambda>_ _. ret (ans_Txs ans)), GetAccount = (\<lambda>_. ret (ans_Account ans)),
       BroadcastTx = (\<lambda>bs. State (\<lambda>w.
         (ans_Broadcast ans, w\<lparr>rw_sent := rw_sent w @ [bs]\<rparr>))), GetTx = (\<lambda>_. ret (ans_Tx ans))\<rparr>,
     Eth = \<lparr>GetBlockNumber = ret (ans_Block ans), GetTransactionReceipt = (\<lambda>_. ret (ans_Logs ans))\<rparr>,
     WPokt = \<lparr>GetUserNonce = (\<lambda>_. ret (ans_Nonce ans)), FilterMinted = (\<lambda>_ _. ret (ans_Minted ans)),
       FilterBurnAndBridge = (\<lambda>_ _. ret (ans_Burns ans)), ParseBurnAndBridge = (\<lambda>_. ans_Parse ans)\<rparr>,
     MintCtl = \<lparr>ValidatorCount = ret (ans_Count ans), SignerThreshold = ret (ans_Threshold ans),
       Eip712Domain = ret (ans_Domain ans), MaxMintLimit = ret (ans_Limit ans)\<rparr>,
     Now = State (\<lambda>w. (rw_clock w, w\<lparr>rw_clock := Suc (rw_clock w)\<rparr>))\<rparr>"

lemma ref_env_simps [simp]:
  "Cfg (ref_env cfg l ans) = cfg" "lib (ref_env cfg l ans) = l" "DB (ref_env cfg l ans) = ref_db"
  by (simp_all add: ref_env_def)

lemma quiet_ref_now: "quiet rw_docs (Now (ref_env cfg l ans))"
  by (auto simp: ref_env_def intro!: quiet_state)

interpretation ref_lone: lone_validator "ref_env cfg l ans" rw_docs
  for cfg l ans
proof (rule lone_validator.intro)
  show "document_store (DB (ref_env cfg l ans)) rw_docs"
    by (simp add: ref_store.document_store_axioms)
  show "lone_validator_axioms (ref_env cfg l ans) rw_docs"
    using quiet_ref_now by unfold_locales (auto simp: ref_env_def quiet_ret intro!: quiet_state)
qed

end
