(* ===== verification/Mint_Monitor.thy ===== *)
theory Mint_Monitor
  imports Service_Context
begin

text \<open>
  \<open>cosmos/monitor.go\<close>: the runner that turns transfers to the vault into mint documents, invalid
  mint documents (to be paid back) or failed mint documents.
\<close>

section \<open>The runner\<close>

definition MintMonitorName :: string where "MintMonitorName = ''MINT MONITOR''"

record MintMonitorRunner =
  mm_wpoktAddress :: string
  mm_vaultAddress :: string
  mm_startHeight :: int
  mm_currentHeight :: int
  mm_minimumAmount :: int
  mm_maximumAmount :: "int option"

definition MintMonitor_Status :: "MintMonitorRunner \<Rightarrow> RunnerStatus" where
  "MintMonitor_Status x = \<lparr>rs_EthBlockNumber = [], rs_PoktHeight = FormatInt (mm_startHeight x)\<rparr>"

definition MintMonitor_UpdateCurrentHeight ::
    "('w, 't) Env \<Rightarrow> MintMonitorRunner \<Rightarrow> ('w, MintMonitorRunner result) io" where
  "MintMonitor_UpdateCurrentHeight env x = do {
     res \<leftarrow> GetLatestBlockHeight (Cosmos env);
     ret (case res of
         Inl e \<Rightarrow> keep_going x e
       | Inr h \<Rightarrow> Inr (x\<lparr>mm_currentHeight := h\<rparr>)) }"

definition MintMonitor_HandleFailedMint ::
    "('w, 't) Env \<Rightarrow> MintMonitorRunner \<Rightarrow> TxResponse option \<Rightarrow> ValidateTxResult option \<Rightarrow>
      ('w, bool result) io" where
  "MintMonitor_HandleFailedMint env x tx result =
     (case (tx, result) of
        (Some tx, Some result) \<Rightarrow> do {
          created \<leftarrow> Now env;
          updated \<leftarrow> Now env;
          let doc = CreateFailedMint (Cfg env) created updated tx result (mm_vaultAddress x);
          r \<leftarrow> InsertOne (DB env) CollectionInvalidMints (marshal_InvalidMint doc);
          ret (case r of
              Inl e \<Rightarrow> if e = ErrDuplicateKey then Inr True else on_error e
            | Inr _ \<Rightarrow> Inr True) }
      | _ \<Rightarrow> ret (Inr False))"

text \<open>
  \<open>FindOne\<close> also decodes the document, so it succeeds when a document is found and well formed.
\<close>

definition found :: "(doc \<Rightarrow> 'a option) \<Rightarrow> doc result \<Rightarrow> bool" where
  "found dec r = (case r of Inl _ \<Rightarrow> False | Inr d \<Rightarrow> dec d \<noteq> None)"

definition MintMonitor_HandleInvalidMint ::
    "('w, 't) Env \<Rightarrow> MintMonitorRunner \<Rightarrow> TxResponse option \<Rightarrow> ValidateTxResult option \<Rightarrow>
      ('w, bool result) io" where
  "MintMonitor_HandleInvalidMint env x tx result =
     (case (tx, result) of
        (Some tx, Some result) \<Rightarrow> do {
          created \<leftarrow> Now env;
          updated \<leftarrow> Now env;
          let doc = CreateInvalidMint (Cfg env) created updated tx result (mm_vaultAddress x);
          exists_mint \<leftarrow> (if pokt_MintDisabled (Pocket env)
             then do {
               r \<leftarrow> FindOne (DB env) CollectionMints
                 (Fld ''transaction_hash'' (CEq (BStr (im_TransactionHash doc))));
               ret (found unmarshal_Mint r) }
             else ret False);
          if exists_mint then ret (Inr True)
          else do {
            r \<leftarrow> InsertOne (DB env) CollectionInvalidMints (marshal_InvalidMint doc);
            ret (case r of
                Inl e \<Rightarrow> if e = ErrDuplicateKey then Inr True else on_error e
              | Inr _ \<Rightarrow> Inr True) } }
      | _ \<Rightarrow> ret (Inr False))"

definition MintMonitor_HandleValidMint ::
    "('w, 't) Env \<Rightarrow> MintMonitorRunner \<Rightarrow> TxResponse option \<Rightarrow> ValidateTxResult option \<Rightarrow>
      ('w, bool result) io" where
  "MintMonitor_HandleValidMint env x tx result =
     (case (tx, result) of
        (Some tx, Some result) \<Rightarrow>
          if pokt_MintDisabled (Pocket env) then ret (Inr True)
          else do {
            created \<leftarrow> Now env;
            updated \<leftarrow> Now env;
            let doc = CreateMint (Cfg env) created updated tx result (mm_wpoktAddress x)
                        (mm_vaultAddress x);
            f \<leftarrow> FindOne (DB env) CollectionInvalidMints
               (Fld ''transaction_hash'' (CEq (BStr (m_TransactionHash doc))));
            if found unmarshal_InvalidMint f then ret (Inr True)
            else do {
              r \<leftarrow> InsertOne (DB env) CollectionMints (marshal_Mint doc);
              ret (case r of
                  Inl e \<Rightarrow> if e = ErrDuplicateKey then Inr True else on_error e
                | Inr _ \<Rightarrow> Inr True) } }
      | _ \<Rightarrow> ret (Inr False))"

text \<open>One iteration of the loop of \<open>SyncTxs\<close>, and the loop.\<close>

definition MintMonitor_HandleTx ::
    "('w, 't) Env \<Rightarrow> MintMonitorRunner \<Rightarrow> TxResponse \<Rightarrow> ('w, bool result) io" where
  "MintMonitor_HandleTx env x txResponse =
     (case ValidateTxToCosmosMultisig (lib env) (Cfg env) txResponse (Pocket env)
             (mm_minimumAmount x) (mm_maximumAmount x) of
        Inl p \<Rightarrow> ret (Inl p)
      | Inr result \<Rightarrow>
          if \<not> vr_TxValid result
          then MintMonitor_HandleFailedMint env x (Some txResponse) (Some result)
          else if vr_NeedsRefund result \<or> pokt_MintDisabled (Pocket env)
          then MintMonitor_HandleInvalidMint env x (Some txResponse) (Some result)
          else MintMonitor_HandleValidMint env x (Some txResponse) (Some result))"

fun MintMonitor_SyncTxs_loop ::
    "('w, 't) Env \<Rightarrow> MintMonitorRunner \<Rightarrow> bool \<Rightarrow> TxResponse list \<Rightarrow> ('w, bool result) io" where
  "MintMonitor_SyncTxs_loop env x success [] = ret (Inr success)"
| "MintMonitor_SyncTxs_loop env x success (tx # txs) =
     then_ok (MintMonitor_HandleTx env x tx)
       (\<lambda>ok. MintMonitor_SyncTxs_loop env x (ok \<and> success) txs)"

definition MintMonitor_SyncTxs ::
    "('w, 't) Env \<Rightarrow> MintMonitorRunner \<Rightarrow> ('w, (bool \<times> MintMonitorRunner) result) io" where
  "MintMonitor_SyncTxs env x =
     (if mm_currentHeight x \<le> mm_startHeight x then ret (Inr (True, x))
      else do {
        r \<leftarrow> GetTxsSentToAddressAfterHeight (Cosmos env) (mm_vaultAddress x)
              (uint64 (mm_startHeight x));
        case r of
          Inl e \<Rightarrow> ret (keep_going (False, x) e)
        | Inr txResponses \<Rightarrow>
            then_ok (MintMonitor_SyncTxs_loop env x True txResponses)
              (\<lambda>success. ret (Inr (success,
                 if success then x\<lparr>mm_startHeight := mm_currentHeight x\<rparr> else x))) })"

definition MintMonitor_Run ::
    "('w, 't) Env \<Rightarrow> MintMonitorRunner \<Rightarrow> ('w, MintMonitorRunner result) io" where
  "MintMonitor_Run env x =
     then_ok (MintMonitor_UpdateCurrentHeight env x)
       (\<lambda>x. then_ok (MintMonitor_SyncTxs env x) (\<lambda>(_, x). ret (Inr x)))"

section \<open>Initialisation\<close>

definition MintMonitor_InitStartHeight ::
    "('w, 't) Env \<Rightarrow> ServiceHealth \<Rightarrow> MintMonitorRunner \<Rightarrow> MintMonitorRunner" where
  "MintMonitor_InitStartHeight env lastHealth x =
     (let startHeight = (if sh_PoktHeight lastHealth \<noteq> [] then
            (case ParseInt (sh_PoktHeight lastHealth) of
               Some lastHeight \<Rightarrow> lastHeight
             | None \<Rightarrow> pokt_StartHeight (Pocket env))
          else pokt_StartHeight (Pocket env)) in
      x\<lparr>mm_startHeight := (if startHeight > 0 then startHeight else mm_currentHeight x)\<rparr>)"

definition MintMonitor_UpdateMaxMintLimit ::
    "('w, 't) Env \<Rightarrow> MintMonitorRunner \<Rightarrow> ('w, MintMonitorRunner result) io" where
  "MintMonitor_UpdateMaxMintLimit env x = do {
     r \<leftarrow> MaxMintLimit (MintCtl env);
     ret (case r of
         Inl e \<Rightarrow> keep_going x e
       | Inr mintLimit \<Rightarrow> Inr (x\<lparr>mm_maximumAmount := Some mintLimit\<rparr>)) }"

text \<open>
  \<open>signer\<close>, \<open>client\<close>, \<open>ethClient\<close> and \<open>contract\<close> are the results of constructing what the runner
  depends on; any error there is fatal. Comparing a limit that could not be fetched panics.
\<close>

definition NewMintMonitor ::
    "('w, 't) Env \<Rightarrow> 'w PocketSigner result \<Rightarrow> error option \<Rightarrow> error option \<Rightarrow> error option \<Rightarrow>
      ServiceHealth \<Rightarrow> ('w, MintMonitorRunner Service result) io" where
  "NewMintMonitor env signer client ethClient contract lastHealth =
     (if \<not> svc_Enabled (cfg_MintMonitor (Cfg env)) then ret (Inr EmptyService)
      else case signer of
        Inl e \<Rightarrow> ret (Inl (Fatal ''Error getting signer and multisig''))
      | Inr ps \<Rightarrow>
      (if client \<noteq> None then ret (Inl (Fatal ''Error creating pokt client''))
       else if ethClient \<noteq> None then ret (Inl (Fatal ''Error initializing ethereum client''))
       else if contract \<noteq> None then ret (Inl (Fatal ''Error initializing Mint Controller contract''))
       else let x = \<lparr>mm_wpoktAddress = ToLower (eth_WrappedPocketAddress (Ethereum env)),
                     mm_vaultAddress = ps_MultisigAddress ps,
                     mm_startHeight = 0, mm_currentHeight = 0,
                     mm_minimumAmount = uint64 (pokt_TxFee (Pocket env)),
                     mm_maximumAmount = None\<rparr> in
         then_ok (MintMonitor_UpdateCurrentHeight env x) (\<lambda>x.
         then_ok (MintMonitor_UpdateMaxMintLimit env (MintMonitor_InitStartHeight env lastHealth x)) (\<lambda>x.
           ret (case mm_maximumAmount x of
              None \<Rightarrow> Inl (Panic ''nil amount'')
            | Some maximumAmount \<Rightarrow>
                if maximumAmount < mm_minimumAmount x then Inl (Fatal ''Invalid max mint limit'')
                else Inr (RunnerService MintMonitorName x
                       (svc_IntervalMillis (cfg_MintMonitor (Cfg env)))))))))"

section \<open>Every write follows the protocol\<close>

lemma legal_failed_mint: "legal_insert CollectionInvalidMints (marshal_InvalidMint
    (CreateFailedMint cfg t u tx r va))"
  by (rule new_invalid_mint) (simp_all add: CreateFailedMint_def)

lemma legal_invalid_mint: "legal_insert CollectionInvalidMints (marshal_InvalidMint
    (CreateInvalidMint cfg t u tx r va))"
  by (rule new_invalid_mint) (simp_all add: CreateInvalidMint_def)

lemma legal_mint: "legal_insert CollectionMints (marshal_Mint (CreateMint cfg t u tx r wa va))"
  by (rule new_mint) (simp_all add: CreateMint_def)

lemma hash_of_new_docs:
  "map_of (marshal_InvalidMint (CreateFailedMint cfg t u tx r va)) ''transaction_hash'' =
     Some (BStr (Ensure0xPrefix (txr_TxHash tx)))"
  "map_of (marshal_InvalidMint (CreateInvalidMint cfg t u tx r va)) ''transaction_hash'' =
     Some (BStr (Ensure0xPrefix (txr_TxHash tx)))"
  "map_of (marshal_Mint (CreateMint cfg t u tx r wa va)) ''transaction_hash'' =
     Some (BStr (Ensure0xPrefix (txr_TxHash tx)))"
  by (simp_all add: marshal_InvalidMint_def marshal_Mint_def CreateFailedMint_def
      CreateInvalidMint_def CreateMint_def id_field_def)

context validator
begin

lemmas writes_new_mints [writes_intros] =
  writes_insert [OF legal_failed_mint] writes_insert [OF legal_invalid_mint]
  writes_insert [OF legal_mint]

lemma writes_HandleTx [writes_intros]:
  "writes (store_step thrC thrE) docs (MintMonitor_HandleTx env x tx)"
  unfolding MintMonitor_HandleTx_def MintMonitor_HandleFailedMint_def
    MintMonitor_HandleInvalidMint_def MintMonitor_HandleValidMint_def Let_def option.case prod.case
  by (intro writes_intros)

lemma writes_SyncTxs_loop [writes_intros]:
  "writes (store_step thrC thrE) docs (MintMonitor_SyncTxs_loop env x success txs)"
  by (induction txs arbitrary: success) (auto intro: writes_intros)

lemma writes_SyncTxs [writes_intros]:
  "writes (store_step thrC thrE) docs (MintMonitor_SyncTxs env x)"
  unfolding MintMonitor_SyncTxs_def by (intro writes_intros)

lemma writes_MintMonitor_Run:
  "writes (store_step thrC thrE) docs (MintMonitor_Run env x)"
  unfolding MintMonitor_Run_def MintMonitor_UpdateCurrentHeight_def by (intro writes_intros)

end

section \<open>No transfer is lost\<close>

text \<open>A transfer has been seen when a mint or an invalid mint is recorded under its hash.\<close>

definition seen :: "string \<Rightarrow> store \<Rightarrow> bool" where
  "seen h st \<longleftrightarrow> recorded CollectionMints [(''transaction_hash'', BStr h)] st \<or>
     recorded CollectionInvalidMints [(''transaction_hash'', BStr h)] st"

lemma seen_step: "store_step thrC thrE st st' \<Longrightarrow> seen h st \<Longrightarrow> seen h st'"
  unfolding seen_def using recorded_step [of thrC thrE st st'] by (auto simp: collection_lists)

lemma found_hash:
  "found unmarshal_Mint r \<Longrightarrow> \<exists>d. r = Inr d \<and> get_str d ''transaction_hash'' \<noteq> None"
  "found unmarshal_InvalidMint r \<Longrightarrow> \<exists>d. r = Inr d \<and> get_str d ''transaction_hash'' \<noteq> None"
  by (auto simp: found_def dest!: unmarshal_Mint_fields(4) unmarshal_InvalidMint_fields(4)
      split: sum.splits)

context validator
begin

lemma triple_now: "triple docs P (Now env) (\<lambda>_ _. True)"
  by (simp add: triple_def)

lemma triple_insert_seen:
  assumes "legal_insert c d" "map_of d ''transaction_hash'' = Some (BStr h)"
    "c \<in> {CollectionMints, CollectionInvalidMints}"
  shows "triple docs P (do { r \<leftarrow> InsertOne (DB env) c d;
     ret (case r of Inl e \<Rightarrow> if e = ErrDuplicateKey then Inr True else on_error e | Inr _ \<Rightarrow> Inr True) })
     (\<lambda>r s. r = Inr True \<longrightarrow> seen h s)"
  using assms(3)
  by (intro triple_bind [OF triple_insert_recorded [OF assms(1,2)]] triple_ret)
     (auto simp: seen_def split: sum.splits if_splits)

lemma triple_HandleTx:
  "triple docs P (MintMonitor_HandleTx env x tx)
     (\<lambda>r s. r = Inr True \<longrightarrow> seen (Ensure0xPrefix (txr_TxHash tx)) s)"
proof (cases "ValidateTxToCosmosMultisig (lib env) (Cfg env) tx (Pocket env)
             (mm_minimumAmount x) (mm_maximumAmount x)")
  case (Inl p)
  then show ?thesis by (auto simp: MintMonitor_HandleTx_def intro: triple_ret)
next
  case (Inr result)
  let ?Q = "\<lambda>r s. r = Inr True \<longrightarrow> seen (Ensure0xPrefix (txr_TxHash tx)) s"
  have "triple docs P (MintMonitor_HandleFailedMint env x (Some tx) (Some result)) ?Q" for P
    unfolding MintMonitor_HandleFailedMint_def option.case prod.case Let_def
    by (intro triple_bind [OF triple_now] triple_insert_seen legal_failed_mint) (simp_all add: hash_of_new_docs)
  moreover have "triple docs P (MintMonitor_HandleInvalidMint env x (Some tx) (Some result)) ?Q" for P
  proof -
    have f: "triple docs P (if pokt_MintDisabled (Pocket env)
             then do { r \<leftarrow> FindOne (DB env) CollectionMints (Fld ''transaction_hash''
                         (CEq (BStr (im_TransactionHash (CreateInvalidMint (Cfg env) t u tx result va)))));
                       ret (found unmarshal_Mint r) }
             else ret False) (\<lambda>b s. b \<longrightarrow> seen (Ensure0xPrefix (txr_TxHash tx)) s)" for P t u va
      by (auto simp: CreateInvalidMint_def seen_def collection_lists dest!: found_hash(1)
          intro!: triple_bind [OF triple_find_one_recorded] triple_ret)
    show ?thesis
      unfolding MintMonitor_HandleInvalidMint_def option.case prod.case Let_def
      by (intro triple_bind [OF triple_now] triple_bind [OF f])
         (auto intro!: triple_insert_seen legal_invalid_mint triple_ret simp: hash_of_new_docs)
  qed
  moreover have "triple docs P (MintMonitor_HandleValidMint env x (Some tx) (Some result)) ?Q"
    if "\<not> pokt_MintDisabled (Pocket env)" for P
  proof -
    have f: "triple docs P (FindOne (DB env) CollectionInvalidMints (Fld ''transaction_hash''
               (CEq (BStr (m_TransactionHash (CreateMint (Cfg env) t u tx result wa va))))))
        (\<lambda>r s. found unmarshal_InvalidMint r \<longrightarrow> seen (Ensure0xPrefix (txr_TxHash tx)) s)" for P t u wa va
      by (rule triple_weaken [OF triple_find_one_recorded])
         (auto simp: CreateMint_def seen_def collection_lists dest!: found_hash(2))
    show ?thesis
      unfolding MintMonitor_HandleValidMint_def option.case prod.case Let_def
      using that
      by (auto intro!: triple_bind [OF triple_now] triple_bind [OF f] triple_insert_seen legal_mint triple_ret
          simp: hash_of_new_docs)
  qed
  ultimately show ?thesis by (simp add: MintMonitor_HandleTx_def Inr)
qed

lemma triple_SyncTxs_loop:
  "triple docs (\<lambda>s. success \<longrightarrow> (\<forall>h \<in> H. seen h s)) (MintMonitor_SyncTxs_loop env x success txs)
     (\<lambda>r s. r = Inr True \<longrightarrow> (\<forall>h \<in> H \<union> (\<lambda>tx. Ensure0xPrefix (txr_TxHash tx)) ` set txs. seen h s))"
proof (induction txs arbitrary: success H)
  case Nil
  show ?case by (auto intro: triple_ret)
next
  case (Cons tx txs)
  let ?h = "Ensure0xPrefix (txr_TxHash tx)"
  have "triple docs (\<lambda>s. success \<longrightarrow> (\<forall>h \<in> H. seen h s)) (MintMonitor_HandleTx env x tx)
      (\<lambda>_ s. success \<longrightarrow> (\<forall>h \<in> H. seen h s))"
    by (rule triple_stable [OF writes_HandleTx]) (auto intro: seen_step)
  from triple_conj [OF this triple_HandleTx, of "\<lambda>_. True"]
  have head: "triple docs (\<lambda>s. success \<longrightarrow> (\<forall>h \<in> H. seen h s)) (MintMonitor_HandleTx env x tx)
      (\<lambda>r s. (success \<longrightarrow> (\<forall>h \<in> H. seen h s)) \<and> (r = Inr True \<longrightarrow> seen ?h s))"
    by simp
  show ?case unfolding MintMonitor_SyncTxs_loop.simps
  proof (rule triple_then_ok [OF head])
    fix ok
    show "triple docs (\<lambda>s. (success \<longrightarrow> (\<forall>h \<in> H. seen h s)) \<and> (Inr ok = (Inr True :: bool result) \<longrightarrow> seen ?h s))
        (MintMonitor_SyncTxs_loop env x (ok \<and> success) txs)
        (\<lambda>r s. r = Inr True \<longrightarrow>
          (\<forall>h \<in> H \<union> (\<lambda>tx. Ensure0xPrefix (txr_TxHash tx)) ` set (tx # txs). seen h s))"
      by (rule triple_weaken [OF Cons.IH [of "ok \<and> success" "insert ?h H"]]) auto
  qed simp
qed

lemma MintMonitor_SyncTxs_complete:
  assumes "run_state (MintMonitor_SyncTxs env x) w = (Inr (ok, x'), w')"
    and "mm_startHeight x' \<noteq> mm_startHeight x"
  shows "\<exists>txs w1. run_state (GetTxsSentToAddressAfterHeight (Cosmos env) (mm_vaultAddress x)
      (uint64 (mm_startHeight x))) w = (Inr txs, w1) \<and>
      (\<forall>tx \<in> set txs. seen (Ensure0xPrefix (txr_TxHash tx)) (docs w')) \<and>
      mm_startHeight x' = mm_currentHeight x \<and> ok"
proof -
  obtain r w1 where q: "run_state (GetTxsSentToAddressAfterHeight (Cosmos env) (mm_vaultAddress x)
      (uint64 (mm_startHeight x))) w = (r, w1)" by fastforce
  from assms obtain txs where r: "r = Inr txs"
    by (auto simp: MintMonitor_SyncTxs_def run_simps q keep_going_def split: if_splits sum.splits)
  from assms have l: "run_state (MintMonitor_SyncTxs_loop env x True txs) w1 = (Inr True, w')"
    and x': "mm_startHeight x' = mm_currentHeight x" "ok"
    by (auto simp: MintMonitor_SyncTxs_def run_simps q r split: if_splits sum.splits prod.splits)
  have "\<forall>h \<in> {} \<union> (\<lambda>tx. Ensure0xPrefix (txr_TxHash tx)) ` set txs. seen h (docs w')"
    using tripleD [OF triple_SyncTxs_loop [where H = "{}"] l] by simp
  with q r x' show ?thesis by auto
qed

end

section \<open>Progress\<close>

text \<open>With a database that inserts, or finds a duplicate, every handler succeeds and so does the loop.\<close>

lemma HandleTx_ok:
  assumes up: "\<And>c d e. can_return (InsertOne (DB env) c d) (Inl e) \<Longrightarrow> e = ErrDuplicateKey"
    and v: "ValidateTxToCosmosMultisig (lib env) (Cfg env) tx (Pocket env) (mm_minimumAmount x) (mm_maximumAmount x) = Inr result"
    and r: "can_return (MintMonitor_HandleTx env x tx) r"
  shows "r = Inr True"
  using r up unfolding MintMonitor_HandleTx_def v MintMonitor_HandleFailedMint_def
    MintMonitor_HandleInvalidMint_def MintMonitor_HandleValidMint_def
  by (auto elim!: can_return_bindE simp: Let_def split: if_splits sum.splits)

lemma SyncTxs_loop_ok:
  assumes "\<And>c d e. can_return (InsertOne (DB env) c d) (Inl e) \<Longrightarrow> e = ErrDuplicateKey"
    and "\<And>tx. \<exists>result. ValidateTxToCosmosMultisig (lib env) (Cfg env) tx (Pocket env)
      (mm_minimumAmount x) (mm_maximumAmount x) = Inr result"
    and "can_return (MintMonitor_SyncTxs_loop env x success txs) r"
  shows "r = Inr success"
  using assms(3)
proof (induction txs arbitrary: success)
  case (Cons tx txs)
  obtain result where v: "ValidateTxToCosmosMultisig (lib env) (Cfg env) tx (Pocket env)
      (mm_minimumAmount x) (mm_maximumAmount x) = Inr result" using assms(2) by blast
  from Cons.prems obtain r1 where r1: "can_return (MintMonitor_HandleTx env x tx) r1"
    "can_return (case r1 of Inl e \<Rightarrow> ret (Inl e)
       | Inr ok \<Rightarrow> MintMonitor_SyncTxs_loop env x (ok \<and> success) txs) r"
    unfolding MintMonitor_SyncTxs_loop.simps then_ok_def by (rule can_return_bindE)
  from HandleTx_ok [OF assms(1) v r1(1)] r1(2) Cons show ?case by simp
qed simp

lemma SyncTxs_ok:
  assumes "\<And>c d e. can_return (InsertOne (DB env) c d) (Inl e) \<Longrightarrow> e = ErrDuplicateKey"
    and "\<And>tx. \<exists>result. ValidateTxToCosmosMultisig (lib env) (Cfg env) tx (Pocket env)
      (mm_minimumAmount x) (mm_maximumAmount x) = Inr result"
    and "run_state (GetTxsSentToAddressAfterHeight (Cosmos env) (mm_vaultAddress x)
      (uint64 (mm_startHeight x))) w = (Inr txs, w1)"
    and "mm_startHeight x < mm_currentHeight x"
  shows "\<exists>w'. run_state (MintMonitor_SyncTxs env x) w = (Inr (True, x\<lparr>mm_startHeight := mm_currentHeight x\<rparr>), w')"
proof -
  obtain r w' where l: "run_state (MintMonitor_SyncTxs_loop env x True txs) w1 = (r, w')" by fastforce
  then have "can_return (MintMonitor_SyncTxs_loop env x True txs) r" by (auto simp: can_return_def intro: exI [of _ w1])
  with assms(1,2) have "r = Inr True" by (rule SyncTxs_loop_ok)
  with l assms(3,4) show ?thesis by (simp add: MintMonitor_SyncTxs_def run_simps)
qed

end
