(* ===== verification/Burn_Sequence.thy ===== *)
theory Burn_Sequence
  imports Service_Context
begin

text \<open>
  \<open>cosmos/sequence.go\<close> and \<open>cosmos/tx_sign.go\<close>: the sequence numbers of the multisig account and
  the signing of an outgoing transfer.
\<close>

section \<open>sequence.go\<close>

text \<open>
  Both functions aggregate the largest \<open>sequence\<close> of the documents of one collection that carry a
  sequence and the vault's address. \<open>None\<close> is a nil pointer: no sequence.
\<close>

definition resultMaxSequence :: "doc \<Rightarrow> 64 word option" where
  "resultMaxSequence d = (case map_of d ''max_sequence'' of
       None \<Rightarrow> Some 0 | Some BNull \<Rightarrow> Some 0
     | Some (BInt i) \<Rightarrow> if 0 \<le> i then Some (word_of_int i) else None | Some _ \<Rightarrow> None)"

definition sequence_pipeline :: "string \<Rightarrow> stage list" where
  "sequence_pipeline multisigAddress =
     [SMatch (QAnd [Fld ''sequence'' (CNe BNull), Fld ''vault_address'' (CEq (BStr multisigAddress))]),
      SGroupMax ''max_sequence'' ''sequence'']"

definition findMaxSequenceFromInvalidMints ::
    "('w, 't) Env \<Rightarrow> ('w, 64 word option result) io" where
  "findMaxSequenceFromInvalidMints env = do {
     r \<leftarrow> AggregateOne (DB env) CollectionInvalidMints
            (sequence_pipeline (pokt_MultisigAddress (Pocket env)));
     ret (case r of
         Inl e \<Rightarrow> if e = ErrNoDocuments then Inr None else Inl e
       | Inr d \<Rightarrow> (case resultMaxSequence d of
             None \<Rightarrow> Inl (Err ''error decoding max_sequence'') | Some s \<Rightarrow> Inr (Some s))) }"

definition findMaxSequenceFromBurns ::
    "('w, 't) Env \<Rightarrow> ('w, 64 word option result) io" where
  "findMaxSequenceFromBurns env = do {
     r \<leftarrow> AggregateOne (DB env) CollectionBurns
            (sequence_pipeline (pokt_MultisigAddress (Pocket env)));
     ret (case r of
         Inl e \<Rightarrow> if e = ErrNoDocuments then Inr None else Inl e
       | Inr d \<Rightarrow> (case resultMaxSequence d of
             None \<Rightarrow> Inl (Err ''error decoding max_sequence'') | Some s \<Rightarrow> Inr (Some s))) }"

definition findMaxSequence :: "('w, 't) Env \<Rightarrow> ('w, 64 word option result) io" where
  "findMaxSequence env =
     then_ok (findMaxSequenceFromInvalidMints env) (\<lambda>maxSequenceInvalidMints.
     then_ok (findMaxSequenceFromBurns env) (\<lambda>maxSequenceBurns.
       ret (Inr (case (maxSequenceInvalidMints, maxSequenceBurns) of
           (None, None) \<Rightarrow> None
         | (None, Some b) \<Rightarrow> Some b
         | (Some m, None) \<Rightarrow> Some m
         | (Some m, Some b) \<Rightarrow> if m > b then Some m else Some b))))"

definition sequenceResourseID :: string where "sequenceResourseID = ''comsos_sequence''"

definition LockReadSequences :: "('w, 't) Env \<Rightarrow> ('w, string result) io" where
  "LockReadSequences env = SLock (DB env) sequenceResourseID"

definition LockWriteSequence :: "('w, 't) Env \<Rightarrow> ('w, string result) io" where
  "LockWriteSequence env = XLock (DB env) sequenceResourseID"

section \<open>tx\_sign.go\<close>

definition isTxSigner :: "bytes \<Rightarrow> bytes list \<Rightarrow> bool" where
  "isTxSigner user signers = list_ex (\<lambda>s. user = s) signers"

text \<open>The first loop of \<open>SignTx\<close>: an unparsable signer is an error, one's own address too.\<close>

fun SignTx_check :: "bytes \<Rightarrow> Signature list \<Rightarrow> error option" where
  "SignTx_check me [] = None"
| "SignTx_check me (sig # sigs) =
     (case BytesFromAddressHex (sig_Signer sig) of
        Inl e \<Rightarrow> Some (wrap_error ''error parsing signer'' e)
      | Inr signerAddr \<Rightarrow> if signerAddr = me then Some ErrAlreadySigned else SignTx_check me sigs)"

text \<open>The last loop: a signature that is not a single one makes the type assertion panic.\<close>

fun SignTx_final :: "'t Lib \<Rightarrow> Signature list \<Rightarrow> SignatureV2 list \<Rightarrow> Signature list result" where
  "SignTx_final l finalSignatures [] = Inr finalSignatures"
| "SignTx_final l finalSignatures (sig # sigs) =
     (case sv2_Data sig of
        MultiSignatureData _ \<Rightarrow> Inl (Panic ''interface conversion'')
      | SingleSignatureData signature \<Rightarrow>
          SignTx_final l (finalSignatures @
            [\<lparr>sig_Signer = (case AddressHexFromBytes (PubKey_Address l (sv2_PubKey sig)) of
                              Inl _ \<Rightarrow> [] | Inr s \<Rightarrow> s),
              sig_Signature = HexFromBytes signature\<rparr>]) sigs)"

text \<open>The transaction body: the given one, or a new transfer from the multisig account.\<close>

definition SignTx_body ::
    "'t Lib \<Rightarrow> CosmosConfig \<Rightarrow> bytes \<Rightarrow> string \<Rightarrow> bytes \<Rightarrow> Coin \<Rightarrow> string \<Rightarrow> string result" where
  "SignTx_body l config multisigAddressBytes transactionBody toAddress amount memo =
     (if transactionBody = [] then
        (case NewCoin l (pokt_CoinDenom config) (uint64 (pokt_TxFee config)) of
           Inl p \<Rightarrow> Inl p
         | Inr fee \<Rightarrow>
             (case NewSendTx l (pokt_Bech32Prefix config) multisigAddressBytes toAddress amount memo fee of
                Inl e \<Rightarrow> Inl (wrap_error ''error creating tx body'' e)
              | Inr txBody \<Rightarrow> Inr txBody))
      else Inr transactionBody)"

text \<open>
  From the wrapped transaction on: sign, append to the signatures already in the transaction (when
  the document has any), and encode.
\<close>

definition SignTx_append ::
    "'t Lib \<Rightarrow> CosmosConfig \<Rightarrow> Signature list \<Rightarrow> 't \<Rightarrow> SignatureV2 \<Rightarrow>
      (string \<times> Signature list) result" where
  "SignTx_append l config signatures txBuilder sigV2 =
     (case (if length signatures > 0 then GetSignaturesV2 l txBuilder else Inr []) of
        Inl e \<Rightarrow> Inl (wrap_error ''error getting signatures'' e)
      | Inr sigV2s \<Rightarrow>
      (let sigV2s = sigV2s @ [sigV2] in
       case SetSignatures l txBuilder sigV2s of
         Inl e \<Rightarrow> Inl (wrap_error ''error setting signatures'' e)
       | Inr txBuilder \<Rightarrow>
       (case TxJSONEncoder l (pokt_Bech32Prefix config) of
          None \<Rightarrow> Inl (Panic ''nil encoder'')
        | Some encoder \<Rightarrow>
        (case encoder txBuilder of
           Inl e \<Rightarrow> Inl (wrap_error ''error encoding tx'' e)
         | Inr txBody \<Rightarrow>
         (case SignTx_final l [] sigV2s of
            Inl p \<Rightarrow> Inl p
          | Inr finalSignatures \<Rightarrow> Inr (txBody, finalSignatures))))))"

definition SignTx ::
    "('w, 't) Env \<Rightarrow> 'w CosmosSigner \<Rightarrow> CosmosConfig \<Rightarrow> int \<Rightarrow> Signature list \<Rightarrow> string \<Rightarrow> bytes \<Rightarrow>
      Coin \<Rightarrow> string \<Rightarrow> ('w, (string \<times> Signature list) result) io" where
  "SignTx env signer config sequence signatures transactionBody toAddress amount memo =
     (let l = lib env; me = PubKey_Address l (CosmosPublicKey signer) in
      case SignTx_check me signatures of
        Some e \<Rightarrow> ret (Inl e)
      | None \<Rightarrow>
      (case AddressBytesFromBech32 l (pokt_Bech32Prefix config) (pokt_MultisigAddress config) of
        Inl e \<Rightarrow> ret (Inl (wrap_error ''error parsing multisig address'' e))
      | Inr multisigAddressBytes \<Rightarrow>
      (case SignTx_body l config multisigAddressBytes transactionBody toAddress amount memo of
        Inl e \<Rightarrow> ret (Inl e)
      | Inr transactionBody \<Rightarrow>
      (case WrapTxBuilder l (pokt_Bech32Prefix config) transactionBody of
        Inl e \<Rightarrow> ret (Inl (wrap_error ''error wrapping tx builder'' e))
      | Inr txBuilder \<Rightarrow>
      (case GetSigners l txBuilder of
        Inl e \<Rightarrow> ret (Inl (wrap_error ''error getting signers'' e))
      | Inr signers \<Rightarrow>
      (if \<not> isTxSigner multisigAddressBytes signers then ret (Inl (Err ''multisig is not a signer''))
       else do {
         acc \<leftarrow> GetAccount (Cosmos env) (pokt_MultisigAddress config);
         case acc of
           Inl e \<Rightarrow> ret (Inl (wrap_error ''error getting account'' e))
         | Inr account \<Rightarrow> do {
             let signerData = \<lparr>sd_ChainID = pokt_ChainID config,
                   sd_AccountNumber = uint (acc_AccountNumber account), sd_Sequence = sequence,
                   sd_PubKey = CosmosPublicKey signer, sd_Address = AccAddress_String l me\<rparr>;
             s \<leftarrow> SignWithPrivKey l signerData txBuilder signer sequence;
             ret (case s of
                 Inl e \<Rightarrow> Inl (wrap_error ''error signing tx'' e)
               | Inr sigV2 \<Rightarrow> SignTx_append l config signatures txBuilder sigV2) } }))))))"

section \<open>Facts\<close>

lemma SignTx_check_None:
  "SignTx_check me sigs = None \<longleftrightarrow>
     (\<forall>s \<in> set sigs. \<exists>a. BytesFromAddressHex (sig_Signer s) = Inr a \<and> a \<noteq> me)"
  by (induction sigs) (auto split: sum.splits)

lemma SignTx_final_Inr:
  assumes "SignTx_final l acc sigs = Inr gs"
  shows "\<exists>hs. gs = acc @ hs \<and> length hs = length sigs \<and>
     (\<forall>i < length sigs. \<exists>signature. sv2_Data (sigs ! i) = SingleSignatureData signature \<and>
        sig_Signature (hs ! i) = HexFromBytes signature \<and>
        (\<forall>a. AddressHexFromBytes (PubKey_Address l (sv2_PubKey (sigs ! i))) = Inr a \<longrightarrow>
           sig_Signer (hs ! i) = a))"
  using assms
proof (induction sigs arbitrary: acc)
  case (Cons sig sigs)
  then obtain signature where sig: "sv2_Data sig = SingleSignatureData signature"
    by (auto split: SignatureData.splits)
  let ?h = "\<lparr>sig_Signer = (case AddressHexFromBytes (PubKey_Address l (sv2_PubKey sig)) of
                              Inl _ \<Rightarrow> [] | Inr s \<Rightarrow> s), sig_Signature = HexFromBytes signature\<rparr>"
  from Cons.prems sig have "SignTx_final l (acc @ [?h]) sigs = Inr gs" by simp
  from Cons.IH [OF this] obtain hs where hs: "gs = (acc @ [?h]) @ hs" "length hs = length sigs"
    "\<forall>i < length sigs. \<exists>signature. sv2_Data (sigs ! i) = SingleSignatureData signature \<and>
        sig_Signature (hs ! i) = HexFromBytes signature \<and>
        (\<forall>a. AddressHexFromBytes (PubKey_Address l (sv2_PubKey (sigs ! i))) = Inr a \<longrightarrow>
           sig_Signer (hs ! i) = a)" by blast
  show ?case
    by (rule exI [of _ "?h # hs"]) (use hs sig in \<open>auto simp: nth_Cons split: nat.splits\<close>)
qed simp

lemma SignTx_final_append:
  "SignTx_final l acc (xs @ ys) =
     (case SignTx_final l acc xs of Inl e \<Rightarrow> Inl e | Inr hs \<Rightarrow> SignTx_final l hs ys)"
  by (induction xs arbitrary: acc) (simp_all split: SignatureData.splits)

lemma SignTx_append_Inr:
  assumes "SignTx_append l config signatures tb sigV2 = Inr (body, gs)"
  obtains old where "signatures = [] \<longrightarrow> old = []"
    "signatures \<noteq> [] \<longrightarrow> GetSignaturesV2 l tb = Inr old"
    "SignTx_final l [] (old @ [sigV2]) = Inr gs"
proof -
  obtain old where old: "(if length signatures > 0 then GetSignaturesV2 l tb else Inr []) = Inr old"
    using assms by (auto simp: SignTx_append_def split: sum.splits)
  with assms have "SignTx_final l [] (old @ [sigV2]) = Inr gs"
    by (auto simp: SignTx_append_def Let_def simp del: SignTx_final.simps
        split: sum.splits option.splits)
  with old show thesis by (intro that [of old]) (auto split: if_splits)
qed

lemma SignTx_check_can_return:
  assumes "can_return (SignTx env signer config n sigs body rcpt amount memo) (Inr r)"
  shows "SignTx_check (PubKey_Address (lib env) (CosmosPublicKey signer)) sigs = None"
  using assms by (auto simp: SignTx_def Let_def split: option.splits)

text \<open>A transaction that comes out of \<open>SignTx\<close> carries this validator's signature last.\<close>

lemma SignTx_signs:
  assumes "can_return (SignTx env signer config n sigs body rcpt amount memo) (Inr (body', gs))"
  obtains hs signature where "gs = hs @ [\<lparr>sig_Signer =
        (case AddressHexFromBytes (PubKey_Address (lib env) (CosmosPublicKey signer)) of
           Inl _ \<Rightarrow> [] | Inr s \<Rightarrow> s), sig_Signature = HexFromBytes signature\<rparr>]"
    "sigs = [] \<longrightarrow> hs = []"
proof -
  obtain tb sigV2 signature where tb: "SignTx_append (lib env) config sigs tb sigV2 = Inr (body', gs)"
    and sig: "sv2_PubKey sigV2 = CosmosPublicKey signer" "sv2_Data sigV2 = SingleSignatureData signature"
    using assms
    by (auto simp: SignTx_def SignWithPrivKey_def Let_def elim!: can_return_bindE
        split: option.splits sum.splits if_splits)
  obtain old where old: "sigs = [] \<longrightarrow> old = []" "SignTx_final (lib env) [] (old @ [sigV2]) = Inr gs"
    using SignTx_append_Inr [OF tb] by metis
  obtain hs where hs: "SignTx_final (lib env) [] old = Inr hs" "SignTx_final (lib env) hs [sigV2] = Inr gs"
    using old(2) by (auto simp: SignTx_final_append simp del: SignTx_final.simps split: sum.splits)
  show thesis
    by (rule that [of hs signature]) (use hs sig old(1) in auto)
qed

section \<open>Fresh sequence numbers\<close>

text \<open>Sequence numbers are stored as BSON \<open>int64\<close> values.\<close>

definition int64_sequences :: "store \<Rightarrow> bool" where
  "int64_sequences st \<longleftrightarrow> (\<forall>c \<in> set return_collections. \<forall>d \<in> set (st c). \<forall>n.
     map_of d ''sequence'' = Some (BInt n) \<longrightarrow> 0 \<le> n \<and> n < 2 ^ 63)"

lemma foldl_max: "x \<in> set xs \<or> x = a \<Longrightarrow> x \<le> foldl max (a::int) xs" "foldl max a xs \<in> set (a # xs)"
proof -
  have "a \<le> foldl max a xs \<and> (\<forall>x \<in> set xs. x \<le> foldl max a xs)" for a :: int and xs
  proof (induction xs arbitrary: a)
    case (Cons y ys)
    from Cons [of "max a y"] show ?case by auto
  qed simp
  then show "x \<in> set xs \<or> x = a \<Longrightarrow> x \<le> foldl max a xs" by blast
  show "foldl max a xs \<in> set (a # xs)"
    by (induction xs arbitrary: a) (fastforce simp: max_def)+
qed

definition ints_at :: "string \<Rightarrow> doc list \<Rightarrow> int list" where
  "ints_at k ds = concat (map (\<lambda>d. case map_of d k of Some (BInt i) \<Rightarrow> [i] | _ \<Rightarrow> []) ds)"

lemma ints_at_iff: "n \<in> set (ints_at k ds) \<longleftrightarrow> (\<exists>d \<in> set ds. map_of d k = Some (BInt n))"
  by (auto simp: ints_at_def split: option.splits bson.splits) (metis bson.exhaust option.exhaust)+

lemma group_max_cases:
  "(ints_at k ds = [] \<and> group_max k ds = BNull) \<or>
     (\<exists>m. group_max k ds = BInt m \<and> m \<in> set (ints_at k ds) \<and> (\<forall>n \<in> set (ints_at k ds). n \<le> m))"
proof -
  have g: "group_max k ds = (case ints_at k ds of [] \<Rightarrow> BNull | i # is \<Rightarrow> BInt (foldl max i is))"
    unfolding group_max_def ints_at_def ..
  show ?thesis
  proof (cases "ints_at k ds")
    case Nil
    then show ?thesis by (simp add: g)
  next
    case (Cons i ns)
    then have "group_max k ds = BInt (foldl max i ns)" by (simp add: g)
    with Cons foldl_max(1) [of _ ns i] foldl_max(2) [of i ns] show ?thesis by auto
  qed
qed

lemma sequence_pipeline_run:
  "run_pipeline (sequence_pipeline a) ds =
     (let ms = filter (matches (QAnd [Fld ''sequence'' (CNe BNull), Fld ''vault_address'' (CEq (BStr a))])) ds
      in if ms = [] then [] else [[(''_id'', BNull), (''max_sequence'', group_max ''sequence'' ms)]])"
  by (simp add: sequence_pipeline_def Let_def)

text \<open>The sequences of one collection that count for the vault.\<close>

definition vault_sequence :: "string \<Rightarrow> doc list \<Rightarrow> int \<Rightarrow> bool" where
  "vault_sequence a ds n \<longleftrightarrow> (\<exists>d \<in> set ds. map_of d ''sequence'' = Some (BInt n) \<and>
     map_of d ''vault_address'' = Some (BStr a))"

lemma vault_sequence_matches:
  "vault_sequence a ds n \<Longrightarrow> n \<in> set (ints_at ''sequence''
     (filter (matches (QAnd [Fld ''sequence'' (CNe BNull), Fld ''vault_address'' (CEq (BStr a))])) ds))"
  unfolding ints_at_iff by (auto simp: vault_sequence_def field_values_def intro!: bexI)

text \<open>What the aggregation of one collection returns, for both collections.\<close>

lemma max_sequence_bound:
  assumes "run_pipeline (sequence_pipeline a) ds = [d]" "resultMaxSequence d = Some m"
    and "\<And>n. n \<in> set (ints_at ''sequence'' ds) \<Longrightarrow> 0 \<le> n \<and> n < 2 ^ 63"
  shows "uint m < 2 ^ 63" "vault_sequence a ds n \<Longrightarrow> n \<le> uint m"
proof -
  define ms where "ms = filter (matches (QAnd [Fld ''sequence'' (CNe BNull),
      Fld ''vault_address'' (CEq (BStr a))])) ds"
  have d: "d = [(''_id'', BNull), (''max_sequence'', group_max ''sequence'' ms)]"
    using assms(1) unfolding sequence_pipeline_run Let_def ms_def [symmetric] by (auto split: if_splits)
  have sub: "n \<in> set (ints_at ''sequence'' ms) \<Longrightarrow> 0 \<le> n \<and> n < 2 ^ 63" for n
    using assms(3) by (auto simp: ints_at_iff ms_def)
  have "uint m < 2 ^ 63 \<and> (\<forall>n \<in> set (ints_at ''sequence'' ms). n \<le> uint m)"
    using group_max_cases [of "''sequence''" ms]
  proof (elim disjE conjE exE)
    assume "ints_at ''sequence'' ms = []" "group_max ''sequence'' ms = BNull"
    then show ?thesis using assms(2) by (simp add: d resultMaxSequence_def)
  next
    fix k assume k: "group_max ''sequence'' ms = BInt k" "k \<in> set (ints_at ''sequence'' ms)"
      "\<forall>n \<in> set (ints_at ''sequence'' ms). n \<le> k"
    then have "m = word_of_int k" using assms(2) sub by (simp add: d resultMaxSequence_def)
    moreover have "uint (word_of_int k :: 64 word) = k"
      using sub [OF k(2)] by (simp add: uint_word_of_int)
    ultimately show ?thesis using k sub by auto
  qed
  then show "uint m < 2 ^ 63" "vault_sequence a ds n \<Longrightarrow> n \<le> uint m"
    using vault_sequence_matches by (auto simp: ms_def)
qed

lemma no_vault_address_pipeline:
  assumes "\<forall>d \<in> set ds. map_of d ''vault_address'' = None"
  shows "run_pipeline (sequence_pipeline a) ds = []"
  using assms by (auto simp: sequence_pipeline_run Let_def filter_empty_conv field_values_def)

text \<open>The bound that one collection's maximum gives, \<open>None\<close> meaning that there is no sequence.\<close>

definition bounds_sequences :: "string \<Rightarrow> doc list \<Rightarrow> 64 word option \<Rightarrow> bool" where
  "bounds_sequences a ds m \<longleftrightarrow> (case m of
       None \<Rightarrow> \<forall>n. \<not> vault_sequence a ds n
     | Some s \<Rightarrow> uint s < 2 ^ 63 \<and> (\<forall>n. vault_sequence a ds n \<longrightarrow> n \<le> uint s))"

lemma no_sequence_pipeline:
  "run_pipeline (sequence_pipeline a) ds = [] \<Longrightarrow> \<not> vault_sequence a ds n"
  by (auto dest!: vault_sequence_matches simp: sequence_pipeline_run Let_def ints_at_iff split: if_splits)

context exact_document_store
begin

lemma max_of_collection:
  assumes "run_state (AggregateOne db c (sequence_pipeline a)) w = (r, w')"
    and "(case r of Inl e \<Rightarrow> if e = ErrNoDocuments then Inr None else Inl e
       | Inr d \<Rightarrow> (case resultMaxSequence d of
             None \<Rightarrow> Inl (Err ''error decoding max_sequence'') | Some s \<Rightarrow> Inr (Some s))) = Inr m"
    and "c \<in> set return_collections" "int64_sequences (docs w)"
  shows "docs w' = docs w" "bounds_sequences a (docs w c) m"
proof -
  show "docs w' = docs w" using aggregate_law [OF assms(1)] by blast
  have ints: "n \<in> set (ints_at ''sequence'' (docs w c)) \<Longrightarrow> 0 \<le> n \<and> n < 2 ^ 63" for n
    using assms(3,4) by (auto simp: ints_at_iff int64_sequences_def)
  show "bounds_sequences a (docs w c) m"
  proof (cases r)
    case (Inl e)
    with assms(2) have "e = ErrNoDocuments" "m = None" by (auto split: if_splits)
    with Inl assms(1) aggregate_none no_sequence_pipeline show ?thesis
      by (auto simp: bounds_sequences_def)
  next
    case (Inr d)
    then have "run_pipeline (sequence_pipeline a) (docs w c) = [d]"
      using aggregate_law [OF assms(1)] by blast
    moreover obtain s where "resultMaxSequence d = Some s" "m = Some s"
      using assms(2) by (auto simp: Inr split: option.splits)
    ultimately show ?thesis
      using max_sequence_bound [OF _ _ ints] by (simp add: bounds_sequences_def)
  qed
qed

end

lemma word_Suc_less:
  fixes m s :: "64 word"
  assumes "uint m < 2 ^ 63" "n \<le> uint m" "m + 1 \<le> s"
  shows "n < uint s"
proof -
  have "uint (m + 1) = uint m + 1"
    using assms(1) by (simp add: uint_word_ariths)
  then show ?thesis using assms(2,3) by (simp add: word_le_def)
qed

end
