(* ===== verification/Burn_Signer.thy ===== *)
theory Burn_Signer
  imports Burn_Sequence
begin

text \<open>
  \<open>cosmos/signer.go\<close>: the runner that signs the transfers paying back invalid mints and paying out
  burns.
\<close>

section \<open>The runner\<close>

definition BurnSignerName :: string where "BurnSignerName = ''BURN SIGNER''"

record 'w BurnSignerRunner =
  bs_signer :: "'w PocketSigner"
  bs_cosmosHeight :: int
  bs_ethBlockNumber :: int
  bs_vaultAddress :: string
  bs_wpoktAddress :: string
  bs_minimumAmount :: int
  bs_maximumAmount :: "int option"

definition BurnSigner_Status :: "'w BurnSignerRunner \<Rightarrow> RunnerStatus" where
  "BurnSigner_Status x = \<lparr>rs_EthBlockNumber = FormatInt (bs_ethBlockNumber x),
     rs_PoktHeight = FormatInt (bs_cosmosHeight x)\<rparr>"

definition BurnSigner_UpdateBlocks ::
    "('w, 't) Env \<Rightarrow> 'w BurnSignerRunner \<Rightarrow> ('w, 'w BurnSignerRunner result) io" where
  "BurnSigner_UpdateBlocks env x = do {
     r \<leftarrow> GetLatestBlockHeight (Cosmos env);
     case r of
       Inl e \<Rightarrow> ret (keep_going x e)
     | Inr poktHeight \<Rightarrow> do {
         let x = x\<lparr>bs_cosmosHeight := poktHeight\<rparr>;
         b \<leftarrow> GetBlockNumber (Eth env);
         ret (case b of
             Inl e \<Rightarrow> keep_going x e
           | Inr ethBlockNumber \<Rightarrow> Inr (x\<lparr>bs_ethBlockNumber := int64 ethBlockNumber\<rparr>)) } }"

section \<open>Validation\<close>

text \<open>The checks on the validated transaction, after it has been fetched.\<close>

definition BurnSigner_CheckInvalidMint ::
    "('w, 't) Env \<Rightarrow> ValidateTxResult \<Rightarrow> InvalidMint \<Rightarrow> bool result" where
  "BurnSigner_CheckInvalidMint env result doc =
     (if \<not> vr_TxValid result then Inr False
      else if \<not> pokt_MintDisabled (Pocket env) \<and> \<not> vr_NeedsRefund result then Inr False
      else if \<not> EqualFold (vr_SenderAddress result) (im_SenderAddress doc) then Inr False
      else case NewIntFromString (lib env) (im_Amount doc) of
        None \<Rightarrow> Inr False
      | Some amount \<Rightarrow>
      (case coin_Amount (vr_Amount result) of
        None \<Rightarrow> Inl (Panic ''nil amount'')
      | Some txAmount \<Rightarrow>
          if txAmount \<noteq> amount then Inr False
          else case vr_Tx result of
            None \<Rightarrow> Inr False
          | Some tx \<Rightarrow>
          (case tx_BodyMemo tx of
             None \<Rightarrow> Inr False
           | Some memo \<Rightarrow> Inr (memo = im_Memo doc))))"

definition BurnSigner_ValidateInvalidMint ::
    "('w, 't) Env \<Rightarrow> 'w BurnSignerRunner \<Rightarrow> InvalidMint \<Rightarrow> ('w, bool result) io" where
  "BurnSigner_ValidateInvalidMint env x doc = do {
     r \<leftarrow> GetTx (Cosmos env) (im_TransactionHash doc);
     ret (case r of
         Inl e \<Rightarrow> Inl (wrap_error ''Error fetching transaction'' e)
       | Inr None \<Rightarrow> Inl (Err ''transaction not found'')
       | Inr (Some txResponse) \<Rightarrow>
           (case ValidateTxToCosmosMultisig (lib env) (Cfg env) txResponse (Pocket env)
                   (bs_minimumAmount x) (bs_maximumAmount x) of
              Inl p \<Rightarrow> Inl p
            | Inr result \<Rightarrow> BurnSigner_CheckInvalidMint env result doc)) }"

definition BurnSigner_CheckBurn ::
    "('w, 't) Env \<Rightarrow> 'w BurnSignerRunner \<Rightarrow> Log list \<Rightarrow> Burn \<Rightarrow> bool" where
  "BurnSigner_CheckBurn env x logs doc =
     (case ParseInt (b_LogIndex doc) of
        None \<Rightarrow> False
      | Some logIndex \<Rightarrow>
      (case find (\<lambda>log. log_Index log = uint64 logIndex) logs of
        None \<Rightarrow> False
      | Some burnLog \<Rightarrow>
      (case ParseBurnAndBridge (WPokt env) burnLog of
        Inl e \<Rightarrow> False
      | Inr burnEvent \<Rightarrow>
      (case NewIntFromString (lib env) (b_Amount doc) of
        None \<Rightarrow> False
      | Some amount \<Rightarrow>
          if amount \<le> bs_minimumAmount x then False
          else if bb_Amount burnEvent \<noteq> amount then False
          else if \<not> EqualFold (Address_Hex (lib env) (bb_From burnEvent)) (b_SenderAddress doc)
            then False
          else bb_PoktAddress burnEvent =
            (case AddressBytesFromBech32 (lib env) (pokt_Bech32Prefix (Pocket env))
                    (b_RecipientAddress doc) of Inl _ \<Rightarrow> [] | Inr bs \<Rightarrow> bs)))))"

definition BurnSigner_ValidateBurn ::
    "('w, 't) Env \<Rightarrow> 'w BurnSignerRunner \<Rightarrow> Burn \<Rightarrow> ('w, bool result) io" where
  "BurnSigner_ValidateBurn env x doc = do {
     r \<leftarrow> GetTransactionReceipt (Eth env) (b_TransactionHash doc);
     ret (case r of
         Inl e \<Rightarrow> Inl (wrap_error ''Error fetching transaction receipt'' e)
       | Inr logs \<Rightarrow> Inr (BurnSigner_CheckBurn env x logs doc)) }"

section \<open>Signing\<close>

definition BurnSigner_FindMaxSequence ::
    "('w, 't) Env \<Rightarrow> 'w BurnSignerRunner \<Rightarrow> ('w, 64 word result) io" where
  "BurnSigner_FindMaxSequence env x = do {
     lk \<leftarrow> LockReadSequences env;
     case lk of
       Inl e \<Rightarrow> ret (Inl (wrap_error ''could not lock sequences'' e))
     | Inr lockID \<Rightarrow> do {
         r \<leftarrow> then_ok (findMaxSequence env) (\<lambda>maxSequence.
              then_ok (GetAccount (Cosmos env) (ps_MultisigAddress (bs_signer x))) (\<lambda>account.
                ret (Inr (case maxSequence of
                    None \<Rightarrow> acc_Sequence account
                  | Some m \<Rightarrow> let nextSequence = m + 1 in
                      if nextSequence > acc_Sequence account then nextSequence
                      else acc_Sequence account))));
         _ \<leftarrow> Unlock (DB env) lockID;
         ret r } }"

definition BurnSigner_Sign ::
    "('w, 't) Env \<Rightarrow> 'w BurnSignerRunner \<Rightarrow> int option \<Rightarrow> Signature list \<Rightarrow> string \<Rightarrow> bytes \<Rightarrow>
      Coin \<Rightarrow> string \<Rightarrow> ('w, update result) io" where
  "BurnSigner_Sign env x sequence signatures transactionBody toAddress amount memo =
     then_ok (case sequence of
         Some s \<Rightarrow> ret (Inr s)
       | None \<Rightarrow> do {
           r \<leftarrow> BurnSigner_FindMaxSequence env x;
           ret (case r of Inl e \<Rightarrow> Inl (wrap_error ''error getting sequence'' e)
                        | Inr s \<Rightarrow> Inr (uint s)) })
     (\<lambda>sequence.
     then_ok (SignTx env (ps_Signer (bs_signer x)) (Pocket env) sequence signatures transactionBody
                toAddress amount memo)
     (\<lambda>(txBody, finalSignatures). do {
        now \<leftarrow> Now env;
        ret (Inr
          [(''status'', BStr (if int (length finalSignatures) \<ge> int64 (pokt_MultisigThreshold (Pocket env))
                              then StatusSigned else StatusConfirmed)),
           (''return_transaction_body'', BStr txBody),
           (''signatures'', marshal_sigs finalSignatures),
           (''sequence'', BInt sequence),
           (''updated_at'', BTime now)]) }))"

text \<open>
  The common end of both handlers: the update of a document that is still pending or confirmed,
  under the write lock when the update sets a sequence.
\<close>

definition BurnSigner_store ::
    "('w, 't) Env \<Rightarrow> string \<Rightarrow> nat option \<Rightarrow> update \<Rightarrow> ('w, bool result) io" where
  "BurnSigner_store env collection doc_Id update = (
     let filter = QAnd [Fld ''_id'' (CEq (marshal_oid doc_Id)),
           Fld ''status'' (CIn [BStr StatusPending, BStr StatusConfirmed])] in
     if map_of update ''sequence'' \<noteq> None then do {
       lk \<leftarrow> LockWriteSequence env;
       case lk of
         Inl e \<Rightarrow> ret (on_error e)
       | Inr lockID \<Rightarrow> do {
           r \<leftarrow> UpdateOne (DB env) collection filter update;
           _ \<leftarrow> Unlock (DB env) lockID;
           ret (case r of Inl e \<Rightarrow> on_error e | Inr _ \<Rightarrow> Inr True) } }
     else do {
       r \<leftarrow> UpdateOne (DB env) collection filter update;
       ret (case r of Inl e \<Rightarrow> on_error e | Inr _ \<Rightarrow> Inr True) })"

text \<open>
  The branch that signs a confirmed document. The amount has been validated; a string that is no
  number would make the SDK panic on a coin without amount.
\<close>

definition BurnSigner_sign_confirmed ::
    "('w, 't) Env \<Rightarrow> 'w BurnSignerRunner \<Rightarrow> string \<Rightarrow> string \<Rightarrow> int option \<Rightarrow> Signature list \<Rightarrow>
      string \<Rightarrow> string \<Rightarrow> ('w, update result) io" where
  "BurnSigner_sign_confirmed env x amount address sequence signatures body memo =
     (case NewIntFromString (lib env) amount of
        None \<Rightarrow> ret (Inl (Panic ''nil amount''))
      | Some amount \<Rightarrow>
      (case NewCoin (lib env) (pokt_CoinDenom (Pocket env)) amount of
        Inl p \<Rightarrow> ret (Inl p)
      | Inr amountCoin \<Rightarrow>
      (case AddressBytesFromBech32 (lib env) (pokt_Bech32Prefix (Pocket env)) address of
        Inl e \<Rightarrow> ret (Inl e)
      | Inr toAddress \<Rightarrow>
          BurnSigner_Sign env x sequence signatures body toAddress amountCoin memo)))"

definition BurnSigner_HandleInvalidMint ::
    "('w, 't) Env \<Rightarrow> 'w BurnSignerRunner \<Rightarrow> InvalidMint option \<Rightarrow> ('w, bool result) io" where
  "BurnSigner_HandleInvalidMint env x doc0 =
     (case doc0 of None \<Rightarrow> ret (Inr False)
      | Some doc0 \<Rightarrow>
     (case UpdateStatusAndConfirmationsForInvalidMint (Cfg env) doc0 (bs_cosmosHeight x) of
        Inl e \<Rightarrow> ret (on_error e)
      | Inr doc \<Rightarrow> do {
     v \<leftarrow> BurnSigner_ValidateInvalidMint env x doc;
     case v of
       Inl e \<Rightarrow> ret (on_error e)
     | Inr valid \<Rightarrow>
     if \<not> valid then do {
       now \<leftarrow> Now env;
       if im_Confirmations doc = ''0'' then ret (Inr False)
       else BurnSigner_store env CollectionInvalidMints (im_Id doc)
              [(''status'', BStr StatusFailed), (''updated_at'', BTime now)] }
     else if im_Status doc = StatusConfirmed then do {
       s \<leftarrow> BurnSigner_sign_confirmed env x (im_Amount doc) (im_SenderAddress doc) (im_Sequence doc)
              (im_Signatures doc) (im_ReturnTransactionBody doc)
              (''InvalidMint: '' @ im_TransactionHash doc);
       case s of
         Inl e \<Rightarrow> ret (on_error e)
       | Inr update \<Rightarrow> BurnSigner_store env CollectionInvalidMints (im_Id doc) update }
     else do {
       now \<leftarrow> Now env;
       BurnSigner_store env CollectionInvalidMints (im_Id doc)
         [(''status'', BStr (im_Status doc)), (''confirmations'', BStr (im_Confirmations doc)),
          (''updated_at'', BTime now)] } }))"

definition BurnSigner_HandleBurn ::
    "('w, 't) Env \<Rightarrow> 'w BurnSignerRunner \<Rightarrow> Burn option \<Rightarrow> ('w, bool result) io" where
  "BurnSigner_HandleBurn env x doc0 =
     (case doc0 of None \<Rightarrow> ret (Inr False)
      | Some doc0 \<Rightarrow>
     (case UpdateStatusAndConfirmationsForBurn (Cfg env) doc0 (bs_ethBlockNumber x) of
        Inl e \<Rightarrow> ret (on_error e)
      | Inr doc \<Rightarrow> do {
     v \<leftarrow> BurnSigner_ValidateBurn env x doc;
     case v of
       Inl e \<Rightarrow> ret (on_error e)
     | Inr valid \<Rightarrow>
     if \<not> valid then do {
       now \<leftarrow> Now env;
       if b_Confirmations doc = ''0'' then ret (Inr False)
       else BurnSigner_store env CollectionBurns (b_Id doc)
              [(''status'', BStr StatusFailed), (''updated_at'', BTime now)] }
     else if b_Status doc = StatusConfirmed then do {
       s \<leftarrow> BurnSigner_sign_confirmed env x (b_Amount doc) (b_RecipientAddress doc) (b_Sequence doc)
              (b_Signatures doc) (b_ReturnTransactionBody doc) (''Burn: '' @ b_TransactionHash doc);
       case s of
         Inl e \<Rightarrow> ret (on_error e)
       | Inr update \<Rightarrow> BurnSigner_store env CollectionBurns (b_Id doc) update }
     else do {
       now \<leftarrow> Now env;
       BurnSigner_store env CollectionBurns (b_Id doc)
         [(''status'', BStr (b_Status doc)), (''confirmations'', BStr (b_Confirmations doc)),
          (''updated_at'', BTime now)] } }))"

section \<open>Synchronisation\<close>

definition BurnSigner_addressHex :: "('w, 't) Env \<Rightarrow> 'w BurnSignerRunner \<Rightarrow> string" where
  "BurnSigner_addressHex env x =
     (case AddressHexFromBytes (PubKey_Address (lib env) (CosmosPublicKey (ps_Signer (bs_signer x)))) of
        Inl _ \<Rightarrow> [] | Inr s \<Rightarrow> s)"

text \<open>Documents of this vault or token that are open and not yet signed by this validator.\<close>

definition unsigned_filter :: "string \<Rightarrow> string \<Rightarrow> string \<Rightarrow> query" where
  "unsigned_filter field address addressHex = QAnd
     [Fld field (CEq (BStr address)),
      QOr [Fld ''status'' (CEq (BStr StatusPending)), Fld ''status'' (CEq (BStr StatusConfirmed))],
      QNor [Fld ''signatures'' (CElemMatch [(''signer'', BStr addressHex)])]]"

definition BurnSigner_SyncInvalidMints ::
    "('w, 't) Env \<Rightarrow> 'w BurnSignerRunner \<Rightarrow> ('w, bool result) io" where
  "BurnSigner_SyncInvalidMints env x = do {
     r \<leftarrow> find_decoded (DB env) unmarshal_InvalidMint CollectionInvalidMints
            (unsigned_filter ''vault_address'' (bs_vaultAddress x) (BurnSigner_addressHex env x));
     case r of
       Inl e \<Rightarrow> ret (on_error e)
     | Inr invalidMints \<Rightarrow> sync_loop env (\<lambda>d. resourceId CollectionInvalidMints (im_Id d))
         (\<lambda>doc. BurnSigner_HandleInvalidMint env x (Some doc)) True invalidMints }"

definition BurnSigner_SyncBurns ::
    "('w, 't) Env \<Rightarrow> 'w BurnSignerRunner \<Rightarrow> ('w, bool result) io" where
  "BurnSigner_SyncBurns env x = do {
     r \<leftarrow> find_decoded (DB env) unmarshal_Burn CollectionBurns
            (unsigned_filter ''wpokt_address'' (bs_wpoktAddress x) (BurnSigner_addressHex env x));
     case r of
       Inl e \<Rightarrow> ret (on_error e)
     | Inr burns \<Rightarrow> sync_loop env (\<lambda>d. resourceId CollectionBurns (b_Id d))
         (\<lambda>doc. BurnSigner_HandleBurn env x (Some doc)) True burns }"

definition BurnSigner_SyncTxs :: "('w, 't) Env \<Rightarrow> 'w BurnSignerRunner \<Rightarrow> ('w, bool result) io" where
  "BurnSigner_SyncTxs env x =
     then_ok (BurnSigner_SyncInvalidMints env x) (\<lambda>success.
     then_ok (BurnSigner_SyncBurns env x) (\<lambda>ok. ret (Inr (ok \<and> success))))"

definition BurnSigner_Run ::
    "('w, 't) Env \<Rightarrow> 'w BurnSignerRunner \<Rightarrow> ('w, 'w BurnSignerRunner result) io" where
  "BurnSigner_Run env x =
     then_ok (BurnSigner_UpdateBlocks env x) (\<lambda>x.
     then_ok (BurnSigner_SyncTxs env x) (\<lambda>_. ret (Inr x)))"

section \<open>Initialisation\<close>

definition BurnSigner_UpdateMaxMintLimit ::
    "('w, 't) Env \<Rightarrow> 'w BurnSignerRunner \<Rightarrow> ('w, 'w BurnSignerRunner result) io" where
  "BurnSigner_UpdateMaxMintLimit env x = do {
     r \<leftarrow> MaxMintLimit (MintCtl env);
     ret (case r of
         Inl e \<Rightarrow> keep_going x e
       | Inr mintLimit \<Rightarrow> Inr (x\<lparr>bs_maximumAmount := Some mintLimit\<rparr>)) }"

definition NewBurnSigner ::
    "('w, 't) Env \<Rightarrow> 'w PocketSigner result \<Rightarrow> error option \<Rightarrow> error option \<Rightarrow> error option \<Rightarrow>
      error option \<Rightarrow> ('w, 'w BurnSignerRunner Service result) io" where
  "NewBurnSigner env signer ethClient contract mintController poktClient =
     (if \<not> svc_Enabled (cfg_BurnSigner (Cfg env)) then ret (Inr EmptyService)
      else case signer of
        Inl e \<Rightarrow> ret (Inl (Fatal ''Error getting signer and multisig''))
      | Inr ps \<Rightarrow>
      (if ethClient \<noteq> None then ret (Inl (Fatal ''Error initializing ethereum client''))
       else if contract \<noteq> None then ret (Inl (Fatal ''Error initializing Wrapped Pocket contract''))
       else if mintController \<noteq> None
         then ret (Inl (Fatal ''Error initializing Mint Controller contract''))
       else if poktClient \<noteq> None then ret (Inl (Fatal ''Error creating pokt client''))
       else let x = \<lparr>bs_signer = ps, bs_cosmosHeight = 0, bs_ethBlockNumber = 0,
                     bs_vaultAddress = ps_MultisigAddress ps,
                     bs_wpoktAddress = ToLower (eth_WrappedPocketAddress (Ethereum env)),
                     bs_minimumAmount = uint64 (pokt_TxFee (Pocket env)),
                     bs_maximumAmount = None\<rparr> in
         then_ok (BurnSigner_UpdateBlocks env x) (\<lambda>x.
         then_ok (BurnSigner_UpdateMaxMintLimit env x) (\<lambda>x.
           ret (case bs_maximumAmount x of
              None \<Rightarrow> Inl (Panic ''nil amount'')
            | Some maximumAmount \<Rightarrow>
                if maximumAmount < bs_minimumAmount x then Inl (Fatal ''Invalid max mint limit'')
                else Inr (RunnerService BurnSignerName x
                       (svc_IntervalMillis (cfg_BurnSigner (Cfg env)))))))))"

section \<open>Every write follows the protocol\<close>

lemma uint_nonneg [simp]: "0 \<le> uint (w :: 64 word)"
  by simp

lemma Sign_legal:
  assumes "can_return (BurnSigner_Sign env x sequence signatures body rcpt amount memo) (Inr u)"
    and "\<And>n. sequence = Some n \<Longrightarrow> 0 \<le> n" and "c \<in> set return_collections"
  shows "legal_write (int64 (pokt_MultisigThreshold (Pocket env))) thrE c (open_filter i) u"
proof -
  obtain n where n: "can_return (case sequence of
         Some s \<Rightarrow> ret (Inr s)
       | None \<Rightarrow> do {
           r \<leftarrow> BurnSigner_FindMaxSequence env x;
           ret (case r of Inl e \<Rightarrow> Inl (wrap_error ''error getting sequence'' e)
                        | Inr s \<Rightarrow> Inr (uint s)) }) (Inr n)"
    and u: "\<exists>gs b t. u = [(''status'', BStr (if int (length gs) \<ge> int64 (pokt_MultisigThreshold (Pocket env))
                              then StatusSigned else StatusConfirmed)),
           (''return_transaction_body'', BStr b), (''signatures'', marshal_sigs gs),
           (''sequence'', BInt n), (''updated_at'', BTime t)]"
    using assms(1) unfolding BurnSigner_Sign_def
    by (auto elim!: can_return_then_okE can_return_bindE)
  have "0 \<le> n"
    using n assms(2) by (cases sequence) (auto elim!: can_return_bindE split: sum.splits)
  with u assms(3) show ?thesis by (auto intro!: sign_return)
qed

lemma sign_confirmed_legal:
  assumes "can_return (BurnSigner_sign_confirmed env x am addr sequence signatures body memo) (Inr u)"
    and "\<And>n. sequence = Some n \<Longrightarrow> 0 \<le> n" and "c \<in> set return_collections"
  shows "legal_write (int64 (pokt_MultisigThreshold (Pocket env))) thrE c (open_filter i) u"
  using assms(1) unfolding BurnSigner_sign_confirmed_def
  by (auto split: option.splits sum.splits intro: Sign_legal [OF _ assms(2,3)])

text \<open>What the handlers know of a document found by the filter.\<close>

definition open_invalid_mint :: "InvalidMint \<Rightarrow> bool" where
  "open_invalid_mint m \<longleftrightarrow> im_Status m \<in> {StatusPending, StatusConfirmed} \<and>
     (\<forall>n. im_Sequence m = Some n \<longrightarrow> 0 \<le> n)"

definition open_burn :: "Burn \<Rightarrow> bool" where
  "open_burn b \<longleftrightarrow> b_Status b \<in> {StatusPending, StatusConfirmed} \<and>
     (\<forall>n. b_Sequence b = Some n \<longrightarrow> 0 \<le> n)"

lemma get_seq_nonneg: "get_seq d k = Some (Some n) \<Longrightarrow> 0 \<le> n"
  by (auto simp: get_seq_def split: option.splits bson.splits if_splits)

lemma get_str_eq:
  assumes "get_str d k = Some s" "cond_matches (CEq (BStr v)) (map_of d k)"
  shows "s = v"
  using get_str_member [OF assms(1), of "[v]"] assms(2) by simp

lemma unsigned_filter_open:
  assumes "matches (unsigned_filter field address me) d" "get_str d ''status'' = Some s"
  shows "s \<in> {StatusPending, StatusConfirmed}"
  using assms get_str_eq [OF assms(2)] by (auto simp: unsigned_filter_def)

lemma unmarshal_open:
  assumes "matches (unsigned_filter field address me) d"
  shows "unmarshal_InvalidMint d = Some m \<Longrightarrow> open_invalid_mint m"
    and "unmarshal_Burn d = Some b \<Longrightarrow> open_burn b"
proof -
  note status = unsigned_filter_open [OF assms]
  show "open_invalid_mint m" if m: "unmarshal_InvalidMint d = Some m"
    using status [OF unmarshal_InvalidMint_fields(1) [OF m]] unmarshal_InvalidMint_fields(6) [OF m]
    by (auto simp: open_invalid_mint_def dest: get_seq_nonneg)
  show "open_burn b" if b: "unmarshal_Burn d = Some b"
    using status [OF unmarshal_Burn_fields(1) [OF b]] unmarshal_Burn_fields(6) [OF b]
    by (auto simp: open_burn_def dest: get_seq_nonneg)
qed

lemma UpdateStatus_open:
  "UpdateStatusAndConfirmationsForInvalidMint cfg m h = Inr m' \<Longrightarrow> open_invalid_mint m \<Longrightarrow>
     open_invalid_mint m'"
  "UpdateStatusAndConfirmationsForBurn cfg b h = Inr b' \<Longrightarrow> open_burn b \<Longrightarrow> open_burn b'"
  by (auto simp: UpdateStatusAndConfirmationsForInvalidMint_def
      UpdateStatusAndConfirmationsForBurn_def open_invalid_mint_def open_burn_def
      dest: status_and_confirmations_status split: sum.splits prod.splits)

context validator
begin

lemma writes_BurnSigner_store:
  assumes "legal_write thrC thrE c (open_filter i) u"
  shows "writes (store_step thrC thrE) docs (BurnSigner_store env c i u)"
  unfolding BurnSigner_store_def Let_def open_filter_def [symmetric] LockWriteSequence_def
  using writes_update [OF assms] by (intro writes_intros)

lemma writes_findMaxSequence [writes_intros]:
  "writes (store_step thrC thrE) docs (findMaxSequence env)"
  unfolding findMaxSequence_def findMaxSequenceFromInvalidMints_def findMaxSequenceFromBurns_def
  by (intro writes_intros)

lemma writes_FindMaxSequence [writes_intros]:
  "writes (store_step thrC thrE) docs (BurnSigner_FindMaxSequence env x)"
  unfolding BurnSigner_FindMaxSequence_def LockReadSequences_def by (intro writes_intros)

lemma writes_SignTx:
  assumes "\<And>m. writes (store_step thrC thrE) docs (CosmosSign signer m)"
  shows "writes (store_step thrC thrE) docs (SignTx env signer config n sigs body rcpt amount memo)"
  unfolding SignTx_def Let_def SignWithPrivKey_def using assms by (intro writes_intros)

lemma writes_sign_confirmed:
  assumes "\<And>m. writes (store_step thrC thrE) docs (CosmosSign (ps_Signer (bs_signer x)) m)"
  shows "writes (store_step thrC thrE) docs
    (BurnSigner_sign_confirmed env x am addr sequence sigs body memo)"
  unfolding BurnSigner_sign_confirmed_def BurnSigner_Sign_def
  by (intro writes_intros writes_SignTx assms)

lemma writes_BurnSigner_HandleInvalidMint:
  assumes "\<And>m. writes (store_step thrC thrE) docs (CosmosSign (ps_Signer (bs_signer x)) m)"
    and thr: "thrC = int64 (pokt_MultisigThreshold (Pocket env))" and "open_invalid_mint doc0"
  shows "writes (store_step thrC thrE) docs (BurnSigner_HandleInvalidMint env x (Some doc0))"
proof (cases "UpdateStatusAndConfirmationsForInvalidMint (Cfg env) doc0 (bs_cosmosHeight x)")
  case (Inl e)
  then show ?thesis by (simp add: BurnSigner_HandleInvalidMint_def writes_intros)
next
  case (Inr doc)
  then have doc: "open_invalid_mint doc" using UpdateStatus_open(1) assms(3) by blast
  have c: "CollectionInvalidMints \<in> set return_collections"
    "CollectionInvalidMints \<in> set tracked_collections" by (simp_all add: collection_lists)
  have fin: "legal_write thrC thrE CollectionInvalidMints (open_filter (im_Id doc))
     [(''status'', BStr StatusFailed), (''updated_at'', BTime t)]"
    "legal_write thrC thrE CollectionInvalidMints (open_filter (im_Id doc))
     [(''status'', BStr (im_Status doc)), (''confirmations'', BStr (im_Confirmations doc)),
      (''updated_at'', BTime t)]" for t
    using doc c by (auto simp: open_invalid_mint_def intro: legal_write.fail legal_write.progress)
  have sg: "legal_write thrC thrE CollectionInvalidMints (open_filter (im_Id doc)) u"
    if "can_return (BurnSigner_sign_confirmed env x am addr (im_Sequence doc) sigs body memo) (Inr u)"
    for am addr sigs body memo u
    using sign_confirmed_legal [OF that _ c(1)] doc unfolding thr open_invalid_mint_def by blast
  show ?thesis
    unfolding BurnSigner_HandleInvalidMint_def option.case Inr sum.case BurnSigner_ValidateInvalidMint_def
    using fin sg
    by (intro writes_rules rely_clients writes_BurnSigner_store writes_sign_confirmed) (auto intro: assms)
qed

lemma writes_BurnSigner_HandleBurn:
  assumes "\<And>m. writes (store_step thrC thrE) docs (CosmosSign (ps_Signer (bs_signer x)) m)"
    and thr: "thrC = int64 (pokt_MultisigThreshold (Pocket env))" and "open_burn doc0"
  shows "writes (store_step thrC thrE) docs (BurnSigner_HandleBurn env x (Some doc0))"
proof (cases "UpdateStatusAndConfirmationsForBurn (Cfg env) doc0 (bs_ethBlockNumber x)")
  case (Inl e)
  then show ?thesis by (simp add: BurnSigner_HandleBurn_def writes_intros)
next
  case (Inr doc)
  then have doc: "open_burn doc" using UpdateStatus_open(2) assms(3) by blast
  have c: "CollectionBurns \<in> set return_collections" "CollectionBurns \<in> set tracked_collections"
    by (simp_all add: collection_lists)
  have fin: "legal_write thrC thrE CollectionBurns (open_filter (b_Id doc))
     [(''status'', BStr StatusFailed), (''updated_at'', BTime t)]"
    "legal_write thrC thrE CollectionBurns (open_filter (b_Id doc))
     [(''status'', BStr (b_Status doc)), (''confirmations'', BStr (b_Confirmations doc)),
      (''updated_at'', BTime t)]" for t
    using doc c by (auto simp: open_burn_def intro: legal_write.fail legal_write.progress)
  have sg: "legal_write thrC thrE CollectionBurns (open_filter (b_Id doc)) u"
    if "can_return (BurnSigner_sign_confirmed env x am addr (b_Sequence doc) sigs body memo) (Inr u)"
    for am addr sigs body memo u
    using sign_confirmed_legal [OF that _ c(1)] doc unfolding thr open_burn_def by blast
  show ?thesis
    unfolding BurnSigner_HandleBurn_def option.case Inr sum.case BurnSigner_ValidateBurn_def
    using fin sg
    by (intro writes_rules rely_clients writes_BurnSigner_store writes_sign_confirmed) (auto intro: assms)
qed

lemma writes_BurnSigner_SyncTxs:
  assumes "\<And>m. writes (store_step thrC thrE) docs (CosmosSign (ps_Signer (bs_signer x)) m)"
    and "thrC = int64 (pokt_MultisigThreshold (Pocket env))"
  shows "writes (store_step thrC thrE) docs (BurnSigner_SyncTxs env x)"
proof -
  have m: "writes (store_step thrC thrE) docs (BurnSigner_SyncInvalidMints env x)"
    unfolding BurnSigner_SyncInvalidMints_def
    by (intro writes_rules writes_find_decoded writes_sync_loop writes_BurnSigner_HandleInvalidMint assms)
       (auto dest!: find_decoded_filter dest: unmarshal_open)
  have b: "writes (store_step thrC thrE) docs (BurnSigner_SyncBurns env x)"
    unfolding BurnSigner_SyncBurns_def
    by (intro writes_rules writes_find_decoded writes_sync_loop writes_BurnSigner_HandleBurn assms)
       (auto dest!: find_decoded_filter dest: unmarshal_open)
  show ?thesis unfolding BurnSigner_SyncTxs_def by (intro writes_intros m b)
qed

end

section \<open>The next sequence number is fresh\<close>

lemma findMaxSequence_bounds:
  assumes "exact_document_store (DB env) docs" "int64_sequences (docs w)"
    and "run_state (findMaxSequence env) w = (Inr m, w')"
  shows "\<exists>mi mb. bounds_sequences (pokt_MultisigAddress (Pocket env)) (docs w CollectionInvalidMints) mi \<and>
     bounds_sequences (pokt_MultisigAddress (Pocket env)) (docs w CollectionBurns) mb \<and>
     m = (case (mi, mb) of (None, None) \<Rightarrow> None | (None, Some b) \<Rightarrow> Some b | (Some i, None) \<Rightarrow> Some i
          | (Some i, Some b) \<Rightarrow> if i > b then Some i else Some b)"
proof -
  let ?a = "pokt_MultisigAddress (Pocket env)"
  let ?m = "\<lambda>r. (case r of Inl e \<Rightarrow> if e = ErrNoDocuments then Inr None else Inl e
       | Inr d \<Rightarrow> (case resultMaxSequence d of
             None \<Rightarrow> Inl (Err ''error decoding max_sequence'') | Some s \<Rightarrow> Inr (Some s)))"
  obtain r1 w1 where q1: "run_state (AggregateOne (DB env) CollectionInvalidMints (sequence_pipeline ?a)) w
      = (r1, w1)" by fastforce
  obtain r2 w2 where q2: "run_state (AggregateOne (DB env) CollectionBurns (sequence_pipeline ?a)) w1
      = (r2, w2)" by fastforce
  obtain mi mb where m: "?m r1 = Inr mi" "?m r2 = Inr mb"
    and res: "m = (case (mi, mb) of (None, None) \<Rightarrow> None | (None, Some b) \<Rightarrow> Some b | (Some i, None) \<Rightarrow> Some i
          | (Some i, Some b) \<Rightarrow> if i > b then Some i else Some b)"
    using assms(3)
    by (auto simp: findMaxSequence_def findMaxSequenceFromInvalidMints_def
        findMaxSequenceFromBurns_def run_simps q1 q2 split: sum.splits)
  have c: "CollectionInvalidMints \<in> set return_collections" "CollectionBurns \<in> set return_collections"
    by (simp_all add: collection_lists)
  note b1 = exact_document_store.max_of_collection [OF assms(1) q1 m(1) c(1) assms(2)]
  note b2 = exact_document_store.max_of_collection [OF assms(1) q2 m(2) c(2) assms(2) [folded b1(1)]]
  from b1 b2 res show ?thesis by auto
qed

lemma FindMaxSequence_run:
  assumes "run_state (BurnSigner_FindMaxSequence env x) w = (Inr s, w')"
  obtains lk w1 m w2 acc w3 where "run_state (SLock (DB env) sequenceResourseID) w = (Inr lk, w1)"
    "run_state (findMaxSequence env) w1 = (Inr m, w2)"
    "run_state (GetAccount (Cosmos env) (ps_MultisigAddress (bs_signer x))) w2 = (Inr acc, w3)"
    "s = (case m of None \<Rightarrow> acc_Sequence acc
          | Some m \<Rightarrow> if m + 1 > acc_Sequence acc then m + 1 else acc_Sequence acc)"
proof -
  obtain r w1 where lk: "run_state (SLock (DB env) sequenceResourseID) w = (r, w1)" by fastforce
  show thesis
    using assms lk unfolding BurnSigner_FindMaxSequence_def LockReadSequences_def Let_def
    by (auto simp: run_simps intro: that split: sum.splits prod.splits)
qed

lemma FindMaxSequence_fresh:
  assumes "exact_document_store (DB env) docs" "int64_sequences (docs w)"
    and "run_state (BurnSigner_FindMaxSequence env x) w = (Inr s, w')"
    and "vault_sequence (pokt_MultisigAddress (Pocket env)) (docs w c) n" "c \<in> set return_collections"
  shows "n < uint s"
proof -
  let ?a = "pokt_MultisigAddress (Pocket env)"
  obtain lk w1 m w2 acc w3 where lk: "run_state (SLock (DB env) sequenceResourseID) w = (Inr lk, w1)"
    and m: "run_state (findMaxSequence env) w1 = (Inr m, w2)"
    and "run_state (GetAccount (Cosmos env) (ps_MultisigAddress (bs_signer x))) w2 = (Inr acc, w3)"
    and s: "s = (case m of None \<Rightarrow> acc_Sequence acc
          | Some m \<Rightarrow> if m + 1 > acc_Sequence acc then m + 1 else acc_Sequence acc)"
    by (rule FindMaxSequence_run [OF assms(3)])
  have "docs w1 = docs w"
    using quietD [OF document_store.lock_laws(2) [OF exact_document_store.axioms(1) [OF assms(1)]],
        of sequenceResourseID w] lk by simp
  with findMaxSequence_bounds [OF assms(1) _ m] assms(2) obtain mi mb where
    b: "bounds_sequences ?a (docs w CollectionInvalidMints) mi" "bounds_sequences ?a (docs w CollectionBurns) mb"
    and mm: "m = (case (mi, mb) of (None, None) \<Rightarrow> None | (None, Some b) \<Rightarrow> Some b | (Some i, None) \<Rightarrow> Some i
          | (Some i, Some b) \<Rightarrow> if i > b then Some i else Some b)" by auto
  obtain k where k: "m = Some k" "uint k < 2 ^ 63" "n \<le> uint k"
    using assms(4,5) b mm
    by (auto simp: collection_lists bounds_sequences_def word_less_def split: option.splits if_splits)
  have "k + 1 \<le> s" unfolding s k(1) by (auto simp: not_less)
  from word_Suc_less [OF k(2,3) this] show ?thesis .
qed

section \<open>Only validated documents are signed\<close>

context lone_validator
begin

lemma store_keeps_field:
  assumes "k \<notin> fst ` set u"
  shows "writes (\<lambda>st st'. field_in c k st' = field_in c k st) docs (BurnSigner_store env c' i u)"
  unfolding BurnSigner_store_def Let_def LockWriteSequence_def
  by (intro writes_intros update_keeps_field [OF assms] quiet_writes quiet_all)

lemma HandleBurn_invalid:
  assumes "\<And>doc logs. UpdateStatusAndConfirmationsForBurn (Cfg env) doc0 (bs_ethBlockNumber x) = Inr doc \<Longrightarrow>
      can_return (GetTransactionReceipt (Eth env) (b_TransactionHash doc)) (Inr logs) \<Longrightarrow>
      \<not> BurnSigner_CheckBurn env x logs doc"
    and "k \<notin> {''status'', ''updated_at'', ''confirmations''}"
  shows "writes (\<lambda>st st'. field_in c k st' = field_in c k st) docs (BurnSigner_HandleBurn env x (Some doc0))"
proof (cases "UpdateStatusAndConfirmationsForBurn (Cfg env) doc0 (bs_ethBlockNumber x)")
  case (Inl e)
  then show ?thesis by (simp add: BurnSigner_HandleBurn_def writes_intros)
next
  case (Inr doc)
  have v: "\<not> valid" if "can_return (BurnSigner_ValidateBurn env x doc) (Inr valid)" for valid
    using that assms(1) [OF Inr] unfolding BurnSigner_ValidateBurn_def
    by (auto elim!: can_return_bindE split: sum.splits)
  have q: "writes (\<lambda>st st'. field_in c k st' = field_in c k st) docs (BurnSigner_ValidateBurn env x doc)"
    unfolding BurnSigner_ValidateBurn_def by (intro quiet_writes quiet_intros)
  show ?thesis
    unfolding BurnSigner_HandleBurn_def option.case Inr sum.case
    using v assms(2) by (intro writes_rules q store_keeps_field) (auto intro: quiet_writes quiet_now)
qed

lemma HandleInvalidMint_invalid:
  assumes "\<And>doc tx result. UpdateStatusAndConfirmationsForInvalidMint (Cfg env) doc0 (bs_cosmosHeight x) = Inr doc \<Longrightarrow>
      can_return (GetTx (Cosmos env) (im_TransactionHash doc)) (Inr (Some tx)) \<Longrightarrow>
      ValidateTxToCosmosMultisig (lib env) (Cfg env) tx (Pocket env) (bs_minimumAmount x)
        (bs_maximumAmount x) = Inr result \<Longrightarrow>
      BurnSigner_CheckInvalidMint env result doc \<noteq> Inr True"
    and "k \<notin> {''status'', ''updated_at'', ''confirmations''}"
  shows "writes (\<lambda>st st'. field_in c k st' = field_in c k st) docs
     (BurnSigner_HandleInvalidMint env x (Some doc0))"
proof (cases "UpdateStatusAndConfirmationsForInvalidMint (Cfg env) doc0 (bs_cosmosHeight x)")
  case (Inl e)
  then show ?thesis by (simp add: BurnSigner_HandleInvalidMint_def writes_intros)
next
  case (Inr doc)
  have v: "\<not> valid" if "can_return (BurnSigner_ValidateInvalidMint env x doc) (Inr valid)" for valid
    using that assms(1) [OF Inr] unfolding BurnSigner_ValidateInvalidMint_def
    by (auto elim!: can_return_bindE split: sum.splits option.splits)
  have q: "writes (\<lambda>st st'. field_in c k st' = field_in c k st) docs
      (BurnSigner_ValidateInvalidMint env x doc)"
    unfolding BurnSigner_ValidateInvalidMint_def by (intro quiet_writes quiet_intros)
  show ?thesis
    unfolding BurnSigner_HandleInvalidMint_def option.case Inr sum.case
    using v assms(2) by (intro writes_rules q store_keeps_field) (auto intro: quiet_writes quiet_now)
qed

end

section \<open>What a signature update contains\<close>

lemma Sign_update:
  assumes "can_return (BurnSigner_Sign env x sequence signatures body rcpt amount memo) (Inr u)"
  obtains hs g n where
    "map_of u ''signatures'' = Some (marshal_sigs (hs @ [g]))"
    "sig_Signer g = BurnSigner_addressHex env x"
    "map_of u ''status'' = Some (BStr (if int64 (pokt_MultisigThreshold (Pocket env)) \<le> int (length (hs @ [g]))
        then StatusSigned else StatusConfirmed))"
    "map_of u ''sequence'' = Some (BInt n)" "sequence = Some s \<longrightarrow> n = s" "signatures = [] \<longrightarrow> hs = []"
    "SignTx_check (PubKey_Address (lib env) (CosmosPublicKey (ps_Signer (bs_signer x)))) signatures = None"
proof -
  obtain n b gs t where n: "can_return (case sequence of
         Some s \<Rightarrow> ret (Inr s)
       | None \<Rightarrow> do {
           r \<leftarrow> BurnSigner_FindMaxSequence env x;
           ret (case r of Inl e \<Rightarrow> Inl (wrap_error ''error getting sequence'' e)
                        | Inr s \<Rightarrow> Inr (uint s)) }) (Inr n)"
    and sign: "can_return (SignTx env (ps_Signer (bs_signer x)) (Pocket env) n signatures body rcpt amount memo)
      (Inr (b, gs))"
    and u: "u = [(''status'', BStr (if int (length gs) \<ge> int64 (pokt_MultisigThreshold (Pocket env))
                              then StatusSigned else StatusConfirmed)),
           (''return_transaction_body'', BStr b), (''signatures'', marshal_sigs gs),
           (''sequence'', BInt n), (''updated_at'', BTime t)]"
    using assms unfolding BurnSigner_Sign_def
    by (auto elim!: can_return_then_okE can_return_bindE)
  obtain hs g where gs: "gs = hs @ [g]" "sig_Signer g = BurnSigner_addressHex env x"
    "signatures = [] \<longrightarrow> hs = []"
    by (rule SignTx_signs [OF sign]) (auto simp: BurnSigner_addressHex_def)
  show thesis
    by (rule that [of hs g n])
       (use u gs n SignTx_check_can_return [OF sign] in auto)
qed

end
