(* ===== verification/Burn_Executor.thy ===== *)
theory Burn_Executor
  imports Burn_Sequence
begin

text \<open>
  \<open>cosmos/executor.go\<close>: the runner that assembles the multisignature of a signed document, broadcasts
  the transaction and follows it until it has succeeded or failed.
\<close>

section \<open>The runner\<close>

definition BurnExecutorName :: string where "BurnExecutorName = ''BURN EXECUTOR''"

record 'w BurnExecutorRunner =
  be_signer :: "'w PocketSigner"
  be_wpoktAddress :: string
  be_vaultAddress :: string

definition BurnExecutor_Status :: "'w BurnExecutorRunner \<Rightarrow> RunnerStatus" where
  "BurnExecutor_Status x = \<lparr>rs_EthBlockNumber = [], rs_PoktHeight = []\<rparr>"

definition pubKeyExists :: "PubKey \<Rightarrow> PubKey list \<Rightarrow> bool" where
  "pubKeyExists key keys = list_ex (\<lambda>k. k = key) keys"

text \<open>
  The loop over the signatures: the public keys must be pairwise different and belong to the
  multisig, and every signature must verify. \<open>Inl\<close> is the early \<open>return false\<close>.
\<close>

fun ValidateSignatures_loop ::
    "'t Lib \<Rightarrow> CosmosConfig \<Rightarrow> PubKey list \<Rightarrow> int \<Rightarrow> int \<Rightarrow> 't \<Rightarrow> bytes set \<Rightarrow> SignatureData \<Rightarrow>
      SignatureV2 list \<Rightarrow> SignatureData result" where
  "ValidateSignatures_loop l config keys accountNumber sequence txBuilder unique multisigSig [] =
     Inr multisigSig"
| "ValidateSignatures_loop l config keys accountNumber sequence txBuilder unique multisigSig (sig # sigs) =
     (if PubKey_Bytes l (sv2_PubKey sig) \<in> unique then Inl (Err ''Duplicate signature pubkey'')
      else if \<not> pubKeyExists (sv2_PubKey sig) keys then Inl (Err ''Invalid signature pubkey'')
      else case ValidateSignature l config sig accountNumber sequence txBuilder of
        Some e \<Rightarrow> Inl e
      | None \<Rightarrow>
      (case AddSignatureV2 l multisigSig sig keys of
        Inl e \<Rightarrow> Inl e
      | Inr multisigSig \<Rightarrow>
          ValidateSignatures_loop l config keys accountNumber sequence txBuilder
            (insert (PubKey_Bytes l (sv2_PubKey sig)) unique) multisigSig sigs))"

text \<open>
  The Go function returns a boolean and changes the builder it is given; here the changed builder is
  returned, \<open>Inl\<close> is false.
\<close>

definition ValidateSignaturesAndAddMultiSignatureToTxConfig ::
    "('w, 't) Env \<Rightarrow> 'w BurnExecutorRunner \<Rightarrow> int \<Rightarrow> 't \<Rightarrow> ('w, 't result) io" where
  "ValidateSignaturesAndAddMultiSignatureToTxConfig env x sequence txBuilder =
     (let l = lib env; multisig = ps_Multisig (be_signer x) in
      case GetSignaturesV2 l txBuilder of
        Inl e \<Rightarrow> ret (Inl e)
      | Inr sigV2s \<Rightarrow>
          if length sigV2s = 0 \<or> length sigV2s < GetThreshold multisig
          then ret (Inl (Err ''Not enough signatures''))
          else do {
            acc \<leftarrow> GetAccount (Cosmos env) (ps_MultisigAddress (be_signer x));
            ret (case acc of
                Inl e \<Rightarrow> Inl e
              | Inr account \<Rightarrow>
              (case ValidateSignatures_loop l (Pocket env) (GetPubKeys multisig)
                      (uint (acc_AccountNumber account)) sequence txBuilder {}
                      (MultiSignatureData []) sigV2s of
                Inl e \<Rightarrow> Inl e
              | Inr multisigSig \<Rightarrow>
                  SetSignatures l txBuilder
                    [\<lparr>sv2_PubKey = multisig, sv2_Data = multisigSig, sv2_Sequence = sequence\<rparr>])) })"

text \<open>
  The signed branch of both handlers, up to the broadcast: the transaction as JSON and the hash the
  node reports.
\<close>

definition BurnExecutor_submit ::
    "('w, 't) Env \<Rightarrow> 'w BurnExecutorRunner \<Rightarrow> string \<Rightarrow> int option \<Rightarrow>
      ('w, (string \<times> string) result) io" where
  "BurnExecutor_submit env x returnTransactionBody doc_Sequence =
     (let l = lib env; prefix = pokt_Bech32Prefix (Pocket env) in
      case WrapTxBuilder l prefix returnTransactionBody of
        Inl e \<Rightarrow> ret (Inl e)
      | Inr txBuilder \<Rightarrow>
      (case doc_Sequence of
        None \<Rightarrow> ret (Inl (Panic ''nil pointer dereference''))
      | Some sequence \<Rightarrow>
          then_ok (ValidateSignaturesAndAddMultiSignatureToTxConfig env x sequence txBuilder) (\<lambda>txBuilder.
          (case TxJSONEncoder l prefix of
            None \<Rightarrow> ret (Inl (Panic ''nil encoder''))
          | Some encoder \<Rightarrow>
          (case encoder txBuilder of
            Inl e \<Rightarrow> ret (Inl e)
          | Inr txJSON \<Rightarrow>
          (case TxEncoder l txBuilder of
            Inl e \<Rightarrow> ret (Inl e)
          | Inr txBytes \<Rightarrow>
              then_ok (BroadcastTx (Cosmos env) txBytes) (\<lambda>txHash. ret (Inr (txJSON, txHash)))))))))"

text \<open>The submitted branch: whether the broadcast transaction failed.\<close>

definition BurnExecutor_check :: "('w, 't) Env \<Rightarrow> string \<Rightarrow> ('w, bool result) io" where
  "BurnExecutor_check env returnTransactionHash = do {
     r \<leftarrow> GetTx (Cosmos env) returnTransactionHash;
     ret (case r of
         Inl e \<Rightarrow> Inl e
       | Inr None \<Rightarrow> Inl (Panic ''nil pointer dereference'')
       | Inr (Some tx) \<Rightarrow> Inr (txr_Code tx \<noteq> 0)) }"

definition BurnExecutor_submitted_update :: "string \<Rightarrow> string \<Rightarrow> nat \<Rightarrow> update" where
  "BurnExecutor_submitted_update txJSON txHash now =
     [(''status'', BStr StatusSubmitted), (''return_transaction_body'', BStr txJSON),
      (''return_transaction_hash'', BStr (Ensure0xPrefix txHash)), (''updated_at'', BTime now)]"

definition BurnExecutor_checked_update :: "bool \<Rightarrow> nat \<Rightarrow> update" where
  "BurnExecutor_checked_update failed now =
     (if failed then
        [(''status'', BStr StatusConfirmed), (''updated_at'', BTime now),
         (''return_transaction_hash'', BStr []), (''return_transaction_body'', BStr []),
         (''signatures'', marshal_sigs []), (''sequence'', BNull)]
      else [(''status'', BStr StatusSuccess), (''updated_at'', BTime now)])"

text \<open>
  For any other status filter and update stay nil, which the driver refuses, so the handler returns
  false without a write.
\<close>

definition BurnExecutor_HandleInvalidMint ::
    "('w, 't) Env \<Rightarrow> 'w BurnExecutorRunner \<Rightarrow> InvalidMint option \<Rightarrow> ('w, bool result) io" where
  "BurnExecutor_HandleInvalidMint env x doc0 =
     (case doc0 of None \<Rightarrow> ret (Inr False)
      | Some doc \<Rightarrow>
          if im_Status doc = StatusSigned then do {
            r \<leftarrow> BurnExecutor_submit env x (im_ReturnTransactionBody doc) (im_Sequence doc);
            case r of
              Inl e \<Rightarrow> ret (on_error e)
            | Inr (txJSON, txHash) \<Rightarrow> do {
                now \<leftarrow> Now env;
                u \<leftarrow> UpdateOne (DB env) CollectionInvalidMints
                  (QAnd [Fld ''_id'' (CEq (marshal_oid (im_Id doc))),
                         Fld ''status'' (CEq (BStr StatusSigned))])
                  (BurnExecutor_submitted_update txJSON txHash now);
                ret (case u of Inl e \<Rightarrow> on_error e | Inr _ \<Rightarrow> Inr True) } }
          else if im_Status doc = StatusSubmitted then do {
            r \<leftarrow> BurnExecutor_check env (im_ReturnTransactionHash doc);
            case r of
              Inl e \<Rightarrow> ret (on_error e)
            | Inr failed \<Rightarrow> do {
                now \<leftarrow> Now env;
                u \<leftarrow> UpdateOne (DB env) CollectionInvalidMints
                  (QAnd [Fld ''_id'' (CEq (marshal_oid (im_Id doc))),
                         Fld ''status'' (CEq (BStr StatusSubmitted))])
                  (BurnExecutor_checked_update failed now);
                ret (case u of Inl e \<Rightarrow> on_error e | Inr _ \<Rightarrow> Inr True) } }
          else ret (Inr False))"

definition BurnExecutor_HandleBurn ::
    "('w, 't) Env \<Rightarrow> 'w BurnExecutorRunner \<Rightarrow> Burn option \<Rightarrow> ('w, bool result) io" where
  "BurnExecutor_HandleBurn env x doc0 =
     (case doc0 of None \<Rightarrow> ret (Inr False)
      | Some doc \<Rightarrow>
          if b_Status doc = StatusSigned then do {
            r \<leftarrow> BurnExecutor_submit env x (b_ReturnTransactionBody doc) (b_Sequence doc);
            case r of
              Inl e \<Rightarrow> ret (on_error e)
            | Inr (txJSON, txHash) \<Rightarrow> do {
                now \<leftarrow> Now env;
                u \<leftarrow> UpdateOne (DB env) CollectionBurns
                  (QAnd [Fld ''_id'' (CEq (marshal_oid (b_Id doc))),
                         Fld ''status'' (CEq (BStr StatusSigned))])
                  (BurnExecutor_submitted_update txJSON txHash now);
                ret (case u of Inl e \<Rightarrow> on_error e | Inr _ \<Rightarrow> Inr True) } }
          else if b_Status doc = StatusSubmitted then do {
            r \<leftarrow> BurnExecutor_check env (b_ReturnTransactionHash doc);
            case r of
              Inl e \<Rightarrow> ret (on_error e)
            | Inr failed \<Rightarrow> do {
                now \<leftarrow> Now env;
                u \<leftarrow> UpdateOne (DB env) CollectionBurns
                  (QAnd [Fld ''_id'' (CEq (marshal_oid (b_Id doc))),
                         Fld ''status'' (CEq (BStr StatusSubmitted))])
                  (BurnExecutor_checked_update failed now);
                ret (case u of Inl e \<Rightarrow> on_error e | Inr _ \<Rightarrow> Inr True) } }
          else ret (Inr False))"

section \<open>Synchronisation\<close>

definition executable_filter :: "string \<Rightarrow> string \<Rightarrow> query" where
  "executable_filter field address = QAnd
     [Fld ''status'' (CIn [BStr StatusSigned, BStr StatusSubmitted]), Fld field (CEq (BStr address))]"

definition BurnExecutor_SyncInvalidMints ::
    "('w, 't) Env \<Rightarrow> 'w BurnExecutorRunner \<Rightarrow> ('w, bool result) io" where
  "BurnExecutor_SyncInvalidMints env x = do {
     r \<leftarrow> find_decoded (DB env) unmarshal_InvalidMint CollectionInvalidMints
            (executable_filter ''vault_address'' (be_vaultAddress x));
     case r of
       Inl e \<Rightarrow> ret (on_error e)
     | Inr invalidMints \<Rightarrow> sync_loop env (\<lambda>d. resourceId CollectionInvalidMints (im_Id d))
         (\<lambda>doc. BurnExecutor_HandleInvalidMint env x (Some doc)) True invalidMints }"

definition BurnExecutor_SyncBurns ::
    "('w, 't) Env \<Rightarrow> 'w BurnExecutorRunner \<Rightarrow> ('w, bool result) io" where
  "BurnExecutor_SyncBurns env x = do {
     r \<leftarrow> find_decoded (DB env) unmarshal_Burn CollectionBurns
            (executable_filter ''wpokt_address'' (be_wpoktAddress x));
     case r of
       Inl e \<Rightarrow> ret (on_error e)
     | Inr burns \<Rightarrow> sync_loop env (\<lambda>d. resourceId CollectionBurns (b_Id d))
         (\<lambda>doc. BurnExecutor_HandleBurn env x (Some doc)) True burns }"

definition BurnExecutor_SyncTxs :: "('w, 't) Env \<Rightarrow> 'w BurnExecutorRunner \<Rightarrow> ('w, bool result) io" where
  "BurnExecutor_SyncTxs env x =
     then_ok (BurnExecutor_SyncInvalidMints env x) (\<lambda>success.
     then_ok (BurnExecutor_SyncBurns env x) (\<lambda>ok. ret (Inr (ok \<and> success))))"

definition BurnExecutor_Run ::
    "('w, 't) Env \<Rightarrow> 'w BurnExecutorRunner \<Rightarrow> ('w, 'w BurnExecutorRunner result) io" where
  "BurnExecutor_Run env x = then_ok (BurnExecutor_SyncTxs env x) (\<lambda>_. ret (Inr x))"

definition NewBurnExecutor ::
    "('w, 't) Env \<Rightarrow> 'w PocketSigner result \<Rightarrow> error option \<Rightarrow>
      'w BurnExecutorRunner Service result" where
  "NewBurnExecutor env signer client =
     (if \<not> svc_Enabled (cfg_BurnExecutor (Cfg env)) then Inr EmptyService
      else case signer of
        Inl e \<Rightarrow> Inl (Fatal ''Error getting signer and multisig'')
      | Inr ps \<Rightarrow>
          if client \<noteq> None then Inl (Fatal ''Error creating pokt client'')
          else Inr (RunnerService BurnExecutorName
            \<lparr>be_signer = ps, be_wpoktAddress = ToLower (eth_WrappedPocketAddress (Ethereum env)),
             be_vaultAddress = ps_MultisigAddress ps\<rparr>
            (svc_IntervalMillis (cfg_BurnExecutor (Cfg env)))))"

section \<open>What the validation of the signatures guarantees\<close>

lemma ValidateSignatures_loop_Inr:
  assumes "ValidateSignatures_loop l config keys n sequence tb unique data sigs = Inr data'"
  shows "distinct (map (\<lambda>s. PubKey_Bytes l (sv2_PubKey s)) sigs)"
    "\<forall>s \<in> set sigs. PubKey_Bytes l (sv2_PubKey s) \<notin> unique \<and> sv2_PubKey s \<in> set keys \<and>
       ValidateSignature l config s n sequence tb = None"
  using assms
  by (induction sigs arbitrary: unique data)
     (fastforce simp: pubKeyExists_def list_ex_iff_set split: if_splits option.splits sum.splits)+

text \<open>
  A broadcast the protocol allows: the encoding of a transaction with one multisignature, made of at
  least the threshold of verified signatures by different members of the multisig.
\<close>

definition fully_signed :: "('w, 't) Env \<Rightarrow> 'w BurnExecutorRunner \<Rightarrow> bytes \<Rightarrow> bool" where
  "fully_signed env x txBytes \<longleftrightarrow> (\<exists>tb tb' sigs n sequence data.
     GetSignaturesV2 (lib env) tb = Inr sigs \<and> sigs \<noteq> [] \<and>
     GetThreshold (ps_Multisig (be_signer x)) \<le> length sigs \<and>
     distinct (map (\<lambda>s. PubKey_Bytes (lib env) (sv2_PubKey s)) sigs) \<and>
     (\<forall>s \<in> set sigs. sv2_PubKey s \<in> set (GetPubKeys (ps_Multisig (be_signer x))) \<and>
        ValidateSignature (lib env) (Pocket env) s n sequence tb = None) \<and>
     SetSignatures (lib env) tb [\<lparr>sv2_PubKey = ps_Multisig (be_signer x), sv2_Data = data,
       sv2_Sequence = sequence\<rparr>] = Inr tb' \<and>
     TxEncoder (lib env) tb' = Inr txBytes)"

lemma ValidateSignatures_fully_signed:
  assumes "can_return (ValidateSignaturesAndAddMultiSignatureToTxConfig env x sequence tb) (Inr tb')"
    and "TxEncoder (lib env) tb' = Inr txBytes"
  shows "fully_signed env x txBytes"
proof -
  obtain sigs n data where s: "GetSignaturesV2 (lib env) tb = Inr sigs" "sigs \<noteq> []"
    "GetThreshold (ps_Multisig (be_signer x)) \<le> length sigs"
    "ValidateSignatures_loop (lib env) (Pocket env) (GetPubKeys (ps_Multisig (be_signer x))) n sequence
       tb {} (MultiSignatureData []) sigs = Inr data"
    "SetSignatures (lib env) tb [\<lparr>sv2_PubKey = ps_Multisig (be_signer x), sv2_Data = data,
       sv2_Sequence = sequence\<rparr>] = Inr tb'"
    using assms(1) unfolding ValidateSignaturesAndAddMultiSignatureToTxConfig_def Let_def
    by (auto elim!: can_return_bindE split: sum.splits if_splits)
  show ?thesis
    using s assms(2) ValidateSignatures_loop_Inr [OF s(4)] unfolding fully_signed_def by blast
qed

text \<open>
  Whatever is observed of the world, if the other operations do not change it, only broadcasts of
  fully signed transactions do.
\<close>

lemma submit_broadcasts:
  assumes "quiet v (GetAccount (Cosmos env) (ps_MultisigAddress (be_signer x)))"
    and "\<And>bs. fully_signed env x bs \<Longrightarrow> writes R v (BroadcastTx (Cosmos env) bs)"
  shows "writes R v (BurnExecutor_submit env x body sequence)"
proof -
  have "writes R v (ValidateSignaturesAndAddMultiSignatureToTxConfig env x n tb)" for n tb
    unfolding ValidateSignaturesAndAddMultiSignatureToTxConfig_def Let_def
    using assms(1) by (intro writes_intros) auto
  then show ?thesis
    unfolding BurnExecutor_submit_def Let_def
    by (intro writes_rules) (auto intro: assms(2) ValidateSignatures_fully_signed)
qed

text \<open>Every operation the executor calls except the broadcast leaves \<open>v\<close> alone.\<close>

definition silent_but_broadcast :: "('w \<Rightarrow> 'v) \<Rightarrow> ('w, 't) Env \<Rightarrow> bool" where
  "silent_but_broadcast v env \<longleftrightarrow> quiet v (Now env) \<and> (\<forall>a. quiet v (GetAccount (Cosmos env) a)) \<and>
     (\<forall>h. quiet v (GetTx (Cosmos env) h)) \<and> (\<forall>c q. quiet v (FindMany (DB env) c q)) \<and>
     (\<forall>c q u. quiet v (UpdateOne (DB env) c q u)) \<and> (\<forall>r. quiet v (XLock (DB env) r)) \<and>
     (\<forall>i. quiet v (Unlock (DB env) i))"

lemma SyncTxs_broadcasts:
  assumes "silent_but_broadcast v env"
    and "\<And>bs. fully_signed env x bs \<Longrightarrow> writes R v (BroadcastTx (Cosmos env) bs)"
  shows "writes R v (BurnExecutor_SyncTxs env x)"
proof -
  have q: "writes R v (Now env)" "\<And>h. writes R v (GetTx (Cosmos env) h)"
    "\<And>c q. writes R v (FindMany (DB env) c q)" "\<And>c q u. writes R v (UpdateOne (DB env) c q u)"
    "\<And>r. writes R v (XLock (DB env) r)" "\<And>i. writes R v (Unlock (DB env) i)"
    using assms(1) by (auto simp: silent_but_broadcast_def)
  have submit: "writes R v (BurnExecutor_submit env x body n)" for body n
    using assms by (intro submit_broadcasts) (auto simp: silent_but_broadcast_def)
  have "writes R v (BurnExecutor_HandleInvalidMint env x d)" "writes R v (BurnExecutor_HandleBurn env x b)" for d b
    unfolding BurnExecutor_HandleInvalidMint_def BurnExecutor_HandleBurn_def BurnExecutor_check_def
    by (intro writes_intros submit q)+
  then show ?thesis
    unfolding BurnExecutor_SyncTxs_def BurnExecutor_SyncInvalidMints_def BurnExecutor_SyncBurns_def
      find_decoded_def
    by (intro writes_intros sync_loop_writes q)
qed

section \<open>Every write follows the protocol\<close>

lemma submitted_update_legal:
  "c \<in> set return_collections \<Longrightarrow> legal_write thrC thrE c (status_filter i StatusSigned)
     (BurnExecutor_submitted_update txJSON txHash t)"
  unfolding BurnExecutor_submitted_update_def by (rule legal_write.submit) simp_all

lemma checked_update_legal:
  "c \<in> set return_collections \<Longrightarrow> legal_write thrC thrE c (status_filter i StatusSubmitted)
     (BurnExecutor_checked_update failed t)"
  unfolding BurnExecutor_checked_update_def
  by (auto intro: legal_write.reset legal_write.succeed)

context validator
begin

lemma writes_BurnExecutor_submit [writes_intros]:
  "writes (store_step thrC thrE) docs (BurnExecutor_submit env x body sequence)"
  unfolding BurnExecutor_submit_def Let_def ValidateSignaturesAndAddMultiSignatureToTxConfig_def
  by (intro writes_intros)

lemma writes_BurnExecutor_HandleInvalidMint [writes_intros]:
  "writes (store_step thrC thrE) docs (BurnExecutor_HandleInvalidMint env x doc)"
  unfolding BurnExecutor_HandleInvalidMint_def BurnExecutor_check_def status_filter_def [symmetric]
  by (intro writes_intros writes_update submitted_update_legal checked_update_legal)
     (simp_all add: collection_lists)

lemma writes_BurnExecutor_HandleBurn [writes_intros]:
  "writes (store_step thrC thrE) docs (BurnExecutor_HandleBurn env x doc)"
  unfolding BurnExecutor_HandleBurn_def BurnExecutor_check_def status_filter_def [symmetric]
  by (intro writes_intros writes_update submitted_update_legal checked_update_legal)
     (simp_all add: collection_lists)

lemma writes_BurnExecutor_SyncTxs [writes_intros]:
  "writes (store_step thrC thrE) docs (BurnExecutor_SyncTxs env x)"
  unfolding BurnExecutor_SyncTxs_def BurnExecutor_SyncInvalidMints_def BurnExecutor_SyncBurns_def
  by (intro writes_intros writes_sync_loop)

end

end
