(* ===== verification/Eth_Blocks.thy ===== *)
theory Eth_Blocks
  imports Service_Context
begin

text \<open>
  The block ranges the two Ethereum monitors (\<open>eth/monitor.go\<close>, \<open>eth/executor.go\<close>) query: one query
  when the gap is small, otherwise chunks of \<open>MAX_QUERY_BLOCKS\<close>. Block numbers are far below
  \<open>2^63\<close>, so the \<open>int64\<close> counter is an integer here.
\<close>

definition MAX_QUERY_BLOCKS :: int where "MAX_QUERY_BLOCKS = 499"

lemma MAX_QUERY_BLOCKS_pos [simp]: "0 < MAX_QUERY_BLOCKS"
  by (simp add: MAX_QUERY_BLOCKS_def)

text \<open>
  The loop over the chunks: after a failure the remaining chunks are counted through without a
  query (\<open>success \<and> ...\<close> is evaluated lazily).
\<close>

function sync_chunks ::
    "(int \<Rightarrow> int \<Rightarrow> ('w, bool result) io) \<Rightarrow> int \<Rightarrow> int \<Rightarrow> bool \<Rightarrow> ('w, bool result) io" where
  "sync_chunks SyncBlocks i current success =
     (if i < current then
        (let endBlockNumber = i + MAX_QUERY_BLOCKS;
             endBlockNumber = (if endBlockNumber > current then current else endBlockNumber) in
         if success then
           then_ok (SyncBlocks (uint64 i) (uint64 endBlockNumber))
             (\<lambda>ok. sync_chunks SyncBlocks (i + MAX_QUERY_BLOCKS) current ok)
         else sync_chunks SyncBlocks (i + MAX_QUERY_BLOCKS) current False)
      else ret (Inr success))"
  by pat_completeness auto
termination
  by (relation "measure (\<lambda>(_, i, current, _). nat (current - i))") auto

declare sync_chunks.simps [simp del]

definition sync_range ::
    "(int \<Rightarrow> int \<Rightarrow> ('w, bool result) io) \<Rightarrow> int \<Rightarrow> int \<Rightarrow> ('w, bool result) io" where
  "sync_range SyncBlocks start current =
     (if current - start > MAX_QUERY_BLOCKS then sync_chunks SyncBlocks start current True
      else SyncBlocks (uint64 start) (uint64 current))"

text \<open>\<open>InitStartBlockNumber\<close> of both runners: the new start block.\<close>

definition init_start_block :: "Config \<Rightarrow> string \<Rightarrow> int \<Rightarrow> int" where
  "init_start_block cfg lastBlock current =
     (let startBlockNumber = (case ParseInt lastBlock of
            Some lastBlockNumber \<Rightarrow> lastBlockNumber
          | None \<Rightarrow> int64 (eth_StartBlockNumber (cfg_Ethereum cfg))) in
      if startBlockNumber > 0 then startBlockNumber else current)"

section \<open>The ranges cover every block\<close>

text \<open>The reference: the list of ranges queried when nothing fails.\<close>

function chunks :: "int \<Rightarrow> int \<Rightarrow> (int \<times> int) list" where
  "chunks i current =
     (if i < current then (i, min (i + MAX_QUERY_BLOCKS) current) # chunks (i + MAX_QUERY_BLOCKS) current
      else [])"
  by pat_completeness auto
termination
  by (relation "measure (\<lambda>(i, current). nat (current - i))") auto

declare chunks.simps [simp del]

definition ranges :: "int \<Rightarrow> int \<Rightarrow> (int \<times> int) list" where
  "ranges start current =
     (if current - start > MAX_QUERY_BLOCKS then chunks start current else [(start, current)])"

lemma chunks_cover:
  "i < current \<Longrightarrow> (\<Union>(a, b) \<in> set (chunks i current). {a..b}) = {i..current}"
proof (induction i current rule: chunks.induct)
  case (1 i current)
  have *: "set (chunks i current) = insert (i, min (i + MAX_QUERY_BLOCKS) current)
      (set (chunks (i + MAX_QUERY_BLOCKS) current))"
    using 1(2) by (subst chunks.simps) simp
  show ?case
  proof (cases "i + MAX_QUERY_BLOCKS < current")
    case True
    have "(\<Union>(a, b) \<in> set (chunks i current). {a..b}) =
        {i..i + MAX_QUERY_BLOCKS} \<union> {i + MAX_QUERY_BLOCKS..current}"
      using 1 True unfolding * by simp
    also have "\<dots> = {i..current}" using True by (auto simp: MAX_QUERY_BLOCKS_def)
    finally show ?thesis .
  next
    case False
    then have "chunks (i + MAX_QUERY_BLOCKS) current = []" by (subst chunks.simps) simp
    then show ?thesis unfolding * using False by simp
  qed
qed

lemma chunks_width:
  "(a, b) \<in> set (chunks i current) \<Longrightarrow> a < b \<and> b - a \<le> MAX_QUERY_BLOCKS"
proof (induction i current rule: chunks.induct)
  case (1 i current)
  from 1(2) have "i < current \<and> ((a, b) = (i, min (i + MAX_QUERY_BLOCKS) current) \<or>
      (a, b) \<in> set (chunks (i + MAX_QUERY_BLOCKS) current))"
    by (subst (asm) chunks.simps) (auto split: if_splits)
  then show ?case using 1(1) by (auto simp: MAX_QUERY_BLOCKS_def)
qed

lemma ranges_cover: "start < current \<Longrightarrow> (\<Union>(a, b) \<in> set (ranges start current). {a..b}) = {start..current}"
  by (simp add: ranges_def chunks_cover)

lemma ranges_width: "start < current \<Longrightarrow> (a, b) \<in> set (ranges start current) \<Longrightarrow> a < b \<and> b - a \<le> MAX_QUERY_BLOCKS"
  using chunks_width by (auto simp: ranges_def split: if_splits)

section \<open>Reasoning about the ranges\<close>

text \<open>A failed chunk makes the whole synchronisation fail.\<close>

lemma sync_chunks_failed: "sync_chunks f i current False = ret (Inr False)"
proof (induction "nat (current - i)" arbitrary: i rule: less_induct)
  case less
  show ?case
  proof (cases "i < current")
    case True
    then have "nat (current - (i + MAX_QUERY_BLOCKS)) < nat (current - i)"
      using MAX_QUERY_BLOCKS_pos by linarith
    from less [OF this] True show ?thesis by (subst sync_chunks.simps) (simp add: Let_def)
  qed (subst sync_chunks.simps, simp)
qed

fun sync_all :: "(int \<Rightarrow> int \<Rightarrow> ('w, bool result) io) \<Rightarrow> (int \<times> int) list \<Rightarrow> ('w, bool result) io" where
  "sync_all f [] = ret (Inr True)"
| "sync_all f ((a, b) # rs) =
     then_ok (f (uint64 a) (uint64 b)) (\<lambda>ok. if ok then sync_all f rs else ret (Inr False))"

lemma sync_chunks_all: "sync_chunks f i current True = sync_all f (chunks i current)"
proof (induction i current rule: chunks.induct)
  case (1 i current)
  show ?case
  proof (cases "i < current")
    case True
    have m: "(if i + MAX_QUERY_BLOCKS > current then current else i + MAX_QUERY_BLOCKS) =
        min (i + MAX_QUERY_BLOCKS) current" by auto
    have k: "(\<lambda>ok. sync_chunks f (i + MAX_QUERY_BLOCKS) current ok) =
        (\<lambda>ok. if ok then sync_all f (chunks (i + MAX_QUERY_BLOCKS) current) else ret (Inr False))"
      using 1 [OF True] sync_chunks_failed by (auto intro!: ext)
    show ?thesis
      by (subst sync_chunks.simps, subst chunks.simps) (simp add: True Let_def m k)
  next
    case False
    then show ?thesis by (subst sync_chunks.simps, subst chunks.simps) simp
  qed
qed

lemma then_ok_ret: "then_ok m (\<lambda>ok. if ok then ret (Inr True) else ret (Inr False)) = m"
proof (rule state.expand, rule ext)
  fix w
  show "run_state (then_ok m (\<lambda>ok. if ok then ret (Inr True) else ret (Inr False))) w = run_state m w"
    by (auto simp: run_simps split: prod.splits sum.splits)
qed

text \<open>The loop is the reference: query the ranges in order until one fails.\<close>

lemma sync_range_all: "sync_range f start current = sync_all f (ranges start current)"
proof -
  have "f (uint64 start) (uint64 current) = sync_all f [(start, current)]"
    unfolding sync_all.simps then_ok_ret ..
  then show ?thesis by (simp add: sync_range_def ranges_def sync_chunks_all)
qed

lemma writes_sync_all:
  "(\<And>a b. writes R v (f a b)) \<Longrightarrow> writes R v (sync_all f rs)"
  by (induction rs) (auto intro!: writes_intros)

lemma writes_sync_range [writes_intros]:
  "(\<And>a b. writes R v (f a b)) \<Longrightarrow> writes R v (sync_range f start current)"
  unfolding sync_range_all by (rule writes_sync_all)

text \<open>What one range establishes and nothing destroys holds after all ranges.\<close>

lemma triple_sync_all:
  assumes "\<And>a b. writes R v (f a b)" "\<And>s s'. R s s' \<Longrightarrow> S s \<Longrightarrow> S s'"
    and "\<And>P. triple v P (f (uint64 a) (uint64 b)) (\<lambda>r s. r = Inr True \<longrightarrow> S s)"
    and "(a, b) \<in> set rs"
  shows "triple v P (sync_all f rs) (\<lambda>r s. r = Inr True \<longrightarrow> S s)"
  using assms(4)
proof (induction rs arbitrary: P)
  case (Cons p rs)
  obtain a' b' where p: "p = (a', b')" by (cases p)
  show ?case
  proof (cases "p = (a, b)")
    case True
    show ?thesis unfolding True sync_all.simps
    proof (rule triple_then_ok [OF assms(3)])
      fix ok
      show "triple v (\<lambda>s. Inr ok = (Inr True :: bool result) \<longrightarrow> S s)
          (if ok then sync_all f rs else ret (Inr False)) (\<lambda>r s. r = Inr True \<longrightarrow> S s)"
        using triple_stable [OF writes_sync_all [of R v f], of S rs] assms(1,2)
        by (auto intro: triple_ret triple_weaken)
    qed simp
  next
    case False
    with Cons have "(a, b) \<in> set rs" by auto
    with Cons.IH show ?thesis unfolding p sync_all.simps
      by (intro triple_then_ok [where R = "\<lambda>r s. (\<exists>e. r = Inl e) \<or> True"])
         (auto simp: triple_def run_simps)
  qed
qed simp

lemma ranges_point:
  assumes "start < current" "start \<le> block" "block \<le> current"
  obtains a b where "(a, b) \<in> set (ranges start current)" "a \<le> block" "block \<le> b" "start \<le> a" "b \<le> current"
proof -
  have "block \<in> (\<Union>(a, b) \<in> set (ranges start current). {a..b})"
    using ranges_cover [OF assms(1)] assms(2,3) by simp
  then obtain a b where ab: "(a, b) \<in> set (ranges start current)" "a \<le> block" "block \<le> b" by auto
  then have "{a..b} \<subseteq> {start..current}" using ranges_cover [OF assms(1)] by blast
  with ab show thesis by (intro that [of a b]) auto
qed

section \<open>Reasoning about the events\<close>

text \<open>
  The reference of both event loops: stop at an iterator error, pass over missing and skipped
  events, handle the others.
\<close>

fun event_loop ::
    "('e \<Rightarrow> bool) \<Rightarrow> ('e \<Rightarrow> ('w, bool result) io) \<Rightarrow> bool \<Rightarrow> (error option \<times> 'e option) list \<Rightarrow>
      ('w, bool result) io" where
  "event_loop skip handle success [] = ret (Inr success)"
| "event_loop skip handle success ((err, event) # rest) =
     (if err \<noteq> None then ret (Inr False)
      else case event of
        None \<Rightarrow> event_loop skip handle False rest
      | Some ev \<Rightarrow>
          if skip ev then event_loop skip handle success rest
          else then_ok (handle ev) (\<lambda>ok. event_loop skip handle (ok \<and> success) rest))"

definition event_sync ::
    "(int \<Rightarrow> int \<Rightarrow> ('w, 'e LogIterator result) io) \<Rightarrow> ('e \<Rightarrow> bool) \<Rightarrow> ('e \<Rightarrow> ('w, bool result) io) \<Rightarrow>
      int \<Rightarrow> int \<Rightarrow> ('w, bool result) io" where
  "event_sync query skip handle a b = do {
     r \<leftarrow> query a b;
     case r of
       Inl e \<Rightarrow> ret (on_error e)
     | Inr iter \<Rightarrow>
         then_ok (event_loop skip handle True (it_Items iter)) (\<lambda>success.
           ret (Inr (if it_FinalError iter \<noteq> None then False else success))) }"

text \<open>An event the node reports in every error-free answer to a query that covers its block.\<close>

definition reported ::
    "(int \<Rightarrow> int \<Rightarrow> ('w, 'e LogIterator result) io) \<Rightarrow> 'e \<Rightarrow> int \<Rightarrow> bool" where
  "reported query ev block \<longleftrightarrow> (\<forall>a b iter. a \<le> block \<and> block \<le> b \<and>
     can_return (query a b) (Inr iter) \<and> it_FinalError iter = None \<longrightarrow>
     (\<exists>e. (e, Some ev) \<in> set (it_Items iter)))"

definition handled_events :: "('e \<Rightarrow> bool) \<Rightarrow> (error option \<times> 'e option) list \<Rightarrow> 'e set" where
  "handled_events skip items = {ev. \<not> skip ev \<and> (\<exists>e. (e, Some ev) \<in> set items)}"

lemma writes_event_loop:
  "(\<And>ev. writes R v (handle ev)) \<Longrightarrow> writes R v (event_loop skip handle success items)"
proof (induction items arbitrary: success)
  case (Cons item items)
  then show ?case by (cases item) (auto intro!: writes_intros split: option.splits)
qed (simp add: writes_intros)

lemma writes_event_sync:
  "(\<And>a b. writes R v (query a b)) \<Longrightarrow> (\<And>ev. writes R v (handle ev)) \<Longrightarrow>
     writes R v (event_sync query skip handle a b)"
  unfolding event_sync_def by (intro writes_intros writes_event_loop)

text \<open>
  If handling an event with result true establishes \<open>S ev\<close> and nothing destroys it, then a loop
  with result true has established it for every event it has not skipped.
\<close>

lemma triple_event_loop:
  assumes "\<And>ev. writes R v (handle ev)" "\<And>ev s s'. R s s' \<Longrightarrow> S ev s \<Longrightarrow> S ev s'"
    and "\<And>ev P. \<not> skip ev \<Longrightarrow> triple v P (handle ev) (\<lambda>r s. r = Inr True \<longrightarrow> S ev s)"
  shows "triple v (\<lambda>s. success \<longrightarrow> (\<forall>ev \<in> H. S ev s)) (event_loop skip handle success items)
     (\<lambda>r s. r = Inr True \<longrightarrow> (\<forall>ev \<in> H \<union> handled_events skip items. S ev s))"
proof (induction items arbitrary: success H)
  case Nil
  show ?case by (auto intro: triple_ret simp: handled_events_def)
next
  case (Cons item rest)
  obtain err event where item: "item = (err, event)" by (cases item)
  consider (err) "err \<noteq> None" | (missing) "err = None" "event = None"
    | (skip) ev where "err = None" "event = Some ev" "skip ev"
    | (handle) ev where "err = None" "event = Some ev" "\<not> skip ev"
    by (cases event) auto
  then show ?case
  proof cases
    case err
    then show ?thesis by (auto simp: item intro: triple_ret)
  next
    case missing
    then show ?thesis unfolding item
      by (simp, intro triple_weaken [OF Cons.IH [of False UNIV]]) auto
  next
    case skip
    then have run: "event_loop skip handle success (item # rest) = event_loop skip handle success rest"
      by (simp add: item)
    show ?thesis unfolding run using skip
      by (intro triple_weaken [OF Cons.IH [of success H]]) (auto simp: item handled_events_def)
  next
    case handle
    then have run: "event_loop skip handle success (item # rest) =
        then_ok (handle ev) (\<lambda>ok. event_loop skip handle (ok \<and> success) rest)"
      by (simp add: item)
    have keep: "triple v (\<lambda>s. success \<longrightarrow> (\<forall>ev \<in> H. S ev s)) (handle ev)
        (\<lambda>_ s. success \<longrightarrow> (\<forall>ev \<in> H. S ev s))"
      by (rule triple_stable [OF assms(1)]) (auto intro: assms(2))
    have head: "triple v (\<lambda>s. success \<longrightarrow> (\<forall>ev \<in> H. S ev s)) (handle ev)
        (\<lambda>r s. (success \<longrightarrow> (\<forall>ev \<in> H. S ev s)) \<and> (r = Inr True \<longrightarrow> S ev s))"
      using triple_conj [OF keep assms(3), of "\<lambda>_. True"] handle(3) by simp
    show ?thesis unfolding run
    proof (rule triple_then_ok [OF head])
      fix ok
      show "triple v (\<lambda>s. (success \<longrightarrow> (\<forall>ev \<in> H. S ev s)) \<and>
             (Inr ok = (Inr True :: bool result) \<longrightarrow> S ev s))
          (event_loop skip handle (ok \<and> success) rest)
          (\<lambda>r s. r = Inr True \<longrightarrow> (\<forall>ev \<in> H \<union> handled_events skip (item # rest). S ev s))"
        by (rule triple_weaken [OF Cons.IH [of "ok \<and> success" "insert ev H"]])
           (use handle in \<open>auto simp: item handled_events_def\<close>)
    qed simp
  qed
qed

lemma triple_event_sync:
  assumes "\<And>a b. writes R v (query a b)" "\<And>ev. writes R v (handle ev)"
    and "\<And>ev s s'. R s s' \<Longrightarrow> S ev s \<Longrightarrow> S ev s'"
    and "\<And>ev P. \<not> skip ev \<Longrightarrow> triple v P (handle ev) (\<lambda>r s. r = Inr True \<longrightarrow> S ev s)"
    and "reported query ev block" "\<not> skip ev" "a \<le> block" "block \<le> b"
  shows "triple v P (event_sync query skip handle a b) (\<lambda>r s. r = Inr True \<longrightarrow> S ev s)"
  unfolding event_sync_def
proof (rule triple_bind)
  show "triple v P (query a b) (\<lambda>_ _. True)" by (simp add: triple_def)
next
  fix r assume r: "can_return (query a b) r"
  show "triple v (\<lambda>_. True) (case r of Inl e \<Rightarrow> ret (on_error e)
     | Inr iter \<Rightarrow> then_ok (event_loop skip handle True (it_Items iter)) (\<lambda>success.
           ret (Inr (if it_FinalError iter \<noteq> None then False else success))))
     (\<lambda>r s. r = Inr True \<longrightarrow> S ev s)"
  proof (cases r)
    case (Inl e)
    then show ?thesis by (auto intro: triple_ret)
  next
    case (Inr iter)
    have mem: "it_FinalError iter = None \<Longrightarrow> ev \<in> handled_events skip (it_Items iter)"
      using assms(5-8) r unfolding Inr reported_def handled_events_def by blast
    show ?thesis unfolding Inr sum.case
      by (rule triple_then_ok [OF triple_event_loop [where R = R and S = S and skip = skip and handle = handle and v = v and H = "{}", OF assms(2-4)], THEN triple_weaken])
         (use mem in \<open>auto intro!: triple_ret\<close>)
  qed
qed

text \<open>A scan of all ranges up to the current block with result true has handled the event.\<close>

lemma triple_event_scan:
  assumes "\<And>a b. writes R v (query a b)" "\<And>ev. writes R v (handle ev)"
    and "\<And>ev s s'. R s s' \<Longrightarrow> S ev s \<Longrightarrow> S ev s'"
    and "\<And>ev P. \<not> skip ev \<Longrightarrow> triple v P (handle ev) (\<lambda>r s. r = Inr True \<longrightarrow> S ev s)"
    and "reported query ev block" "\<not> skip ev"
    and "0 \<le> start" "start < current" "start \<le> block" "block \<le> current" "current < 2 ^ 63"
  shows "triple v P (sync_range (event_sync query skip handle) start current)
     (\<lambda>r s. r = Inr True \<longrightarrow> S ev s)"
proof -
  obtain a b where ab: "(a, b) \<in> set (ranges start current)"
    "a \<le> block" "block \<le> b" "start \<le> a" "b \<le> current"
    using ranges_point [OF assms(8-10)] by metis
  have u: "uint64 a = a" "uint64 b = b" using ab assms(7,11) by (auto intro!: uint64_id)
  show ?thesis
    unfolding sync_range_all
  proof (rule triple_sync_all [OF writes_event_sync [OF assms(1,2)] _ _ ab(1)])
    show "R s s' \<Longrightarrow> S ev s \<Longrightarrow> S ev s'" for s s' by (rule assms(3))
    show "triple v P (event_sync query skip handle (uint64 a) (uint64 b)) (\<lambda>r s. r = Inr True \<longrightarrow> S ev s)" for P
      unfolding u
      by (rule triple_event_sync [where R = R and S = S and skip = skip and ev = ev and handle = handle and v = v
            and query = query, OF assms(1-6) ab(2,3)])
  qed
qed

end
