(* ===== verification/Burn_Monitor.thy ===== *)
theory Burn_Monitor
  imports Eth_Blocks
begin

text \<open>
  \<open>eth/monitor.go\<close>: the runner that turns burn events of the wrapped token into burn documents.
\<close>

section \<open>The runner\<close>

definition BurnMonitorName :: string where "BurnMonitorName = ''BURN MONITOR''"

record BurnMonitorRunner =
  bm_startBlockNumber :: int
  bm_currentBlockNumber :: int
  bm_minimumAmount :: int

definition BurnMonitor_Status :: "BurnMonitorRunner \<Rightarrow> RunnerStatus" where
  "BurnMonitor_Status x = \<lparr>rs_EthBlockNumber = FormatInt (bm_startBlockNumber x), rs_PoktHeight = []\<rparr>"

definition BurnMonitor_UpdateCurrentBlockNumber ::
    "('w, 't) Env \<Rightarrow> BurnMonitorRunner \<Rightarrow> ('w, BurnMonitorRunner result) io" where
  "BurnMonitor_UpdateCurrentBlockNumber env x = do {
     r \<leftarrow> GetBlockNumber (Eth env);
     ret (case r of
         Inl e \<Rightarrow> keep_going x e
       | Inr res \<Rightarrow> Inr (x\<lparr>bm_currentBlockNumber := int64 res\<rparr>)) }"

definition BurnMonitor_HandleBurnEvent ::
    "('w, 't) Env \<Rightarrow> BurnAndBridge option \<Rightarrow> ('w, bool result) io" where
  "BurnMonitor_HandleBurnEvent env event =
     (case event of None \<Rightarrow> ret (Inr False)
      | Some event \<Rightarrow> do {
          created \<leftarrow> Now env;
          updated \<leftarrow> Now env;
          let doc = CreateBurn (lib env) (Cfg env) created updated event;
          r \<leftarrow> InsertOne (DB env) CollectionBurns (marshal_Burn doc);
          ret (case r of
              Inl e \<Rightarrow> if e = ErrDuplicateKey then Inr True else on_error e
            | Inr _ \<Rightarrow> Inr True) })"

text \<open>The loop over the iterator: an iterator error leaves it, a missing event is skipped.\<close>

fun BurnMonitor_events ::
    "('w, 't) Env \<Rightarrow> BurnMonitorRunner \<Rightarrow> bool \<Rightarrow> (error option \<times> BurnAndBridge option) list \<Rightarrow>
      ('w, bool result) io" where
  "BurnMonitor_events env x success [] = ret (Inr success)"
| "BurnMonitor_events env x success ((err, event) # rest) =
     (if err \<noteq> None then ret (Inr False)
      else case event of
        None \<Rightarrow> BurnMonitor_events env x False rest
      | Some ev \<Rightarrow>
          if bb_Removed ev \<or> \<not> bb_Amount ev > bm_minimumAmount x
          then BurnMonitor_events env x success rest
          else then_ok (BurnMonitor_HandleBurnEvent env (Some ev))
                 (\<lambda>ok. BurnMonitor_events env x (ok \<and> success) rest))"

definition BurnMonitor_SyncBlocks ::
    "('w, 't) Env \<Rightarrow> BurnMonitorRunner \<Rightarrow> int \<Rightarrow> int \<Rightarrow> ('w, bool result) io" where
  "BurnMonitor_SyncBlocks env x startBlockNumber endBlockNumber = do {
     r \<leftarrow> FilterBurnAndBridge (WPokt env) startBlockNumber endBlockNumber;
     case r of
       Inl e \<Rightarrow> ret (on_error e)
     | Inr iter \<Rightarrow>
         then_ok (BurnMonitor_events env x True (it_Items iter)) (\<lambda>success.
           ret (Inr (if it_FinalError iter \<noteq> None then False else success))) }"

definition BurnMonitor_SyncTxs ::
    "('w, 't) Env \<Rightarrow> BurnMonitorRunner \<Rightarrow> ('w, (bool \<times> BurnMonitorRunner) result) io" where
  "BurnMonitor_SyncTxs env x =
     (if bm_currentBlockNumber x \<le> bm_startBlockNumber x then ret (Inr (True, x))
      else then_ok (sync_range (BurnMonitor_SyncBlocks env x) (bm_startBlockNumber x)
                     (bm_currentBlockNumber x)) (\<lambda>success.
        ret (Inr (success,
          if success then x\<lparr>bm_startBlockNumber := bm_currentBlockNumber x\<rparr> else x))))"

definition BurnMonitor_Run ::
    "('w, 't) Env \<Rightarrow> BurnMonitorRunner \<Rightarrow> ('w, BurnMonitorRunner result) io" where
  "BurnMonitor_Run env x =
     then_ok (BurnMonitor_UpdateCurrentBlockNumber env x)
       (\<lambda>x. then_ok (BurnMonitor_SyncTxs env x) (\<lambda>(_, x). ret (Inr x)))"

section \<open>Initialisation\<close>

definition BurnMonitor_InitStartBlockNumber ::
    "('w, 't) Env \<Rightarrow> ServiceHealth \<Rightarrow> BurnMonitorRunner \<Rightarrow> BurnMonitorRunner" where
  "BurnMonitor_InitStartBlockNumber env lastHealth x =
     x\<lparr>bm_startBlockNumber :=
         init_start_block (Cfg env) (sh_EthBlockNumber lastHealth) (bm_currentBlockNumber x)\<rparr>"

definition NewBurnMonitor ::
    "('w, 't) Env \<Rightarrow> error option \<Rightarrow> error option \<Rightarrow> ServiceHealth \<Rightarrow>
      ('w, BurnMonitorRunner Service result) io" where
  "NewBurnMonitor env client contract lastHealth =
     (if \<not> svc_Enabled (cfg_BurnMonitor (Cfg env)) then ret (Inr EmptyService)
      else if client \<noteq> None then ret (Inl (Fatal ''Error initializing ethereum client''))
      else if contract \<noteq> None then ret (Inl (Fatal ''Error connecting to wpokt contract''))
      else let x = \<lparr>bm_startBlockNumber = 0, bm_currentBlockNumber = 0,
                    bm_minimumAmount = pokt_TxFee (Pocket env)\<rparr> in
        then_ok (BurnMonitor_UpdateCurrentBlockNumber env x) (\<lambda>x.
          ret (Inr (RunnerService BurnMonitorName
            (BurnMonitor_InitStartBlockNumber env lastHealth x)
            (svc_IntervalMillis (cfg_BurnMonitor (Cfg env)))))))"

section \<open>Every write follows the protocol\<close>

lemma legal_burn: "legal_insert CollectionBurns (marshal_Burn (CreateBurn l cfg t u ev))"
  by (rule new_burn) (simp_all add: CreateBurn_def Let_def)

lemma hash_of_burn:
  "map_of (marshal_Burn (CreateBurn l cfg t u ev)) ''transaction_hash'' =
     Some (BStr (ToLower (Hash_String l (bb_TxHash ev))))"
  by (simp add: marshal_Burn_def CreateBurn_def Let_def id_field_def)

context validator
begin

lemma writes_BurnMonitor_HandleBurnEvent [writes_intros]:
  "writes (store_step thrC thrE) docs (BurnMonitor_HandleBurnEvent env event)"
  unfolding BurnMonitor_HandleBurnEvent_def Let_def
  by (intro writes_intros writes_insert legal_burn)

lemma writes_BurnMonitor_events [writes_intros]:
  "writes (store_step thrC thrE) docs (BurnMonitor_events env x success items)"
proof (induction items arbitrary: success)
  case (Cons item items)
  then show ?case by (cases item) (auto intro!: writes_intros split: option.splits)
qed (simp add: writes_intros)

lemma writes_BurnMonitor_SyncTxs [writes_intros]:
  "writes (store_step thrC thrE) docs (BurnMonitor_SyncTxs env x)"
  unfolding BurnMonitor_SyncTxs_def BurnMonitor_SyncBlocks_def by (intro writes_intros)

end

section \<open>No burn transaction is lost\<close>

text \<open>An event the monitor has to record: not removed, above the fee.\<close>

definition relevant_burn :: "BurnMonitorRunner \<Rightarrow> error option \<times> BurnAndBridge option \<Rightarrow> bool" where
  "relevant_burn x item = (case snd item of
       None \<Rightarrow> False | Some ev \<Rightarrow> \<not> bb_Removed ev \<and> bb_Amount ev > bm_minimumAmount x)"

definition burn_seen :: "'t Lib \<Rightarrow> BurnAndBridge \<Rightarrow> store \<Rightarrow> bool" where
  "burn_seen l ev st \<longleftrightarrow>
     recorded CollectionBurns [(''transaction_hash'', BStr (ToLower (Hash_String l (bb_TxHash ev))))] st"

lemma burn_seen_step: "store_step thrC thrE st st' \<Longrightarrow> burn_seen l ev st \<Longrightarrow> burn_seen l ev st'"
  unfolding burn_seen_def by (erule recorded_step) (simp_all add: collection_lists)

definition skip_burn :: "BurnMonitorRunner \<Rightarrow> BurnAndBridge \<Rightarrow> bool" where
  "skip_burn x ev \<longleftrightarrow> bb_Removed ev \<or> \<not> bb_Amount ev > bm_minimumAmount x"

lemma skip_burn_iff: "skip_burn x ev \<longleftrightarrow> \<not> relevant_burn x (None, Some ev)"
  by (auto simp: skip_burn_def relevant_burn_def)

text \<open>The loop is the reference loop over events.\<close>

lemma BurnMonitor_events_loop:
  "BurnMonitor_events env x success items =
     event_loop (skip_burn x) (\<lambda>ev. BurnMonitor_HandleBurnEvent env (Some ev)) success items"
proof (induction items arbitrary: success)
  case (Cons item items)
  then show ?case by (cases item) (auto simp: skip_burn_def split: option.splits)
qed simp

lemma BurnMonitor_SyncBlocks_scan:
  "BurnMonitor_SyncBlocks env x = event_sync (FilterBurnAndBridge (WPokt env)) (skip_burn x)
     (\<lambda>ev. BurnMonitor_HandleBurnEvent env (Some ev))"
  by (intro ext) (unfold BurnMonitor_SyncBlocks_def event_sync_def BurnMonitor_events_loop, rule refl)

context validator
begin

lemma triple_HandleBurnEvent:
  "triple docs P (BurnMonitor_HandleBurnEvent env (Some ev))
     (\<lambda>r s. r = Inr True \<longrightarrow> burn_seen (lib env) ev s)"
proof -
  have now: "triple docs P (Now env) (\<lambda>_ _. True)" for P by (simp add: triple_def)
  show ?thesis
    unfolding BurnMonitor_HandleBurnEvent_def option.case Let_def
    by (intro triple_bind [OF now] triple_bind [OF triple_insert_recorded [OF legal_burn hash_of_burn]]
          triple_ret)
       (auto simp: burn_seen_def split: sum.splits if_splits)
qed

lemma triple_BurnMonitor_SyncTxs:
  assumes "reported (FilterBurnAndBridge (WPokt env)) ev block" "relevant_burn x (None, Some ev)"
    and "0 \<le> bm_startBlockNumber x" "bm_startBlockNumber x \<le> block" "block \<le> bm_currentBlockNumber x"
    and "bm_currentBlockNumber x < 2 ^ 63"
  shows "triple docs P (BurnMonitor_SyncTxs env x)
     (\<lambda>r s. \<forall>ok x'. r = Inr (ok, x') \<and> bm_startBlockNumber x' \<noteq> bm_startBlockNumber x \<longrightarrow>
        burn_seen (lib env) ev s \<and> bm_startBlockNumber x' = bm_currentBlockNumber x)"
proof (cases "bm_currentBlockNumber x \<le> bm_startBlockNumber x")
  case True
  then show ?thesis by (auto simp: BurnMonitor_SyncTxs_def intro: triple_ret)
next
  case False
  have "triple docs P (sync_range (BurnMonitor_SyncBlocks env x) (bm_startBlockNumber x)
          (bm_currentBlockNumber x)) (\<lambda>r s. r = Inr True \<longrightarrow> burn_seen (lib env) ev s)"
    unfolding BurnMonitor_SyncBlocks_scan
    by (rule triple_event_scan [OF rely_wpokt(3) writes_BurnMonitor_HandleBurnEvent _ _ assms(1) _ assms(3) _
          assms(4-6)]; use False assms(2) in \<open>auto simp: skip_burn_iff intro: burn_seen_step triple_HandleBurnEvent\<close>)
  then show ?thesis
    unfolding BurnMonitor_SyncTxs_def using False
    by (auto intro!: triple_then_ok triple_ret split: if_splits)
qed

end

end
