(* ===== verification/Mint_Signer.thy ===== *)
theory Mint_Signer
  imports Service_Context
begin

text \<open>
  \<open>eth/signer.go\<close>: the runner that signs the mint of wrapped tokens for every valid transfer to the
  vault.
\<close>

section \<open>The runner\<close>

definition MintSignerName :: string where "MintSignerName = ''MINT SIGNER''"

text \<open>
  \<open>ms_domain\<close> is \<open>None\<close> while the domain data have not been fetched: the zero \<open>DomainData\<close>, whose
  chain id is a nil pointer.
\<close>

record MintSignerRunner =
  ms_address :: string
  ms_privateKey :: EthKey
  ms_vaultAddress :: string
  ms_wpoktAddress :: string
  ms_validatorCount :: int
  ms_signerThreshold :: int
  ms_domain :: "DomainData option"
  ms_cosmosHeight :: int
  ms_minimumAmount :: int
  ms_maximumAmount :: "int option"

definition MintSigner_Status :: "MintSignerRunner \<Rightarrow> RunnerStatus" where
  "MintSigner_Status x = \<lparr>rs_EthBlockNumber = [], rs_PoktHeight = FormatInt (ms_cosmosHeight x)\<rparr>"

definition MintSigner_UpdateBlocks ::
    "('w, 't) Env \<Rightarrow> MintSignerRunner \<Rightarrow> ('w, MintSignerRunner result) io" where
  "MintSigner_UpdateBlocks env x = do {
     r \<leftarrow> GetLatestBlockHeight (Cosmos env);
     ret (case r of
         Inl e \<Rightarrow> keep_going x e
       | Inr poktHeight \<Rightarrow> Inr (x\<lparr>ms_cosmosHeight := poktHeight\<rparr>)) }"

section \<open>Nonces\<close>

text \<open>The nonces of the pending mints that carry data; those that do not parse are skipped.\<close>

definition pending_nonces :: "Mint list \<Rightarrow> int list" where
  "pending_nonces pendingMints = concat (map (\<lambda>m. case m_Data m of
       None \<Rightarrow> []
     | Some d \<Rightarrow> (case SetString10 (data_Nonce d) of None \<Rightarrow> [] | Some n \<Rightarrow> [n])) pendingMints)"

definition pending_filter :: "MintSignerRunner \<Rightarrow> Mint \<Rightarrow> query" where
  "pending_filter x mint = QAnd
     [Fld ''_id'' (CNe (marshal_oid (m_Id mint))),
      Fld ''vault_address'' (CEq (BStr (ms_vaultAddress x))),
      Fld ''wpokt_address'' (CEq (BStr (ms_wpoktAddress x))),
      Fld ''recipient_address'' (CEq (BStr (ToLower (m_RecipientAddress mint)))),
      Fld ''status'' (CIn [BStr StatusPending, BStr StatusConfirmed, BStr StatusSigned])]"

text \<open>The branch without a usable nonce in the document: one more than the largest nonce in use.\<close>

definition MintSigner_NewNonce ::
    "('w, 't) Env \<Rightarrow> MintSignerRunner \<Rightarrow> Mint \<Rightarrow> ('w, int result) io" where
  "MintSigner_NewNonce env x mint =
     then_ok (GetUserNonce (WPokt env) (HexToAddress (lib env) (m_RecipientAddress mint)))
       (\<lambda>currentNonce.
     then_ok (find_decoded (DB env) unmarshal_Mint CollectionMints (pending_filter x mint))
       (\<lambda>pendingMints.
         let nonces = sort (pending_nonces pendingMints);
             currentNonce = (if length nonces > 0 \<and> currentNonce < last nonces then last nonces
                             else currentNonce) in
         ret (Inr (currentNonce + 1))))"

definition MintSigner_FindNonce ::
    "('w, 't) Env \<Rightarrow> MintSignerRunner \<Rightarrow> Mint \<Rightarrow> ('w, int result) io" where
  "MintSigner_FindNonce env x mint =
     (case (if m_Nonce mint \<noteq> [] then
              (case SetString10 (m_Nonce mint) of
                 None \<Rightarrow> Inl (Err ''error converting decimal to big int'')
               | Some n \<Rightarrow> Inr (Some n))
            else Inr None) of
        Inl e \<Rightarrow> ret (Inl e)
      | Inr nonce \<Rightarrow>
          (case nonce of
             Some n \<Rightarrow> if n \<noteq> 0 then ret (Inr n) else MintSigner_NewNonce env x mint
           | None \<Rightarrow> MintSigner_NewNonce env x mint))"

section \<open>Validation\<close>

definition MintSigner_CheckMint :: "('w, 't) Env \<Rightarrow> ValidateTxResult \<Rightarrow> Mint \<Rightarrow> bool result" where
  "MintSigner_CheckMint env result mint =
     (if vr_NeedsRefund result \<or> \<not> vr_TxValid result then Inr False
      else if \<not> EqualFold (vr_SenderAddress result) (m_SenderAddress mint) then Inr False
      else if \<not> EqualFold (memo_Address (vr_Memo result)) (m_RecipientAddress mint) then Inr False
      else if \<not> EqualFold (memo_ChainID (vr_Memo result)) (m_RecipientChainID mint) then Inr False
      else case NewIntFromString (lib env) (m_Amount mint) of
        None \<Rightarrow> Inr False
      | Some amount \<Rightarrow>
          (case coin_Amount (vr_Amount result) of
             None \<Rightarrow> Inl (Panic ''nil amount'')
           | Some txAmount \<Rightarrow> Inr (txAmount = amount)))"

definition MintSigner_ValidateMint ::
    "('w, 't) Env \<Rightarrow> MintSignerRunner \<Rightarrow> Mint \<Rightarrow> ('w, bool result) io" where
  "MintSigner_ValidateMint env x mint = do {
     r \<leftarrow> GetTx (Cosmos env) (m_TransactionHash mint);
     ret (case r of
         Inl e \<Rightarrow> Inl (wrap_error ''Error fetching transaction'' e)
       | Inr None \<Rightarrow> Inl (Err ''transaction not found'')
       | Inr (Some tx) \<Rightarrow>
           (case ValidateTxToCosmosMultisig (lib env) (Cfg env) tx (Pocket env)
                   (ms_minimumAmount x) (ms_maximumAmount x) of
              Inl p \<Rightarrow> Inl p
            | Inr result \<Rightarrow> MintSigner_CheckMint env result mint)) }"

section \<open>Handling a mint\<close>

definition MintSigner_signed_update ::
    "'t Lib \<Rightarrow> MintControllerMintData \<Rightarrow> Mint \<Rightarrow> nat \<Rightarrow> update" where
  "MintSigner_signed_update l data mint now =
     [(''data'', marshal_data (Some \<lparr>data_Recipient = ToLower (Address_Hex l (md_Recipient data)),
                                    data_Amount = FormatInt (md_Amount data),
                                    data_Nonce = FormatInt (md_Nonce data)\<rparr>)),
      (''nonce'', BStr (FormatInt (md_Nonce data))),
      (''signatures'', strs (m_Signatures mint)),
      (''signers'', strs (m_Signers mint)),
      (''status'', BStr (m_Status mint)),
      (''confirmations'', BStr (m_Confirmations mint)),
      (''updated_at'', BTime now)]"

text \<open>The update a mint gets once its status has been computed and it has been validated.\<close>

definition MintSigner_update ::
    "('w, 't) Env \<Rightarrow> MintSignerRunner \<Rightarrow> MintControllerMintData \<Rightarrow> Mint \<Rightarrow> bool \<Rightarrow>
      ('w, update result) io" where
  "MintSigner_update env x data mint valid =
     (if \<not> valid then do {
        now \<leftarrow> Now env;
        ret (Inr [(''status'', BStr StatusFailed), (''updated_at'', BTime now)]) }
      else if m_Status mint = StatusConfirmed then
        (case ms_domain x of
           None \<Rightarrow> ret (Inl (Panic ''nil pointer dereference''))
         | Some domain \<Rightarrow>
             (case SignMint (lib env) mint data domain (ms_privateKey x) (ms_signerThreshold x) of
                Inl e \<Rightarrow> ret (Inl e)
              | Inr mint \<Rightarrow> do {
                  now \<leftarrow> Now env;
                  ret (Inr (MintSigner_signed_update (lib env) data mint now)) }))
      else do {
        now \<leftarrow> Now env;
        ret (Inr [(''status'', BStr (m_Status mint)), (''confirmations'', BStr (m_Confirmations mint)),
                  (''updated_at'', BTime now)]) })"

definition MintSigner_HandleMint ::
    "('w, 't) Env \<Rightarrow> MintSignerRunner \<Rightarrow> Mint option \<Rightarrow> ('w, bool result) io" where
  "MintSigner_HandleMint env x mint0 =
     (case mint0 of None \<Rightarrow> ret (Inr False)
      | Some mint0 \<Rightarrow>
     (case SetString10 (m_Amount mint0) of
        None \<Rightarrow> ret (Inr False)
      | Some amount \<Rightarrow> do {
     n \<leftarrow> MintSigner_FindNonce env x mint0;
     case n of
       Inl e \<Rightarrow> ret (on_error e)
     | Inr nonce \<Rightarrow>
     if nonce = 0 then ret (Inr False)
     else let data = \<lparr>md_Recipient = HexToAddress (lib env) (m_RecipientAddress mint0),
                      md_Amount = amount, md_Nonce = nonce\<rparr> in
     (case UpdateStatusAndConfirmationsForMint (Cfg env) mint0 (ms_cosmosHeight x) of
        Inl e \<Rightarrow> ret (on_error e)
      | Inr mint \<Rightarrow> do {
     v \<leftarrow> MintSigner_ValidateMint env x mint;
     case v of
       Inl e \<Rightarrow> ret (on_error e)
     | Inr valid \<Rightarrow> do {
     u \<leftarrow> MintSigner_update env x data mint valid;
     case u of
       Inl e \<Rightarrow> ret (on_error e)
     | Inr update \<Rightarrow> do {
     r \<leftarrow> UpdateOne (DB env) CollectionMints
       (QAnd [Fld ''_id'' (CEq (marshal_oid (m_Id mint))),
              Fld ''status'' (CIn [BStr StatusPending, BStr StatusConfirmed])]) update;
     ret (case r of Inl e \<Rightarrow> on_error e | Inr _ \<Rightarrow> Inr True) } } }) }))"

section \<open>Synchronisation\<close>

definition MintSigner_filter :: "MintSignerRunner \<Rightarrow> query" where
  "MintSigner_filter x = QAnd
     [Fld ''wpokt_address'' (CEq (BStr (ms_wpoktAddress x))),
      Fld ''vault_address'' (CEq (BStr (ms_vaultAddress x))),
      Fld ''status'' (CIn [BStr StatusPending, BStr StatusConfirmed]),
      Fld ''signers'' (CNin [BStr (ms_address x)])]"

definition MintSigner_SyncTxs ::
    "('w, 't) Env \<Rightarrow> MintSignerRunner \<Rightarrow> ('w, bool result) io" where
  "MintSigner_SyncTxs env x = do {
     r \<leftarrow> find_decoded (DB env) unmarshal_Mint CollectionMints (MintSigner_filter x);
     case r of
       Inl e \<Rightarrow> ret (on_error e)
     | Inr mints \<Rightarrow> sync_loop env
         (\<lambda>mint. Inr (CollectionMints @ ''/'' @ ToLower (m_RecipientAddress mint)))
         (\<lambda>mint. MintSigner_HandleMint env x (Some mint)) True mints }"

definition MintSigner_UpdateValidatorCount ::
    "('w, 't) Env \<Rightarrow> MintSignerRunner \<Rightarrow> ('w, MintSignerRunner result) io" where
  "MintSigner_UpdateValidatorCount env x = do {
     r \<leftarrow> ValidatorCount (MintCtl env);
     ret (case r of
         Inl e \<Rightarrow> keep_going x e
       | Inr cnt \<Rightarrow> Inr (x\<lparr>ms_validatorCount := int64 cnt\<rparr>)) }"

definition MintSigner_UpdateSignerThreshold ::
    "('w, 't) Env \<Rightarrow> MintSignerRunner \<Rightarrow> ('w, MintSignerRunner result) io" where
  "MintSigner_UpdateSignerThreshold env x = do {
     r \<leftarrow> SignerThreshold (MintCtl env);
     ret (case r of
         Inl e \<Rightarrow> keep_going x e
       | Inr cnt \<Rightarrow> Inr (x\<lparr>ms_signerThreshold := int64 cnt\<rparr>)) }"

definition MintSigner_UpdateDomainData ::
    "('w, 't) Env \<Rightarrow> MintSignerRunner \<Rightarrow> ('w, MintSignerRunner result) io" where
  "MintSigner_UpdateDomainData env x = do {
     r \<leftarrow> Eip712Domain (MintCtl env);
     ret (case r of
         Inl e \<Rightarrow> keep_going x e
       | Inr domain \<Rightarrow> Inr (x\<lparr>ms_domain := Some domain\<rparr>)) }"

definition MintSigner_UpdateMaxMintLimit ::
    "('w, 't) Env \<Rightarrow> MintSignerRunner \<Rightarrow> ('w, MintSignerRunner result) io" where
  "MintSigner_UpdateMaxMintLimit env x = do {
     r \<leftarrow> MaxMintLimit (MintCtl env);
     ret (case r of
         Inl e \<Rightarrow> keep_going x e
       | Inr mintLimit \<Rightarrow> Inr (x\<lparr>ms_maximumAmount := Some mintLimit\<rparr>)) }"

definition MintSigner_Run ::
    "('w, 't) Env \<Rightarrow> MintSignerRunner \<Rightarrow> ('w, MintSignerRunner result) io" where
  "MintSigner_Run env x =
     then_ok (MintSigner_UpdateBlocks env x) (\<lambda>x.
     then_ok (MintSigner_UpdateValidatorCount env x) (\<lambda>x.
     then_ok (MintSigner_UpdateMaxMintLimit env x) (\<lambda>x.
     then_ok (MintSigner_SyncTxs env x) (\<lambda>_. ret (Inr x)))))"

section \<open>Initialisation\<close>

text \<open>
  \<open>key\<close> is the parsed private key; the other arguments are the results of constructing the clients.
\<close>

definition NewMintSigner ::
    "('w, 't) Env \<Rightarrow> EthKey result \<Rightarrow> error option \<Rightarrow> error option \<Rightarrow> error option \<Rightarrow>
      error option \<Rightarrow> ('w, MintSignerRunner Service result) io" where
  "NewMintSigner env key ethClient contract mintController cosmosClient =
     (if \<not> svc_Enabled (cfg_MintSigner (Cfg env)) \<or> pokt_MintDisabled (Pocket env)
      then ret (Inr EmptyService)
      else case key of
        Inl e \<Rightarrow> ret (Inl (Fatal ''Error loading private key''))
      | Inr privateKey \<Rightarrow>
      (if ethClient \<noteq> None then ret (Inl (Fatal ''Error initializing ethereum client''))
       else if contract \<noteq> None then ret (Inl (Fatal ''Error initializing Wrapped Pocket contract''))
       else if mintController \<noteq> None
         then ret (Inl (Fatal ''Error initializing Mint Controller contract''))
       else if cosmosClient \<noteq> None then ret (Inl (Fatal ''Error creating pokt client''))
       else let x = \<lparr>ms_address = ToLower (key_AddressHex privateKey), ms_privateKey = privateKey,
                     ms_vaultAddress = ToLower (pokt_MultisigAddress (Pocket env)),
                     ms_wpoktAddress = ToLower (eth_WrappedPocketAddress (Ethereum env)),
                     ms_validatorCount = 0, ms_signerThreshold = 0, ms_domain = None,
                     ms_cosmosHeight = 0, ms_minimumAmount = uint64 (pokt_TxFee (Pocket env)),
                     ms_maximumAmount = None\<rparr> in
         then_ok (MintSigner_UpdateBlocks env x) (\<lambda>x.
         if ms_cosmosHeight x = 0 then ret (Inl (Fatal ''Invalid block height''))
         else then_ok (MintSigner_UpdateValidatorCount env x) (\<lambda>x.
         then_ok (MintSigner_UpdateSignerThreshold env x) (\<lambda>x.
         if ms_validatorCount x \<noteq> int (length (eth_ValidatorAddresses (Ethereum env)))
         then ret (Inl (Fatal ''Invalid validator count''))
         else if ms_signerThreshold x > ms_validatorCount x
         then ret (Inl (Fatal ''Invalid signer threshold''))
         else then_ok (MintSigner_UpdateDomainData env x) (\<lambda>x.
         (case SetString10 (eth_ChainID (Ethereum env)) of
            None \<Rightarrow> ret (Inl (Fatal ''Invalid chain ID''))
          | Some chainId \<Rightarrow>
         (case ms_domain x of
            None \<Rightarrow> ret (Inl (Panic ''nil pointer dereference''))
          | Some domain \<Rightarrow>
         (if dom_ChainId domain \<noteq> chainId then ret (Inl (Fatal ''Invalid chain ID''))
          else if \<not> EqualFold (Address_Hex (lib env) (dom_VerifyingContract domain))
                    (eth_MintControllerAddress (Ethereum env))
          then ret (Inl (Fatal ''Invalid mint controller address in domain data''))
          else then_ok (MintSigner_UpdateMaxMintLimit env x) (\<lambda>x.
            ret (case ms_maximumAmount x of
               None \<Rightarrow> Inl (Panic ''nil amount'')
             | Some maximumAmount \<Rightarrow>
                 if maximumAmount < ms_minimumAmount x then Inl (Fatal ''Invalid max mint limit'')
                 else Inr (RunnerService MintSignerName x
                        (svc_IntervalMillis (cfg_MintSigner (Cfg env)))))))))))))))"

section \<open>Every write follows the protocol\<close>

lemma update_legal:
  assumes "can_return (MintSigner_update env x data mint valid) (Inr u)"
    and "m_Status mint \<in> {StatusPending, StatusConfirmed}"
  shows "legal_write thrC (ms_signerThreshold x) CollectionMints (open_filter i) u"
proof -
  have c: "CollectionMints \<in> set tracked_collections" by (simp add: collection_lists)
  consider (failed) t where "u = [(''status'', BStr StatusFailed), (''updated_at'', BTime t)]"
    | (progress) t where "u = [(''status'', BStr (m_Status mint)),
        (''confirmations'', BStr (m_Confirmations mint)), (''updated_at'', BTime t)]"
    | (signed) dom mint' t where "u = MintSigner_signed_update (lib env) data mint' t"
        "SignMint (lib env) mint data dom (ms_privateKey x) (ms_signerThreshold x) = Inr mint'"
        "m_Status mint = StatusConfirmed"
    using assms(1) unfolding MintSigner_update_def
    by (auto elim!: can_return_bindE split: if_splits option.splits sum.splits)
  then show ?thesis
  proof cases
    case failed
    then show ?thesis using legal_write.fail [OF c] by simp
  next
    case progress
    then show ?thesis using legal_write.progress [OF c assms(2)] by simp
  next
    case signed
    note s = SignMint_Inr [OF signed(2)]
    show ?thesis unfolding signed(1) MintSigner_signed_update_def
      using s(1,5) signed(3) by (intro legal_write.sign_mint) (auto split: if_splits)
  qed
qed

lemma UpdateStatus_mint:
  "UpdateStatusAndConfirmationsForMint cfg m h = Inr m' \<Longrightarrow>
     m_Status m \<in> {StatusPending, StatusConfirmed} \<Longrightarrow> m_Status m' \<in> {StatusPending, StatusConfirmed}"
  by (auto simp: UpdateStatusAndConfirmationsForMint_def dest: status_and_confirmations_status
      split: sum.splits prod.splits)

lemma MintSigner_filter_open:
  assumes "matches (MintSigner_filter x) d" "unmarshal_Mint d = Some m"
  shows "m_Status m \<in> {StatusPending, StatusConfirmed}"
  using get_str_member [OF unmarshal_Mint_fields(1) [OF assms(2)], of "[StatusPending, StatusConfirmed]"]
    assms(1) by (simp add: MintSigner_filter_def)

context validator
begin

lemma writes_FindNonce [writes_intros]:
  "writes (store_step thrC thrE) docs (MintSigner_FindNonce env x mint)"
  unfolding MintSigner_FindNonce_def MintSigner_NewNonce_def by (intro writes_intros)

lemma writes_ValidateMint [writes_intros]:
  "writes (store_step thrC thrE) docs (MintSigner_ValidateMint env x mint)"
  unfolding MintSigner_ValidateMint_def by (intro writes_intros)

lemma writes_MintSigner_update [writes_intros]:
  "writes (store_step thrC thrE) docs (MintSigner_update env x data mint valid)"
  unfolding MintSigner_update_def by (intro writes_intros)

lemma writes_HandleMint:
  assumes "thrE = ms_signerThreshold x" "m_Status mint0 \<in> {StatusPending, StatusConfirmed}"
  shows "writes (store_step thrC thrE) docs (MintSigner_HandleMint env x (Some mint0))"
proof -
  have upd: "writes (store_step thrC thrE) docs (UpdateOne (DB env) CollectionMints (open_filter i) u)"
    if "UpdateStatusAndConfirmationsForMint (Cfg env) mint0 h = Inr mint"
      "can_return (MintSigner_update env x data mint valid) (Inr u)" for i h mint data valid u
    using update_legal [OF that(2) UpdateStatus_mint [OF that(1) assms(2)]] unfolding assms(1)
    by (rule writes_update [unfolded assms(1)])
  show ?thesis
    unfolding MintSigner_HandleMint_def option.case open_filter_def [symmetric] Let_def
    by (intro writes_rules writes_FindNonce writes_ValidateMint writes_MintSigner_update)
       (auto intro: upd)
qed

lemma writes_MintSigner_SyncTxs:
  assumes "thrE = ms_signerThreshold x"
  shows "writes (store_step thrC thrE) docs (MintSigner_SyncTxs env x)"
  unfolding MintSigner_SyncTxs_def
  by (intro writes_rules writes_find_decoded writes_sync_loop writes_HandleMint assms)
     (auto dest!: find_decoded_filter dest: MintSigner_filter_open)

end

section \<open>Nonces are fresh\<close>

lemma last_sort_ge: "x \<in> set xs \<Longrightarrow> x \<le> last (sort xs)"
  for xs :: "int list"
proof -
  assume x: "x \<in> set xs"
  then obtain i where i: "i < length (sort xs)" "sort xs ! i = x" by (metis in_set_conv_nth set_sort)
  then have "sort xs ! i \<le> sort xs ! (length (sort xs) - 1)"
    by (intro sorted_nth_mono) auto
  with i show "x \<le> last (sort xs)" by (metis last_conv_nth length_greater_0_conv length_pos_if_in_set x length_sort)
qed

lemma set_pending_nonces:
  "m \<in> set ms \<Longrightarrow> m_Data m = Some dt \<Longrightarrow> SetString10 (data_Nonce dt) = Some k \<Longrightarrow> k \<in> set (pending_nonces ms)"
  by (auto simp: pending_nonces_def intro!: bexI [of _ m])

lemma those_map_member:
  "those (map f ds) = Some xs \<Longrightarrow> d \<in> set ds \<Longrightarrow> f d = Some x \<Longrightarrow> x \<in> set xs"
  by (induction ds arbitrary: xs) (auto split: option.splits)

context lone_validator
begin

lemma NewNonce_fresh:
  assumes "run_state (MintSigner_NewNonce env x mint) w = (Inr n, w')"
  shows "\<exists>c w1. run_state (GetUserNonce (WPokt env) (HexToAddress (lib env) (m_RecipientAddress mint))) w
      = (Inr c, w1) \<and> c < n"
    "d \<in> set (docs w CollectionMints) \<Longrightarrow> matches (pending_filter x mint) d \<Longrightarrow>
      unmarshal_Mint d = Some m \<Longrightarrow> m_Data m = Some dt \<Longrightarrow> SetString10 (data_Nonce dt) = Some k \<Longrightarrow> k < n"
proof -
  obtain r w1 where q: "run_state (GetUserNonce (WPokt env) (HexToAddress (lib env) (m_RecipientAddress mint))) w
      = (r, w1)" by fastforce
  have w1: "docs w1 = docs w"
    using quietD [OF quiet_wpokt(1), of "HexToAddress (lib env) (m_RecipientAddress mint)" w] q by simp
  obtain r2 w2 where f: "run_state (find_decoded (DB env) unmarshal_Mint CollectionMints (pending_filter x mint)) w1
      = (r2, w2)" by fastforce
  have "\<exists>c ms. r = Inr c \<and> r2 = Inr ms \<and> n = (let ns = sort (pending_nonces ms) in
        if length ns > 0 \<and> c < last ns then last ns else c) + 1"
    using assms q f by (auto simp: MintSigner_NewNonce_def run_simps Let_def split: sum.splits)
  then obtain c ms where c: "r = Inr c" "r2 = Inr ms"
    and n: "n = (let ns = sort (pending_nonces ms) in if length ns > 0 \<and> c < last ns then last ns else c) + 1"
    by blast
  from q c n show "\<exists>c w1. run_state (GetUserNonce (WPokt env) (HexToAddress (lib env) (m_RecipientAddress mint))) w
      = (Inr c, w1) \<and> c < n"
    by (intro exI [of _ c] exI [of _ w1]) (auto simp: Let_def)
  assume d: "d \<in> set (docs w CollectionMints)" "matches (pending_filter x mint) d"
    and m: "unmarshal_Mint d = Some m" "m_Data m = Some dt" "SetString10 (data_Nonce dt) = Some k"
  have ms: "those (map unmarshal_Mint (filter (matches (pending_filter x mint)) (docs w CollectionMints))) = Some ms"
    using find_decoded_result(2) [OF f [unfolded c]] by (simp only: w1)
  have "m \<in> set ms" by (rule those_map_member [OF ms _ m(1)]) (simp add: d del: matches.simps)
  then have "k \<in> set (pending_nonces ms)" using m(2,3) by (rule set_pending_nonces)
  then show "k < n" using last_sort_ge [of k "pending_nonces ms"] unfolding n Let_def
    by (auto simp: length_pos_if_in_set)
qed

section \<open>Only validated mints are signed\<close>

lemma HandleMint_invalid:
  assumes "\<And>mint tx result. UpdateStatusAndConfirmationsForMint (Cfg env) mint0 (ms_cosmosHeight x) = Inr mint \<Longrightarrow>
      can_return (GetTx (Cosmos env) (m_TransactionHash mint)) (Inr (Some tx)) \<Longrightarrow>
      ValidateTxToCosmosMultisig (lib env) (Cfg env) tx (Pocket env) (ms_minimumAmount x)
        (ms_maximumAmount x) = Inr result \<Longrightarrow>
      MintSigner_CheckMint env result mint \<noteq> Inr True"
    and "k \<notin> {''status'', ''updated_at''}"
  shows "writes (\<lambda>st st'. field_in c k st' = field_in c k st) docs (MintSigner_HandleMint env x (Some mint0))"
proof -
  let ?W = "writes (\<lambda>st st'. field_in c k st' = field_in c k st) docs"
  have nonce: "?W (MintSigner_FindNonce env x mint0)"
    unfolding MintSigner_FindNonce_def MintSigner_NewNonce_def
    by (intro writes_intros quiet_writes quiet_all quiet_find_decoded)
  have valid: "?W (MintSigner_ValidateMint env x mint)" for mint
    unfolding MintSigner_ValidateMint_def by (intro quiet_writes quiet_intros)
  have invalid: "\<not> valid"
    if "UpdateStatusAndConfirmationsForMint (Cfg env) mint0 (ms_cosmosHeight x) = Inr mint"
      "can_return (MintSigner_ValidateMint env x mint) (Inr valid)" for mint valid
    using that(2) assms(1) [OF that(1)] unfolding MintSigner_ValidateMint_def
    by (auto elim!: can_return_bindE split: sum.splits option.splits)
  have "k \<notin> fst ` set u" if "can_return (MintSigner_update env x data mint False) (Inr u)" for data mint u
    using that assms(2) by (auto simp: MintSigner_update_def elim!: can_return_bindE)
  then have upd: "?W (UpdateOne (DB env) CollectionMints q u)"
    if "can_return (MintSigner_update env x data mint False) (Inr u)" for data mint u q
    using that by (intro update_keeps_field) blast
  have q: "?W (MintSigner_update env x data mint valid)" for data mint valid
    unfolding MintSigner_update_def by (intro writes_intros quiet_writes quiet_now)
  show ?thesis
    unfolding MintSigner_HandleMint_def option.case Let_def
    by (intro writes_rules nonce valid q) (use invalid upd in fastforce)
qed

end

section \<open>Start-up\<close>

lemma record_field_kept:
  "\<exists>v. x = x\<lparr>ms_cosmosHeight := v\<rparr>"
  "\<exists>v. x = x\<lparr>ms_validatorCount := v\<rparr>"
  "\<exists>v. x = x\<lparr>ms_signerThreshold := v\<rparr>"
  "\<exists>v. x = x\<lparr>ms_domain := v\<rparr>"
  "\<exists>v. x = x\<lparr>ms_maximumAmount := v\<rparr>"
  for x :: MintSignerRunner
  by (rule exI [of _ "ms_cosmosHeight x"] exI [of _ "ms_validatorCount x"] exI [of _ "ms_signerThreshold x"]
      exI [of _ "ms_domain x"] exI [of _ "ms_maximumAmount x"], simp)+

lemma mint_signer_updates:
  "can_return (MintSigner_UpdateBlocks env x) (Inr x') \<Longrightarrow> \<exists>h. x' = x\<lparr>ms_cosmosHeight := h\<rparr>"
  "can_return (MintSigner_UpdateValidatorCount env x) (Inr x') \<Longrightarrow> \<exists>c. x' = x\<lparr>ms_validatorCount := c\<rparr>"
  "can_return (MintSigner_UpdateSignerThreshold env x) (Inr x') \<Longrightarrow>
     x' = x \<and> (\<exists>e. can_return (SignerThreshold (MintCtl env)) (Inl e)) \<or>
     (\<exists>n. can_return (SignerThreshold (MintCtl env)) (Inr n) \<and> x' = x\<lparr>ms_signerThreshold := int64 n\<rparr>)"
  "can_return (MintSigner_UpdateDomainData env x) (Inr x') \<Longrightarrow> \<exists>d. x' = x\<lparr>ms_domain := d\<rparr>"
  "can_return (MintSigner_UpdateMaxMintLimit env x) (Inr x') \<Longrightarrow> \<exists>m. x' = x\<lparr>ms_maximumAmount := m\<rparr>"
  unfolding MintSigner_UpdateBlocks_def MintSigner_UpdateValidatorCount_def MintSigner_UpdateSignerThreshold_def
    MintSigner_UpdateDomainData_def MintSigner_UpdateMaxMintLimit_def
  by (auto elim!: can_return_bindE simp: keep_going_def record_field_kept split: sum.splits if_splits)

text \<open>
  What a mint signer that has started has found out. A threshold that could not be fetched is zero.
\<close>

lemma NewMintSigner_started:
  assumes "can_return (NewMintSigner env key ec wp mc cc) (Inr (RunnerService name x interval))"
  shows "ms_validatorCount x = int (length (eth_ValidatorAddresses (Ethereum env))) \<and>
     ms_signerThreshold x \<le> ms_validatorCount x \<and> ms_cosmosHeight x \<noteq> 0 \<and>
     (\<exists>dom. ms_domain x = Some dom \<and> SetString10 (eth_ChainID (Ethereum env)) = Some (dom_ChainId dom) \<and>
        EqualFold (Address_Hex (lib env) (dom_VerifyingContract dom)) (eth_MintControllerAddress (Ethereum env))) \<and>
     (\<exists>mx. ms_maximumAmount x = Some mx \<and> ms_minimumAmount x \<le> mx) \<and>
     key = Inr (ms_privateKey x) \<and> ms_address x = ToLower (key_AddressHex (ms_privateKey x)) \<and>
     svc_Enabled (cfg_MintSigner (Cfg env)) \<and> \<not> pokt_MintDisabled (Pocket env) \<and>
     (ms_signerThreshold x = 0 \<and> (\<exists>e. can_return (SignerThreshold (MintCtl env)) (Inl e)) \<or>
      (\<exists>n. can_return (SignerThreshold (MintCtl env)) (Inr n) \<and> ms_signerThreshold x = int64 n)) \<and>
     name = MintSignerName \<and> interval = svc_IntervalMillis (cfg_MintSigner (Cfg env))"
proof -
  have on: "svc_Enabled (cfg_MintSigner (Cfg env))" "\<not> pokt_MintDisabled (Pocket env)"
    by (rule ccontr, use assms in \<open>simp add: NewMintSigner_def\<close>)+
  then obtain pk where pk: "key = Inr pk" using assms by (cases key) (auto simp: NewMintSigner_def)
  show ?thesis
    using assms on pk unfolding NewMintSigner_def Let_def
    apply (simp split: if_split_asm)
    apply (erule can_return_then_okE)
    apply (simp split: if_split_asm)
    apply (erule can_return_then_okE)
    apply (erule can_return_then_okE)
    apply (simp split: if_split_asm)
    apply (erule can_return_then_okE)
    apply (simp split: if_split_asm option.split_asm)
    apply (erule can_return_then_okE)
    apply (simp split: if_split_asm option.split_asm)
    apply (drule mint_signer_updates)+
    apply (elim disjE exE conjE)
     apply (simp, blast)
    apply (simp, blast)
    done
qed

end
