(* ===== verification/Mint_Executor.thy ===== *)
theory Mint_Executor
  imports Eth_Blocks
begin

text \<open>
  \<open>eth/executor.go\<close>: the runner that follows the mint events of the wrapped token and marks the mints
  as executed.
\<close>

section \<open>The runner\<close>

definition MintExecutorName :: string where "MintExecutorName = ''MINT EXECUTOR''"

record MintExecutorRunner =
  me_startBlockNumber :: int
  me_currentBlockNumber :: int
  me_vaultAddress :: string
  me_wpoktAddress :: string

definition MintExecutor_Status :: "MintExecutorRunner \<Rightarrow> RunnerStatus" where
  "MintExecutor_Status x = \<lparr>rs_EthBlockNumber = FormatInt (me_startBlockNumber x), rs_PoktHeight = []\<rparr>"

definition MintExecutor_UpdateCurrentBlockNumber ::
    "('w, 't) Env \<Rightarrow> MintExecutorRunner \<Rightarrow> ('w, MintExecutorRunner result) io" where
  "MintExecutor_UpdateCurrentBlockNumber env x = do {
     r \<leftarrow> GetBlockNumber (Eth env);
     ret (case r of
         Inl e \<Rightarrow> keep_going x e
       | Inr res \<Rightarrow> Inr (x\<lparr>me_currentBlockNumber := int64 res\<rparr>)) }"

text \<open>The filter selects the mint the event is about, in any status a signed mint can have.\<close>

definition MintExecutor_filter :: "'t Lib \<Rightarrow> MintExecutorRunner \<Rightarrow> Minted \<Rightarrow> query" where
  "MintExecutor_filter l x event = QAnd
     [Fld ''wpokt_address'' (CEq (BStr (me_wpoktAddress x))),
      Fld ''vault_address'' (CEq (BStr (me_vaultAddress x))),
      Fld ''recipient_address'' (CEq (BStr (ToLower (Address_Hex l (mt_Recipient event))))),
      Fld ''amount'' (CEq (BStr (FormatInt (mt_Amount event)))),
      Fld ''nonce'' (CEq (BStr (FormatInt (mt_Nonce event)))),
      Fld ''status'' (CIn [BStr StatusConfirmed, BStr StatusSigned, BStr StatusSuccess])]"

definition MintExecutor_HandleMintEvent ::
    "('w, 't) Env \<Rightarrow> MintExecutorRunner \<Rightarrow> Minted option \<Rightarrow> ('w, bool result) io" where
  "MintExecutor_HandleMintEvent env x event =
     (case event of None \<Rightarrow> ret (Inr False)
      | Some event \<Rightarrow> do {
          now \<leftarrow> Now env;
          r \<leftarrow> UpdateOne (DB env) CollectionMints (MintExecutor_filter (lib env) x event)
            [(''status'', BStr StatusSuccess),
             (''mint_transaction_hash'', BStr (ToLower (Hash_String (lib env) (mt_TxHash event)))),
             (''updated_at'', BTime now)];
          ret (case r of Inl e \<Rightarrow> on_error e | Inr _ \<Rightarrow> Inr True) })"

fun MintExecutor_events ::
    "('w, 't) Env \<Rightarrow> MintExecutorRunner \<Rightarrow> bool \<Rightarrow> (error option \<times> Minted option) list \<Rightarrow>
      ('w, bool result) io" where
  "MintExecutor_events env x success [] = ret (Inr success)"
| "MintExecutor_events env x success ((err, event) # rest) =
     (if err \<noteq> None then ret (Inr False)
      else case event of
        None \<Rightarrow> MintExecutor_events env x False rest
      | Some ev \<Rightarrow>
          if mt_Removed ev then MintExecutor_events env x success rest
          else do {
            lk \<leftarrow> XLock (DB env)
              (CollectionMints @ ''/'' @ ToLower (Address_Hex (lib env) (mt_Recipient ev)));
            case lk of
              Inl e \<Rightarrow> (if is_panic e then ret (Inl e) else MintExecutor_events env x False rest)
            | Inr lockId \<Rightarrow>
                then_ok (MintExecutor_HandleMintEvent env x (Some ev)) (\<lambda>ok. do {
                  err \<leftarrow> Unlock (DB env) lockId;
                  MintExecutor_events env x (ok \<and> success \<and> err = None) rest }) })"

definition MintExecutor_SyncBlocks ::
    "('w, 't) Env \<Rightarrow> MintExecutorRunner \<Rightarrow> int \<Rightarrow> int \<Rightarrow> ('w, bool result) io" where
  "MintExecutor_SyncBlocks env x startBlockNumber endBlockNumber = do {
     r \<leftarrow> FilterMinted (WPokt env) startBlockNumber endBlockNumber;
     case r of
       Inl e \<Rightarrow> ret (on_error e)
     | Inr iter \<Rightarrow>
         then_ok (MintExecutor_events env x True (it_Items iter)) (\<lambda>success.
           ret (Inr (if it_FinalError iter \<noteq> None then False else success))) }"

definition MintExecutor_SyncTxs ::
    "('w, 't) Env \<Rightarrow> MintExecutorRunner \<Rightarrow> ('w, (bool \<times> MintExecutorRunner) result) io" where
  "MintExecutor_SyncTxs env x =
     (if me_currentBlockNumber x \<le> me_startBlockNumber x then ret (Inr (True, x))
      else then_ok (sync_range (MintExecutor_SyncBlocks env x) (me_startBlockNumber x)
                     (me_currentBlockNumber x)) (\<lambda>success.
        ret (Inr (success,
          if success then x\<lparr>me_startBlockNumber := me_currentBlockNumber x\<rparr> else x))))"

definition MintExecutor_Run ::
    "('w, 't) Env \<Rightarrow> MintExecutorRunner \<Rightarrow> ('w, MintExecutorRunner result) io" where
  "MintExecutor_Run env x =
     then_ok (MintExecutor_UpdateCurrentBlockNumber env x)
       (\<lambda>x. then_ok (MintExecutor_SyncTxs env x) (\<lambda>(_, x). ret (Inr x)))"

section \<open>Initialisation\<close>

definition MintExecutor_InitStartBlockNumber ::
    "('w, 't) Env \<Rightarrow> ServiceHealth \<Rightarrow> MintExecutorRunner \<Rightarrow> MintExecutorRunner" where
  "MintExecutor_InitStartBlockNumber env lastHealth x =
     x\<lparr>me_startBlockNumber :=
         init_start_block (Cfg env) (sh_EthBlockNumber lastHealth) (me_currentBlockNumber x)\<rparr>"

text \<open>\<open>abi\<close>: the result of parsing the ABI of the mint controller.\<close>

definition NewMintExecutor ::
    "('w, 't) Env \<Rightarrow> error option \<Rightarrow> error option \<Rightarrow> error option \<Rightarrow> ServiceHealth \<Rightarrow>
      ('w, MintExecutorRunner Service result) io" where
  "NewMintExecutor env client contract abi lastHealth =
     (if \<not> svc_Enabled (cfg_MintExecutor (Cfg env)) \<or> pokt_MintDisabled (Pocket env)
      then ret (Inr EmptyService)
      else if client \<noteq> None then ret (Inl (Fatal ''Error initializing ethereum client''))
      else if contract \<noteq> None then ret (Inl (Fatal ''Error initializing Wrapped Pocket contract''))
      else if abi \<noteq> None then ret (Inl (Fatal ''Error parsing MintController ABI''))
      else let x = \<lparr>me_startBlockNumber = 0, me_currentBlockNumber = 0,
                    me_vaultAddress = ToLower (pokt_MultisigAddress (Pocket env)),
                    me_wpoktAddress = ToLower (eth_WrappedPocketAddress (Ethereum env))\<rparr> in
        then_ok (MintExecutor_UpdateCurrentBlockNumber env x) (\<lambda>x.
          ret (Inr (RunnerService MintExecutorName
            (MintExecutor_InitStartBlockNumber env lastHealth x)
            (svc_IntervalMillis (cfg_MintExecutor (Cfg env)))))))"

section \<open>Every write follows the protocol\<close>

context validator
begin

lemma writes_MintExecutor_HandleMintEvent [writes_intros]:
  "writes (store_step thrC thrE) docs (MintExecutor_HandleMintEvent env x event)"
  unfolding MintExecutor_HandleMintEvent_def MintExecutor_filter_def
  by (intro writes_intros writes_update legal_write.minted)

lemma writes_MintExecutor_events [writes_intros]:
  "writes (store_step thrC thrE) docs (MintExecutor_events env x success items)"
proof (induction items arbitrary: success)
  case (Cons item items)
  then show ?case by (cases item) (auto intro!: writes_intros split: option.splits)
qed (simp add: writes_intros)

lemma writes_MintExecutor_SyncTxs [writes_intros]:
  "writes (store_step thrC thrE) docs (MintExecutor_SyncTxs env x)"
  unfolding MintExecutor_SyncTxs_def MintExecutor_SyncBlocks_def by (intro writes_intros)

end

section \<open>The start block moves only past executed mints\<close>

text \<open>The body of the loop: lock the recipient's mints, handle the event, unlock.\<close>

definition handle_locked ::
    "('w, 't) Env \<Rightarrow> MintExecutorRunner \<Rightarrow> Minted \<Rightarrow> ('w, bool result) io" where
  "handle_locked env x ev = do {
     lk \<leftarrow> XLock (DB env) (CollectionMints @ ''/'' @ ToLower (Address_Hex (lib env) (mt_Recipient ev)));
     case lk of
       Inl e \<Rightarrow> ret (on_error e)
     | Inr lockId \<Rightarrow> then_ok (MintExecutor_HandleMintEvent env x (Some ev)) (\<lambda>ok. do {
         err \<leftarrow> Unlock (DB env) lockId;
         ret (Inr (ok \<and> err = None)) }) }"

lemma MintExecutor_events_loop:
  "MintExecutor_events env x success items = event_loop mt_Removed (handle_locked env x) success items"
proof (induction items arbitrary: success)
  case (Cons item items)
  obtain err event where item: "item = (err, event)" by (cases item)
  show ?case
  proof (cases event)
    case None
    then show ?thesis using Cons.IH by (simp add: item)
  next
    case (Some ev)
    show ?thesis unfolding item Some MintExecutor_events.simps event_loop.simps option.case Cons.IH
      by (intro if_cong refl state.expand ext)
         (simp add: handle_locked_def run_simps on_error_def split: sum.split prod.split,
          simp add: conj_comms)
  qed
qed simp

lemma MintExecutor_SyncBlocks_scan:
  "MintExecutor_SyncBlocks env x = event_sync (FilterMinted (WPokt env)) mt_Removed (handle_locked env x)"
  by (intro ext) (unfold MintExecutor_SyncBlocks_def event_sync_def MintExecutor_events_loop, rule refl)

text \<open>A mint of this recipient, amount and nonce has been executed.\<close>

definition mint_executed :: "'t Lib \<Rightarrow> MintExecutorRunner \<Rightarrow> Minted \<Rightarrow> store \<Rightarrow> bool" where
  "mint_executed l x ev st \<longleftrightarrow>
     (\<exists>d \<in> set (st CollectionMints). matches (MintExecutor_filter l x ev) d \<and> has_status d StatusSuccess)"

lemma filter_after_success:
  assumes "matches (MintExecutor_filter l x ev) d" "map_of (rev u) ''status'' = Some (BStr StatusSuccess)"
    and "fst ` set u \<subseteq> {''status'', ''mint_transaction_hash'', ''updated_at''}"
  shows "matches (MintExecutor_filter l x ev) (apply_set u d)"
proof -
  have "map_of (apply_set u d) k = map_of d k"
    if "k \<in> {''wpokt_address'', ''vault_address'', ''recipient_address'', ''amount'', ''nonce''}" for k
    using that assms(3) by (intro apply_set_untouched) auto
  moreover have "map_of (apply_set u d) ''status'' = Some (BStr StatusSuccess)"
    using assms(2) by (simp add: map_of_apply_set)
  ultimately show ?thesis using assms(1)
    by (simp add: MintExecutor_filter_def field_values_def)
qed

lemma success_write:
  assumes "legal_write thrC thrE CollectionMints q u" "matches q d" "has_status d StatusSuccess"
  shows "map_of (rev u) ''status'' = Some (BStr StatusSuccess)"
    "fst ` set u \<subseteq> {''status'', ''mint_transaction_hash'', ''updated_at''}"
proof -
  have "plain_status d" using assms(3) by (auto simp: plain_status_def)
  then have open_no: "\<not> matches (open_filter i) d" "\<not> matches (status_filter i StatusSigned) d"
    "\<not> matches (status_filter i StatusSubmitted) d" for i
    using assms(3) by (auto dest!: matches_open_filter matches_status_filter simp: has_status_def)
  show "map_of (rev u) ''status'' = Some (BStr StatusSuccess)"
    "fst ` set u \<subseteq> {''status'', ''mint_transaction_hash'', ''updated_at''}"
    using assms(1,2) open_no by (cases rule: legal_write.cases; force)+
qed

lemma mint_executed_step:
  assumes "store_step thrC thrE st st'" "mint_executed l x ev st"
  shows "mint_executed l x ev st'"
proof -
  obtain d where d: "d \<in> set (st CollectionMints)" "matches (MintExecutor_filter l x ev) d"
    "has_status d StatusSuccess" using assms(2) by (auto simp: mint_executed_def)
  from assms(1) show ?thesis
  proof cases
    case (insert c d')
    then show ?thesis using d by (auto simp: mint_executed_def inserted_def)
  next
    case (update c q u)
    obtain n where n: "n < length (st c)" "matches q (st c ! n)" "st' = st(c := (st c)[n := apply_set u (st c ! n)])"
      using update(2) by (auto simp: updated_def)
    show ?thesis
    proof (cases "c = CollectionMints \<and> st c ! n = d")
      case True
      then have "matches (MintExecutor_filter l x ev) (apply_set u d)" "has_status (apply_set u d) StatusSuccess"
        using success_write [of thrC thrE q u d] update(1) n(2) d(2,3) filter_after_success [OF d(2)]
        by (auto simp: status_after)
      moreover have "apply_set u d \<in> set (st' CollectionMints)"
        using True n by (auto simp: set_update_memI)
      ultimately show ?thesis by (auto simp: mint_executed_def)
    next
      case False
      then have "d \<in> set (st' CollectionMints)"
        using d(1) n(3) by (auto simp: in_set_conv_nth) (metis nth_list_update_neq)
      with d(2,3) show ?thesis by (auto simp: mint_executed_def)
    qed
  next
    case health
    then show ?thesis using d tracked_not_health [of CollectionMints]
      by (auto simp: mint_executed_def collection_lists)
  qed
qed

context validator
begin

lemma triple_HandleMintEvent:
  "triple docs P (MintExecutor_HandleMintEvent env x (Some ev))
     (\<lambda>r s. r = Inr True \<longrightarrow> mint_executed (lib env) x ev s)"
proof (rule tripleI, intro impI)
  fix w w' and r :: "bool result"
  assume run: "run_state (MintExecutor_HandleMintEvent env x (Some ev)) w = (r, w')" and r: "r = Inr True"
  obtain t w1 where t: "run_state (Now env) w = (t, w1)" by fastforce
  let ?u = "[(''status'', BStr StatusSuccess),
             (''mint_transaction_hash'', BStr (ToLower (Hash_String (lib env) (mt_TxHash ev)))),
             (''updated_at'', BTime t)]"
  let ?q = "MintExecutor_filter (lib env) x ev"
  obtain r2 w2 where u: "run_state (UpdateOne (DB env) CollectionMints ?q ?u) w1 = (r2, w2)" by fastforce
  then have "w2 = w'" "\<exists>i. r2 = Inr i"
    using run r t by (auto simp: MintExecutor_HandleMintEvent_def run_simps split: sum.splits)
  then obtain i where "run_state (UpdateOne (DB env) CollectionMints ?q ?u) w1 = (Inr i, w')" using u by auto
  from rely_update [OF this] obtain a b where
    ab: "updated CollectionMints ?q ?u a b" "(store_step thrC thrE)\<^sup>*\<^sup>* b (docs w')"
    by (auto simp: update_outcome_def)
  obtain n where n: "n < length (a CollectionMints)" "matches ?q (a CollectionMints ! n)"
    "b = a(CollectionMints := (a CollectionMints)[n := apply_set ?u (a CollectionMints ! n)])"
    using ab(1) by (auto simp: updated_def)
  have "matches ?q (apply_set ?u (a CollectionMints ! n))"
    by (rule filter_after_success [OF n(2)]) auto
  moreover have "has_status (apply_set ?u (a CollectionMints ! n)) StatusSuccess"
    by (simp add: has_status_set)
  ultimately have "mint_executed (lib env) x ev b"
    using n by (auto simp: mint_executed_def set_update_memI)
  with ab(2) show "mint_executed (lib env) x ev (docs w')"
    by (induction rule: rtranclp_induct) (auto intro: mint_executed_step)
qed

lemma writes_handle_locked [writes_intros]: "writes (store_step thrC thrE) docs (handle_locked env x ev)"
  unfolding handle_locked_def by (intro writes_intros)

lemma triple_handle_locked:
  "triple docs P (handle_locked env x ev) (\<lambda>r s. r = Inr True \<longrightarrow> mint_executed (lib env) x ev s)"
  unfolding handle_locked_def
proof (rule triple_bind)
  show "triple docs P (XLock (DB env) (CollectionMints @ ''/'' @ ToLower (Address_Hex (lib env) (mt_Recipient ev))))
      (\<lambda>_ _. True)" by (simp add: triple_def)
next
  fix lk
  have unlock: "triple docs (\<lambda>s. ok \<longrightarrow> mint_executed (lib env) x ev s)
      (do { err \<leftarrow> Unlock (DB env) lockId; ret (Inr (ok \<and> err = None)) })
      (\<lambda>r s. r = Inr True \<longrightarrow> mint_executed (lib env) x ev s)" for ok lockId
  proof (rule triple_bind [OF triple_stable [OF rely_locks(3)]])
    show "store_step thrC thrE s s' \<Longrightarrow> ok \<longrightarrow> mint_executed (lib env) x ev s \<Longrightarrow>
        ok \<longrightarrow> mint_executed (lib env) x ev s'" for s s'
      using mint_executed_step by blast
  qed (auto intro: triple_ret)
  show "triple docs (\<lambda>_. True) (case lk of Inl e \<Rightarrow> ret (on_error e)
     | Inr lockId \<Rightarrow> then_ok (MintExecutor_HandleMintEvent env x (Some ev)) (\<lambda>ok. do {
         err \<leftarrow> Unlock (DB env) lockId; ret (Inr (ok \<and> err = None)) }))
     (\<lambda>r s. r = Inr True \<longrightarrow> mint_executed (lib env) x ev s)"
  proof (cases lk)
    case (Inl e)
    then show ?thesis by (auto intro: triple_ret)
  next
    case (Inr lockId)
    show ?thesis unfolding Inr sum.case
      by (rule triple_then_ok [OF triple_HandleMintEvent])
         (auto intro: triple_weaken [OF unlock])
  qed
qed

lemma triple_MintExecutor_SyncTxs:
  assumes "reported (FilterMinted (WPokt env)) ev block" "\<not> mt_Removed ev"
    and "0 \<le> me_startBlockNumber x" "me_startBlockNumber x \<le> block" "block \<le> me_currentBlockNumber x"
    and "me_currentBlockNumber x < 2 ^ 63"
  shows "triple docs P (MintExecutor_SyncTxs env x)
     (\<lambda>r s. \<forall>ok x'. r = Inr (ok, x') \<and> me_startBlockNumber x' \<noteq> me_startBlockNumber x \<longrightarrow>
        mint_executed (lib env) x ev s \<and> me_startBlockNumber x' = me_currentBlockNumber x)"
proof (cases "me_currentBlockNumber x \<le> me_startBlockNumber x")
  case True
  then show ?thesis by (auto simp: MintExecutor_SyncTxs_def intro: triple_ret)
next
  case False
  have "triple docs P (sync_range (MintExecutor_SyncBlocks env x) (me_startBlockNumber x)
          (me_currentBlockNumber x)) (\<lambda>r s. r = Inr True \<longrightarrow> mint_executed (lib env) x ev s)"
    unfolding MintExecutor_SyncBlocks_scan
    by (rule triple_event_scan [where handle = "handle_locked env x" and skip = mt_Removed and ev = ev, OF rely_wpokt(2) writes_handle_locked _ _ assms(1,2,3) _ assms(4-6)];
        use False in \<open>auto intro: mint_executed_step triple_handle_locked\<close>)
  then show ?thesis
    unfolding MintExecutor_SyncTxs_def using False
    by (auto intro!: triple_then_ok triple_ret split: if_splits)
qed

end

text \<open>
  An event without a mint document blocks the executor: as the executor's own writes add no
  recipient, no later event is ever reached.
\<close>

context lone_validator
begin

lemma MintExecutor_keeps_recipients:
  "writes (\<lambda>st st'. field_in c ''recipient_address'' st' = field_in c ''recipient_address'' st) docs
     (MintExecutor_SyncTxs env x)"
proof -
  let ?W = "\<lambda>m. writes (\<lambda>st st'. field_in c ''recipient_address'' st' = field_in c ''recipient_address'' st) docs m"
  have h: "?W (handle_locked env x ev)" for ev
    unfolding handle_locked_def MintExecutor_HandleMintEvent_def
    by (intro writes_intros update_keeps_field quiet_writes quiet_all) simp
  have "?W (event_sync (FilterMinted (WPokt env)) mt_Removed (handle_locked env x) a b)" for a b
    by (rule writes_event_sync [OF quiet_writes [OF quiet_wpokt(2)] h])
  then show ?thesis
    unfolding MintExecutor_SyncTxs_def MintExecutor_SyncBlocks_scan
    by (intro writes_intros)
qed

end

end
