(* ===== verification/Reference_World.thy ===== *)
theory Reference_World
  imports Mint_Monitor Burn_Signer Burn_Executor Burn_Monitor Mint_Signer Mint_Executor
begin

text \<open>
  Concrete instances of the third-party parameters, on which the properties are evaluated: pure
  functions for the Cosmos SDK and go-ethereum values, a configuration, and the reference database
  of theory \<open>Mongo_Reference\<close>. They stand for no code of the repository.
\<close>

section \<open>A concrete library\<close>

record ref_tx =
  rt_Msgs :: "MsgSend list"
  rt_Memo :: string
  rt_Fee :: "Coin list"
  rt_Gas :: int
  rt_Sigs :: "SignatureV2 list"

definition empty_tx :: ref_tx where
  "empty_tx = \<lparr>rt_Msgs = [], rt_Memo = [], rt_Fee = [], rt_Gas = 0, rt_Sigs = []\<rparr>"

definition ref_coin :: "string \<Rightarrow> int \<Rightarrow> Coin result" where
  "ref_coin d a = (if a < 0 then Inl (Panic ''negative coin amount'')
     else Inr \<lparr>coin_Denom = d, coin_Amount = Some a\<rparr>)"

definition ref_sub :: "Coin \<Rightarrow> Coin \<Rightarrow> Coin result" where
  "ref_sub a b = (case (coin_Amount a, coin_Amount b) of
       (Some x, Some y) \<Rightarrow> if coin_Denom a \<noteq> coin_Denom b then Inl (Panic ''invalid coin denominations'')
                       else ref_coin (coin_Denom a) (x - y)
     | _ \<Rightarrow> Inl (Panic ''nil amount''))"

definition ref_parse_coin :: "string \<Rightarrow> Coin result" where
  "ref_parse_coin s = (case SetString10 (takeWhile is_digit s) of
       None \<Rightarrow> Inl (Err ''invalid coin'')
     | Some a \<Rightarrow> Inr \<lparr>coin_Denom = dropWhile is_digit s, coin_Amount = Some a\<rparr>)"

definition ref_memo :: "string \<Rightarrow> MintMemo result" where
  "ref_memo s = (case Split s CHR '','' of
       [a, c] \<Rightarrow> Inr \<lparr>memo_Address = a, memo_ChainID = c\<rparr> | _ \<Rightarrow> Inl (Err ''invalid json''))"

definition text_bytes :: "string \<Rightarrow> bytes" where
  "text_bytes s = map of_char s"

definition bytes_text :: "bytes \<Rightarrow> string" where
  "bytes_text bs = map (\<lambda>b. char_of (unat b)) bs"

fun ref_address :: "PubKey \<Rightarrow> bytes" where
  "ref_address (Secp256k1PubKey bs) = take 20 bs"
| "ref_address (MultisigPubKey k ks) = replicate 20 (of_nat k)"

fun ref_key_bytes :: "PubKey \<Rightarrow> bytes" where
  "ref_key_bytes (Secp256k1PubKey bs) = bs"
| "ref_key_bytes (MultisigPubKey k ks) = [of_nat k]"

text \<open>
  \<open>decode\<close> tells which transaction a JSON text stands for. A signature verifies when it is the
  number of its signer's key.
\<close>

definition ref_lib :: "(string \<Rightarrow> ref_tx result) \<Rightarrow> ref_tx Lib" where
  "ref_lib decode = \<lparr>
     StringToBytes = (\<lambda>p a. if HasPrefix a (p @ ''1'') then DecodeString (drop (length p + 1) a)
                           else Inl (Err ''invalid bech32'')),
     ConvertAndEncode = (\<lambda>p bs. Inr (p @ ''1'' @ EncodeToString bs)),
     Address_Hex = (\<lambda>bs. ''0x'' @ EncodeToString bs),
     HexToAddress = (\<lambda>s. case DecodeString (TrimPrefix s ''0x'') of Inl _ \<Rightarrow> [] | Inr bs \<Rightarrow> bs),
     Hash_String = (\<lambda>bs. ''0x'' @ EncodeToString bs),
     NewIntFromString = SetString10,
     ParseUint64 = ParseUint,
     ParseCoinNormalized = ref_parse_coin,
     NewCoin = ref_coin,
     Coin_Sub = ref_sub,
     NewCoins = (\<lambda>c. Inr [c]),
     json_Unmarshal = ref_memo,
     Tx_Unmarshal = (\<lambda>bs. Inr \<lparr>tx_BodyMemo = Some (bytes_text bs)\<rparr>),
     PubKey_Address = ref_address,
     PubKey_Bytes = ref_key_bytes,
     AccAddress_String = EncodeToString,
     NewTxBuilder = (\<lambda>_. empty_tx),
     SetMsgs = (\<lambda>t ms. Inr (t\<lparr>rt_Msgs := ms\<rparr>)),
     SetMemo = (\<lambda>t m. t\<lparr>rt_Memo := m\<rparr>),
     SetFeeAmount = (\<lambda>t f. t\<lparr>rt_Fee := f\<rparr>),
     SetGasLimit = (\<lambda>t g. t\<lparr>rt_Gas := g\<rparr>),
     TxJSONEncoder = (\<lambda>_. Some (\<lambda>t. Inr (''tx'' @ FormatInt (int (length (rt_Sigs t)))))),
     TxJSONDecoder = (\<lambda>_. Some decode),
     TxEncoder = (\<lambda>t. Inr (text_bytes (rt_Memo t))),
     WrapTx = Inr,
     GetSigners = (\<lambda>t. Inr (map (\<lambda>m. case DecodeString (drop 5 (send_FromAddress m)) of
                         Inl _ \<Rightarrow> [] | Inr bs \<Rightarrow> bs) (rt_Msgs t))),
     GetSignaturesV2 = (\<lambda>t. Inr (rt_Sigs t)),
     SetSignatures = (\<lambda>t ss. Inr (t\<lparr>rt_Sigs := ss\<rparr>)),
     GetSignBytes = (\<lambda>_ t. Inr (text_bytes (rt_Memo t))),
     VerifySignature = (\<lambda>k _ d _. if d = SingleSignatureData (ref_key_bytes k) then None
                                 else Some (Err ''invalid signature'')),
     IsV2AdaptableTx = (\<lambda>_. True),
     NewAnyWithValue = (\<lambda>_. None),
     AddSignatureV2 = (\<lambda>d s ks. case d of
         MultiSignatureData ss \<Rightarrow> Inr (MultiSignatureData (ss @ [(length ss, sv2_Data s)]))
       | SingleSignatureData _ \<Rightarrow> Inl (Err ''not a multisignature''))\<rparr>"

definition ref_decode :: "string \<Rightarrow> ref_tx result" where
  "ref_decode s = Inl (Err ''unknown transaction'')"

section \<open>A concrete configuration\<close>

definition key1 :: PubKey where "key1 = Secp256k1PubKey (replicate 33 1)"

definition key2 :: PubKey where "key2 = Secp256k1PubKey (replicate 33 2)"

definition ref_multisig :: PubKey where "ref_multisig = MultisigPubKey 2 [key1, key2]"

definition ref_vault :: string where
  "ref_vault = ''pokt1'' @ EncodeToString (ref_address ref_multisig)"

definition ref_cfg :: Config where
  "ref_cfg = zero_Config\<lparr>
     cfg_Pocket := zero_Pocket\<lparr>pokt_ChainID := ''pocket'', pokt_TxFee := 10, pokt_Bech32Prefix := ''pokt'',
       pokt_CoinDenom := ''upokt'', pokt_MultisigAddress := ref_vault, pokt_MultisigThreshold := 2,
       pokt_Confirmations := 1\<rparr>,
     cfg_Ethereum := zero_Ethereum\<lparr>eth_ChainID := ''1'', eth_Confirmations := 1\<rparr>\<rparr>"

definition ref_signer :: "ref_world PocketSigner" where
  "ref_signer = \<lparr>ps_Signer = \<lparr>CosmosPublicKey = key1, CosmosSign = (\<lambda>_. ret (Inr (ref_key_bytes key1)))\<rparr>,
     ps_SignerAddress = [], ps_SignerIndex = 0, ps_Multisig = ref_multisig, ps_MultisigAddress = ref_vault\<rparr>"

definition ref_sender :: string where "ref_sender = ''pokt1'' @ EncodeToString (replicate 20 7)"

definition ref_recipient :: string where "ref_recipient = ''0x'' @ EncodeToString (replicate 20 9)"

text \<open>The addresses written out, which spares the evaluations the encoding.\<close>

lemma ref_addresses [code]:
  "ref_vault = ''pokt10202020202020202020202020202020202020202''"
  "ref_sender = ''pokt10707070707070707070707070707070707070707''"
  "ref_recipient = ''0x0909090909090909090909090909090909090909''"
  by code_simp+

text \<open>A transfer of 100 upokt to the vault, with a memo for the mint.\<close>

definition ref_transfer :: "string \<Rightarrow> int \<Rightarrow> TxResponse" where
  "ref_transfer memo amount = \<lparr>txr_Height = 5, txr_TxHash = ''ab'', txr_Code = 0,
     txr_Events = [\<lparr>ev_Type = ''transfer'', ev_Attributes =
        [\<lparr>attr_Key = ''recipient'', attr_Value = ref_vault\<rparr>,
         \<lparr>attr_Key = ''sender'', attr_Value = ref_sender\<rparr>,
         \<lparr>attr_Key = ''amount'', attr_Value = FormatInt amount @ ''upokt''\<rparr>]\<rparr>],
     txr_Tx = text_bytes memo\<rparr>"

section \<open>The log of broadcasts\<close>

lemma quiet_sent [quiet_intros]:
  "quiet rw_sent (with_fault f)" "quiet rw_sent (ref_lock b r i)" "quiet rw_sent (ref_unlock i)"
  unfolding with_fault_def ref_lock_def ref_unlock_def
  by (auto intro!: quiet_state simp: Let_def split: fault.splits prod.splits)

lemma quiet_sent_db:
  "quiet rw_sent (FindMany ref_db c q)" "quiet rw_sent (UpdateOne ref_db c q u)"
  "quiet rw_sent (XLock ref_db r)" "quiet rw_sent (Unlock ref_db i)"
proof -
  have "quiet rw_sent (rand_Read ref_driver n)" for n
    by (auto simp: ref_driver_def intro!: quiet_state)
  then show "quiet rw_sent (FindMany ref_db c q)" "quiet rw_sent (UpdateOne ref_db c q u)"
    "quiet rw_sent (XLock ref_db r)" "quiet rw_sent (Unlock ref_db i)"
    unfolding ref_db_def MongoDatabase_defs Database.simps
    by (auto intro!: quiet_intros simp: ref_driver_def)
qed

lemma ref_silent: "silent_but_broadcast rw_sent (ref_env cfg l ans)"
  using quiet_sent_db
  by (auto simp: silent_but_broadcast_def ref_env_def intro!: quiet_ret quiet_state)

lemma ref_broadcast: "rw_sent (snd (run_state (BroadcastTx (Cosmos (ref_env cfg l ans)) bs) w)) = rw_sent w @ [bs]"
  by (simp add: ref_env_def)

section \<open>Scenarios\<close>

text \<open>Concrete documents, runners and chain answers, shared by the evaluations of the properties.\<close>

definition one_transfer :: answers where
  "one_transfer = no_answers\<lparr>ans_Txs := Inr [ref_transfer (ref_recipient @ '',1'') 100]\<rparr>"

definition some_monitor :: MintMonitorRunner where
  "some_monitor = \<lparr>mm_wpoktAddress = ''0xcc'', mm_vaultAddress = ref_vault, mm_startHeight = 1,
     mm_currentHeight = 9, mm_minimumAmount = 10, mm_maximumAmount = Some 1000\<rparr>"

text \<open>An invalid mint that has been given sequence 7, with an account whose sequence is still 5.\<close>

definition signed_invalid_mint :: InvalidMint where
  "signed_invalid_mint = (CreateInvalidMint ref_cfg 0 0 (ref_transfer ''refund'' 100)
     \<lparr>vr_TxValid = True, vr_Tx = None, vr_TxHash = ''0xab'', vr_Memo = empty_memo,
      vr_Amount = \<lparr>coin_Denom = ''upokt'', coin_Amount = Some 100\<rparr>, vr_SenderAddress = ref_sender,
      vr_NeedsRefund = True\<rparr> ref_vault)
     \<lparr>im_Id := Some 1, im_Status := StatusSigned, im_Sequence := Some 7\<rparr>"

lemma signed_invalid_mint_code [code]:
  "signed_invalid_mint = \<lparr>im_Id = Some 1, im_TransactionHash = ''0xab'', im_Height = ''5'',
     im_Confirmations = ''0'', im_SenderAddress =
     ''pokt10707070707070707070707070707070707070707'', im_SenderChainID = ''pocket'',
     im_VaultAddress = ''pokt10202020202020202020202020202020202020202'', im_Amount = ''100'',
     im_CreatedAt = 0, im_UpdatedAt = 0, im_Status = ''signed'', im_Memo = [],
     im_ReturnTransactionBody = [], im_Signatures = [], im_Sequence = Some 7,
     im_ReturnTransactionHash = []\<rparr>"
  by code_simp

definition account5 :: answers where
  "account5 = no_answers\<lparr>ans_Account := Inr \<lparr>acc_AccountNumber = 3, acc_Sequence = 5\<rparr>\<rparr>"

definition calm_env :: "answers \<Rightarrow> (ref_world, ref_tx) Env" where
  "calm_env ans = (ref_env ref_cfg (ref_lib ref_decode) ans)\<lparr>DB := MongoDatabase_DB calm_driver\<rparr>"

definition some_signer :: "ref_world BurnSignerRunner" where
  "some_signer = \<lparr>bs_signer = ref_signer, bs_cosmosHeight = 20, bs_ethBlockNumber = 20,
     bs_vaultAddress = ref_vault, bs_wpoktAddress = ''0xcc'', bs_minimumAmount = 10,
     bs_maximumAmount = Some 1000\<rparr>"

definition world_with :: "string \<Rightarrow> doc list \<Rightarrow> ref_world" where
  "world_with c ds = ref_init\<lparr>rw_docs := empty_store(c := ds)\<rparr>"

text \<open>A burn signed with sequence 5, the sequence of the account.\<close>

definition some_event :: BurnAndBridge where
  "some_event = \<lparr>bb_Amount = 100, bb_PoktAddress = replicate 20 3, bb_From = replicate 20 4,
     bb_TxHash = [0xab], bb_LogIndex = 2, bb_BlockNumber = 15, bb_Address = [0xcc], bb_Removed = False\<rparr>"

definition some_burn :: Burn where
  "some_burn = (CreateBurn (ref_lib ref_decode) ref_cfg 0 0 some_event)\<lparr>b_Id := Some 1\<rparr>"

lemma some_burn_code [code]:
  "some_burn = \<lparr>b_Id = Some 1, b_TransactionHash = ''0xab'', b_LogIndex = ''2'',
     b_BlockNumber = ''15'', b_Confirmations = ''0'', b_SenderAddress =
     ''0x0404040404040404040404040404040404040404'', b_SenderChainID = ''1'', b_RecipientAddress =
     ''pokt10303030303030303030303030303030303030303'', b_RecipientChainID = ''pocket'',
     b_WPOKTAddress = ''0xcc'', b_Amount = ''100'', b_CreatedAt = 0, b_UpdatedAt = 0, b_Status =
     ''pending'', b_ReturnTransactionBody = [], b_Signatures = [], b_Sequence = None,
     b_ReturnTransactionHash = []\<rparr>"
  by code_simp

definition signed_burn :: Burn where
  "signed_burn = some_burn\<lparr>b_Status := StatusSigned, b_Sequence := Some 5\<rparr>"

definition coin100 :: Coin where
  "coin100 = \<lparr>coin_Denom = ''upokt'', coin_Amount = Some 100\<rparr>"

text \<open>A decoder that knows the transfer a signer would build.\<close>

definition transfer_tx :: ref_tx where
  "transfer_tx = empty_tx\<lparr>rt_Msgs := [\<lparr>send_FromAddress = ref_vault, send_ToAddress = ref_sender,
     send_Amount = []\<rparr>], rt_Memo := ''Burn: 0xab''\<rparr>"

definition decode_transfer :: "string \<Rightarrow> ref_tx result" where
  "decode_transfer s = (if s = ''tx0'' then Inr transfer_tx
     else if s = ''tx2'' then Inr (transfer_tx\<lparr>rt_Sigs := map (\<lambda>k. \<lparr>sv2_PubKey = k,
       sv2_Data = SingleSignatureData (ref_key_bytes k), sv2_Sequence = 5\<rparr>) [key1, key2]\<rparr>)
     else Inl (Err ''unknown transaction''))"

definition transfer_env :: "answers \<Rightarrow> (ref_world, ref_tx) Env" where
  "transfer_env ans = ref_env ref_cfg (ref_lib decode_transfer) ans"

text \<open>A refund: a transfer whose memo names no mint.\<close>

definition refund_answers :: answers where
  "refund_answers = account5\<lparr>ans_Tx := Inr (Some (ref_transfer ''refund'' 100))\<rparr>"

definition pending_refund :: InvalidMint where
  "pending_refund = signed_invalid_mint\<lparr>im_Status := StatusPending, im_Sequence := None,
     im_Memo := ''refund''\<rparr>"

definition no_logs :: answers where
  "no_logs = account5\<lparr>ans_Logs := Inr []\<rparr>"

definition some_mint :: Mint where
  "some_mint = (CreateMint ref_cfg 0 0 (ref_transfer (ref_recipient @ '',1'') 100)
     \<lparr>vr_TxValid = True, vr_Tx = None, vr_TxHash = ''0xab'',
      vr_Memo = \<lparr>memo_Address = ref_recipient, memo_ChainID = ''1''\<rparr>,
      vr_Amount = \<lparr>coin_Denom = ''upokt'', coin_Amount = Some 100\<rparr>, vr_SenderAddress = ref_sender,
      vr_NeedsRefund = False\<rparr> ''0xcc'' ref_vault)\<lparr>m_Id := Some 1\<rparr>"

lemma some_mint_code [code]:
  "some_mint = \<lparr>m_Id = Some 1, m_TransactionHash = ''0xab'', m_Height = ''5'',
     m_Confirmations = ''0'', m_SenderAddress = ''pokt10707070707070707070707070707070707070707'',
     m_SenderChainID = ''pocket'', m_RecipientAddress =
     ''0x0909090909090909090909090909090909090909'', m_RecipientChainID = ''1'', m_WPOKTAddress =
     ''0xcc'', m_VaultAddress = ''pokt10202020202020202020202020202020202020202'', m_Amount =
     ''100'', m_Nonce = [], m_Memo = Some \<lparr>memo_Address =
     ''0x0909090909090909090909090909090909090909'', memo_ChainID = ''1''\<rparr>, m_CreatedAt =
     0, m_UpdatedAt = 0, m_Status = ''pending'', m_Data = None, m_Signers = [], m_Signatures = [],
     m_MintTransactionHash = []\<rparr>"
  by code_simp

definition other_mint :: Mint where
  "other_mint = some_mint\<lparr>m_Id := Some 2, m_TransactionHash := ''0xef'', m_Status := StatusSigned,
     m_Nonce := ''9'', m_Data := Some \<lparr>data_Recipient = ref_recipient, data_Amount = ''100'', data_Nonce = ''9''\<rparr>\<rparr>"

end
