(* ===== verification/Cosmos_Properties.thy ===== *)
theory Cosmos_Properties
  imports Reference_World
begin

text \<open>
  The properties of the Cosmos side: the mint monitor, the burn signer and the burn executor, with
  their evaluations on the reference world. Each is a few steps over the lemmas of the component's
  own theory.
\<close>

section \<open>Mint monitor\<close>

text \<open>C5: the mint monitor loses no transfer. When \<open>SyncTxs\<close> moves its start height, it moves it to
  the current height, and every transaction the node returned since the old start height is by then
  recorded under its hash as a mint or as an invalid mint, whatever the other validators and the
  database's faults did meanwhile.\<close>

theorem MintMonitor_no_transfer_lost:
  assumes "validator env docs thrC thrE"
    and "run_state (MintMonitor_SyncTxs env x) w = (Inr (ok, x'), w')"
    and "mm_startHeight x' \<noteq> mm_startHeight x"
  shows "\<exists>txs w1. run_state (GetTxsSentToAddressAfterHeight (Cosmos env) (mm_vaultAddress x)
      (uint64 (mm_startHeight x))) w = (Inr txs, w1) \<and>
      (\<forall>tx \<in> set txs. seen (Ensure0xPrefix (txr_TxHash tx)) (docs w')) \<and>
      mm_startHeight x' = mm_currentHeight x \<and> ok"
  using assms by (rule validator.MintMonitor_SyncTxs_complete)

theorem MintMonitor_no_transfer_lost_witness:
  "seen ''0xab'' (rw_docs (snd (run_state (MintMonitor_SyncTxs
     (ref_env ref_cfg (ref_lib ref_decode) one_transfer) some_monitor) ref_init)))"
proof -
  let ?e = "ref_env ref_cfg (ref_lib ref_decode) one_transfer"
  let ?w = "snd (run_state (MintMonitor_SyncTxs ?e some_monitor) ref_init)"
  have "fst (run_state (MintMonitor_SyncTxs ?e some_monitor) ref_init) =
      Inr (True, some_monitor\<lparr>mm_startHeight := 9\<rparr>)"
    by code_simp
  then have run: "run_state (MintMonitor_SyncTxs ?e some_monitor) ref_init =
      (Inr (True, some_monitor\<lparr>mm_startHeight := 9\<rparr>), ?w)"
    by (metis prod.collapse)
  have moved: "mm_startHeight (some_monitor\<lparr>mm_startHeight := 9\<rparr>) \<noteq> mm_startHeight some_monitor"
    by (simp add: some_monitor_def)
  obtain txs w1 where q: "run_state (GetTxsSentToAddressAfterHeight (Cosmos ?e) (mm_vaultAddress some_monitor)
      (uint64 (mm_startHeight some_monitor))) ref_init = (Inr txs, w1)"
    and s: "\<forall>tx \<in> set txs. seen (Ensure0xPrefix (txr_TxHash tx)) (rw_docs ?w)"
    using MintMonitor_no_transfer_lost [OF ref_lone.alone.validator_axioms run moved] by blast
  have "txs = [ref_transfer (ref_recipient @ '',1'') 100]"
    using q by (simp add: ref_env_def one_transfer_def run_simps)
  moreover have "Ensure0xPrefix (txr_TxHash (ref_transfer (ref_recipient @ '',1'') 100)) = ''0xab''"
    by code_simp
  ultimately show ?thesis using s by simp
qed




text \<open>C17: a transfer is reported as mintable only if it succeeded on chain, contains exactly one
  transfer of the right denomination to the vault, of more than the fee and at most the limit, and
  carries a memo that names a valid non-zero Ethereum address and the configured chain.\<close>

theorem ValidateTx_sound:
  assumes "ValidateTxToCosmosMultisig l cfg tx config minAmount maxAmount = Inr r"
    and "vr_TxValid r" "\<not> vr_NeedsRefund r"
  shows "txr_Code tx = 0 \<and> vr_TxHash r = Ensure0xPrefix (txr_TxHash tx) \<and>
     (\<exists>event \<in> set (txr_Events tx). \<exists>t a mx.
        is_vault_transfer l (pokt_MultisigAddress config) (pokt_CoinDenom config) event t \<and>
        ParseTransferEvents l (txr_Events tx) (pokt_MultisigAddress config) (pokt_CoinDenom config) = Inr [t] \<and>
        vr_SenderAddress r = te_Sender t \<and> vr_Amount r = te_Amount t \<and>
        coin_Amount (te_Amount t) = Some a \<and> minAmount < a \<and> a \<noteq> 0 \<and> maxAmount = Some mx \<and> a \<le> mx) \<and>
     IsValidEthereumAddress (memo_Address (vr_Memo r)) \<and>
     \<not> EqualFold (memo_Address (vr_Memo r)) ZeroAddress \<and>
     memo_ChainID (vr_Memo r) = eth_ChainID (cfg_Ethereum cfg)"
proof -
  note v = validate_valid [OF assms(1,2)]
  obtain t a where t: "ParseTransferEvents l (txr_Events tx) (pokt_MultisigAddress config)
      (pokt_CoinDenom config) = Inr [t]" "vr_SenderAddress r = te_Sender t" "vr_Amount r = te_Amount t"
    "coin_Amount (te_Amount t) = Some a" "minAmount < a" "a \<noteq> 0" using v(2) by auto
  obtain m where m: "ValidateMemo l cfg m = Inr (vr_Memo r)" using v(3) assms(3) by auto
  obtain event where "event \<in> set (txr_Events tx)"
    "is_vault_transfer l (pokt_MultisigAddress config) (pokt_CoinDenom config) event t"
    using ParseTransferEvents_single [OF t(1)] by blast
  with v(1) v(4) [OF assms(3)] t validate_hash [OF assms(1)] ValidateMemo_Inr [OF m]
  show ?thesis by auto
qed

theorem ValidateTx_sound_witness:
  "IsValidEthereumAddress ref_recipient \<and> \<not> EqualFold ref_recipient ZeroAddress"
proof -
  let ?v = "ValidateTxToCosmosMultisig (ref_lib ref_decode) ref_cfg
      (ref_transfer (ref_recipient @ '',1'') 100) (cfg_Pocket ref_cfg) 10 (Some 1000)"
  have "map_sum (\<lambda>_. ()) (\<lambda>r. (vr_TxValid r, vr_NeedsRefund r, memo_Address (vr_Memo r))) ?v =
      Inr (True, False, ref_recipient)"
    by code_simp
  then obtain r where r: "?v = Inr r" "vr_TxValid r" "\<not> vr_NeedsRefund r"
    "memo_Address (vr_Memo r) = ref_recipient"
    by (cases ?v) auto
  from ValidateTx_sound [OF r(1-3)] r(4) show ?thesis by simp
qed

section \<open>Burn signer: sequence numbers\<close>



text \<open>The sequences of burns are never counted. \<open>findMaxSequenceFromBurns\<close> selects on a field
  burn documents do not have, so on any store whose burns have the fields of the struct it finds no
  sequence: a burn that is waiting for its signatures does not protect its sequence number.\<close>

theorem burn_sequences_ignored:
  assumes "document_store (DB env) docs"
    and "\<forall>d \<in> set (docs w CollectionBurns). \<exists>b i. d = with_id i (marshal_Burn b)"
    and "run_state (findMaxSequenceFromBurns env) w = (Inr m, w')"
  shows "m = None"
proof -
  obtain r w1 where q: "run_state (AggregateOne (DB env) CollectionBurns
      (sequence_pipeline (pokt_MultisigAddress (Pocket env)))) w = (r, w1)" by fastforce
  have "\<forall>d \<in> set (docs w CollectionBurns). map_of d ''vault_address'' = None"
    using assms(2) by (auto simp: marshal_Burn_def id_field_def with_id_def split: option.splits)
  from no_vault_address_pipeline [OF this] document_store.aggregate_law [OF assms(1) q]
  have "\<forall>d. r \<noteq> Inr d" by simp
  then obtain e where "r = Inl e" by (cases r) auto
  with assms(3) q show ?thesis
    by (auto simp: findMaxSequenceFromBurns_def run_simps split: if_splits)
qed

theorem burn_sequences_ignored_witness:
  "let w = world_with CollectionBurns [marshal_Burn signed_burn] in
     fst (run_state (findMaxSequenceFromBurns (calm_env account5)) w) = Inr None \<and>
     fst (run_state (BurnSigner_FindMaxSequence (calm_env account5) some_signer) w) = Inr 5"
proof -
  let ?w = "world_with CollectionBurns [marshal_Burn signed_burn]"
  let ?r = "run_state (findMaxSequenceFromBurns (calm_env account5)) ?w"
  have store: "document_store (DB (calm_env account5)) rw_docs"
    by (simp add: calm_env_def calm.document_store_axioms)
  have burns: "\<forall>d \<in> set (rw_docs ?w CollectionBurns). \<exists>b i. d = with_id i (marshal_Burn b)"
  proof -
    have "marshal_Burn signed_burn = with_id 1 (marshal_Burn signed_burn)" by code_simp
    then show ?thesis by (auto simp: world_with_def)
  qed
  obtain m where m: "fst ?r = Inr m"
  proof -
    have "isl (fst ?r) = False" by code_simp
    then show thesis using that by (cases "fst ?r") auto
  qed
  then have "?r = (Inr m, snd ?r)" by (metis prod.collapse)
  from burn_sequences_ignored [OF store burns this] m have "fst ?r = Inr None" by simp
  moreover have "fst (run_state (BurnSigner_FindMaxSequence (calm_env account5) some_signer) ?w) = Inr 5"
    by code_simp
  ultimately show ?thesis unfolding Let_def by blast
qed

section \<open>Burn signer: signatures\<close>



text \<open>The update \<open>Sign\<close> returns marks a document signed exactly when the collected signatures reach
  the multisig threshold, and confirmed otherwise; it keeps a sequence that has been chosen before,
  and ends the list of signatures with the validator's own.\<close>

theorem Sign_status_threshold:
  assumes "can_return (BurnSigner_Sign env x sequence signatures body rcpt amount memo) (Inr u)"
  shows "\<exists>hs g n. map_of u ''signatures'' = Some (marshal_sigs (hs @ [g])) \<and>
     sig_Signer g = BurnSigner_addressHex env x \<and>
     map_of u ''status'' = Some (BStr (if int64 (pokt_MultisigThreshold (Pocket env)) \<le> int (length (hs @ [g]))
        then StatusSigned else StatusConfirmed)) \<and>
     map_of u ''sequence'' = Some (BInt n) \<and> (sequence = Some s \<longrightarrow> n = s) \<and>
     (signatures = [] \<longrightarrow> hs = [])"
  by (rule Sign_update [OF assms, where s = s]) blast

theorem Sign_status_threshold_witness:
  "\<exists>u g. fst (run_state (BurnSigner_Sign (transfer_env account5) some_signer (Some 5) [] []
      (replicate 20 7) coin100 ''Burn: 0xab'') ref_init) = Inr u \<and>
     map_of u ''signatures'' = Some (marshal_sigs [g]) \<and>
     map_of u ''status'' = Some (BStr StatusConfirmed) \<and> map_of u ''sequence'' = Some (BInt 5)"
proof -
  let ?m = "BurnSigner_Sign (transfer_env account5) some_signer (Some 5) [] []
      (replicate 20 7) coin100 ''Burn: 0xab''"
  have "map_sum (\<lambda>_. ()) (\<lambda>_. ()) (fst (run_state ?m ref_init)) = Inr ()" by code_simp
  then obtain u where u: "fst (run_state ?m ref_init) = Inr u"
    by (cases "fst (run_state ?m ref_init)") auto
  have c: "can_return ?m (Inr u)" using can_return_run [of ?m ref_init] u by simp
  have thr: "int64 (pokt_MultisigThreshold (Pocket (transfer_env account5))) = 2" by code_simp
  from Sign_status_threshold [OF c, of 5] thr u show ?thesis by auto
qed

section \<open>Burn signer: validation\<close>

text \<open>C26: an invalid mint passes validation only if the transaction fetched under its hash succeeded
  and is exactly one transfer to the vault, of more than the fee, from the recorded sender, of the
  recorded amount, with the recorded memo, that either needs a refund or arrived while minting is
  disabled.\<close>

theorem ValidateInvalidMint_sound:
  assumes "run_state (BurnSigner_ValidateInvalidMint env x doc) w = (Inr True, w')"
  shows "\<exists>tx result t a memo. run_state (GetTx (Cosmos env) (im_TransactionHash doc)) w = (Inr (Some tx), w') \<and>
     ValidateTxToCosmosMultisig (lib env) (Cfg env) tx (Pocket env) (bs_minimumAmount x)
       (bs_maximumAmount x) = Inr result \<and>
     txr_Code tx = 0 \<and>
     ParseTransferEvents (lib env) (txr_Events tx) (pokt_MultisigAddress (Pocket env))
       (pokt_CoinDenom (Pocket env)) = Inr [t] \<and>
     EqualFold (te_Sender t) (im_SenderAddress doc) \<and>
     coin_Amount (te_Amount t) = Some a \<and> NewIntFromString (lib env) (im_Amount doc) = Some a \<and>
     bs_minimumAmount x < a \<and>
     Tx_Unmarshal (lib env) (txr_Tx tx) = Inr memo \<and> tx_BodyMemo memo = Some (im_Memo doc) \<and>
     (vr_NeedsRefund result \<or> pokt_MintDisabled (Pocket env))"
proof -
  obtain r w1 where q: "run_state (GetTx (Cosmos env) (im_TransactionHash doc)) w = (r, w1)" by fastforce
  obtain tx result where tx: "r = Inr (Some tx)" "w1 = w'"
    and v: "ValidateTxToCosmosMultisig (lib env) (Cfg env) tx (Pocket env) (bs_minimumAmount x)
       (bs_maximumAmount x) = Inr result" "BurnSigner_CheckInvalidMint env result doc = Inr True"
    using assms by (auto simp: BurnSigner_ValidateInvalidMint_def run_simps q split: sum.splits option.splits)
  have valid: "vr_TxValid result" using v(2) by (auto simp: BurnSigner_CheckInvalidMint_def split: if_splits)
  note s = validate_valid [OF v(1) valid]
  obtain t a where t: "ParseTransferEvents (lib env) (txr_Events tx) (pokt_MultisigAddress (Pocket env))
       (pokt_CoinDenom (Pocket env)) = Inr [t]" "vr_SenderAddress result = te_Sender t"
    "vr_Amount result = te_Amount t" "coin_Amount (te_Amount t) = Some a" "bs_minimumAmount x < a"
    using s(2) by auto
  obtain memo where m: "vr_Tx result = Some memo" "Tx_Unmarshal (lib env) (txr_Tx tx) = Inr memo"
    using s(3) by auto
  have c: "EqualFold (te_Sender t) (im_SenderAddress doc)"
    "NewIntFromString (lib env) (im_Amount doc) = Some a" "tx_BodyMemo memo = Some (im_Memo doc)"
    "vr_NeedsRefund result \<or> pokt_MintDisabled (Pocket env)"
    using v(2) t m by (auto simp: BurnSigner_CheckInvalidMint_def split: if_splits option.splits)
  show ?thesis using q tx v(1) s(1) t m c by blast
qed

theorem ValidateInvalidMint_sound_witness:
  "\<exists>t :: TransferEvent. EqualFold (te_Sender t) (im_SenderAddress pending_refund) \<and> coin_Amount (te_Amount t) = Some 100"
proof -
  let ?r = "run_state (BurnSigner_ValidateInvalidMint (transfer_env refund_answers) some_signer pending_refund) ref_init"
  have "fst ?r = Inr True" by code_simp
  then have run: "?r = (Inr True, snd ?r)" by (metis prod.collapse)
  have "NewIntFromString (lib (transfer_env refund_answers)) (im_Amount pending_refund) = Some 100"
    by code_simp
  moreover obtain t :: TransferEvent and a where "EqualFold (te_Sender t) (im_SenderAddress pending_refund)"
    "coin_Amount (te_Amount t) = Some a"
    "NewIntFromString (lib (transfer_env refund_answers)) (im_Amount pending_refund) = Some a"
    using ValidateInvalidMint_sound [OF run] by blast
  ultimately show ?thesis by auto
qed

text \<open>A burn passes the checks exactly when its log index is a number, the receipt has a log with
  that index that parses as a burn event, and amount (above the fee), sender and recipient of the
  event are those of the document.\<close>

theorem CheckBurn_iff:
  "BurnSigner_CheckBurn env x logs doc \<longleftrightarrow>
     (\<exists>i log ev a. ParseInt (b_LogIndex doc) = Some i \<and>
        find (\<lambda>log. log_Index log = uint64 i) logs = Some log \<and>
        ParseBurnAndBridge (WPokt env) log = Inr ev \<and>
        NewIntFromString (lib env) (b_Amount doc) = Some a \<and> bs_minimumAmount x < a \<and>
        bb_Amount ev = a \<and> EqualFold (Address_Hex (lib env) (bb_From ev)) (b_SenderAddress doc) \<and>
        bb_PoktAddress ev =
          (case AddressBytesFromBech32 (lib env) (pokt_Bech32Prefix (Pocket env)) (b_RecipientAddress doc)
           of Inl _ \<Rightarrow> [] | Inr bs \<Rightarrow> bs))"
  unfolding BurnSigner_CheckBurn_def by (auto split: option.split sum.split)

text \<open>The checks of a burn do not look at the contract that emitted the log. Whatever address the
  parsed events carry, the outcome is the same, so a log of a foreign contract with the right event
  is accepted.\<close>

theorem CheckBurn_ignores_contract:
  "BurnSigner_CheckBurn
     (env\<lparr>WPokt := (WPokt env)\<lparr>ParseBurnAndBridge :=
        (\<lambda>log. map_sum id (\<lambda>ev. ev\<lparr>bb_Address := contract log\<rparr>) (ParseBurnAndBridge (WPokt env) log))\<rparr>\<rparr>)
     x logs doc = BurnSigner_CheckBurn env x logs doc"
  by (auto simp: BurnSigner_CheckBurn_def split: option.splits sum.splits)

text \<open>C12: a burn whose receipts never pass the checks is never signed: handling it leaves the
  signatures, the transaction body and the sequence of every burn as they were.\<close>

theorem HandleBurn_signs_only_valid:
  assumes "lone_validator env docs"
    and "\<And>doc logs. UpdateStatusAndConfirmationsForBurn (Cfg env) doc0 (bs_ethBlockNumber x) = Inr doc \<Longrightarrow>
      can_return (GetTransactionReceipt (Eth env) (b_TransactionHash doc)) (Inr logs) \<Longrightarrow>
      \<not> BurnSigner_CheckBurn env x logs doc"
    and "k \<in> {''signatures'', ''return_transaction_body'', ''sequence''}"
  shows "field_in CollectionBurns k (docs (snd (run_state (BurnSigner_HandleBurn env x (Some doc0)) w)))
     = field_in CollectionBurns k (docs w)"
  using lone_validator.HandleBurn_invalid [OF assms(1,2)] assms(3) by (intro field_in_kept) auto

theorem HandleBurn_signs_only_valid_witness:
  "field_in CollectionBurns ''signatures'' (rw_docs (snd (run_state
     (BurnSigner_HandleBurn (transfer_env no_logs) some_signer (Some some_burn))
     (world_with CollectionBurns [marshal_Burn some_burn])))) = [Some (BArr [])]"
proof -
  have parse: "\<not> BurnSigner_CheckBurn (transfer_env no_logs) some_signer logs doc"
    if "can_return (GetTransactionReceipt (Eth (transfer_env no_logs)) h) (Inr logs)" for h logs doc
    using that by (simp add: transfer_env_def ref_env_def no_logs_def BurnSigner_CheckBurn_def
        split: option.splits)
  have "field_in CollectionBurns ''signatures'' (rw_docs (world_with CollectionBurns [marshal_Burn some_burn]))
      = [Some (BArr [])]"
    by (simp add: world_with_def field_in_def marshal_Burn_def some_burn_def CreateBurn_def id_field_def
        marshal_sigs_def Let_def)
  moreover have "lone_validator (transfer_env no_logs) rw_docs"
    unfolding transfer_env_def by (rule ref_lone.lone_validator_axioms)
  ultimately show ?thesis
    using HandleBurn_signs_only_valid [of "transfer_env no_logs" rw_docs some_burn some_signer "''signatures''"
        "world_with CollectionBurns [marshal_Burn some_burn]"] parse
    by simp
qed



section \<open>Confirmations\<close>

text \<open>C27: a pending burn becomes confirmed exactly when the current height is at least the required
  number of confirmations above the recorded height, stays pending otherwise, and records its depth;
  the same holds for pending invalid mints and mints. Every other field of the document is kept.\<close>

theorem confirmed_iff_deep_enough:
  assumes "0 < req" "is_int64 (cur - h)"
  shows "(b_Status b = StatusPending \<and> ParseInt (b_BlockNumber b) = Some h \<and>
       eth_Confirmations (cfg_Ethereum cfg) = req \<longrightarrow>
       UpdateStatusAndConfirmationsForBurn cfg b cur =
         Inr (b\<lparr>b_Status := if h + req \<le> cur then StatusConfirmed else StatusPending,
                b_Confirmations := FormatInt (cur - h)\<rparr>)) \<and>
    (im_Status i = StatusPending \<and> ParseInt (im_Height i) = Some h \<and>
       pokt_Confirmations (cfg_Pocket cfg) = req \<longrightarrow>
       UpdateStatusAndConfirmationsForInvalidMint cfg i cur =
         Inr (i\<lparr>im_Status := if h + req \<le> cur then StatusConfirmed else StatusPending,
                im_Confirmations := FormatInt (cur - h)\<rparr>)) \<and>
    (m_Status m = StatusPending \<and> ParseInt (m_Height m) = Some h \<and>
       pokt_Confirmations (cfg_Pocket cfg) = req \<longrightarrow>
       UpdateStatusAndConfirmationsForMint cfg m cur =
         Inr (m\<lparr>m_Status := if h + req \<le> cur then StatusConfirmed else StatusPending,
                m_Confirmations := FormatInt (cur - h)\<rparr>))"
proof -
  have "status_and_confirmations StatusPending c k cur req =
      Inr (if h + req \<le> cur then StatusConfirmed else StatusPending, cur - h)"
    if "ParseInt k = Some h" for c k
    using that assms by (auto simp: status_and_confirmations_def Let_def)
  then show ?thesis
    by (auto simp: UpdateStatusAndConfirmationsForBurn_def
        UpdateStatusAndConfirmationsForInvalidMint_def UpdateStatusAndConfirmationsForMint_def)
qed

theorem confirmed_iff_deep_enough_witness:
  "b_Status (projr (UpdateStatusAndConfirmationsForBurn ref_cfg some_burn 20)) = StatusConfirmed \<and>
   b_Status (projr (UpdateStatusAndConfirmationsForBurn ref_cfg some_burn 15)) = StatusPending"
proof -
  have b: "b_Status some_burn = StatusPending" "ParseInt (b_BlockNumber some_burn) = Some 15"
    "eth_Confirmations (cfg_Ethereum ref_cfg) = 1"
    by code_simp+
  have i: "is_int64 (20 - 15)" "is_int64 (15 - 15)" by code_simp+
  show ?thesis
    using confirmed_iff_deep_enough [of 1 20 15 some_burn ref_cfg]
      confirmed_iff_deep_enough [of 1 15 15 some_burn ref_cfg] b i by simp
qed

text \<open>With no confirmations required, a burn that fails the checks is never marked failed. Its
  confirmations stay zero, which \<open>HandleBurn\<close> takes for a transaction it has not seen yet: it returns
  false and writes nothing, at every height.\<close>

theorem zero_confirmations_never_fail:
  assumes "lone_validator env docs" "eth_Confirmations (Ethereum env) = 0"
    and "b_Confirmations doc0 = ''0''"
    and "\<And>doc logs. can_return (GetTransactionReceipt (Eth env) (b_TransactionHash doc0)) (Inr logs) \<Longrightarrow>
      \<not> BurnSigner_CheckBurn env x logs doc"
  shows "docs (snd (run_state (BurnSigner_HandleBurn env x (Some doc0)) w)) = docs w \<and>
     fst (run_state (BurnSigner_HandleBurn env x (Some doc0)) w) \<noteq> Inr True"
proof -
  let ?doc = "doc0\<lparr>b_Status := if b_Status doc0 = StatusPending \<or> True then StatusConfirmed else [],
      b_Confirmations := ''0''\<rparr>"
  have z: "ParseInt ''0'' = Some 0" "FormatInt 0 = ''0''" by code_simp+
  have u: "UpdateStatusAndConfirmationsForBurn (Cfg env) doc0 (bs_ethBlockNumber x) = Inr ?doc"
    using assms(2,3) z
    by (simp add: UpdateStatusAndConfirmationsForBurn_def status_and_confirmations_def)
  obtain r w1 where q: "run_state (GetTransactionReceipt (Eth env) (b_TransactionHash doc0)) w = (r, w1)"
    by fastforce
  have w1: "docs w1 = docs w"
    using quietD [OF lone_validator.quiet_eth(2) [OF assms(1)], of "b_TransactionHash doc0" w] q by simp
  have now: "docs (snd (run_state (Now env) w1)) = docs w1"
    by (rule quietD [OF lone_validator.quiet_now [OF assms(1)]])
  show ?thesis
  proof (cases r)
    case (Inl e)
    then show ?thesis using q w1 u
      by (simp add: BurnSigner_HandleBurn_def BurnSigner_ValidateBurn_def run_simps)
  next
    case (Inr logs)
    then have "\<not> BurnSigner_CheckBurn env x logs ?doc"
      using assms(4) can_return_run [of "GetTransactionReceipt (Eth env) (b_TransactionHash doc0)" w] q
      by simp
    then show ?thesis using Inr q w1 u now
      by (simp add: BurnSigner_HandleBurn_def BurnSigner_ValidateBurn_def run_simps)
  qed
qed

definition no_confirmations :: "(ref_world, ref_tx) Env" where
  "no_confirmations = ref_env (ref_cfg\<lparr>cfg_Ethereum := (cfg_Ethereum ref_cfg)\<lparr>eth_Confirmations := 0\<rparr>\<rparr>)
     (ref_lib ref_decode) no_logs"

theorem zero_confirmations_never_fail_witness:
  "rw_docs (snd (run_state (BurnSigner_HandleBurn no_confirmations some_signer (Some some_burn))
     (world_with CollectionBurns [marshal_Burn some_burn]))) CollectionBurns = [marshal_Burn some_burn]"
proof -
  have check: "\<not> BurnSigner_CheckBurn no_confirmations some_signer logs doc"
    if "can_return (GetTransactionReceipt (Eth no_confirmations) h) (Inr logs)" for h logs doc
    using that by (simp add: no_confirmations_def ref_env_def no_logs_def BurnSigner_CheckBurn_def
        split: option.splits)
  have "lone_validator no_confirmations rw_docs"
    unfolding no_confirmations_def by (rule ref_lone.lone_validator_axioms)
  moreover have "eth_Confirmations (Ethereum no_confirmations) = 0"
    by (simp add: no_confirmations_def)
  moreover have "b_Confirmations some_burn = ''0''"
    by (simp add: some_burn_def CreateBurn_def Let_def)
  ultimately show ?thesis
    using zero_confirmations_never_fail [of no_confirmations rw_docs some_burn some_signer
        "world_with CollectionBurns [marshal_Burn some_burn]"] check
    by (simp add: world_with_def)
qed

section \<open>Outgoing transfers\<close>





text \<open>A transfer that is recorded as a mint and seen again after the maximum was lowered is recorded for a
  refund as well: with minting enabled \<open>HandleInvalidMint\<close> does not look for the mint.\<close>

theorem refund_beside_mint:
  "(let r = run_state (MintMonitor_SyncTxs (transfer_env one_transfer) (some_monitor\<lparr>mm_maximumAmount := Some 50\<rparr>))
      (world_with CollectionMints [marshal_Mint some_mint]) in
    field_in CollectionMints ''transaction_hash'' (rw_docs (snd r)) = [Some (BStr ''0xab'')] \<and>
    field_in CollectionInvalidMints ''transaction_hash'' (rw_docs (snd r)) = [Some (BStr ''0xab'')] \<and>
    field_in CollectionInvalidMints ''status'' (rw_docs (snd r)) = [Some (BStr StatusPending)])"
  by code_simp

end
