(* ===== verification/Sign_And_Execute.thy ===== *)
theory Sign_And_Execute
  imports Burn_Executor
begin

text \<open>
  From the signers to the executor: members of the multisig sign one return transaction one after the
  other (\<open>SignTx\<close> of \<open>cosmos/tx_sign.go\<close>), each over the body and the signatures the one before has
  stored, and the executor (\<open>cosmos/executor.go\<close>) accepts what they have collected.
\<close>

section \<open>What the SDK promises\<close>

text \<open>
  A transaction survives its JSON form; signatures that are set can be read; and the bytes to sign, in
  the mode \<open>SIGN_MODE_LEGACY_AMINO_JSON\<close> the program uses, do not depend on the signatures.
\<close>

locale signing_sdk =
  fixes l :: "'t Lib" and prefix :: string
  assumes json_roundtrip: "TxJSONEncoder l prefix = Some enc \<Longrightarrow> enc t = Inr s \<Longrightarrow>
      s \<noteq> [] \<and> (\<exists>dec. TxJSONDecoder l prefix = Some dec \<and> dec s = Inr t)"
    and wraps: "WrapTx l t = Inr t"
    and signatures_set: "SetSignatures l t ss = Inr t' \<Longrightarrow> GetSignaturesV2 l t' = Inr ss"
    and sign_bytes_kept: "SetSignatures l t ss = Inr t' \<Longrightarrow> GetSignBytes l d t' = GetSignBytes l d t"
    and adaptable: "IsV2AdaptableTx l t" "NewAnyWithValue l k = None"

definition signer_data :: "'t Lib \<Rightarrow> CosmosConfig \<Rightarrow> int \<Rightarrow> int \<Rightarrow> PubKey \<Rightarrow> SignerData" where
  "signer_data l config n sequence k = \<lparr>sd_ChainID = pokt_ChainID config, sd_AccountNumber = n,
     sd_Sequence = sequence, sd_PubKey = k, sd_Address = AccAddress_String l (PubKey_Address l k)\<rparr>"

text \<open>A signer whose signatures verify under its public key.\<close>

definition honest_signer :: "'t Lib \<Rightarrow> 'w CosmosSigner \<Rightarrow> bool" where
  "honest_signer l s \<longleftrightarrow> (\<forall>d t msg signature. GetSignBytes l d t = Inr msg \<longrightarrow>
     can_return (CosmosSign s msg) (Inr signature) \<longrightarrow>
     VerifySignature l (CosmosPublicKey s) d (SingleSignatureData signature) t = None)"

section \<open>The signers\<close>

fun sign_chain ::
    "CosmosConfig \<Rightarrow> int \<Rightarrow> bytes \<Rightarrow> Coin \<Rightarrow> string \<Rightarrow> (('w, 't) Env \<times> 'w CosmosSigner) list \<Rightarrow>
      string \<Rightarrow> Signature list \<Rightarrow> ('w, (string \<times> Signature list) result) io" where
  "sign_chain config sequence toAddress amount memo [] body sigs = ret (Inr (body, sigs))"
| "sign_chain config sequence toAddress amount memo ((env, s) # ss) body sigs =
     then_ok (SignTx env s config sequence sigs body toAddress amount memo)
       (\<lambda>(body, sigs). sign_chain config sequence toAddress amount memo ss body sigs)"

text \<open>The process of a member: the pure functions of the SDK, and a client that reports the account number.\<close>

definition member_env :: "'t Lib \<Rightarrow> CosmosConfig \<Rightarrow> int \<Rightarrow> ('w, 't) Env \<Rightarrow> bool" where
  "member_env l config n env \<longleftrightarrow> lib env = l \<and>
     (\<forall>account. can_return (GetAccount (Cosmos env) (pokt_MultisigAddress config)) (Inr account) \<longrightarrow>
        uint (acc_AccountNumber account) = n)"

text \<open>The transaction in a body carries one signature of each of the signers, in their order.\<close>

definition carries ::
    "'t Lib \<Rightarrow> CosmosConfig \<Rightarrow> int \<Rightarrow> int \<Rightarrow> 'w CosmosSigner list \<Rightarrow> 't \<Rightarrow> SignatureV2 list \<Rightarrow> bool" where
  "carries l config n sequence signers t svs \<longleftrightarrow>
     GetSignaturesV2 l t = Inr svs \<and>
     list_all2 (\<lambda>s sv. sv2_PubKey sv = CosmosPublicKey s \<and>
       (\<exists>msg signature. sv2_Data sv = SingleSignatureData signature \<and>
          GetSignBytes l (signer_data l config n sequence (CosmosPublicKey s)) t = Inr msg \<and>
          can_return (CosmosSign s msg) (Inr signature))) signers svs"

definition collected ::
    "'t Lib \<Rightarrow> CosmosConfig \<Rightarrow> int \<Rightarrow> int \<Rightarrow> 'w CosmosSigner list \<Rightarrow> string \<Rightarrow> Signature list \<Rightarrow> bool" where
  "collected l config n sequence signers body sigs \<longleftrightarrow>
     length sigs = length signers \<and> (signers = [] \<or> body \<noteq> [] \<and>
       (\<exists>t svs. WrapTxBuilder l (pokt_Bech32Prefix config) body = Inr t \<and> carries l config n sequence signers t svs))"

context signing_sdk
begin

lemma json_wraps: "TxJSONEncoder l prefix = Some enc \<Longrightarrow> enc t = Inr s \<Longrightarrow> s \<noteq> [] \<and> WrapTxBuilder l prefix s = Inr t"
  using json_roundtrip [of enc t s] by (auto simp: WrapTxBuilder_def ParseTxBody_def wraps)

lemma SignTx_collects:
  assumes "member_env l config n env" "pokt_Bech32Prefix config = prefix"
    and "collected l config n sequence signers body sigs"
    and "can_return (SignTx env s config sequence sigs body toAddress amount memo) (Inr (body', sigs'))"
  shows "collected l config n sequence (signers @ [s]) body' sigs'"
proof -
  let ?d = "signer_data l config n sequence (CosmosPublicKey s)"
  have member_lib: "lib env = l" using assms(1) by (simp add: member_env_def)
  obtain a b t account sv where
    b: "SignTx_body l config a body toAddress amount memo = Inr b" "WrapTxBuilder l prefix b = Inr t"
    and acc: "can_return (GetAccount (Cosmos env) (pokt_MultisigAddress config)) (Inr account)"
    and sv: "can_return (SignWithPrivKey l (signer_data l config (uint (acc_AccountNumber account)) sequence
      (CosmosPublicKey s)) t s sequence) (Inr sv)"
    and app: "SignTx_append l config sigs t sv = Inr (body', sigs')"
    using assms(4) unfolding member_lib SignTx_def Let_def signer_data_def assms(2)
    by (auto simp: assms(2) elim!: can_return_bindE split: option.splits sum.splits if_splits)
  obtain msg signature where m: "GetSignBytes l ?d t = Inr msg" "can_return (CosmosSign s msg) (Inr signature)"
    "sv = \<lparr>sv2_PubKey = CosmosPublicKey s, sv2_Data = SingleSignatureData signature, sv2_Sequence = sequence\<rparr>"
    using sv assms(1) acc by (auto simp: member_env_def SignWithPrivKey_def elim!: can_return_bindE split: sum.splits)
  obtain old where old: "(if length sigs > 0 then GetSignaturesV2 l t else Inr []) = Inr old"
    using app by (auto simp: SignTx_append_def split: sum.splits)
  obtain t' enc where t': "SetSignatures l t (old @ [sv]) = Inr t'" "TxJSONEncoder l prefix = Some enc"
    "enc t' = Inr body'" "SignTx_final l [] (old @ [sv]) = Inr sigs'"
    using app unfolding SignTx_append_def old Let_def
    by (auto simp: assms(2) simp del: SignTx_final.simps split: sum.splits option.splits)
  have same: "carries l config n sequence signers t old" if ne: "signers \<noteq> []"
  proof -
    have "sigs \<noteq> []" using assms(3) ne by (auto simp: collected_def)
    obtain t1 svs where c: "WrapTxBuilder l prefix body = Inr t1" "carries l config n sequence signers t1 svs"
      "body \<noteq> []"
      using assms(2,3) ne by (auto simp: collected_def)
    then have "b = body" using b(1) by (simp add: SignTx_body_def)
    with b(2) c have "t1 = t" by simp
    with c(2) old \<open>sigs \<noteq> []\<close> have "svs = old" by (simp add: carries_def)
    with c(2) \<open>t1 = t\<close> show ?thesis by simp
  qed
  have o: "list_all2 (\<lambda>s sv. sv2_PubKey sv = CosmosPublicKey s \<and>
       (\<exists>msg signature. sv2_Data sv = SingleSignatureData signature \<and>
          GetSignBytes l (signer_data l config n sequence (CosmosPublicKey s)) t = Inr msg \<and>
          can_return (CosmosSign s msg) (Inr signature))) signers old"
  proof (cases "signers = []")
    case True
    then have "sigs = []" using assms(3) by (simp add: collected_def)
    with old True show ?thesis by simp
  next
    case False
    then show ?thesis using same by (simp add: carries_def)
  qed
  then have "carries l config n sequence (signers @ [s]) t' (old @ [sv])"
    using m signatures_set [OF t'(1)] sign_bytes_kept [OF t'(1)]
    by (auto simp: carries_def intro!: list_all2_appendI)
  moreover have "length sigs' = length (signers @ [s])"
    using SignTx_final_Inr [OF t'(4)] list_all2_lengthD [OF o] by auto
  ultimately show ?thesis
    using json_wraps [OF t'(2,3)] assms(2) by (auto simp: collected_def)
qed

lemma sign_chain_collects:
  assumes "pokt_Bech32Prefix config = prefix" "\<forall>m \<in> set ms. member_env l config n (fst m)"
    and "can_return (sign_chain config sequence toAddress amount memo ms body sigs) (Inr (body', sigs'))"
    and "collected l config n sequence signers body sigs"
  shows "collected l config n sequence (signers @ map snd ms) body' sigs'"
  using assms(2-4)
proof (induction ms arbitrary: signers body sigs)
  case (Cons m ms)
  obtain env s where m: "m = (env, s)" by fastforce
  with Cons.prems(2) obtain body1 sigs1 where
    1: "can_return (SignTx env s config sequence sigs body toAddress amount memo) (Inr (body1, sigs1))"
    "can_return (sign_chain config sequence toAddress amount memo ms body1 sigs1) (Inr (body', sigs'))"
    by (auto elim!: can_return_then_okE)
  have "member_env l config n env" using Cons.prems(1) m by simp
  from SignTx_collects [OF this assms(1) Cons.prems(3) 1(1)] have
    "collected l config n sequence (signers @ [s]) body1 sigs1" .
  from Cons.IH [OF _ 1(2) this] Cons.prems(1) m show ?case by simp
qed simp

section \<open>The executor\<close>

text \<open>The loop over signatures that all verify, by different members.\<close>

lemma ValidateSignatures_loop_accepts:
  assumes "\<And>sv ss. sv \<in> set svs \<Longrightarrow> \<exists>ss'. AddSignatureV2 l (MultiSignatureData ss) sv keys = Inr (MultiSignatureData ss')"
    and "\<forall>sv \<in> set svs. sv2_PubKey sv \<in> set keys \<and> ValidateSignature l config sv n sequence t = None"
    and "distinct (map (\<lambda>sv. PubKey_Bytes l (sv2_PubKey sv)) svs)"
    and "\<forall>sv \<in> set svs. PubKey_Bytes l (sv2_PubKey sv) \<notin> unique"
  shows "\<exists>ss'. ValidateSignatures_loop l config keys n sequence t unique (MultiSignatureData ss) svs =
     Inr (MultiSignatureData ss')"
  using assms
proof (induction svs arbitrary: unique ss)
  case (Cons sv svs)
  obtain ss1 where a: "AddSignatureV2 l (MultiSignatureData ss) sv keys = Inr (MultiSignatureData ss1)"
    using Cons.prems(1) by fastforce
  have "\<exists>ss'. ValidateSignatures_loop l config keys n sequence t (insert (PubKey_Bytes l (sv2_PubKey sv)) unique)
      (MultiSignatureData ss1) svs = Inr (MultiSignatureData ss')"
    using Cons.prems by (intro Cons.IH) (auto simp: image_iff)
  then show ?case using Cons.prems(2,4) a by (auto simp: pubKeyExists_def list_ex_iff)
qed simp

lemma carried_signatures_verify:
  assumes "carries l config n sequence signers t svs" "\<forall>s \<in> set signers. honest_signer l s" "sv \<in> set svs"
  shows "ValidateSignature l config sv n sequence t = None" "sv2_PubKey sv \<in> CosmosPublicKey ` set signers"
proof -
  obtain i where i: "i < length svs" "svs ! i = sv" using assms(3) by (auto simp: in_set_conv_nth)
  then have s: "signers ! i \<in> set signers" "sv2_PubKey sv = CosmosPublicKey (signers ! i)"
    and "\<exists>msg signature. sv2_Data sv = SingleSignatureData signature \<and>
          GetSignBytes l (signer_data l config n sequence (CosmosPublicKey (signers ! i))) t = Inr msg \<and>
          can_return (CosmosSign (signers ! i) msg) (Inr signature)"
    using assms(1) by (auto simp: carries_def list_all2_conv_all_nth)
  then show "ValidateSignature l config sv n sequence t = None"
    using assms(2) adaptable
    by (auto simp: ValidateSignature_def honest_signer_def signer_data_def Let_def)
  show "sv2_PubKey sv \<in> CosmosPublicKey ` set signers" using s by auto
qed

lemma collected_accepted:
  assumes "lib env = l" "Pocket env = config" "pokt_Bech32Prefix config = prefix"
    and "collected l config n sequence signers body sigs" "signers \<noteq> []"
    and "\<forall>s \<in> set signers. honest_signer l s"
    and "CosmosPublicKey ` set signers \<subseteq> set (GetPubKeys (ps_Multisig (be_signer x)))"
    and "distinct (map (\<lambda>s. PubKey_Bytes l (CosmosPublicKey s)) signers)"
    and "GetThreshold (ps_Multisig (be_signer x)) \<le> length signers"
    and "\<And>ss sv. sv2_PubKey sv \<in> set (GetPubKeys (ps_Multisig (be_signer x))) \<Longrightarrow>
      \<exists>ss'. AddSignatureV2 l (MultiSignatureData ss) sv (GetPubKeys (ps_Multisig (be_signer x))) =
        Inr (MultiSignatureData ss')"
    and "run_state (GetAccount (Cosmos env) (ps_MultisigAddress (be_signer x))) w = (Inr account, w')"
    and "uint (acc_AccountNumber account) = n"
  shows "\<exists>t ss. WrapTxBuilder l prefix body = Inr t \<and>
     run_state (ValidateSignaturesAndAddMultiSignatureToTxConfig env x sequence t) w =
       (SetSignatures l t [\<lparr>sv2_PubKey = ps_Multisig (be_signer x), sv2_Data = MultiSignatureData ss,
          sv2_Sequence = sequence\<rparr>], w')"
proof -
  let ?keys = "GetPubKeys (ps_Multisig (be_signer x))"
  obtain t svs where t: "WrapTxBuilder l prefix body = Inr t" "carries l config n sequence signers t svs"
    using assms(3,4,5) by (auto simp: collected_def)
  have keys: "map sv2_PubKey svs = map CosmosPublicKey signers" "length svs = length signers"
    "GetSignaturesV2 l t = Inr svs"
    using t(2) by (auto simp: carries_def list_all2_conv_all_nth intro!: nth_equalityI)
  have "map (\<lambda>sv. PubKey_Bytes l (sv2_PubKey sv)) svs = map (\<lambda>s. PubKey_Bytes l (CosmosPublicKey s)) signers"
    using arg_cong [OF keys(1), of "map (PubKey_Bytes l)"] by (simp add: comp_def)
  then have d: "distinct (map (\<lambda>sv. PubKey_Bytes l (sv2_PubKey sv)) svs)" using assms(8) by simp
  have m: "\<forall>sv \<in> set svs. sv2_PubKey sv \<in> set ?keys \<and> ValidateSignature l config sv n sequence t = None"
    using carried_signatures_verify [OF t(2) assms(6)] assms(7) by blast
  have "\<exists>ss. ValidateSignatures_loop l config ?keys n sequence t {} (MultiSignatureData []) svs =
      Inr (MultiSignatureData ss)"
    by (rule ValidateSignatures_loop_accepts [OF _ m d]) (use assms(10) m in auto)
  then obtain ss where "ValidateSignatures_loop l config ?keys n sequence t {} (MultiSignatureData []) svs =
      Inr (MultiSignatureData ss)" by blast
  moreover have "svs \<noteq> []" using keys(2) assms(5) by auto
  ultimately show ?thesis using t(1) keys(2,3) assms(9,11,12)
    by (intro exI [of _ t] exI [of _ ss])
      (auto simp: ValidateSignaturesAndAddMultiSignatureToTxConfig_def Let_def run_simps assms(1,2))
qed

end

end
