(* ===== verification/Executor_Properties.thy ===== *)
theory Executor_Properties
  imports Reference_World Sign_And_Execute
begin

text \<open>
  The properties of the burn executor, with their evaluations on the reference world: what it
  broadcasts, and what becomes of a document once its transaction is on chain.
\<close>

section \<open>Broadcasts\<close>


text \<open>A burn whose return transaction has been signed by both keys, and one that has been broadcast.\<close>

definition some_executor :: "ref_world BurnExecutorRunner" where
  "some_executor = \<lparr>be_signer = ref_signer, be_wpoktAddress = ''0xcc'', be_vaultAddress = ref_vault\<rparr>"

definition complete_burn :: Burn where
  "complete_burn = signed_burn\<lparr>b_ReturnTransactionBody := ''tx2''\<rparr>"



section \<open>What the signers collect the executor accepts\<close>











section \<open>After the broadcast\<close>

lemma checked_update_fields:
  "has_status (apply_set (BurnExecutor_checked_update failed t) d)
     (if failed then StatusConfirmed else StatusSuccess)"
  "failed \<Longrightarrow> map_of (apply_set (BurnExecutor_checked_update failed t) d) ''signatures'' = Some (marshal_sigs [])"
  "failed \<Longrightarrow> map_of (apply_set (BurnExecutor_checked_update failed t) d) ''sequence'' = Some BNull"
  "failed \<Longrightarrow> map_of (apply_set (BurnExecutor_checked_update failed t) d) ''return_transaction_body'' = Some (BStr [])"
  by (simp_all add: BurnExecutor_checked_update_def has_status_def map_of_apply_set)

text \<open>C23: a broadcast return transaction is followed to its end. Handling a submitted burn returns true
  only after the node has reported the transaction; then exactly the burn's document changes: to
  success if the transaction succeeded, and otherwise back to confirmed without signatures,
  transaction and sequence, so that it is signed again.\<close>

theorem submitted_burn_outcome:
  assumes "lone_validator env docs" "b_Status doc = StatusSubmitted"
    and "run_state (BurnExecutor_HandleBurn env x (Some doc)) w = (Inr True, w')"
  shows "\<exists>tx w1 n d'. run_state (GetTx (Cosmos env) (b_ReturnTransactionHash doc)) w = (Inr (Some tx), w1) \<and>
     n < length (docs w CollectionBurns) \<and>
     matches (status_filter (b_Id doc) StatusSubmitted) (docs w CollectionBurns ! n) \<and>
     docs w' = (docs w)(CollectionBurns := (docs w CollectionBurns)[n := d']) \<and>
     has_status d' (if txr_Code tx \<noteq> 0 then StatusConfirmed else StatusSuccess) \<and>
     (txr_Code tx \<noteq> 0 \<longrightarrow> map_of d' ''signatures'' = Some (marshal_sigs []) \<and>
        map_of d' ''sequence'' = Some BNull \<and> map_of d' ''return_transaction_body'' = Some (BStr []))"
proof -
  obtain r w1 where q: "run_state (GetTx (Cosmos env) (b_ReturnTransactionHash doc)) w = (r, w1)"
    by fastforce
  have w1: "docs w1 = docs w"
    using quietD [OF lone_validator.quiet_cosmos(5) [OF assms(1)], of "b_ReturnTransactionHash doc" w] q
    by simp
  obtain t w2 where t: "run_state (Now env) w1 = (t, w2)" by fastforce
  have w2: "docs w2 = docs w"
    using quietD [OF lone_validator.quiet_now [OF assms(1)], of w1] t w1 by simp
  have ne: "StatusSubmitted \<noteq> StatusSigned" by (simp add: status_defs)
  obtain tx where tx: "r = Inr (Some tx)" using assms(2,3) q ne
    by (auto simp: BurnExecutor_HandleBurn_def BurnExecutor_check_def run_simps split: sum.splits option.splits)
  let ?u = "BurnExecutor_checked_update (txr_Code tx \<noteq> 0) t"
  let ?q = "status_filter (b_Id doc) StatusSubmitted"
  obtain r2 w3 where u: "run_state (UpdateOne (DB env) CollectionBurns ?q ?u) w2 = (r2, w3)" by fastforce
  then have "w3 = w' \<and> (\<exists>i. r2 = Inr i)"
    using assms(2,3) q ne t unfolding tx
    by (auto simp: BurnExecutor_HandleBurn_def BurnExecutor_check_def run_simps status_filter_def
        split: sum.splits)
  then obtain i where upd: "run_state (UpdateOne (DB env) CollectionBurns ?q ?u) w2 = (Inr i, w')"
    using u by auto
  have "document_store (DB env) docs" using assms(1) by (simp add: lone_validator_def)
  from document_store.update_law [OF this upd] obtain n where
    "n < length (docs w CollectionBurns)" "matches (status_filter (b_Id doc) StatusSubmitted) (docs w CollectionBurns ! n)"
    "docs w' = (docs w)(CollectionBurns := (docs w CollectionBurns)[n := apply_set ?u (docs w CollectionBurns ! n)])"
    by (auto simp: update_outcome_def updated_def w2)
  with q tx checked_update_fields show ?thesis
    by (intro exI [of _ tx] exI [of _ w1] exI [of _ n]
        exI [of _ "apply_set ?u (docs w CollectionBurns ! n)"]) simp
qed

definition submitted_burn :: Burn where
  "submitted_burn = complete_burn\<lparr>b_Status := StatusSubmitted, b_ReturnTransactionHash := ''0xf00d''\<rparr>"

definition failed_return :: answers where
  "failed_return = account5\<lparr>ans_Tx := Inr (Some ((ref_transfer [] 100)\<lparr>txr_Code := 5\<rparr>))\<rparr>"

theorem submitted_burn_outcome_witness:
  "\<exists>d'. rw_docs (snd (run_state (BurnExecutor_HandleBurn (transfer_env failed_return) some_executor
       (Some submitted_burn)) (world_with CollectionBurns [marshal_Burn submitted_burn]))) CollectionBurns = [d'] \<and>
     has_status d' StatusConfirmed \<and> map_of d' ''sequence'' = Some BNull"
proof -
  let ?e = "transfer_env failed_return"
  let ?w = "world_with CollectionBurns [marshal_Burn submitted_burn]"
  let ?r = "run_state (BurnExecutor_HandleBurn ?e some_executor (Some submitted_burn)) ?w"
  have "fst ?r = Inr True" by code_simp
  then have run: "?r = (Inr True, snd ?r)" by (metis prod.collapse)
  have lone: "lone_validator ?e rw_docs" unfolding transfer_env_def by (rule ref_lone.lone_validator_axioms)
  have st: "b_Status submitted_burn = StatusSubmitted" by (simp add: submitted_burn_def)
  have docs: "rw_docs ?w CollectionBurns = [marshal_Burn submitted_burn]" by (simp add: world_with_def)
  have code: "txr_Code tx = 5" if "run_state (GetTx (Cosmos ?e) h) ?w = (Inr (Some tx), w1)" for h tx w1
    using that by (auto simp: transfer_env_def ref_env_def failed_return_def run_simps)
  from submitted_burn_outcome [OF lone st run] code show ?thesis by (auto simp: docs)
qed

end
