(* ===== verification/Mint_Signatures.thy ===== *)
theory Mint_Signatures
  imports Eth_Util
begin

text \<open>
  The signatures of a mint when several validators add theirs one after the other
  (\<open>SignMint\<close> of \<open>eth/util/signer.go\<close>, called once per validator): which pairs of signer and signature
  the mint ends up with, and that the order of the validators makes no difference.
\<close>

fun sign_all ::
    "'t Lib \<Rightarrow> Mint \<Rightarrow> MintControllerMintData \<Rightarrow> DomainData \<Rightarrow> EthKey list \<Rightarrow> int \<Rightarrow> Mint result" where
  "sign_all l mint data domain [] thr = Inr mint"
| "sign_all l mint data domain (k # ks) thr =
     (case SignMint l mint data domain k thr of
        Inl e \<Rightarrow> Inl e | Inr mint \<Rightarrow> sign_all l mint data domain ks thr)"

definition signer_pair :: "'t Lib \<Rightarrow> MintControllerMintData \<Rightarrow> DomainData \<Rightarrow> EthKey \<Rightarrow> string \<times> string" where
  "signer_pair l data domain k = (ToLower (key_AddressHex k),
     ''0x'' @ EncodeToString (projr (signTypedData l domain data k)))"

lemma SignMint_shape:
  assumes "SignMint l mint data domain k thr = Inr mint'"
  shows "mint' = mint\<lparr>m_Status := m_Status mint', m_Signatures := m_Signatures mint', m_Signers := m_Signers mint'\<rparr>"
  using assms by (auto simp: SignMint_def Let_def split: sum.splits prod.splits)

lemma zipped_length:
  assumes "mset (zip xs ys) = mset (zip xs' ys') + mset zs" "length ys = length xs" "length ys' = length xs'"
  shows "length xs = length xs' + length zs"
proof -
  from assms(1) have "size (mset (zip xs ys)) = size (mset (zip xs' ys') + mset zs)" by (rule arg_cong)
  with assms(2,3) show ?thesis by (simp only: size_union size_mset length_zip min.idem)
qed

lemma sign_all_Inr:
  assumes "sign_all l mint data domain ks thr = Inr mint'"
    and "length (m_Signatures mint) = length (m_Signers mint)"
  shows "length (m_Signatures mint') = length (m_Signers mint') \<and>
     mset (zip (m_Signers mint') (m_Signatures mint')) =
       mset (zip (m_Signers mint) (m_Signatures mint)) + mset (map (signer_pair l data domain) ks) \<and>
     mint' = mint\<lparr>m_Status := m_Status mint', m_Signatures := m_Signatures mint', m_Signers := m_Signers mint'\<rparr> \<and>
     (ks \<noteq> [] \<longrightarrow> sorted (map (sort_address l) (m_Signers mint')) \<and>
        m_Status mint' = (if thr \<le> int (length (m_Signers mint')) then StatusSigned else m_Status mint))"
  using assms
proof (induction ks arbitrary: mint)
  case (Cons k ks)
  then obtain m1 where m1: "SignMint l mint data domain k thr = Inr m1"
    and r: "sign_all l m1 data domain ks thr = Inr mint'"
    by (auto split: sum.splits)
  note s = SignMint_Inr [OF m1]
  from SignMint_pairs [OF m1] Cons.prems(2)
  have p: "mset (zip (m_Signers m1) (m_Signatures m1)) =
      add_mset (signer_pair l data domain k) (mset (zip (m_Signers mint) (m_Signatures mint)))"
    by (auto simp: signer_pair_def)
  note ih = Cons.IH [OF r s(1)]
  have sz: "length (m_Signers mint') = length (m_Signers m1) + length ks"
    using zipped_length [of _ _ _ _ "map (signer_pair l data domain) ks"] ih s(1) by (metis length_map)
  have shape: "mint' = mint\<lparr>m_Status := m_Status mint', m_Signatures := m_Signatures mint', m_Signers := m_Signers mint'\<rparr>"
  proof -
    obtain a b c where "m1 = mint\<lparr>m_Status := a, m_Signatures := b, m_Signers := c\<rparr>"
      using SignMint_shape [OF m1] by blast
    moreover obtain a' b' c' where "mint' = m1\<lparr>m_Status := a', m_Signatures := b', m_Signers := c'\<rparr>"
      using ih by blast
    ultimately show ?thesis by simp
  qed
  show ?case
  proof (cases "ks = []")
    case True
    with r p s shape show ?thesis by simp
  next
    case False
    with ih p s(1,5) sz shape show ?thesis by simp
  qed
qed simp

lemma sign_all_length:
  assumes "sign_all l mint data domain ks thr = Inr mint'"
    and "length (m_Signatures mint) = length (m_Signers mint)"
  shows "length (m_Signers mint') = length (m_Signers mint) + length ks"
  using zipped_length [of _ _ _ _ "map (signer_pair l data domain) ks"] sign_all_Inr [OF assms] assms(2)
  by (metis length_map)

lemma sorted_pairs_unique:
  assumes "mset xs = mset ys" "sorted (map f xs)" "sorted (map f ys)" "inj_on f (set xs)"
  shows "xs = ys"
proof -
  have "sort (map f xs) = map f xs" "sort (map f xs) = map f ys"
    using assms(1-3) by (intro properties_for_sort; simp)+
  then have "map f xs = map f ys" by simp
  moreover have "inj_on f (set xs \<union> set ys)" using assms(4) mset_eq_setD [OF assms(1)] by simp
  ultimately show ?thesis by (rule map_inj_on)
qed

lemma SignMint_returns:
  "(\<exists>m. SignMint l mint data domain k thr = Inr m) \<longleftrightarrow> (\<exists>s. signTypedData l domain data k = Inr s)"
  by (auto simp: SignMint_def Let_def sortSignersAndSignatures_equal split: sum.splits)

lemma sign_all_returns:
  "(\<exists>m. sign_all l mint data domain ks thr = Inr m) \<longleftrightarrow>
     (\<forall>k \<in> set ks. \<exists>s. signTypedData l domain data k = Inr s)"
proof (induction ks arbitrary: mint)
  case (Cons k ks)
  show ?case
  proof (cases "SignMint l mint data domain k thr")
    case (Inl e)
    then have "\<not> (\<exists>s. signTypedData l domain data k = Inr s)"
      using SignMint_returns [of l mint data domain k thr] by simp
    with Inl show ?thesis by simp
  next
    case (Inr m)
    then have "\<exists>s. signTypedData l domain data k = Inr s"
      using SignMint_returns [of l mint data domain k thr] by blast
    with Inr Cons.IH show ?thesis by simp
  qed
qed simp

lemma sign_all_order:
  assumes "sign_all l mint data domain ks thr = Inr m" "sign_all l mint data domain ks' thr = Inr m'"
    and "mset ks = mset ks'" "length (m_Signatures mint) = length (m_Signers mint)"
    and d: "distinct (map (sort_address l) (m_Signers mint @ map (\<lambda>k. ToLower (key_AddressHex k)) ks))"
  shows "m = m'"
proof (cases "ks = []")
  case True
  with assms show ?thesis by simp
next
  case False
  then have ne: "ks' \<noteq> []" using assms(3) by auto
  note a = sign_all_Inr [OF assms(1,4)] and b = sign_all_Inr [OF assms(2,4)]
  let ?f = "\<lambda>p :: string \<times> string. sort_address l (fst p)"
  have f: "map ?f (zip xs ys) = map (sort_address l) xs" if "length ys = length xs"
    for xs ys :: "string list"
    using that by (induction ys xs rule: list_induct2) simp_all
  let ?start = "zip (m_Signers mint) (m_Signatures mint) @ map (signer_pair l data domain) ks"
  have "map ?f ?start = map (sort_address l) (m_Signers mint @ map (\<lambda>k. ToLower (key_AddressHex k)) ks)"
    using assms(4) by (simp add: f signer_pair_def)
  then have inj: "inj_on ?f (set ?start)" using d by (metis distinct_map)
  have set: "mset (zip (m_Signers m) (m_Signatures m)) = mset (zip (m_Signers m') (m_Signatures m'))"
    using a b assms(3) by simp
  have "zip (m_Signers m) (m_Signatures m) = zip (m_Signers m') (m_Signatures m')"
  proof (rule sorted_pairs_unique [OF set, of ?f])
    note f
    with a b False ne show "sorted (map (\<lambda>p. sort_address l (fst p)) (zip (m_Signers m) (m_Signatures m)))"
      "sorted (map (\<lambda>p. sort_address l (fst p)) (zip (m_Signers m') (m_Signatures m')))"
      by simp_all
    have "set (zip (m_Signers m) (m_Signatures m)) =
        set (zip (m_Signers mint) (m_Signatures mint)) \<union> signer_pair l data domain ` set ks"
      using arg_cong [OF conjunct1 [OF conjunct2 [OF a]], of set_mset] by simp
    with inj show "inj_on (\<lambda>p. sort_address l (fst p)) (set (zip (m_Signers m) (m_Signatures m)))" by simp
  qed
  moreover have "length (m_Signatures m) = length (m_Signers m)" "length (m_Signatures m') = length (m_Signers m')"
    using a b by auto
  ultimately have "m_Signers m = m_Signers m'" "m_Signatures m = m_Signatures m'"
    by (metis map_fst_zip, metis map_snd_zip)
  moreover from this have "m_Status m = m_Status m'" using a b False ne by simp
  ultimately show ?thesis using a b by metis
qed
end
