(* ===== verification/Mint_Progress.thy ===== *)
theory Mint_Progress
  imports Mint_Signer Mint_Signatures
begin

text \<open>
  Progress of a mint. When the database and the chains answer, the turns of the mint signers, in
  whatever order and however often each validator comes, add the signatures of different validators
  to one mint until the threshold is reached, all over the same nonce.
\<close>

section \<open>The one open mint of the collection\<close>

definition open_status :: query where
  "open_status = Fld ''status'' (CIn [BStr StatusPending, BStr StatusConfirmed])"

text \<open>
  The collection holds, under the id \<open>i\<close>, a document that decodes to \<open>m\<close>; the other mints decode, have
  other ids and transactions, and are not open for signatures.
\<close>

definition holds_mint :: "nat \<Rightarrow> Mint \<Rightarrow> store \<Rightarrow> bool" where
  "holds_mint i m st \<longleftrightarrow> (\<exists>ds1 d ds2. st CollectionMints = ds1 @ d # ds2 \<and> unmarshal_Mint d = Some m \<and>
     map_of d ''_id'' = Some (BOid i) \<and> \<not> conflict CollectionMints (ds1 @ ds2) d \<and>
     list_all (\<lambda>d'. unmarshal_Mint d' \<noteq> None \<and> \<not> matches open_status d' \<and>
       \<not> matches (Fld ''_id'' (CEq (BOid i))) d') (ds1 @ ds2))"

lemma get_strs_field:
  assumes "get_list bson_str d k = Some ss" "BStr a \<in> set (field_values (map_of d k))"
  shows "a \<in> set ss"
proof (cases "map_of d k")
  case (Some v)
  then show ?thesis
  proof (cases v)
    case (BArr xs)
    have "a \<in> set ss" if "those (map bson_str xs) = Some ss" "BStr a \<in> set xs" for xs ss
      using that by (induction xs arbitrary: ss) (auto simp: bson_str_def split: option.splits)
    then show ?thesis using assms Some BArr by (auto simp: get_list_def field_values_def)
  qed (use assms Some in \<open>auto simp: get_list_def field_values_def\<close>)
qed (use assms in \<open>auto simp: field_values_def\<close>)

lemma conflict_kept:
  assumes "map_of d' ''transaction_hash'' = map_of d ''transaction_hash''"
  shows "conflict CollectionMints ds d' = conflict CollectionMints ds d"
  using assms by (simp add: conflict_def same_key_def index_key_def)

lemma holds_mint_update:
  assumes "holds_mint i m st" "updated CollectionMints (open_filter (Some i)) u st st'"
    and "map_of (rev u) ''_id'' = None" "map_of (rev u) ''transaction_hash'' = None"
    and "\<And>d. unmarshal_Mint d = Some m \<Longrightarrow> unmarshal_Mint (apply_set u d) = Some m'"
  shows "holds_mint i m' st'"
proof -
  obtain ds1 d ds2 where d: "st CollectionMints = ds1 @ d # ds2" "unmarshal_Mint d = Some m"
    "map_of d ''_id'' = Some (BOid i)" "\<not> conflict CollectionMints (ds1 @ ds2) d"
    "list_all (\<lambda>d'. unmarshal_Mint d' \<noteq> None \<and> \<not> matches open_status d' \<and>
       \<not> matches (Fld ''_id'' (CEq (BOid i))) d') (ds1 @ ds2)"
    using assms(1) by (auto simp: holds_mint_def)
  obtain n where n: "n < length (st CollectionMints)" "matches (open_filter (Some i)) (st CollectionMints ! n)"
    and st': "st' = st(CollectionMints := (st CollectionMints)[n := apply_set u (st CollectionMints ! n)])"
    using assms(2) by (auto simp: updated_def)
  have "n = length ds1"
  proof (rule ccontr)
    assume ne: "n \<noteq> length ds1"
    have "(ds1 @ d # ds2) ! n \<in> set (ds1 @ ds2)"
    proof (cases "n < length ds1")
      case False
      with ne n(1) d(1) have "n - length ds1 - 1 < length ds2" "\<not> n < length ds1" "n - length ds1 \<noteq> 0" by auto
      then show ?thesis by (auto simp: nth_append nth_Cons')
    qed (auto simp: nth_append)
    then have "\<not> matches (Fld ''_id'' (CEq (BOid i))) (st CollectionMints ! n)"
      using d(5) by (auto simp: d(1) list_all_iff)
    with n(2) show False by (simp add: open_filter_def marshal_oid_def)
  qed
  then have "st' CollectionMints = ds1 @ apply_set u d # ds2" by (simp add: st' d(1))
  moreover have "\<not> conflict CollectionMints (ds1 @ ds2) (apply_set u d)"
    using d(4) conflict_kept [of "apply_set u d" d] assms(4) by (simp add: map_of_apply_set)
  moreover have "map_of (apply_set u d) ''_id'' = Some (BOid i)"
    using d(3) assms(3) by (simp add: map_of_apply_set)
  ultimately show ?thesis
    using assms(5) [OF d(2)] d(5) unfolding holds_mint_def by blast
qed

lemma str_matches: "get_str d k = Some s \<Longrightarrow> s \<noteq> [] \<Longrightarrow> matches (Fld k (CEq (BStr s))) d"
  by (drule (1) get_str_field) (simp add: field_values_def)

lemma status_matches:
  "get_str d ''status'' = Some s \<Longrightarrow> s \<in> {StatusPending, StatusConfirmed} \<Longrightarrow> matches open_status d"
  by (subgoal_tac "s \<noteq> []", drule (1) get_str_field)
     (auto simp: open_status_def field_values_def status_defs)

text \<open>The update of the mint's own signer finds this document and no other.\<close>

lemma holds_mint_open:
  assumes "holds_mint i m st" "m_Status m \<in> {StatusPending, StatusConfirmed}" "map_of (rev u) ''transaction_hash'' = None"
  shows "length (filter (matches (open_filter (Some i))) (st CollectionMints)) = 1"
    "\<exists>st'. updated CollectionMints (open_filter (Some i)) u st st'"
    "\<And>d. d \<in> set (st CollectionMints) \<Longrightarrow> matches (open_filter (Some i)) d \<Longrightarrow> map_of d ''_id'' = Some (BOid i)"
proof -
  obtain ds1 d ds2 where d: "st CollectionMints = ds1 @ d # ds2" "unmarshal_Mint d = Some m"
    "map_of d ''_id'' = Some (BOid i)" "\<not> conflict CollectionMints (ds1 @ ds2) d"
    "list_all (\<lambda>d'. unmarshal_Mint d' \<noteq> None \<and> \<not> matches open_status d' \<and>
       \<not> matches (Fld ''_id'' (CEq (BOid i))) d') (ds1 @ ds2)"
    using assms(1) by (auto simp: holds_mint_def)
  have m: "matches (open_filter (Some i)) d"
    using status_matches [OF unmarshal_Mint_fields(1) [OF d(2)] assms(2)] d(3)
    by (simp add: open_filter_def open_status_def marshal_oid_def field_values_def)
  have others: "\<not> matches (open_filter (Some i)) d'" if "d' \<in> set (ds1 @ ds2)" for d'
    using that d(5) by (auto simp: open_filter_def marshal_oid_def list_all_iff)
  then show "\<And>d. d \<in> set (st CollectionMints) \<Longrightarrow> matches (open_filter (Some i)) d \<Longrightarrow> map_of d ''_id'' = Some (BOid i)"
    using d(1,3) by auto
  from others have "filter (matches (open_filter (Some i))) ds1 = []" "filter (matches (open_filter (Some i))) ds2 = []"
    by (auto simp: filter_empty_conv)
  then show "length (filter (matches (open_filter (Some i))) (st CollectionMints)) = 1"
    using m by (simp add: d(1))
  have "\<not> conflict CollectionMints (ds1 @ ds2) (apply_set u d)"
    using d(4) conflict_kept [of "apply_set u d" d] assms(3) by (simp add: map_of_apply_set)
  then show "\<exists>st'. updated CollectionMints (open_filter (Some i)) u st st'"
    unfolding updated_def using m by (intro exI exI [of _ "length ds1"]) (auto simp: d(1))
qed

lemma signers_matches:
  assumes "get_list bson_str d k = Some ss" "a \<noteq> []"
  shows "matches (Fld k (CNin [BStr a])) d \<longleftrightarrow> a \<notin> set ss"
proof -
  have "BStr a \<in> set (field_values (map_of d k))" if a: "a \<in> set ss"
  proof -
    have *: "BStr a \<in> set xs" if "those (map bson_str xs) = Some ss" "a \<in> set ss" for xs ss
      using that assms(2) by (induction xs arbitrary: ss) (auto simp: bson_str_def split: option.splits bson.splits)
    obtain v where v: "map_of d k = Some v" using assms(1) a by (cases "map_of d k") (auto simp: get_list_def)
    then obtain xs where "v = BArr xs" "those (map bson_str xs) = Some ss"
      using assms(1) a by (cases v) (auto simp: get_list_def)
    with * a v show ?thesis by (simp add: field_values_def)
  qed
  then show ?thesis using get_strs_field [OF assms(1), of a] by auto
qed

text \<open>What the signer's search finds: the mint, unless it is closed or carries the signer's signature.\<close>

definition wants :: "MintSignerRunner \<Rightarrow> Mint \<Rightarrow> bool" where
  "wants x m \<longleftrightarrow> m_Status m \<in> {StatusPending, StatusConfirmed} \<and> ms_address x \<notin> set (m_Signers m)"

lemma holds_mint_search:
  assumes "holds_mint i m st" "m_WPOKTAddress m = ms_wpoktAddress x" "m_VaultAddress m = ms_vaultAddress x"
    and "ms_wpoktAddress x \<noteq> []" "ms_vaultAddress x \<noteq> []" "ms_address x \<noteq> []" "m_Status m \<noteq> []"
  shows "those (map unmarshal_Mint (filter (matches (MintSigner_filter x)) (st CollectionMints))) =
     Some (if wants x m then [m] else [])"
proof -
  obtain ds1 d ds2 where d: "st CollectionMints = ds1 @ d # ds2" "unmarshal_Mint d = Some m"
    "list_all (\<lambda>d'. unmarshal_Mint d' \<noteq> None \<and> \<not> matches open_status d' \<and>
       \<not> matches (Fld ''_id'' (CEq (BOid i))) d') (ds1 @ ds2)"
    using assms(1) by (auto simp: holds_mint_def)
  have f: "matches (MintSigner_filter x) d' \<longleftrightarrow>
      matches (Fld ''wpokt_address'' (CEq (BStr (ms_wpoktAddress x)))) d' \<and>
      matches (Fld ''vault_address'' (CEq (BStr (ms_vaultAddress x)))) d' \<and>
      matches open_status d' \<and> matches (Fld ''signers'' (CNin [BStr (ms_address x)])) d'" for d'
    by (simp only: MintSigner_filter_def open_status_def matches.simps list.pred_inject simp_thms)
  have u: "get_str d ''wpokt_address'' = Some (m_WPOKTAddress m)" "get_str d ''vault_address'' = Some (m_VaultAddress m)"
    using d(2) by (auto simp: unmarshal_Mint_def bind_eq_Some_conv)
  have s: "matches open_status d \<longleftrightarrow> m_Status m \<in> {StatusPending, StatusConfirmed}"
    using get_str_field [OF unmarshal_Mint_fields(1) [OF d(2)] assms(7)]
    by (auto simp: open_status_def field_values_def)
  have m: "matches (MintSigner_filter x) d \<longleftrightarrow> wants x m"
    using str_matches [OF u(1)] str_matches [OF u(2)] assms(2-6)
      signers_matches [OF unmarshal_Mint_fields(5) [OF d(2)] assms(6)]
    by (auto simp: f s wants_def)
  have "\<not> matches (MintSigner_filter x) d'" if "d' \<in> set (ds1 @ ds2)" for d'
    using that d(3) unfolding f by (auto simp: list_all_iff)
  then have "filter (matches (MintSigner_filter x)) ds1 = []" "filter (matches (MintSigner_filter x)) ds2 = []"
    by (auto simp: filter_empty_conv)
  then show ?thesis using m d(2) by (simp add: d(1))
qed

lemma holds_mint_decodes:
  assumes "holds_mint i m st"
  shows "\<exists>ms. those (map unmarshal_Mint (filter P (st CollectionMints))) = Some ms"
proof -
  have "list_all (\<lambda>d. unmarshal_Mint d \<noteq> None) (st CollectionMints)"
    using assms by (auto simp: holds_mint_def list_all_iff)
  moreover have "list_all (\<lambda>d. unmarshal_Mint d \<noteq> None) ds \<Longrightarrow>
      \<exists>ms. those (map unmarshal_Mint (filter P ds)) = Some ms" for ds
    by (induction ds) auto
  ultimately show ?thesis by blast
qed

section \<open>The documents a signature is written to\<close>

text \<open>The signing update read back: the data, the nonce and the signatures are the new ones.\<close>

definition with_signatures :: "'t Lib \<Rightarrow> MintControllerMintData \<Rightarrow> nat \<Rightarrow> Mint \<Rightarrow> Mint \<Rightarrow> Mint" where
  "with_signatures l data now sm m = m\<lparr>
     m_Data := Some \<lparr>data_Recipient = ToLower (Address_Hex l (md_Recipient data)),
       data_Amount = FormatInt (md_Amount data), data_Nonce = FormatInt (md_Nonce data)\<rparr>,
     m_Nonce := FormatInt (md_Nonce data), m_Signatures := m_Signatures sm, m_Signers := m_Signers sm,
     m_Status := m_Status sm, m_Confirmations := m_Confirmations sm, m_UpdatedAt := now\<rparr>"

lemma unmarshal_signed_update:
  assumes "unmarshal_Mint d = Some m"
  shows "unmarshal_Mint (apply_set (MintSigner_signed_update l data sm now) d) =
     Some (with_signatures l data now sm m)"
  using assms unfolding unmarshal_Mint_def
  by (auto simp: bind_eq_Some_conv with_signatures_def MintSigner_signed_update_def getter_defs map_of_apply_set
      strs_def marshal_data_def unmarshal_data_def simp del: map_map)

section \<open>A deep mint is confirmed\<close>

definition deep :: "Config \<Rightarrow> MintSignerRunner \<Rightarrow> Mint \<Rightarrow> bool" where
  "deep cfg x m \<longleftrightarrow> pokt_Confirmations (cfg_Pocket cfg) = 0 \<or>
     (case ParseInt (m_Height m) of None \<Rightarrow> False
      | Some h \<Rightarrow> pokt_Confirmations (cfg_Pocket cfg) \<le> int64 (ms_cosmosHeight x - h))"

lemma deep_mint_confirmed:
  assumes "deep cfg x m" "m_Status m \<in> {StatusPending, StatusConfirmed}"
  shows "\<exists>c. UpdateStatusAndConfirmationsForMint cfg m (ms_cosmosHeight x) =
     Inr (m\<lparr>m_Status := StatusConfirmed, m_Confirmations := c\<rparr>)"
proof -
  have "\<exists>c. status_and_confirmations (m_Status m) (m_Confirmations m) (m_Height m) (ms_cosmosHeight x)
      (pokt_Confirmations (cfg_Pocket cfg)) = Inr (StatusConfirmed, c)"
    using assms by (auto simp: deep_def status_and_confirmations_def Let_def split: option.splits)
  then show ?thesis by (auto simp: UpdateStatusAndConfirmationsForMint_def)
qed

section \<open>A turn of a mint signer\<close>

text \<open>What stays of a mint while it is signed.\<close>

definition transfer_of :: "Mint \<Rightarrow> string list" where
  "transfer_of m = [m_TransactionHash m, m_Height m, m_SenderAddress m, m_RecipientAddress m,
     m_RecipientChainID m, m_Amount m, m_WPOKTAddress m, m_VaultAddress m]"

definition mint_data :: "'t Lib \<Rightarrow> Mint \<Rightarrow> int \<Rightarrow> MintControllerMintData" where
  "mint_data l mint n = \<lparr>md_Recipient = HexToAddress l (m_RecipientAddress mint),
     md_Amount = (case SetString10 (m_Amount mint) of None \<Rightarrow> 0 | Some a \<Rightarrow> a), md_Nonce = n\<rparr>"

definition fixed_nonce :: "Mint \<Rightarrow> int \<Rightarrow> bool" where
  "fixed_nonce m n \<longleftrightarrow> n \<noteq> 0 \<and> (m_Nonce m = [] \<or> m_Nonce m = FormatInt n)"

text \<open>
  A mint signer for which everything answers: the database finds, updates and locks, the node knows the
  transfer, the transfer is valid and deep enough, and the key signs.
\<close>

locale steady_signer =
  lone_validator env docs
  for env :: "('w, 't) Env" and docs :: "'w \<Rightarrow> store" +
  fixes l :: "'t Lib" and dom :: DomainData and thr :: int and mint :: Mint and x :: MintSignerRunner
  assumes same_lib: "lib env = l"
    and runner: "ms_domain x = Some dom" "ms_signerThreshold x = thr"
      "ms_address x = ToLower (key_AddressHex (ms_privateKey x))" "ms_address x \<noteq> []"
    and deployment: "m_WPOKTAddress mint = ms_wpoktAddress x" "m_VaultAddress mint = ms_vaultAddress x"
      "ms_wpoktAddress x \<noteq> []" "ms_vaultAddress x \<noteq> []"
    and deep_enough: "deep (Cfg env) x mint"
    and amount: "SetString10 (m_Amount mint) \<noteq> None"
    and valid_transfer: "\<exists>tx result.
      (\<forall>w. fst (run_state (GetTx (Cosmos env) (m_TransactionHash mint)) w) = Inr (Some tx)) \<and>
      ValidateTxToCosmosMultisig l (Cfg env) tx (Pocket env) (ms_minimumAmount x) (ms_maximumAmount x) = Inr result \<and>
      MintSigner_CheckMint env result mint = Inr True"
    and key_signs: "\<exists>s. signTypedData l dom data (ms_privateKey x) = Inr s"
    and nonce_answers: "\<exists>c \<ge> 0. fst (run_state (GetUserNonce (WPokt env) a) w) = Inr c"
    and find_answers: "\<exists>ds. fst (run_state (FindMany (DB env) c q) w) = Inr ds"
    and update_answers: "length (filter (matches q) (docs w c)) = 1 \<Longrightarrow> updated c q u (docs w) st \<Longrightarrow>
      (\<And>d. d \<in> set (docs w c) \<Longrightarrow> matches q d \<Longrightarrow> map_of d ''_id'' = Some (BOid i)) \<Longrightarrow>
      map_of (rev u) ''_id'' = None \<Longrightarrow>
      \<exists>k. fst (run_state (UpdateOne (DB env) c q u) w) = Inr k"
    and lock_answers: "\<exists>k. fst (run_state (XLock (DB env) res) w) = Inr k"
      "fst (run_state (Unlock (DB env) k) w) = None"
begin

lemma runs: "quiet docs m \<Longrightarrow> fst (run_state m w) = r \<Longrightarrow> \<exists>w'. run_state m w = (r, w') \<and> docs w' = docs w"
  by (metis prod.collapse quietD)

lemma find_runs:
  assumes "those (map dec (filter (matches q) (docs w c))) = Some xs"
  shows "\<exists>w'. run_state (find_decoded (DB env) dec c q) w = (Inr xs, w') \<and> docs w' = docs w"
proof -
  obtain ds w' where f: "run_state (FindMany (DB env) c q) w = (Inr ds, w')"
    using find_answers [of c q w] by (metis prod.collapse)
  with find_many_law [OF f] assms show ?thesis by (simp add: find_decoded_def run_simps)
qed

lemma FindNonce_runs:
  assumes "holds_mint i m (docs w)" "m_Nonce m = [] \<or> fixed_nonce m n0"
  shows "\<exists>n w'. run_state (MintSigner_FindNonce env x m) w = (Inr n, w') \<and> docs w' = docs w \<and> fixed_nonce m n"
proof (cases "m_Nonce m = []")
  case True
  obtain c w1 where c: "run_state (GetUserNonce (WPokt env) (HexToAddress (lib env) (m_RecipientAddress m))) w
      = (Inr c, w1)" "docs w1 = docs w" "0 \<le> c"
    using nonce_answers [of "HexToAddress (lib env) (m_RecipientAddress m)" w] runs [OF quiet_wpokt(1)] by metis
  obtain ms where "those (map unmarshal_Mint (filter (matches (pending_filter x m)) (docs w1 CollectionMints))) = Some ms"
    using holds_mint_decodes [OF assms(1)] c(2) by metis
  from find_runs [OF this] obtain w2 where f: "run_state (find_decoded (DB env) unmarshal_Mint CollectionMints
      (pending_filter x m)) w1 = (Inr ms, w2)" "docs w2 = docs w1" by blast
  let ?n = "(let ns = sort (pending_nonces ms) in if length ns > 0 \<and> c < last ns then last ns else c) + 1"
  have "run_state (MintSigner_FindNonce env x m) w = (Inr ?n, w2)"
    using True c f by (simp add: MintSigner_FindNonce_def MintSigner_NewNonce_def run_simps Let_def)
  moreover have "?n \<noteq> 0" using c(3) by (auto simp: Let_def)
  ultimately show ?thesis using True c(2) f(2) by (auto simp: fixed_nonce_def)
next
  case False
  then show ?thesis using assms(2)
    by (intro exI [of _ n0] exI [of _ w]) (auto simp: fixed_nonce_def MintSigner_FindNonce_def run_simps)
qed

lemma ValidateMint_runs:
  assumes "transfer_of m = transfer_of mint"
  shows "\<exists>w'. run_state (MintSigner_ValidateMint env x m) w = (Inr True, w') \<and> docs w' = docs w"
proof -
  obtain tx result where v: "\<And>w. fst (run_state (GetTx (Cosmos env) (m_TransactionHash mint)) w) = Inr (Some tx)"
    "ValidateTxToCosmosMultisig l (Cfg env) tx (Pocket env) (ms_minimumAmount x) (ms_maximumAmount x) = Inr result"
    "MintSigner_CheckMint env result mint = Inr True"
    using valid_transfer by blast
  have "MintSigner_CheckMint env result m = MintSigner_CheckMint env result mint"
    using assms by (simp add: MintSigner_CheckMint_def transfer_of_def)
  then have "MintSigner_CheckMint env result m = Inr True" using v(3) by simp
  moreover obtain w' where "run_state (GetTx (Cosmos env) (m_TransactionHash m)) w = (Inr (Some tx), w')" "docs w' = docs w"
    using runs [OF quiet_cosmos(5) v(1)] assms by (auto simp: transfer_of_def)
  ultimately show ?thesis using v(2) by (simp add: MintSigner_ValidateMint_def run_simps same_lib)
qed


text \<open>Handling the mint writes its signature.\<close>

lemma HandleMint_signs:
  assumes "holds_mint i m (docs w)" "transfer_of m = transfer_of mint"
    and "m_Status m \<in> {StatusPending, StatusConfirmed}" "m_Nonce m = [] \<or> fixed_nonce m n0"
  shows "\<exists>n c now sm w'. run_state (MintSigner_HandleMint env x (Some m)) w = (Inr True, w') \<and> fixed_nonce m n \<and>
     SignMint l (m\<lparr>m_Status := StatusConfirmed, m_Confirmations := c\<rparr>) (mint_data l mint n) dom
       (ms_privateKey x) thr = Inr sm \<and>
     holds_mint i (with_signatures l (mint_data l mint n) now sm m) (docs w')"
proof -
  obtain n w1 where n: "run_state (MintSigner_FindNonce env x m) w = (Inr n, w1)" "docs w1 = docs w" "fixed_nonce m n"
    using FindNonce_runs [OF assms(1,4)] by blast
  have "deep (Cfg env) x m" using deep_enough assms(2) by (simp add: deep_def transfer_of_def)
  then obtain c where c: "UpdateStatusAndConfirmationsForMint (Cfg env) m (ms_cosmosHeight x) =
      Inr (m\<lparr>m_Status := StatusConfirmed, m_Confirmations := c\<rparr>)"
    using deep_mint_confirmed [OF _ assms(3)] by blast
  let ?m = "m\<lparr>m_Status := StatusConfirmed, m_Confirmations := c\<rparr>" and ?data = "mint_data l mint n"
  have "transfer_of ?m = transfer_of mint" using assms(2) by (simp add: transfer_of_def)
  then obtain w2 where v: "run_state (MintSigner_ValidateMint env x ?m) w1 = (Inr True, w2)" "docs w2 = docs w1"
    using ValidateMint_runs by blast
  obtain sm where sm: "SignMint l ?m ?data dom (ms_privateKey x) thr = Inr sm"
    using SignMint_returns [of l ?m ?data dom "ms_privateKey x" thr] key_signs by blast
  obtain now w3 where now: "run_state (Now env) w2 = (now, w3)" "docs w3 = docs w2"
    using runs [OF quiet_now refl] by blast
  let ?u = "MintSigner_signed_update l ?data sm now"
  have u: "map_of (rev ?u) ''_id'' = None" "map_of (rev ?u) ''transaction_hash'' = None"
    by (simp_all add: MintSigner_signed_update_def)
  have h: "holds_mint i m (docs w3)" using assms(1) n(2) v(2) now(2) by simp
  obtain st where "updated CollectionMints (open_filter (Some i)) ?u (docs w3) st"
    using holds_mint_open(2) [OF h assms(3) u(2)] by blast
  from update_answers [OF holds_mint_open(1) [OF h assms(3) u(2)] this holds_mint_open(3) [OF h assms(3) u(2)] u(1)]
  obtain k w4 where r: "run_state (UpdateOne (DB env) CollectionMints (open_filter (Some i)) ?u) w3 = (Inr k, w4)"
    by (metis prod.collapse)
  then have "updated CollectionMints (open_filter (Some i)) ?u (docs w3) (docs w4)"
    using update_law [OF r] by (simp add: update_outcome_def)
  then have h': "holds_mint i (with_signatures l ?data now sm m) (docs w4)"
    by (rule holds_mint_update [OF h _ u]) (rule unmarshal_signed_update)
  have i: "m_Id m = Some i"
    using assms(1) by (auto simp: holds_mint_def unmarshal_Mint_def bind_eq_Some_conv get_id_def)
  obtain a where a: "SetString10 (m_Amount m) = Some a" "md_Amount ?data = a"
    using amount assms(2) by (auto simp: mint_data_def transfer_of_def)
  have data: "\<lparr>md_Recipient = HexToAddress (lib env) (m_RecipientAddress m), md_Amount = a, md_Nonce = n\<rparr> = ?data"
    using a(2) assms(2) by (simp add: mint_data_def transfer_of_def same_lib)
  have upd: "run_state (MintSigner_update env x ?data ?m True) w2 = (Inr ?u, w3)"
    using sm now(1) by (simp add: MintSigner_update_def runner run_simps same_lib)
  have "run_state (MintSigner_HandleMint env x (Some m)) w = (Inr True, w4)"
    using n(3) r
    by (simp add: MintSigner_HandleMint_def run_simps a n(1) data Let_def c v(1) upd i
        open_filter_def fixed_nonce_def)
  with n(3) sm h' show ?thesis by blast
qed

lemma locks: "\<exists>k w'. run_state (XLock (DB env) res) w = (Inr k, w') \<and> docs w' = docs w"
  "\<exists>w'. run_state (Unlock (DB env) k) w = (None, w') \<and> docs w' = docs w"
  using lock_answers(1) [of res w] runs [OF lock_laws(1), of res w] runs [OF lock_laws(3) lock_answers(2), of k w]
  by (metis, blast)

text \<open>A whole turn: the signer finds the mint, if it wants it, locks it, signs it and unlocks it.\<close>

lemma SyncTxs_signs:
  assumes "holds_mint i m (docs w)" "transfer_of m = transfer_of mint" "m_Status m \<noteq> []"
    and "m_Nonce m = [] \<or> fixed_nonce m n0"
  shows "\<exists>w'. run_state (MintSigner_SyncTxs env x) w = (Inr True, w') \<and>
     (if wants x m then \<exists>n c now sm. fixed_nonce m n \<and>
        SignMint l (m\<lparr>m_Status := StatusConfirmed, m_Confirmations := c\<rparr>) (mint_data l mint n) dom
          (ms_privateKey x) thr = Inr sm \<and>
        holds_mint i (with_signatures l (mint_data l mint n) now sm m) (docs w')
      else holds_mint i m (docs w'))"
proof -
  have "m_WPOKTAddress m = ms_wpoktAddress x" "m_VaultAddress m = ms_vaultAddress x"
    using deployment(1,2) assms(2) by (auto simp: transfer_of_def)
  note s = holds_mint_search [OF assms(1) this deployment(3,4) runner(4) assms(3)]
  obtain w1 where f: "run_state (find_decoded (DB env) unmarshal_Mint CollectionMints (MintSigner_filter x)) w =
      (Inr (if wants x m then [m] else []), w1)" "docs w1 = docs w"
    using find_runs [OF s] by blast
  show ?thesis
  proof (cases "wants x m")
    case False
    with f assms(1) show ?thesis by (auto simp: MintSigner_SyncTxs_def run_simps)
  next
    case True
    then have o: "m_Status m \<in> {StatusPending, StatusConfirmed}" by (simp add: wants_def)
    let ?res = "CollectionMints @ ''/'' @ ToLower (m_RecipientAddress m)"
    obtain k w2 where k: "run_state (XLock (DB env) ?res) w1 = (Inr k, w2)" "docs w2 = docs w1"
      using locks(1) by blast
    have "holds_mint i m (docs w2)" using assms(1) f(2) k(2) by simp
    from HandleMint_signs [OF this assms(2) o assms(4)] obtain n c now sm w3 where
      h: "run_state (MintSigner_HandleMint env x (Some m)) w2 = (Inr True, w3)" and
      r: "fixed_nonce m n" "SignMint l (m\<lparr>m_Status := StatusConfirmed, m_Confirmations := c\<rparr>) (mint_data l mint n) dom
         (ms_privateKey x) thr = Inr sm" "holds_mint i (with_signatures l (mint_data l mint n) now sm m) (docs w3)"
      by blast
    obtain w4 where u: "run_state (Unlock (DB env) k) w3 = (None, w4)" "docs w4 = docs w3"
      using locks(2) by blast
    have "run_state (MintSigner_SyncTxs env x) w = (Inr True, w4)"
      using f(1) True k(1) h u(1) by (simp add: MintSigner_SyncTxs_def run_simps)
    with True r u(2) show ?thesis by (intro exI [of _ w4]) auto
  qed
qed

end

section \<open>A schedule of turns\<close>

text \<open>The turns of mint signers, one after the other, until one panics.\<close>

fun mint_turns :: "(('w, 't) Env \<times> MintSignerRunner) list \<Rightarrow> ('w, bool result) io" where
  "mint_turns [] = ret (Inr True)"
| "mint_turns ((env, x) # turns) =
     then_ok (MintSigner_SyncTxs env x) (\<lambda>ok. then_ok (mint_turns turns) (\<lambda>ok'. ret (Inr (ok \<and> ok'))))"

text \<open>
  What the turns of the signers \<open>past\<close> have made of a mint that nobody had signed: its signatures are
  by different signers among them, all over one nonce; it carries the signature of every one of them
  until it has a threshold of them, and is then marked signed.
\<close>

definition signed_by ::
    "'t Lib \<Rightarrow> DomainData \<Rightarrow> int \<Rightarrow> Mint \<Rightarrow> MintSignerRunner set \<Rightarrow> Mint \<Rightarrow> int \<Rightarrow> bool" where
  "signed_by l domain thr mint past m n \<longleftrightarrow>
     transfer_of m = transfer_of mint \<and> length (m_Signatures m) = length (m_Signers m) \<and> distinct (m_Signers m) \<and>
     (m_Signers m = [] \<and> m_Nonce m = [] \<or>
      n \<noteq> 0 \<and> m_Nonce m = FormatInt n \<and>
      m_Data m = Some \<lparr>data_Recipient = ToLower (Address_Hex l (md_Recipient (mint_data l mint n))),
        data_Amount = FormatInt (md_Amount (mint_data l mint n)), data_Nonce = FormatInt n\<rparr>) \<and>
     set (zip (m_Signers m) (m_Signatures m)) \<subseteq>
       (\<lambda>x. signer_pair l (mint_data l mint n) domain (ms_privateKey x)) ` past \<and>
     (if int (card (ms_address ` past)) < thr
      then set (m_Signers m) = ms_address ` past \<and> m_Status m \<in> {StatusPending, StatusConfirmed}
      else m_Status m = StatusSigned \<and> int (length (m_Signers m)) = thr)"

lemma signed_by_sign:
  assumes "signed_by l domain thr mint past m n0" "finite past" "wants x m" "fixed_nonce m n"
    and "SignMint l (m\<lparr>m_Status := StatusConfirmed, m_Confirmations := c\<rparr>) (mint_data l mint n) domain
       (ms_privateKey x) thr = Inr sm"
    and "ms_address x = ToLower (key_AddressHex (ms_privateKey x))"
  shows "signed_by l domain thr mint (insert x past) (with_signatures l (mint_data l mint n) now sm m) n"
proof -
  let ?data = "mint_data l mint n" and ?m' = "with_signatures l (mint_data l mint n) now sm m"
  have few: "int (card (ms_address ` past)) < thr" and s: "set (m_Signers m) = ms_address ` past"
    and new: "ms_address x \<notin> ms_address ` past" and len: "length (m_Signatures m) = length (m_Signers m)"
    and d: "distinct (m_Signers m)" and t: "transfer_of m = transfer_of mint"
    using assms(1,3) by (auto simp: signed_by_def wants_def split: if_splits)
  have pairs: "set (zip (m_Signers m) (m_Signatures m)) \<subseteq> (\<lambda>x. signer_pair l ?data domain (ms_privateKey x)) ` past"
    using assms(1,4) by (auto simp: signed_by_def fixed_nonce_def)
  note sm = SignMint_Inr [OF assms(5)]
  have z: "mset (zip (m_Signers sm) (m_Signatures sm)) =
      add_mset (signer_pair l ?data domain (ms_privateKey x)) (mset (zip (m_Signers m) (m_Signatures m)))"
    using SignMint_pairs [OF assms(5)] len by (auto simp: signer_pair_def)
  have "mset (m_Signers sm) = image_mset fst (mset (zip (m_Signers sm) (m_Signatures sm)))"
    using sm(1) by (simp flip: mset_map)
  also have "\<dots> = add_mset (ms_address x) (mset (m_Signers m))"
    unfolding z using len by (simp add: signer_pair_def assms(6) flip: mset_map)
  finally have signers: "mset (m_Signers sm) = mset (ms_address x # m_Signers m)" by simp
  have n: "length (m_Signers sm) = Suc (length (m_Signers m))" using mset_eq_length [OF signers] by simp
  have set: "set (m_Signers sm) = insert (ms_address x) (ms_address ` past)"
    using mset_eq_setD [OF signers] s by simp
  have dist: "distinct (m_Signers sm)" using mset_eq_imp_distinct_iff [OF signers] d s new by simp
  have card: "card (insert (ms_address x) (ms_address ` past)) = length (m_Signers sm)"
    using distinct_card [OF dist] set by simp
  have "set (zip (m_Signers sm) (m_Signatures sm)) \<subseteq>
      (\<lambda>x. signer_pair l ?data domain (ms_privateKey x)) ` insert x past"
    using arg_cong [OF z, of set_mset] pairs by (auto simp del: set_zip)
  moreover have "length (m_Signers m) = card (ms_address ` past)" using distinct_card [OF d] s by simp
  ultimately show ?thesis
    using few sm(1,5) n set dist card t assms(4)
    by (auto simp: signed_by_def with_signatures_def transfer_of_def fixed_nonce_def mint_data_def)
qed

lemma signed_by_skip:
  assumes "signed_by l domain thr mint past m n" "finite past" "\<not> wants x m"
  shows "signed_by l domain thr mint (insert x past) m n"
proof (cases "int (card (ms_address ` past)) < thr")
  case True
  then have "ms_address x \<in> ms_address ` past" using assms(1,3) by (auto simp: signed_by_def wants_def)
  then have "ms_address ` insert x past = ms_address ` past" by auto
  then show ?thesis using assms(1) by (auto simp: signed_by_def)
next
  case False
  moreover have "card (ms_address ` past) \<le> card (ms_address ` insert x past)"
    using assms(2) by (intro card_mono) auto
  ultimately show ?thesis using assms(1) by (auto simp: signed_by_def)
qed

context steady_signer
begin

lemma turn_signs:
  assumes "signed_by l dom thr mint past m n" "finite past" "holds_mint i m (docs w)"
  shows "\<exists>w' m' n'. run_state (MintSigner_SyncTxs env x) w = (Inr True, w') \<and> holds_mint i m' (docs w') \<and>
     signed_by l dom thr mint (insert x past) m' n'"
proof -
  have t: "transfer_of m = transfer_of mint" and s: "m_Status m \<noteq> []"
    using assms(1) by (auto simp: signed_by_def status_defs split: if_splits)
  have "m_Nonce m = [] \<or> fixed_nonce m n" using assms(1) by (auto simp: signed_by_def fixed_nonce_def)
  from SyncTxs_signs [OF assms(3) t s this] show ?thesis
    using signed_by_sign [OF assms(1,2) _ _ _ runner(3)] signed_by_skip [OF assms(1,2)]
    by (cases "wants x m") (simp, blast)+
qed

end

lemma mint_turns_sign:
  assumes "\<forall>(env, x) \<in> set turns. steady_signer env docs l domain thr mint x"
    and "signed_by l domain thr mint past m n" "finite past" "holds_mint i m (docs w)"
  shows "\<exists>w' m' n'. run_state (mint_turns turns) w = (Inr True, w') \<and> holds_mint i m' (docs w') \<and>
     signed_by l domain thr mint (past \<union> snd ` set turns) m' n'"
  using assms
proof (induction turns arbitrary: w m n past)
  case Nil
  then show ?case by (auto simp: run_simps)
next
  case (Cons turn turns)
  obtain env x where turn: "turn = (env, x)" by (cases turn)
  have st: "steady_signer env docs l domain thr mint x" using Cons.prems(1) by (simp add: turn)
  obtain w1 m1 n1 where 1: "run_state (MintSigner_SyncTxs env x) w = (Inr True, w1)" "holds_mint i m1 (docs w1)"
    "signed_by l domain thr mint (insert x past) m1 n1"
    using steady_signer.turn_signs [OF st Cons.prems(2-4)] by blast
  have "\<forall>(env, x) \<in> set turns. steady_signer env docs l domain thr mint x" using Cons.prems(1) by simp
  from Cons.IH [OF this 1(3) _ 1(2)] Cons.prems(3) obtain w2 m2 n2 where
    "run_state (mint_turns turns) w1 = (Inr True, w2)" "holds_mint i m2 (docs w2)"
    "signed_by l domain thr mint (insert x past \<union> snd ` set turns) m2 n2" by auto
  with 1(1) show ?case by (auto simp: turn run_simps insert_commute)
qed

lemma signed_by_start:
  assumes "m_Signers mint = []" "m_Signatures mint = []" "m_Nonce mint = []"
    and "m_Status mint \<in> {StatusPending, StatusConfirmed}" "1 \<le> thr"
  shows "signed_by l domain thr mint {} mint n"
  using assms by (auto simp: signed_by_def)

end
