(* ===== verification/Answering_World.thy ===== *)
theory Answering_World
  imports Reference_World Mint_Progress
begin

text \<open>
  The reference database without faults and contention, on which the progress of the services is
  evaluated: every operation answers. It stands for no code of the repository.
\<close>

definition answering_driver :: "ref_world Driver" where
  "answering_driver = ref_driver\<lparr>
     drv_Find := (\<lambda>c q. State (\<lambda>w. (Inr (Inr (filter (matches q) (rw_docs w c)), None), w))),
     drv_FindOneAndUpdate := (\<lambda>upsert c q u ui. State (\<lambda>w.
       let (r, st) = ref_find_and_update upsert c q u ui (rw_docs w) in (r, w\<lparr>rw_docs := st\<rparr>))),
     drv_XLock := (\<lambda>_ _. ret None), drv_SLock := (\<lambda>_ _. ret None), drv_Unlock := (\<lambda>_. ret None)\<rparr>"

interpretation answering: mongo_driver answering_driver rw_docs
proof unfold_locales
  fix c q u ui w w' and r :: "doc result"
  assume run: "run_state (drv_FindOneAndUpdate answering_driver False c q u ui) w = (r, w')"
  obtain a st where a: "ref_find_and_update False c q u ui (rw_docs w) = (a, st)" by fastforce
  with run have "r = a" "rw_docs w' = st" by (auto simp: answering_driver_def)
  then show "case r of Inr d \<Rightarrow> updated c q u (rw_docs w) (rw_docs w')
       | Inl e \<Rightarrow> update_outcome c q u (Inl e) (rw_docs w) (rw_docs w')"
    using ref_update_outcome [OF a] by (auto simp: update_outcome_def split: sum.splits)
next
  fix c q u ui w w' and r :: "doc result"
  assume run: "run_state (drv_FindOneAndUpdate answering_driver True c q u ui) w = (r, w')"
  obtain a st where a: "ref_find_and_update True c q u ui (rw_docs w) = (a, st)" by fastforce
  with run have "r = a" "rw_docs w' = st" by (auto simp: answering_driver_def)
  then show "upsert_outcome c q u ui (case r of Inr _ \<Rightarrow> Inr 0 | Inl e \<Rightarrow> Inl e) (rw_docs w) (rw_docs w')"
    using ref_upsert_outcome [OF a] by (auto simp: upsert_outcome_def split: sum.splits)
qed (auto simp: answering_driver_def mongo.driver_insert mongo.driver_find_one mongo.driver_aggregate
    mongo.driver_locks quiet_ret)

definition answering_env :: "answers \<Rightarrow> (ref_world, ref_tx) Env" where
  "answering_env ans = (transfer_env ans)\<lparr>DB := MongoDatabase_DB answering_driver\<rparr>"

lemma answering_lone: "lone_validator (answering_env ans) rw_docs"
proof (rule lone_validator.intro)
  show "document_store (DB (answering_env ans)) rw_docs"
    by (simp add: answering_env_def answering.document_store_axioms)
  show "lone_validator_axioms (answering_env ans) rw_docs"
    using ref_lone.quiet_clients [of ref_cfg "ref_lib decode_transfer" ans]
    by (simp add: answering_env_def transfer_env_def lone_validator_axioms_def)
qed

section \<open>A mint and its signers\<close>

definition ref_key :: EthKey where
  "ref_key = \<lparr>key_AddressHex = ''0xKEY'', HashStructDomain = (\<lambda>_. Inr [1]), HashStructMessage = (\<lambda>_. Inr [2]),
     Keccak256 = id, key_Sign = (\<lambda>_. (replicate 65 0, None))\<rparr>"
definition other_key :: EthKey where
  "other_key = ref_key\<lparr>key_AddressHex := ''0xAA''\<rparr>"

definition ref_domain :: DomainData where
  "ref_domain = \<lparr>dom_Name = ''m'', dom_Version = ''1'', dom_ChainId = 1, dom_VerifyingContract = replicate 20 8\<rparr>"

definition some_mint_signer :: MintSignerRunner where
  "some_mint_signer = \<lparr>ms_address = ''0xkey'', ms_privateKey = ref_key, ms_vaultAddress = ref_vault,
     ms_wpoktAddress = ''0xcc'', ms_validatorCount = 2, ms_signerThreshold = 2, ms_domain = Some ref_domain,
     ms_cosmosHeight = 20, ms_minimumAmount = 10, ms_maximumAmount = Some 1000\<rparr>"

definition mint_answers :: answers where
  "mint_answers = no_answers\<lparr>ans_Nonce := Inr 4,
     ans_Tx := Inr (Some (ref_transfer (ref_recipient @ '',1'') 100))\<rparr>"

definition other_mint_signer :: MintSignerRunner where
  "other_mint_signer = some_mint_signer\<lparr>ms_address := ''0xaa'', ms_privateKey := other_key\<rparr>"

lemma found_uniquely:
  assumes "length (filter P xs) = 1" "n < length xs" "P (xs ! n)"
  shows "find_index P xs = Some n"
proof -
  have "\<exists>k. find_index P xs = Some k"
    using assms(2,3) find_index_None [of P xs] by (cases "find_index P xs") (auto simp: list_all_length)
  then obtain k where k: "find_index P xs = Some k" by blast
  have "card {i. i < length xs \<and> P (xs ! i)} = 1" using assms(1) by (simp add: length_filter_conv_card)
  then obtain a where "{i. i < length xs \<and> P (xs ! i)} = {a}" by (rule card_1_singletonE)
  then have "k = n" using find_index_Some [OF k] assms(2,3) by (metis (mono_tags, lifting) mem_Collect_eq singletonD)
  with k show ?thesis by simp
qed

lemma answering_update:
  assumes "length (filter (matches q) (rw_docs w c)) = 1" "updated c q u (rw_docs w) st"
    and "\<And>d. d \<in> set (rw_docs w c) \<Longrightarrow> matches q d \<Longrightarrow> map_of d ''_id'' = Some (BOid i)"
    and "map_of (rev u) ''_id'' = None"
  shows "\<exists>k. fst (run_state (UpdateOne (DB (answering_env ans)) c q u) w) = Inr k"
proof -
  obtain n where n: "n < length (rw_docs w c)" "matches q (rw_docs w c ! n)"
    "\<not> conflict c (take n (rw_docs w c) @ drop (Suc n) (rw_docs w c)) (apply_set u (rw_docs w c ! n))"
    using assms(2) by (auto simp: updated_def)
  have "map_of (apply_set u (rw_docs w c ! n)) ''_id'' = Some (BOid i)"
    using assms(3,4) n(1,2) by (simp add: map_of_apply_set)
  then show ?thesis
    using found_uniquely [OF assms(1) n(1,2)] n(3)
    by (simp add: answering_env_def answering_driver_def MongoDatabase_DB_def MongoDatabase_UpdateOne_def run_simps
        ref_find_and_update_def project_id_def oid_of_def Let_def)
qed

lemma ref_transfer_valid:
  "(case ValidateTxToCosmosMultisig (ref_lib decode_transfer) ref_cfg (ref_transfer (ref_recipient @ '',1'') 100)
       (cfg_Pocket ref_cfg) 10 (Some 1000) of
      Inl e \<Rightarrow> Inl e | Inr r \<Rightarrow> MintSigner_CheckMint (answering_env mint_answers) r some_mint) = Inr True"
  by code_simp

lemma answering_signer:
  assumes "ms_address x = ToLower (key_AddressHex k)" "ms_address x \<noteq> []"
    and "k = ref_key\<lparr>key_AddressHex := a\<rparr>" "x = some_mint_signer\<lparr>ms_address := b, ms_privateKey := k\<rparr>"
  shows "steady_signer (answering_env mint_answers) rw_docs (ref_lib decode_transfer) ref_domain 2 some_mint x"
proof (rule steady_signer.intro [OF answering_lone], unfold_locales)
  let ?e = "answering_env mint_answers"
  show "lib ?e = ref_lib decode_transfer" by (simp add: answering_env_def transfer_env_def)
  show "ms_domain x = Some ref_domain" "ms_signerThreshold x = 2"
    "ms_address x = ToLower (key_AddressHex (ms_privateKey x))" "ms_address x \<noteq> []"
    using assms by (simp_all add: some_mint_signer_def)
  show "m_WPOKTAddress some_mint = ms_wpoktAddress x" "m_VaultAddress some_mint = ms_vaultAddress x"
    "ms_wpoktAddress x \<noteq> []" "ms_vaultAddress x \<noteq> []"
    by (simp_all add: assms(4) some_mint_signer_def some_mint_code ref_addresses)
  have "deep ref_cfg some_mint_signer some_mint" by code_simp
  then show "deep (Cfg ?e) x some_mint"
    by (simp add: deep_def assms(4) answering_env_def transfer_env_def cong: option.case_cong)
  show "SetString10 (m_Amount some_mint) \<noteq> None" by code_simp
  have tx: "run_state (GetTx (Cosmos ?e) h) w = (Inr (Some (ref_transfer (ref_recipient @ '',1'') 100)), w)" for h w
    by (simp add: answering_env_def transfer_env_def ref_env_def mint_answers_def run_simps)
  have cfg: "Cfg ?e = ref_cfg" "Pocket ?e = cfg_Pocket ref_cfg"
    by (simp_all add: answering_env_def transfer_env_def)
  obtain r where r: "ValidateTxToCosmosMultisig (ref_lib decode_transfer) ref_cfg (ref_transfer (ref_recipient @ '',1'') 100)
       (cfg_Pocket ref_cfg) 10 (Some 1000) = Inr r" "MintSigner_CheckMint ?e r some_mint = Inr True"
    using ref_transfer_valid by (auto split: sum.splits)
  show "\<exists>tx result. (\<forall>w. fst (run_state (GetTx (Cosmos ?e) (m_TransactionHash some_mint)) w) = Inr (Some tx)) \<and>
      ValidateTxToCosmosMultisig (ref_lib decode_transfer) (Cfg ?e) tx (Pocket ?e) (ms_minimumAmount x)
        (ms_maximumAmount x) = Inr result \<and> MintSigner_CheckMint ?e result some_mint = Inr True"
    using r by (intro exI [of _ "ref_transfer (ref_recipient @ '',1'') 100"] exI [of _ r])
      (simp add: tx cfg assms(4) some_mint_signer_def)
  show "\<exists>s. signTypedData (ref_lib decode_transfer) ref_domain data (ms_privateKey x) = Inr s" for data
    by (simp add: assms(3,4) signTypedData_def ref_key_def Let_def)
  show "\<exists>c \<ge> 0. fst (run_state (GetUserNonce (WPokt ?e) r) w) = Inr c" for r w
    by (simp add: answering_env_def transfer_env_def ref_env_def mint_answers_def run_simps)
  show "\<exists>ds. fst (run_state (FindMany (DB ?e) c q) w) = Inr ds" for c q w
    by (simp add: answering_env_def answering_driver_def MongoDatabase_DB_def MongoDatabase_FindMany_def run_simps)
  show "\<exists>k. fst (run_state (XLock (DB ?e) res) w) = Inr k" "fst (run_state (Unlock (DB ?e) k) w) = None" for res k w
    by (simp_all add: answering_env_def answering_driver_def ref_driver_def MongoDatabase_DB_def MongoDatabase_XLock_def
        MongoDatabase_Unlock_def randomString_def run_simps)
qed (rule answering_update; assumption)

lemma signer_addresses:
  "ms_address some_mint_signer = ToLower (key_AddressHex ref_key)" "ms_address some_mint_signer \<noteq> []"
  "ms_address other_mint_signer = ToLower (key_AddressHex other_key)" "ms_address other_mint_signer \<noteq> []"
  by code_simp+

interpretation first_signer: steady_signer "answering_env mint_answers" rw_docs "ref_lib decode_transfer" ref_domain 2
    some_mint some_mint_signer
  by (rule answering_signer [OF signer_addresses(1,2), of "''0xKEY''" "''0xkey''"])
     (simp_all add: some_mint_signer_def ref_key_def)

interpretation second_signer: steady_signer "answering_env mint_answers" rw_docs "ref_lib decode_transfer" ref_domain 2
    some_mint other_mint_signer
  by (rule answering_signer [OF signer_addresses(3,4), of "''0xAA''" "''0xaa''"])
     (simp_all add: other_mint_signer_def other_key_def)

lemma holds_some_mint: "holds_mint 1 some_mint (rw_docs (world_with CollectionMints [marshal_Mint some_mint]))"
proof -
  have "map_of (marshal_Mint some_mint) ''_id'' = Some (BOid 1)" by code_simp
  then show ?thesis
    unfolding holds_mint_def
    by (intro exI [of _ "[]"] exI [of _ "marshal_Mint some_mint"] exI [of _ "[]"])
       (simp add: world_with_def ref_init_def unmarshal_marshal_Mint conflict_def)
qed

end
