(* ===== verification/Contract_Bindings.thy ===== *)
theory Contract_Bindings
  imports Eth_Blocks "HOL-Library.Sublist"
begin

text \<open>
  The part of the generated bindings (\<open>eth/autogen\<close>) that the services run: the calls of the two
  contracts, the filters for their events and the iterator over the logs a filter delivers. The node and
  the \<open>BoundContract\<close> of go-ethereum are parameters. A filter's logs arrive through a channel from a
  goroutine of go-ethereum, so the iterator is a step relation: which of the ready cases a \<open>select\<close> takes,
  and how far the goroutine has got, is left open.
\<close>

section \<open>Calls\<close>

text \<open>The values of a decoded answer, and go-ethereum's contract bound to an address and an ABI.\<close>

datatype abi =
    AbiInt int
  | AbiString string
  | AbiBytes bytes
  | AbiInts "int list"

record EthLog =
  el_Address :: bytes
  el_Topics :: "bytes list"
  el_Data :: bytes
  el_BlockNumber :: int
  el_TxHash :: bytes
  el_Index :: int
  el_Removed :: bool

text \<open>
  \<open>FilterLogs\<close> yields the logs the goroutine will deliver. \<open>UnpackLog\<close> fills the fields of an event and
  reports an error beside them.
\<close>

record 'w BoundContract =
  bc_Call :: "string \<Rightarrow> abi list \<Rightarrow> ('w, abi list result) io"
  bc_FilterLogs :: "string \<Rightarrow> int \<Rightarrow> int \<Rightarrow> abi list list \<Rightarrow> ('w, EthLog list result) io"
  bc_UnpackLog :: "string \<Rightarrow> EthLog \<Rightarrow> abi list \<times> error option"

text \<open>\<open>abi.ConvertType\<close> followed by a type assertion panics on a value of another type, as indexing does past the end.\<close>

definition out_int :: "abi list \<Rightarrow> nat \<Rightarrow> int result" where
  "out_int out n = (if n < length out then
       (case out ! n of AbiInt i \<Rightarrow> Inr i | _ \<Rightarrow> Inl (Panic ''interface conversion''))
     else Inl (Panic ''index out of range''))"

definition out_string :: "abi list \<Rightarrow> nat \<Rightarrow> string result" where
  "out_string out n = (if n < length out then
       (case out ! n of AbiString s \<Rightarrow> Inr s | _ \<Rightarrow> Inl (Panic ''interface conversion''))
     else Inl (Panic ''index out of range''))"

definition out_bytes :: "nat \<Rightarrow> abi list \<Rightarrow> nat \<Rightarrow> bytes result" where
  "out_bytes len out n = (if n < length out then
       (case out ! n of AbiBytes bs \<Rightarrow> if length bs = len then Inr bs else Inl (Panic ''interface conversion'')
        | _ \<Rightarrow> Inl (Panic ''interface conversion''))
     else Inl (Panic ''index out of range''))"

definition out_ints :: "abi list \<Rightarrow> nat \<Rightarrow> int list result" where
  "out_ints out n = (if n < length out then
       (case out ! n of AbiInts is \<Rightarrow> Inr is | _ \<Rightarrow> Inl (Panic ''interface conversion''))
     else Inl (Panic ''index out of range''))"

definition binding_GetUserNonce :: "'w BoundContract \<Rightarrow> bytes \<Rightarrow> ('w, int result) io" where
  "binding_GetUserNonce contract user =
     then_ok (bc_Call contract ''getUserNonce'' [AbiBytes user]) (\<lambda>out. ret (out_int out 0))"

definition binding_MaxMintLimit :: "'w BoundContract \<Rightarrow> ('w, int result) io" where
  "binding_MaxMintLimit contract =
     then_ok (bc_Call contract ''maxMintLimit'' []) (\<lambda>out. ret (out_int out 0))"

definition binding_SignerThreshold :: "'w BoundContract \<Rightarrow> ('w, int result) io" where
  "binding_SignerThreshold contract =
     then_ok (bc_Call contract ''signerThreshold'' []) (\<lambda>out. ret (out_int out 0))"

definition binding_ValidatorCount :: "'w BoundContract \<Rightarrow> ('w, int result) io" where
  "binding_ValidatorCount contract =
     then_ok (bc_Call contract ''validatorCount'' []) (\<lambda>out. ret (out_int out 0))"

text \<open>The seven results in order; those the program reads are kept.\<close>

definition binding_Eip712Domain :: "'w BoundContract \<Rightarrow> ('w, DomainData result) io" where
  "binding_Eip712Domain contract =
     then_ok (bc_Call contract ''eip712Domain'' []) (\<lambda>out. ret
       (case out_bytes 1 out 0 of Inl p \<Rightarrow> Inl p | Inr domainFields \<Rightarrow>
       (case out_string out 1 of Inl p \<Rightarrow> Inl p | Inr name \<Rightarrow>
       (case out_string out 2 of Inl p \<Rightarrow> Inl p | Inr version \<Rightarrow>
       (case out_int out 3 of Inl p \<Rightarrow> Inl p | Inr chainId \<Rightarrow>
       (case out_bytes 20 out 4 of Inl p \<Rightarrow> Inl p | Inr verifyingContract \<Rightarrow>
       (case out_bytes 32 out 5 of Inl p \<Rightarrow> Inl p | Inr salt \<Rightarrow>
       (case out_ints out 6 of Inl p \<Rightarrow> Inl p | Inr extension \<Rightarrow>
          Inr \<lparr>dom_Name = name, dom_Version = version, dom_ChainId = chainId,
               dom_VerifyingContract = verifyingContract\<rparr>))))))))"

section \<open>Events\<close>

text \<open>A fresh event holds nil numbers and zero addresses until it is unpacked; here the zero is 0.\<close>

definition abi_int :: "abi list \<Rightarrow> nat \<Rightarrow> int" where
  "abi_int vs n = (case out_int vs n of Inr i \<Rightarrow> i | Inl _ \<Rightarrow> 0)"

definition abi_address :: "abi list \<Rightarrow> nat \<Rightarrow> bytes" where
  "abi_address vs n = (case out_bytes 20 vs n of Inr a \<Rightarrow> a | Inl _ \<Rightarrow> replicate 20 0)"

text \<open>\<open>event.Raw = log\<close> copies the log into the event.\<close>

definition burn_event :: "EthLog \<Rightarrow> abi list \<Rightarrow> BurnAndBridge" where
  "burn_event log vs = \<lparr>bb_Amount = abi_int vs 0, bb_PoktAddress = abi_address vs 1, bb_From = abi_address vs 2,
     bb_TxHash = el_TxHash log, bb_LogIndex = el_Index log, bb_BlockNumber = el_BlockNumber log,
     bb_Address = el_Address log, bb_Removed = el_Removed log\<rparr>"

definition minted_event :: "EthLog \<Rightarrow> abi list \<Rightarrow> Minted" where
  "minted_event log vs = \<lparr>mt_Recipient = abi_address vs 0, mt_Amount = abi_int vs 1, mt_Nonce = abi_int vs 2,
     mt_TxHash = el_TxHash log, mt_LogIndex = el_Index log, mt_Removed = el_Removed log\<rparr>"

definition binding_ParseBurnAndBridge :: "'w BoundContract \<Rightarrow> EthLog \<Rightarrow> BurnAndBridge result" where
  "binding_ParseBurnAndBridge contract log =
     (case bc_UnpackLog contract ''BurnAndBridge'' log of
        (_, Some e) \<Rightarrow> Inl e
      | (vs, None) \<Rightarrow> Inr (burn_event log vs))"

section \<open>The iterator\<close>

text \<open>
  The goroutine behind the channel: it still has logs to send, or it has ended, which \<open>sub.Err()\<close> then
  reports. The channel holds at most \<open>CHANNEL_CAPACITY\<close> logs. A subscription may also break.
\<close>

definition CHANNEL_CAPACITY :: nat where "CHANNEL_CAPACITY = 128"

datatype Subscription = Running "EthLog list" | Ended "error option"

type_synonym channel = "EthLog list \<times> Subscription"

inductive delivers :: "channel \<Rightarrow> channel \<Rightarrow> bool" where
  send: "length buf < CHANNEL_CAPACITY \<Longrightarrow> delivers (buf, Running (log # logs)) (buf @ [log], Running logs)"
| finish: "delivers (buf, Running []) (buf, Ended None)"
| break: "delivers (buf, Running logs) (buf, Ended (Some e))"

record 'e Iterator =
  gi_Event :: "'e option"
  gi_done :: bool
  gi_fail :: "error option"

definition new_iterator :: "'e Iterator" where
  "new_iterator = \<lparr>gi_Event = None, gi_done = False, gi_fail = None\<rparr>"

text \<open>The three lines that both \<open>select\<close> statements share: unpack a received log into a new event.\<close>

definition receive :: "(EthLog \<Rightarrow> 'e \<times> error option) \<Rightarrow> 'e Iterator \<Rightarrow> EthLog \<Rightarrow> bool \<times> 'e Iterator" where
  "receive unpack it log = (case unpack log of
       (event, Some e) \<Rightarrow> (False, it\<lparr>gi_Event := Some event, gi_fail := Some e\<rparr>)
     | (event, None) \<Rightarrow> (True, it\<lparr>gi_Event := Some event\<rparr>))"

inductive Next ::
    "(EthLog \<Rightarrow> 'e \<times> error option) \<Rightarrow> 'e Iterator \<Rightarrow> channel \<Rightarrow> bool \<Rightarrow> 'e Iterator \<Rightarrow> channel \<Rightarrow> bool"
  for unpack where
  failed: "gi_fail it \<noteq> None \<Longrightarrow> Next unpack it ch False it ch"
| done_log: "\<lbrakk>gi_fail it = None; gi_done it; receive unpack it log = (ok, it')\<rbrakk> \<Longrightarrow>
    Next unpack it (log # buf, sub) ok it' (buf, sub)"
| done_empty: "\<lbrakk>gi_fail it = None; gi_done it\<rbrakk> \<Longrightarrow> Next unpack it ([], sub) False it ([], sub)"
| log: "\<lbrakk>gi_fail it = None; \<not> gi_done it; receive unpack it log = (ok, it')\<rbrakk> \<Longrightarrow>
    Next unpack it (log # buf, sub) ok it' (buf, sub)"
| ended: "\<lbrakk>gi_fail it = None; \<not> gi_done it;
    Next unpack (it\<lparr>gi_done := True, gi_fail := err\<rparr>) (buf, Ended err) ok it' ch'\<rbrakk> \<Longrightarrow>
    Next unpack it (buf, Ended err) ok it' ch'"
| wait: "\<lbrakk>gi_fail it = None; \<not> gi_done it; delivers ch ch1; Next unpack it ch1 ok it' ch'\<rbrakk> \<Longrightarrow>
    Next unpack it ch ok it' ch'"

text \<open>The loop of a service: while \<open>Next\<close>, read \<open>Error\<close> and \<open>Event\<close>; then read \<open>Error\<close>.\<close>

inductive iterates ::
    "(EthLog \<Rightarrow> 'e \<times> error option) \<Rightarrow> 'e Iterator \<Rightarrow> channel \<Rightarrow> (error option \<times> 'e option) list \<Rightarrow> error option \<Rightarrow> bool"
  for unpack where
  stop: "Next unpack it ch False it' ch' \<Longrightarrow> iterates unpack it ch [] (gi_fail it')"
| more: "Next unpack it ch True it' ch' \<Longrightarrow> iterates unpack it' ch' items err \<Longrightarrow>
    iterates unpack it ch ((gi_fail it', gi_Event it') # items) err"

section \<open>Filters\<close>

definition binding_FilterBurnAndBridge ::
    "'w BoundContract \<Rightarrow> int \<Rightarrow> int \<Rightarrow> int list \<Rightarrow> bytes list \<Rightarrow> bytes list \<Rightarrow>
      ('w, (BurnAndBridge Iterator \<times> channel) result) io" where
  "binding_FilterBurnAndBridge contract start stop amount poktAddress sender =
     then_ok (bc_FilterLogs contract ''BurnAndBridge'' start stop
         [map AbiInt amount, map AbiBytes poktAddress, map AbiBytes sender])
       (\<lambda>logs. ret (Inr (new_iterator, ([], Running logs))))"

definition binding_FilterMinted ::
    "'w BoundContract \<Rightarrow> int \<Rightarrow> int \<Rightarrow> bytes list \<Rightarrow> int list \<Rightarrow> int list \<Rightarrow>
      ('w, (Minted Iterator \<times> channel) result) io" where
  "binding_FilterMinted contract start stop recipient amount nonce =
     then_ok (bc_FilterLogs contract ''Minted'' start stop
         [map AbiBytes recipient, map AbiInt amount, map AbiInt nonce])
       (\<lambda>logs. ret (Inr (new_iterator, ([], Running logs))))"

definition zero_log :: EthLog where
  "zero_log = \<lparr>el_Address = replicate 20 0, el_Topics = [], el_Data = [], el_BlockNumber = 0,
     el_TxHash = replicate 32 0, el_Index = 0, el_Removed = False\<rparr>"

definition unpack_burn :: "'w BoundContract \<Rightarrow> EthLog \<Rightarrow> BurnAndBridge \<times> error option" where
  "unpack_burn contract log =
     (case bc_UnpackLog contract ''BurnAndBridge'' log of
        (vs, Some e) \<Rightarrow> (burn_event zero_log vs, Some e)
      | (vs, None) \<Rightarrow> (burn_event log vs, None))"

definition unpack_minted :: "'w BoundContract \<Rightarrow> EthLog \<Rightarrow> Minted \<times> error option" where
  "unpack_minted contract log =
     (case bc_UnpackLog contract ''Minted'' log of
        (vs, Some e) \<Rightarrow> (minted_event zero_log vs, Some e)
      | (vs, None) \<Rightarrow> (minted_event log vs, None))"

section \<open>What an iteration delivers\<close>

text \<open>The logs still to come, in order; a broken subscription has lost those it had not sent.\<close>

fun to_come :: "channel \<Rightarrow> EthLog list" where
  "to_come (buf, Running logs) = buf @ logs"
| "to_come (buf, Ended _) = buf"

definition broken :: "channel \<Rightarrow> bool" where
  "broken ch \<longleftrightarrow> (\<exists>e. snd ch = Ended (Some e))"

text \<open>An iterator that is done has seen its subscription end.\<close>

definition iterator_ok :: "'e Iterator \<Rightarrow> channel \<Rightarrow> bool" where
  "iterator_ok it ch \<longleftrightarrow> (gi_done it \<longrightarrow> snd ch = Ended (gi_fail it) \<or> gi_fail it \<noteq> None)"

text \<open>
  One call: either the next log has been unpacked, or nothing is left and nothing has failed, or the
  call failed for good. What is to come afterwards are the logs behind, unless the subscription broke.
\<close>

definition next_outcome ::
    "(EthLog \<Rightarrow> 'e \<times> error option) \<Rightarrow> channel \<Rightarrow> bool \<Rightarrow> 'e Iterator \<Rightarrow> channel \<Rightarrow> bool" where
  "next_outcome unpack ch ok it' ch' \<longleftrightarrow>
     iterator_ok it' ch' \<and> (broken ch \<longrightarrow> broken ch') \<and>
     (if ok then \<exists>log rest. to_come ch = log # rest \<and> unpack log = (the (gi_Event it'), None) \<and>
        gi_Event it' \<noteq> None \<and> gi_fail it' = None \<and> (to_come ch' = rest \<or> broken ch' \<and> prefix (to_come ch') rest)
      else gi_fail it' = None \<longrightarrow> to_come ch = [] \<and> \<not> broken ch)"

lemma delivers_to_come:
  "delivers ch ch' \<Longrightarrow> to_come ch' = to_come ch \<or> broken ch' \<and> prefix (to_come ch') (to_come ch)"
  "delivers ch ch' \<Longrightarrow> \<not> broken ch"
  by (auto elim!: delivers.cases simp: broken_def)

lemma Next_outcome:
  assumes "Next unpack it ch ok it' ch'" "iterator_ok it ch"
  shows "next_outcome unpack ch ok it' ch'"
  using assms
proof (induction rule: Next.induct)
  case (failed it ch)
  then show ?case by (auto simp: next_outcome_def iterator_ok_def)
next
  case (done_log it log ok it' buf sub)
  then show ?case
    by (cases sub) (auto simp: next_outcome_def iterator_ok_def receive_def broken_def split: prod.splits option.splits)
next
  case (done_empty it sub)
  then show ?case by (auto simp: next_outcome_def iterator_ok_def broken_def)
next
  case (log it log ok it' buf sub)
  then show ?case
    by (cases sub) (auto simp: next_outcome_def iterator_ok_def receive_def broken_def split: prod.splits option.splits)
next
  case (ended it err buf ok it' ch')
  have "iterator_ok (it\<lparr>gi_done := True, gi_fail := err\<rparr>) (buf, Ended err)" by (simp add: iterator_ok_def)
  then show ?case by (rule ended.IH)
next
  case (wait it ch ch1 ok it' ch')
  have "iterator_ok it ch1" using wait.hyps(2) by (simp add: iterator_ok_def)
  note o = wait.IH [OF this]
  show ?case using o delivers_to_come [OF wait.hyps(3)]
    by (auto simp: next_outcome_def prefix_def split: if_splits)
qed

text \<open>
  A whole iteration delivers, in order, the events of the first logs; if it ends without an error, of all.
\<close>

definition good_items :: "(EthLog \<Rightarrow> 'e \<times> error option) \<Rightarrow> EthLog list \<Rightarrow> (error option \<times> 'e option) list" where
  "good_items unpack logs = map (\<lambda>log. (None, Some (fst (unpack log)))) logs"

lemma iterates_delivers:
  assumes "iterates unpack it ch items err" "iterator_ok it ch"
  shows "\<exists>sent rest. to_come ch = sent @ rest \<and> items = good_items unpack sent \<and>
     (\<forall>log \<in> set sent. snd (unpack log) = None) \<and> (err = None \<longrightarrow> rest = [] \<and> \<not> broken ch)"
  using assms
proof (induction rule: iterates.induct)
  case (stop it ch it' ch')
  have "next_outcome unpack ch False it' ch'" by (rule Next_outcome [OF stop])
  then show ?case
    by (intro exI [of _ "[]"] exI [of _ "to_come ch"]) (simp add: good_items_def next_outcome_def)
next
  case (more it ch it' ch' items err)
  note o = Next_outcome [OF more.hyps(1) more.prems]
  then obtain log rest where l: "to_come ch = log # rest" "unpack log = (the (gi_Event it'), None)"
    "gi_Event it' \<noteq> None" "gi_fail it' = None" "to_come ch' = rest \<or> broken ch' \<and> prefix (to_come ch') rest"
    by (auto simp: next_outcome_def)
  have "iterator_ok it' ch'" using o by (simp add: next_outcome_def)
  from more.IH [OF this] obtain sent rest' where s: "to_come ch' = sent @ rest'" "items = good_items unpack sent"
    "\<forall>log \<in> set sent. snd (unpack log) = None" "err = None \<longrightarrow> rest' = [] \<and> \<not> broken ch'" by blast
  obtain more where m: "rest = to_come ch' @ more" "more = [] \<or> broken ch'"
    using l(5) by (auto simp: prefix_def)
  have "to_come ch = (log # sent) @ rest' @ more" using l(1) m(1) s(1) by simp
  moreover have "(gi_fail it', gi_Event it') # items = good_items unpack (log # sent)"
    using l(2-4) s(2) by (auto simp: good_items_def)
  moreover have "broken ch \<Longrightarrow> broken ch'" using o by (simp add: next_outcome_def)
  ultimately show ?case using l(2) s(3,4) m(2)
    by (intro exI [of _ "log # sent"] exI [of _ "rest' @ more"]) auto
qed

lemma iterates_complete:
  assumes "iterates unpack new_iterator ([], Running logs) items None"
  shows "items = good_items unpack logs" "\<forall>log \<in> set logs. snd (unpack log) = None"
  using iterates_delivers [OF assms] by (auto simp: iterator_ok_def new_iterator_def)

text \<open>No call waits forever: the goroutine can always send, end, or the buffer is full and can be read.\<close>

lemma Next_returns: "\<exists>ok it' ch'. Next unpack it (buf, sub) ok it' ch'"
proof -
  have take: "\<exists>ok it' ch'. Next unpack it (log # buf, sub) ok it' ch'" for it log buf sub
    by (cases "gi_fail it = None"; cases "gi_done it"; cases "receive unpack it log")
       (blast intro: Next.intros)+
  show ?thesis
  proof (cases buf)
    case (Cons log buf)
    then show ?thesis using take by simp
  next
    case Nil
    have empty: "\<exists>ok it' ch'. Next unpack it ([], Ended err) ok it' ch'" for it err
    proof (cases "gi_fail it = None \<and> \<not> gi_done it")
      case True
      have "\<exists>ok it' ch'. Next unpack (it\<lparr>gi_done := True, gi_fail := err\<rparr>) ([], Ended err) ok it' ch'"
        by (cases err) (auto intro!: exI Next.done_empty Next.failed)
      then show ?thesis using True by (blast intro: Next.ended)
    qed (use Next.failed Next.done_empty in blast)
    show ?thesis
    proof (cases sub)
      case (Ended err)
      then show ?thesis using empty Nil by simp
    next
      case (Running logs)
      have step: "\<exists>ok it' ch'. Next unpack it ([], Running logs) ok it' ch'"
        if "gi_fail it = None" "\<not> gi_done it"
      proof (cases logs)
        case Nil
        then show ?thesis using that empty by (blast intro: Next.wait delivers.finish)
      next
        case (Cons log logs)
        have "delivers ([], Running (log # logs)) ([log], Running logs)"
          using delivers.send [of "[]" log logs] by (simp add: CHANNEL_CAPACITY_def)
        with Cons that take show ?thesis by (blast intro: Next.wait)
      qed
      then show ?thesis using Running Nil Next.failed Next.done_empty by blast
    qed
  qed
qed

lemma iterates_returns: "iterator_ok it ch \<Longrightarrow> \<exists>items err. iterates unpack it ch items err"
proof (induction "length (to_come ch)" arbitrary: it ch rule: less_induct)
  case less
  obtain ok it' ch' where n: "Next unpack it ch ok it' ch'"
    using Next_returns [of unpack it "fst ch" "snd ch"] by auto
  note o = Next_outcome [OF n less.prems]
  show ?case
  proof (cases ok)
    case False
    with n have "Next unpack it ch False it' ch'" by simp
    then show ?thesis by (blast intro: iterates.stop)
  next
    case True
    with o have "length (to_come ch') < length (to_come ch)" "iterator_ok it' ch'"
      by (auto simp: next_outcome_def dest: prefix_length_le)
    from less.hyps [OF this] obtain items err where "iterates unpack it' ch' items err" by blast
    with n True have "iterates unpack it ch ((gi_fail it', gi_Event it') # items) err"
      by (auto intro: iterates.more)
    then show ?thesis by blast
  qed
qed

text \<open>
  So an event whose log the node returns for every range that covers its block is reported, in the sense
  of the monitors, by filters that iterate over the logs of the node.
\<close>

lemma filters_report:
  assumes "\<And>a b iter. can_return (query a b) (Inr iter) \<Longrightarrow> \<exists>logs.
      iterates unpack new_iterator ([], Running logs) (it_Items iter) (it_FinalError iter) \<and>
      (a \<le> block \<and> block \<le> b \<longrightarrow> log \<in> set logs)"
  shows "reported query (fst (unpack log)) block"
  unfolding reported_def
proof (intro allI impI, elim conjE)
  fix a b iter
  assume r: "a \<le> block" "block \<le> b" "can_return (query a b) (Inr iter)" "it_FinalError iter = None"
  from assms [OF r(3)] r obtain logs where
    l: "iterates unpack new_iterator ([], Running logs) (it_Items iter) None" "log \<in> set logs" by auto
  from iterates_complete(1) [OF l(1)] l(2) show "\<exists>e. (e, Some (fst (unpack log))) \<in> set (it_Items iter)"
    by (auto simp: good_items_def)
qed

section \<open>A filter and the loop over it\<close>

text \<open>
  A filter together with the iteration of the service over it: \<open>drain\<close> stands for the loop, with whatever
  interleaving of the goroutine the run has.
\<close>

definition filtered ::
    "('e Iterator \<Rightarrow> channel \<Rightarrow> ('w, 'e LogIterator) io) \<Rightarrow>
      (int \<Rightarrow> int \<Rightarrow> ('w, ('e Iterator \<times> channel) result) io) \<Rightarrow> int \<Rightarrow> int \<Rightarrow> ('w, 'e LogIterator result) io" where
  "filtered drain query a b =
     then_ok (query a b) (\<lambda>(it, ch). do { iter \<leftarrow> drain it ch; ret (Inr iter) })"

text \<open>The iteration in which nothing breaks, as a function of the logs.\<close>

fun read_all :: "(EthLog \<Rightarrow> 'e \<times> error option) \<Rightarrow> EthLog list \<Rightarrow> 'e LogIterator" where
  "read_all unpack [] = \<lparr>it_Items = [], it_FinalError = None\<rparr>"
| "read_all unpack (log # logs) =
     (case unpack log of
        (_, Some e) \<Rightarrow> \<lparr>it_Items = [], it_FinalError = Some e\<rparr>
      | (event, None) \<Rightarrow>
          let iter = read_all unpack logs in iter\<lparr>it_Items := (None, Some event) # it_Items iter\<rparr>)"

lemma iterates_read_all:
  assumes "gi_fail it = None" "\<not> gi_done it"
  shows "iterates unpack it ([], Running logs) (it_Items (read_all unpack logs)) (it_FinalError (read_all unpack logs))"
  using assms
proof (induction logs arbitrary: it)
  case Nil
  have "Next unpack (it\<lparr>gi_done := True, gi_fail := None\<rparr>) ([], Ended None) False
      (it\<lparr>gi_done := True, gi_fail := None\<rparr>) ([], Ended None)"
    by (rule Next.done_empty) simp_all
  then have "Next unpack it ([], Running []) False (it\<lparr>gi_done := True, gi_fail := None\<rparr>) ([], Ended None)"
    using Nil by (blast intro: Next.wait Next.ended delivers.finish)
  from iterates.stop [OF this] show ?case by simp
next
  case (Cons log logs)
  have d: "delivers ([], Running (log # logs)) ([log], Running logs)"
    using delivers.send [of "[]" log logs] by (simp add: CHANNEL_CAPACITY_def)
  have n: "Next unpack it ([], Running (log # logs)) ok it' ([], Running logs)"
    if "receive unpack it log = (ok, it')" for ok it'
    using that Cons.prems d by (blast intro: Next.wait Next.log)
  obtain event err where u: "unpack log = (event, err)" by fastforce
  show ?case
  proof (cases err)
    case None
    let ?it = "it\<lparr>gi_Event := Some event\<rparr>"
    have "Next unpack it ([], Running (log # logs)) True ?it ([], Running logs)"
      by (rule n) (simp add: receive_def u None)
    from iterates.more [OF this Cons.IH] Cons.prems u None show ?thesis by (simp add: Let_def)
  next
    case (Some e)
    have "Next unpack it ([], Running (log # logs)) False (it\<lparr>gi_Event := Some event, gi_fail := Some e\<rparr>) ([], Running logs)"
      by (rule n) (simp add: receive_def u Some)
    from iterates.stop [OF this] u Some show ?thesis by simp
  qed
qed

lemma filtered_burns_report:
  assumes "\<And>logs iter. can_return (drain new_iterator ([], Running logs)) iter \<Longrightarrow>
      iterates (unpack_burn contract) new_iterator ([], Running logs) (it_Items iter) (it_FinalError iter)"
    and "\<And>a b logs. a \<le> block \<Longrightarrow> block \<le> b \<Longrightarrow>
      can_return (bc_FilterLogs contract ''BurnAndBridge'' a b [[], [], []]) (Inr logs) \<Longrightarrow> log \<in> set logs"
  shows "reported (filtered drain (\<lambda>a b. binding_FilterBurnAndBridge contract a b [] [] []))
     (fst (unpack_burn contract log)) block"
proof (rule filters_report)
  fix a b iter
  assume "can_return (filtered drain (\<lambda>a b. binding_FilterBurnAndBridge contract a b [] [] []) a b) (Inr iter)"
  then obtain logs where "can_return (bc_FilterLogs contract ''BurnAndBridge'' a b [[], [], []]) (Inr logs)"
    "can_return (drain new_iterator ([], Running logs)) iter"
    unfolding filtered_def binding_FilterBurnAndBridge_def
    by (auto elim!: can_return_then_okE can_return_bindE)
  with assms show "\<exists>logs. iterates (unpack_burn contract) new_iterator ([], Running logs) (it_Items iter) (it_FinalError iter) \<and>
      (a \<le> block \<and> block \<le> b \<longrightarrow> log \<in> set logs)" by blast
qed

end
