(* ===== verification/Eth_Properties.thy ===== *)
theory Eth_Properties
  imports Answering_World Contract_Bindings
begin

text \<open>
  The properties of the Ethereum side: the burn monitor, the mint signer and the mint executor, with
  their evaluations on the reference world.
\<close>

section \<open>Block ranges\<close>



section \<open>Burn monitor\<close>

text \<open>The burn monitor loses no burn transaction. When \<open>SyncTxs\<close> moves its start block, it moves it
  to the current block, and the transaction of every burn event above the fee that the node reports
  in between is by then recorded, whatever the other validators and the database's faults did.\<close>

theorem BurnMonitor_no_burn_lost:
  assumes "validator env docs thrC thrE"
    and "reported (FilterBurnAndBridge (WPokt env)) ev block" "relevant_burn x (None, Some ev)"
    and "0 \<le> bm_startBlockNumber x" "bm_startBlockNumber x \<le> block" "block \<le> bm_currentBlockNumber x"
    and "bm_currentBlockNumber x < 2 ^ 63"
    and "run_state (BurnMonitor_SyncTxs env x) w = (Inr (ok, x'), w')"
    and "bm_startBlockNumber x' \<noteq> bm_startBlockNumber x"
  shows "burn_seen (lib env) ev (docs w') \<and> bm_startBlockNumber x' = bm_currentBlockNumber x"
  using tripleD [OF validator.triple_BurnMonitor_SyncTxs [OF assms(1-7), where P = "\<lambda>_. True"] assms(8)] assms(9)
  by simp

definition one_burn :: answers where
  "one_burn = no_answers\<lparr>ans_Burns := Inr \<lparr>it_Items = [(None, Some some_event)], it_FinalError = None\<rparr>\<rparr>"

definition some_burn_monitor :: BurnMonitorRunner where
  "some_burn_monitor = \<lparr>bm_startBlockNumber = 1, bm_currentBlockNumber = 20, bm_minimumAmount = 10\<rparr>"

theorem BurnMonitor_no_burn_lost_witness:
  "burn_seen (ref_lib decode_transfer) some_event
     (rw_docs (snd (run_state (BurnMonitor_SyncTxs (transfer_env one_burn) some_burn_monitor) ref_init)))"
proof -
  let ?e = "transfer_env one_burn"
  let ?r = "run_state (BurnMonitor_SyncTxs ?e some_burn_monitor) ref_init"
  have "fst ?r = Inr (True, some_burn_monitor\<lparr>bm_startBlockNumber := 20\<rparr>)" by code_simp
  then have run: "?r = (Inr (True, some_burn_monitor\<lparr>bm_startBlockNumber := 20\<rparr>), snd ?r)"
    by (metis prod.collapse)
  have v: "validator ?e rw_docs 2 2" unfolding transfer_env_def by (rule ref_lone.alone.validator_axioms)
  have rep: "reported (FilterBurnAndBridge (WPokt ?e)) some_event 15"
    by (auto simp: reported_def transfer_env_def ref_env_def one_burn_def)
  have rel: "relevant_burn some_burn_monitor (None, Some some_event)" by code_simp
  have "lib ?e = ref_lib decode_transfer" by (simp add: transfer_env_def)
  with BurnMonitor_no_burn_lost [OF v rep rel _ _ _ _ run] show ?thesis
    by (simp add: some_burn_monitor_def)
qed










text \<open>C40: Of several burns in one transaction only the first is recorded. The unique index names a field
  that burn documents do not have instead of the log index, so once a burn of the transaction is
  stored, handling any further event of it changes nothing.\<close>

theorem second_burn_dropped:
  assumes "lone_validator env docs"
    and "with_id i (marshal_Burn b) \<in> set (docs w CollectionBurns)"
    and "b_TransactionHash b = ToLower (Hash_String (lib env) (bb_TxHash ev))"
  shows "docs (snd (run_state (BurnMonitor_HandleBurnEvent env (Some ev)) w)) = docs w"
proof -
  obtain t w1 where t: "run_state (Now env) w = (t, w1)" by fastforce
  obtain u w2 where u: "run_state (Now env) w1 = (u, w2)" by fastforce
  have w2: "docs w2 = docs w"
    using t u quietD [OF lone_validator.quiet_now [OF assms(1)]] by (metis snd_conv)
  let ?d = "marshal_Burn (CreateBurn (lib env) (Cfg env) t u ev)"
  obtain r w3 where ins: "run_state (InsertOne (DB env) CollectionBurns ?d) w2 = (r, w3)" by fastforce
  have "map_of (with_id i (marshal_Burn b)) ''transaction_hash'' = Some (BStr (b_TransactionHash b))"
    "map_of (with_id i (marshal_Burn b)) ''d.logger.index'' = None" "map_of ?d ''d.logger.index'' = None"
    by (simp_all add: marshal_Burn_def map_add_def CreateBurn_def Let_def)
  then have "conflict CollectionBurns (docs w CollectionBurns) ?d"
    using assms(2,3) hash_of_burn [of "lib env" "Cfg env" t u ev]
    by (auto simp: conflict_def list_ex_iff_set same_key_def index_key_def
        intro!: bexI [of _ "with_id i (marshal_Burn b)"])
  moreover have "document_store (DB env) docs" using assms(1) by (simp add: lone_validator_def)
  ultimately have "docs w3 = docs w"
    using document_store.insert_law [where docs = docs, OF _ ins] w2
    by (auto simp: insert_outcome_def inserted_def split: sum.splits if_splits)
  then show ?thesis
    by (simp add: BurnMonitor_HandleBurnEvent_def Let_def run_simps t u ins)
qed

text \<open>Two burns with log indexes 2 and 3 in one transaction: both are reported handled, one is stored.\<close>

definition two_burns :: answers where
  "two_burns = no_answers\<lparr>ans_Burns := Inr \<lparr>it_Items = [(None, Some some_event),
     (None, Some (some_event\<lparr>bb_LogIndex := 3, bb_Amount := 500\<rparr>))], it_FinalError = None\<rparr>\<rparr>"

theorem second_burn_dropped_witness:
  "let w = world_with CollectionBurns [marshal_Burn some_burn] in
     rw_docs (snd (run_state (BurnMonitor_HandleBurnEvent (transfer_env two_burns)
       (Some (some_event\<lparr>bb_LogIndex := 3, bb_Amount := 500\<rparr>))) w)) CollectionBurns = [marshal_Burn some_burn] \<and>
     fst (run_state (BurnMonitor_HandleBurnEvent (transfer_env two_burns)
       (Some (some_event\<lparr>bb_LogIndex := 3, bb_Amount := 500\<rparr>))) w) = Inr True"
proof -
  let ?w = "world_with CollectionBurns [marshal_Burn some_burn]"
  let ?ev = "some_event\<lparr>bb_LogIndex := 3, bb_Amount := 500\<rparr>"
  have lone: "lone_validator (transfer_env two_burns) rw_docs"
    unfolding transfer_env_def by (rule ref_lone.lone_validator_axioms)
  have "with_id 1 (marshal_Burn some_burn) = marshal_Burn some_burn" by code_simp
  then have mem: "with_id 1 (marshal_Burn some_burn) \<in> set (rw_docs ?w CollectionBurns)"
    by (simp add: world_with_def)
  have hash: "b_TransactionHash some_burn = ToLower (Hash_String (lib (transfer_env two_burns)) (bb_TxHash ?ev))"
    by code_simp
  have "fst (run_state (BurnMonitor_HandleBurnEvent (transfer_env two_burns) (Some ?ev)) ?w) = Inr True"
    by code_simp
  with second_burn_dropped [OF lone mem hash] show ?thesis by (simp add: world_with_def)
qed

section \<open>Mint signer: nonces\<close>

text \<open>C16: a mint that has no usable nonce gets one that is greater than the recipient's nonce in the
  contract and than every nonce of the other open mints to the same recipient.\<close>

theorem FindNonce_is_fresh:
  assumes "lone_validator env docs" "m_Nonce mint = [] \<or> SetString10 (m_Nonce mint) = Some 0"
    and "run_state (MintSigner_FindNonce env x mint) w = (Inr n, w')"
  shows "(\<exists>c w1. run_state (GetUserNonce (WPokt env) (HexToAddress (lib env) (m_RecipientAddress mint))) w
      = (Inr c, w1) \<and> c < n) \<and>
    (\<forall>d \<in> set (docs w CollectionMints). \<forall>m dt k. matches (pending_filter x mint) d \<and>
      unmarshal_Mint d = Some m \<and> m_Data m = Some dt \<and> SetString10 (data_Nonce dt) = Some k \<longrightarrow> k < n)"
proof -
  have run: "run_state (MintSigner_NewNonce env x mint) w = (Inr n, w')"
    using assms(2,3) by (auto simp: MintSigner_FindNonce_def split: if_splits)
  show ?thesis
    using lone_validator.NewNonce_fresh(1) [OF assms(1) run] lone_validator.NewNonce_fresh(2) [OF assms(1) run]
    by blast
qed

text \<open>Two mints to one recipient, one of them signed with nonce 9 while the contract is at 4.\<close>

theorem FindNonce_is_fresh_witness:
  "9 < projr (fst (run_state (MintSigner_FindNonce (transfer_env mint_answers) some_mint_signer some_mint)
     (world_with CollectionMints [marshal_Mint other_mint])))"
proof -
  let ?w = "world_with CollectionMints [marshal_Mint other_mint]"
  let ?r = "run_state (MintSigner_FindNonce (transfer_env mint_answers) some_mint_signer some_mint) ?w"
  have "fst ?r = Inr 10" by code_simp
  then have run: "?r = (Inr 10, snd ?r)" by (metis prod.collapse)
  have lone: "lone_validator (transfer_env mint_answers) rw_docs"
    unfolding transfer_env_def by (rule ref_lone.lone_validator_axioms)
  have nonce: "m_Nonce some_mint = [] \<or> SetString10 (m_Nonce some_mint) = Some 0" by code_simp
  have other: "marshal_Mint other_mint \<in> set (rw_docs ?w CollectionMints)" by (simp add: world_with_def)
  have m: "matches (pending_filter some_mint_signer some_mint) (marshal_Mint other_mint)"
    "m_Data other_mint = Some \<lparr>data_Recipient = ref_recipient, data_Amount = ''100'', data_Nonce = ''9''\<rparr>"
    "SetString10 ''9'' = Some 9" by code_simp+
  have "(9::int) < 10"
    using FindNonce_is_fresh [OF lone nonce run] other m unmarshal_marshal_Mint [of other_mint] by fastforce
  then show ?thesis using \<open>fst ?r = Inr 10\<close> by simp
qed

section \<open>Mint signer: validation and signing\<close>

text \<open>C25: a mint passes validation only if the transaction fetched under its hash is exactly one
  transfer to the vault that needs no refund, from the recorded sender, of the recorded amount, with
  a memo that names the recorded recipient and chain.\<close>

theorem ValidateMint_sound:
  assumes "run_state (MintSigner_ValidateMint env x mint) w = (Inr True, w')"
  shows "\<exists>tx result t a. run_state (GetTx (Cosmos env) (m_TransactionHash mint)) w = (Inr (Some tx), w') \<and>
     ValidateTxToCosmosMultisig (lib env) (Cfg env) tx (Pocket env) (ms_minimumAmount x)
       (ms_maximumAmount x) = Inr result \<and> \<not> vr_NeedsRefund result \<and>
     txr_Code tx = 0 \<and>
     ParseTransferEvents (lib env) (txr_Events tx) (pokt_MultisigAddress (Pocket env))
       (pokt_CoinDenom (Pocket env)) = Inr [t] \<and>
     EqualFold (te_Sender t) (m_SenderAddress mint) \<and>
     EqualFold (memo_Address (vr_Memo result)) (m_RecipientAddress mint) \<and>
     EqualFold (memo_ChainID (vr_Memo result)) (m_RecipientChainID mint) \<and>
     coin_Amount (te_Amount t) = Some a \<and> NewIntFromString (lib env) (m_Amount mint) = Some a \<and>
     ms_minimumAmount x < a"
proof -
  obtain r w1 where q: "run_state (GetTx (Cosmos env) (m_TransactionHash mint)) w = (r, w1)" by fastforce
  obtain tx result where tx: "r = Inr (Some tx)" "w1 = w'"
    and v: "ValidateTxToCosmosMultisig (lib env) (Cfg env) tx (Pocket env) (ms_minimumAmount x)
       (ms_maximumAmount x) = Inr result" "MintSigner_CheckMint env result mint = Inr True"
    using assms by (auto simp: MintSigner_ValidateMint_def run_simps q split: sum.splits option.splits)
  have c: "vr_TxValid result" "\<not> vr_NeedsRefund result" "EqualFold (vr_SenderAddress result) (m_SenderAddress mint)"
    "EqualFold (memo_Address (vr_Memo result)) (m_RecipientAddress mint)"
    "EqualFold (memo_ChainID (vr_Memo result)) (m_RecipientChainID mint)"
    "coin_Amount (vr_Amount result) = NewIntFromString (lib env) (m_Amount mint)"
    using v(2) by (auto simp: MintSigner_CheckMint_def split: if_splits option.splits)
  note s = validate_valid [OF v(1) c(1)]
  obtain t a where "ParseTransferEvents (lib env) (txr_Events tx) (pokt_MultisigAddress (Pocket env))
       (pokt_CoinDenom (Pocket env)) = Inr [t]" "vr_SenderAddress result = te_Sender t"
    "vr_Amount result = te_Amount t" "coin_Amount (te_Amount t) = Some a" "ms_minimumAmount x < a"
    using s(2) by auto
  moreover from this have "NewIntFromString (lib env) (m_Amount mint) = Some a" using c(6) by simp
  moreover have "EqualFold (te_Sender t) (m_SenderAddress mint)" using calculation(2) c(3) by simp
  ultimately show ?thesis using q tx v(1) s(1) c(2,4,5) by blast
qed

theorem ValidateMint_sound_witness:
  "\<exists>t :: TransferEvent. EqualFold (te_Sender t) (m_SenderAddress some_mint) \<and> coin_Amount (te_Amount t) = Some 100"
proof -
  let ?r = "run_state (MintSigner_ValidateMint (transfer_env mint_answers) some_mint_signer some_mint) ref_init"
  have "fst ?r = Inr True" by code_simp
  then have run: "?r = (Inr True, snd ?r)" by (metis prod.collapse)
  have "NewIntFromString (lib (transfer_env mint_answers)) (m_Amount some_mint) = Some 100" by code_simp
  with ValidateMint_sound [OF run] show ?thesis by auto
qed

text \<open>Signing a mint keeps every earlier signer with its own signature, adds the validator's, sorts
  the signers by address, and marks the mint signed exactly when the signatures reach the
  threshold; lists that are out of step are started anew.\<close>

theorem SignMint_keeps_pairs:
  assumes "SignMint l mint data domain key thr = Inr mint'"
  shows "\<exists>signature. signTypedData l domain data key = Inr signature \<and>
     mset (zip (m_Signers mint') (m_Signatures mint')) =
       add_mset (ToLower (key_AddressHex key), ''0x'' @ EncodeToString signature)
        (if length (m_Signatures mint) = length (m_Signers mint)
         then mset (zip (m_Signers mint) (m_Signatures mint)) else {#}) \<and>
     length (m_Signatures mint') = length (m_Signers mint') \<and>
     sorted (map (sort_address l) (m_Signers mint')) \<and>
     m_Status mint' = (if thr \<le> int (length (m_Signatures mint')) then StatusSigned else m_Status mint)"
  using SignMint_pairs [OF assms] SignMint_Inr(1,3,5) [OF assms] by blast

theorem SignMint_keeps_pairs_witness:
  "\<exists>m. SignMint (ref_lib decode_transfer) (some_mint\<lparr>m_Signers := [''0xff''], m_Signatures := [''0x11'']\<rparr>)
      \<lparr>md_Recipient = [], md_Amount = 100, md_Nonce = 5\<rparr> ref_domain ref_key 2 = Inr m \<and>
     m_Status m = StatusSigned \<and> (''0xff'', ''0x11'') \<in> set (zip (m_Signers m) (m_Signatures m))"
proof -
  let ?r = "SignMint (ref_lib decode_transfer) (some_mint\<lparr>m_Signers := [''0xff''], m_Signatures := [''0x11'']\<rparr>)
      \<lparr>md_Recipient = [], md_Amount = 100, md_Nonce = 5\<rparr> ref_domain ref_key 2"
  have "map_sum (\<lambda>_. ()) (\<lambda>m. length (m_Signatures m)) ?r = Inr 2" by code_simp
  then obtain m where m: "?r = Inr m" "length (m_Signatures m) = 2" by (cases ?r) auto
  from SignMint_keeps_pairs [OF m(1)] m(2) obtain p where
    z: "mset (zip (m_Signers m) (m_Signatures m)) = {#p, (''0xff'', ''0x11'')#}" "m_Status m = StatusSigned"
    by auto
  have "(''0xff'', ''0x11'') \<in># mset (zip (m_Signers m) (m_Signatures m))" unfolding z by simp
  then have "(''0xff'', ''0x11'') \<in> set (zip (m_Signers m) (m_Signatures m))" by (simp only: set_mset_mset)
  with m(1) z(2) show ?thesis by blast
qed

text \<open>C24: the order in which the validators sign a mint makes no difference. Signers with distinct
  addresses who sign one after the other, in any order, leave the same mint, with their pairs of signer
  and signature added to those it had, and marked signed exactly when their number reaches the
  threshold.\<close>

theorem signing_order_irrelevant:
  assumes "sign_all l mint data domain ks thr = Inr m" "mset ks' = mset ks" "ks \<noteq> []"
    and "length (m_Signatures mint) = length (m_Signers mint)"
    and "distinct (map (sort_address l) (m_Signers mint @ map (\<lambda>k. ToLower (key_AddressHex k)) ks))"
  shows "sign_all l mint data domain ks' thr = Inr m \<and>
     mset (zip (m_Signers m) (m_Signatures m)) =
       mset (zip (m_Signers mint) (m_Signatures mint)) + mset (map (signer_pair l data domain) ks) \<and>
     m_Status m = (if thr \<le> int (length (m_Signers mint) + length ks) then StatusSigned else m_Status mint)"
proof -
  have "\<forall>k \<in> set ks'. \<exists>s. signTypedData l domain data k = Inr s"
    using assms(1) sign_all_returns [of l mint data domain ks thr] mset_eq_setD [OF assms(2)] by blast
  then obtain m' where m': "sign_all l mint data domain ks' thr = Inr m'"
    using sign_all_returns [of l mint data domain ks' thr] by blast
  with sign_all_order [OF assms(1) m'] assms(2,4,5) have "sign_all l mint data domain ks' thr = Inr m" by simp
  moreover note sign_all_Inr [OF assms(1,4)]
  moreover have "length (m_Signers m) = length (m_Signers mint) + length ks"
    by (rule sign_all_length [OF assms(1,4)])
  ultimately show ?thesis using assms(3) by simp
qed

theorem signing_order_irrelevant_witness:
  "\<exists>m. sign_all (ref_lib decode_transfer) some_mint \<lparr>md_Recipient = [], md_Amount = 100, md_Nonce = 5\<rparr>
        ref_domain [ref_key, other_key] 2 = Inr m \<and>
      sign_all (ref_lib decode_transfer) some_mint \<lparr>md_Recipient = [], md_Amount = 100, md_Nonce = 5\<rparr>
        ref_domain [other_key, ref_key] 2 = Inr m \<and> m_Status m = StatusSigned"
proof -
  let ?s = "\<lambda>ks. sign_all (ref_lib decode_transfer) some_mint
      \<lparr>md_Recipient = [], md_Amount = 100, md_Nonce = 5\<rparr> ref_domain ks 2"
  have "map_sum (\<lambda>_. ()) (\<lambda>_. ()) (?s [ref_key, other_key]) = Inr ()" by code_simp
  then obtain m where m: "?s [ref_key, other_key] = Inr m" by (cases "?s [ref_key, other_key]") auto
  have l: "length (m_Signatures some_mint) = length (m_Signers some_mint)" by code_simp
  have d: "distinct (map (sort_address (ref_lib decode_transfer))
      (m_Signers some_mint @ map (\<lambda>k. ToLower (key_AddressHex k)) [ref_key, other_key]))"
    by code_simp
  from signing_order_irrelevant [OF m _ _ l d, of "[other_key, ref_key]"] m show ?thesis by auto
qed



text \<open>The mint is read before its lock is taken. A validator that waits for the lock while another one
  signs goes on with the mint it has read, and its update overwrites the other signature.\<close>

definition mint_of_other :: Mint where
  "mint_of_other = some_mint\<lparr>m_Data := Some \<lparr>data_Recipient = ref_recipient, data_Amount = ''100'', data_Nonce = ''5''\<rparr>,
     m_Nonce := ''5'', m_Signers := [''0xaa''],
     m_Signatures := [''0x'' @ EncodeToString ((replicate 65 0)[64 := 27])],
     m_Status := StatusConfirmed, m_Confirmations := ''15'', m_UpdatedAt := 1\<rparr>"

definition waiting_env :: "(ref_world, ref_tx) Env" where
  "waiting_env = (answering_env mint_answers)\<lparr>DB := MongoDatabase_DB (answering_driver\<lparr>
     drv_XLock := (\<lambda>_ _. State (\<lambda>w. (None, w\<lparr>rw_docs := empty_store(CollectionMints := [marshal_Mint mint_of_other])\<rparr>)))\<rparr>)\<rparr>"

lemma turn_of_other:
  "rw_docs (snd (run_state (MintSigner_SyncTxs (answering_env mint_answers) other_mint_signer)
     (world_with CollectionMints [marshal_Mint some_mint]))) CollectionMints = [marshal_Mint mint_of_other]"
  by code_simp

theorem late_lock_loses_signature:
  "field_in CollectionMints ''signers'' (rw_docs (snd (run_state (MintSigner_SyncTxs waiting_env some_mint_signer)
     (world_with CollectionMints [marshal_Mint some_mint])))) = [Some (strs [''0xkey''])]"
  by code_simp



section \<open>Mint signer: the signature\<close>

text \<open>When the key fails to sign, \<open>signTypedData\<close> panics instead of returning the error: it reads
  byte 64 of the signature first, which a failed signature does not have.\<close>

theorem signTypedData_panics_on_failure:
  assumes "HashStructDomain key (typed_data_domain l domain) = Inr h"
    and "HashStructMessage key (typed_data_message l data) = Inr h'"
    and "key_Sign key (Keccak256 key ([0x19, 0x01] @ h @ h')) = ([], Some e)"
  shows "signTypedData l domain data key = Inl (Panic ''index out of range'')"
  using assms by (simp add: signTypedData_def Let_def)

theorem signTypedData_panics_on_failure_witness:
  "signTypedData (ref_lib decode_transfer) ref_domain \<lparr>md_Recipient = [], md_Amount = 100, md_Nonce = 5\<rparr>
     (ref_key\<lparr>key_Sign := (\<lambda>_. ([], Some (Err ''no signature'')))\<rparr>) = Inl (Panic ''index out of range'')"
  by (rule signTypedData_panics_on_failure [where h = "[1]" and h' = "[2]" and e = "Err ''no signature''"])
     (simp_all add: ref_key_def)

text \<open>A signature that is returned is at least 65 bytes long and its recovery byte is never 0 or 1,
  the values the contract rejects.\<close>

theorem signature_recovery_byte:
  assumes "signTypedData l domain data key = Inr sig"
  shows "64 < length sig \<and> sig ! 64 \<noteq> 0 \<and> sig ! 64 \<noteq> 1"
  using signTypedData_recovery [OF assms] by simp

theorem signature_recovery_byte_witness:
  "signTypedData (ref_lib decode_transfer) ref_domain \<lparr>md_Recipient = [], md_Amount = 100, md_Nonce = 5\<rparr> ref_key
     = Inr ((replicate 65 0)[64 := 27]) \<and> (replicate 65 (0::byte))[64 := 27] ! 64 \<noteq> 0"
proof -
  have "signTypedData (ref_lib decode_transfer) ref_domain \<lparr>md_Recipient = [], md_Amount = 100, md_Nonce = 5\<rparr> ref_key
     = Inr ((replicate 65 0)[64 := 27])" by code_simp
  with signature_recovery_byte [OF this] show ?thesis by simp
qed

section \<open>Mint signer: start-up\<close>

text \<open>A mint signer starts only with a configuration that agrees with the contracts: the number of
  validators is the configured one, the threshold does not exceed it, the signing domain has the
  configured chain and mint controller, and the mint limit is not below the fee.\<close>

theorem NewMintSigner_checks:
  assumes "can_return (NewMintSigner env key ec wp mc cc) (Inr (RunnerService name x interval))"
  shows "ms_validatorCount x = int (length (eth_ValidatorAddresses (Ethereum env))) \<and>
     ms_signerThreshold x \<le> ms_validatorCount x \<and> ms_cosmosHeight x \<noteq> 0 \<and>
     (\<exists>dom. ms_domain x = Some dom \<and> SetString10 (eth_ChainID (Ethereum env)) = Some (dom_ChainId dom) \<and>
        EqualFold (Address_Hex (lib env) (dom_VerifyingContract dom)) (eth_MintControllerAddress (Ethereum env))) \<and>
     (\<exists>mx. ms_maximumAmount x = Some mx \<and> ms_minimumAmount x \<le> mx) \<and>
     key = Inr (ms_privateKey x) \<and> ms_address x = ToLower (key_AddressHex (ms_privateKey x)) \<and>
     svc_Enabled (cfg_MintSigner (Cfg env)) \<and> \<not> pokt_MintDisabled (Pocket env)"
  using NewMintSigner_started [OF assms] by blast

definition start_answers :: answers where
  "start_answers = no_answers\<lparr>ans_Height := Inr 20, ans_Count := Inr 2, ans_Threshold := Inr 2,
     ans_Domain := Inr ref_domain, ans_Limit := Inr 1000\<rparr>"

definition start_env :: "(ref_world, ref_tx) Env" where
  "start_env = ref_env (ref_cfg\<lparr>cfg_MintSigner := \<lparr>svc_Enabled = True, svc_IntervalMillis = 5\<rparr>,
       cfg_Ethereum := (cfg_Ethereum ref_cfg)\<lparr>eth_ValidatorAddresses := [''0x1'', ''0x2''],
         eth_MintControllerAddress := Address_Hex (ref_lib decode_transfer) (replicate 20 8)\<rparr>\<rparr>)
     (ref_lib decode_transfer) start_answers"

theorem NewMintSigner_checks_witness:
  "\<exists>n x i. fst (run_state (NewMintSigner start_env (Inr ref_key) None None None None) ref_init) =
     Inr (RunnerService n x i) \<and> ms_validatorCount x = 2 \<and> ms_signerThreshold x \<le> 2"
proof -
  let ?m = "NewMintSigner start_env (Inr ref_key) None None None None"
  have "(case fst (run_state ?m ref_init) of Inr (RunnerService n x i) \<Rightarrow> True | _ \<Rightarrow> False)" by code_simp
  then obtain n x i where r: "fst (run_state ?m ref_init) = Inr (RunnerService n x i)"
    by (auto split: sum.splits Service.splits)
  then have c: "can_return ?m (Inr (RunnerService n x i))" using can_return_run [of ?m ref_init] by simp
  have "length (eth_ValidatorAddresses (Ethereum start_env)) = 2" by (simp add: start_env_def)
  with NewMintSigner_checks [OF c] r show ?thesis by simp
qed

text \<open>A mint signer whose start could not read the threshold from the contract works with threshold
  zero: it starts nevertheless, and the first signature it gives marks the mint signed, however many
  the contract asks for.\<close>

theorem unread_threshold_signs_alone:
  assumes "\<And>r. can_return (SignerThreshold (MintCtl env)) r \<Longrightarrow> \<exists>e. r = Inl e"
    and "can_return (NewMintSigner env key ec wp mc cc) (Inr (RunnerService name x interval))"
    and "SignMint l mint data domain k (ms_signerThreshold x) = Inr mint'"
  shows "ms_signerThreshold x = 0 \<and> m_Status mint' = StatusSigned \<and>
     (m_Signatures mint = [] \<longrightarrow> length (m_Signatures mint') = 1)"
proof -
  have t: "ms_signerThreshold x = 0"
    using NewMintSigner_started [OF assms(2)] assms(1) by fastforce
  obtain s where p: "mset (zip (m_Signers mint') (m_Signatures mint')) =
      add_mset (ToLower (key_AddressHex k), ''0x'' @ EncodeToString s)
       (if length (m_Signatures mint) = length (m_Signers mint)
        then mset (zip (m_Signers mint) (m_Signatures mint)) else {#})"
    using SignMint_pairs [OF assms(3)] by blast
  have "length (m_Signatures mint') = 1" if "m_Signatures mint = []"
    using arg_cong [OF p, of size] SignMint_Inr(1) [OF assms(3)] that by (simp split: if_splits)
  then show ?thesis using t SignMint_Inr(5) [OF assms(3)] by simp
qed

text \<open>The contract is out of reach when the threshold is read; everything else is as it should be.\<close>

definition deaf_env :: "(ref_world, ref_tx) Env" where
  "deaf_env = start_env\<lparr>MintCtl := (MintCtl start_env)\<lparr>SignerThreshold := ret (Inl (Err ''timeout''))\<rparr>\<rparr>"

theorem unread_threshold_signs_alone_witness:
  "\<exists>n x i mint'. fst (run_state (NewMintSigner deaf_env (Inr ref_key) None None None None) ref_init) =
       Inr (RunnerService n x i) \<and>
     SignMint (ref_lib decode_transfer) some_mint \<lparr>md_Recipient = [], md_Amount = 100, md_Nonce = 5\<rparr> ref_domain
       ref_key (ms_signerThreshold x) = Inr mint' \<and> m_Status mint' = StatusSigned"
proof -
  let ?m = "NewMintSigner deaf_env (Inr ref_key) None None None None"
  have "(case fst (run_state ?m ref_init) of Inr (RunnerService n x i) \<Rightarrow>
      (case SignMint (ref_lib decode_transfer) some_mint \<lparr>md_Recipient = [], md_Amount = 100, md_Nonce = 5\<rparr>
         ref_domain ref_key (ms_signerThreshold x) of Inr _ \<Rightarrow> True | _ \<Rightarrow> False) | _ \<Rightarrow> False)"
    by code_simp
  then obtain n x i mint' where r: "fst (run_state ?m ref_init) = Inr (RunnerService n x i)"
    and s: "SignMint (ref_lib decode_transfer) some_mint \<lparr>md_Recipient = [], md_Amount = 100, md_Nonce = 5\<rparr>
      ref_domain ref_key (ms_signerThreshold x) = Inr mint'"
    by (auto split: sum.splits Service.splits)
  then have c: "can_return ?m (Inr (RunnerService n x i))" using can_return_run [of ?m ref_init] by simp
  have "\<exists>e. q = Inl e" if "can_return (SignerThreshold (MintCtl deaf_env)) q" for q
    using that by (auto simp: deaf_env_def)
  from unread_threshold_signs_alone [OF this c s] r s show ?thesis by blast
qed

section \<open>Mint executor\<close>

text \<open>C11: the mint executor passes over no mint. When \<open>SyncTxs\<close> moves its start block, it moves it to the
  current block, and for every mint event the node reports in between there is by then a mint of
  that recipient, amount and nonce with status success.\<close>

theorem MintExecutor_no_mint_lost:
  assumes "validator env docs thrC thrE"
    and "reported (FilterMinted (WPokt env)) ev block" "\<not> mt_Removed ev"
    and "0 \<le> me_startBlockNumber x" "me_startBlockNumber x \<le> block" "block \<le> me_currentBlockNumber x"
    and "me_currentBlockNumber x < 2 ^ 63"
    and "run_state (MintExecutor_SyncTxs env x) w = (Inr (ok, x'), w')"
    and "me_startBlockNumber x' \<noteq> me_startBlockNumber x"
  shows "mint_executed (lib env) x ev (docs w') \<and> me_startBlockNumber x' = me_currentBlockNumber x"
  using tripleD [OF validator.triple_MintExecutor_SyncTxs [OF assms(1-7), where P = "\<lambda>_. True"] assms(8)] assms(9)
  by simp

definition some_minted :: Minted where
  "some_minted = \<lparr>mt_Recipient = replicate 20 9, mt_Amount = 100, mt_Nonce = 9, mt_TxHash = [0xcd],
     mt_LogIndex = 0, mt_Removed = False\<rparr>"

definition one_minted :: answers where
  "one_minted = no_answers\<lparr>ans_Minted := Inr \<lparr>it_Items = [(None, Some some_minted)], it_FinalError = None\<rparr>\<rparr>"

definition some_mint_executor :: MintExecutorRunner where
  "some_mint_executor = \<lparr>me_startBlockNumber = 1, me_currentBlockNumber = 20, me_vaultAddress = ref_vault,
     me_wpoktAddress = ''0xcc''\<rparr>"

theorem MintExecutor_no_mint_lost_witness:
  "mint_executed (ref_lib decode_transfer) some_mint_executor some_minted
     (rw_docs (snd (run_state (MintExecutor_SyncTxs (transfer_env one_minted) some_mint_executor)
       (world_with CollectionMints [marshal_Mint other_mint]))))"
proof -
  let ?e = "transfer_env one_minted"
  let ?w = "world_with CollectionMints [marshal_Mint other_mint]"
  let ?r = "run_state (MintExecutor_SyncTxs ?e some_mint_executor) ?w"
  have "fst ?r = Inr (True, some_mint_executor\<lparr>me_startBlockNumber := 20\<rparr>)" by code_simp
  then have run: "?r = (Inr (True, some_mint_executor\<lparr>me_startBlockNumber := 20\<rparr>), snd ?r)"
    by (metis prod.collapse)
  have v: "validator ?e rw_docs 2 2" unfolding transfer_env_def by (rule ref_lone.alone.validator_axioms)
  have rep: "reported (FilterMinted (WPokt ?e)) some_minted 15"
    by (auto simp: reported_def transfer_env_def ref_env_def one_minted_def)
  have "\<not> mt_Removed some_minted" "lib ?e = ref_lib decode_transfer"
    by (simp_all add: some_minted_def transfer_env_def)
  with MintExecutor_no_mint_lost [OF v rep _ _ _ _ _ run] show ?thesis
    by (simp add: some_mint_executor_def)
qed

text \<open>A mint event of a recipient that has no mint document stops the executor: working alone it never
  moves its start block past the event.\<close>

theorem mint_executor_stalls:
  assumes "lone_validator env docs"
    and "reported (FilterMinted (WPokt env)) ev block" "\<not> mt_Removed ev"
    and "0 \<le> me_startBlockNumber x" "me_startBlockNumber x \<le> block" "block \<le> me_currentBlockNumber x"
    and "me_currentBlockNumber x < 2 ^ 63"
    and "\<forall>d \<in> set (docs w CollectionMints).
       \<not> cond_matches (CEq (BStr (ToLower (Address_Hex (lib env) (mt_Recipient ev))))) (map_of d ''recipient_address'')"
    and "run_state (MintExecutor_SyncTxs env x) w = (Inr (ok, x'), w')"
  shows "me_startBlockNumber x' = me_startBlockNumber x"
proof (rule ccontr)
  assume "me_startBlockNumber x' \<noteq> me_startBlockNumber x"
  with MintExecutor_no_mint_lost [OF lone_validator.is_validator [OF assms(1)] assms(2-7,9)]
  have "mint_executed (lib env) x ev (docs w')" by simp
  then obtain d where d: "d \<in> set (docs w' CollectionMints)"
    "cond_matches (CEq (BStr (ToLower (Address_Hex (lib env) (mt_Recipient ev))))) (map_of d ''recipient_address'')"
    by (auto simp: mint_executed_def MintExecutor_filter_def simp del: cond_matches.simps)
  have "field_in CollectionMints ''recipient_address'' (docs w') = field_in CollectionMints ''recipient_address'' (docs w)"
    using field_in_kept [OF lone_validator.MintExecutor_keeps_recipients [OF assms(1)], of CollectionMints x w] assms(9)
    by simp
  moreover have "map_of d ''recipient_address'' \<in> set (field_in CollectionMints ''recipient_address'' (docs w'))"
    using d(1) by (simp add: field_in_def)
  ultimately have "map_of d ''recipient_address'' \<in> set (field_in CollectionMints ''recipient_address'' (docs w))"
    by simp
  with assms(8) d(2) show False by (auto simp: field_in_def simp del: cond_matches.simps)
qed

theorem mint_executor_stalls_witness:
  "me_startBlockNumber (snd (projr (fst (run_state (MintExecutor_SyncTxs (transfer_env one_minted)
     some_mint_executor) ref_init)))) = 1"
proof -
  let ?e = "transfer_env one_minted"
  let ?r = "run_state (MintExecutor_SyncTxs ?e some_mint_executor) ref_init"
  have "map_sum (\<lambda>_. ()) fst (fst ?r) = Inr False" by code_simp
  then obtain x' where x': "fst ?r = Inr (False, x')" by (cases "fst ?r") auto
  then have run: "?r = (Inr (False, x'), snd ?r)" by (metis prod.collapse)
  have lone: "lone_validator ?e rw_docs" unfolding transfer_env_def by (rule ref_lone.lone_validator_axioms)
  have rep: "reported (FilterMinted (WPokt ?e)) some_minted 15"
    by (auto simp: reported_def transfer_env_def ref_env_def one_minted_def)
  have "me_startBlockNumber x' = me_startBlockNumber some_mint_executor"
    using mint_executor_stalls [OF lone rep _ _ _ _ _ _ run]
    by (simp add: some_minted_def some_mint_executor_def ref_init_def empty_store_def)
  then show ?thesis unfolding x' by (simp add: some_mint_executor_def)
qed

end
