(* ===== verification/Database_Properties.thy ===== *)
theory Database_Properties
  imports Reference_World
begin

text \<open>
  The properties of the database wrapper, of the documents' encoding and of the helpers of package
  \<open>common\<close>.
\<close>

section \<open>The wrapper over the driver\<close>

text \<open>C32: \<open>MongoDatabase\<close> implements the contract of the database interface. Over any driver that behaves as
  documented, every operation of the wrapper meets the law the services rely on, errors and
  time-outs that strike after the effect included.\<close>

theorem MongoDatabase_refines_contract:
  assumes "mongo_driver drv docs"
  shows "document_store (MongoDatabase_DB drv) docs"
  by (rule mongo_driver.mongo_store [OF assms])

theorem MongoDatabase_refines_contract_witness:
  "document_store (MongoDatabase_DB ref_driver) rw_docs"
  by (rule MongoDatabase_refines_contract [OF mongo.mongo_driver_axioms])

text \<open>\<open>AggregateOne\<close> takes a failed cursor for an empty result. When the cursor delivers no document
  because it failed, the caller is told \<open>ErrNoDocuments\<close>, whatever the error of the cursor, and
  however many documents the aggregation has; \<open>AggregateMany\<close> reports the error of the same cursor.\<close>

theorem AggregateOne_masks_cursor_error:
  assumes "run_state (drv_Aggregate drv c ss) w = (Inr ([], Some e), w')"
  shows "run_state (MongoDatabase_AggregateOne drv c ss) w = (Inl ErrNoDocuments, w') \<and>
     run_state (MongoDatabase_AggregateMany drv c ss) w = (Inl e, w')"
  using assms by (simp add: MongoDatabase_AggregateOne_def MongoDatabase_AggregateMany_def run_simps)

text \<open>An invalid mint with sequence 7 is stored, yet a failing cursor makes the maximum disappear.\<close>

definition failing_world :: ref_world where
  "failing_world = (world_with CollectionInvalidMints [marshal_InvalidMint signed_invalid_mint])
     \<lparr>rw_faults := (\<lambda>_. FailCursor)\<rparr>"

theorem AggregateOne_masks_cursor_error_witness:
  "fst (run_state (findMaxSequenceFromInvalidMints (transfer_env no_answers)) failing_world) = Inr None \<and>
   fst (run_state (findMaxSequenceFromInvalidMints (transfer_env no_answers))
     (failing_world\<lparr>rw_faults := (\<lambda>_. NoFault)\<rparr>)) = Inr (Some 7)"
proof
  let ?p = "sequence_pipeline ref_vault"
  have "run_state (drv_Aggregate ref_driver c ss) failing_world =
      (Inr ([], Some (Err ''cursor closed'')), failing_world\<lparr>rw_clock := Suc (rw_clock failing_world)\<rparr>)" for c ss
    by (simp add: ref_driver_def failing_world_def)
  from AggregateOne_masks_cursor_error [OF this, THEN conjunct1]
  show "fst (run_state (findMaxSequenceFromInvalidMints (transfer_env no_answers)) failing_world) = Inr None"
    by (simp add: findMaxSequenceFromInvalidMints_def run_simps transfer_env_def ref_db_def MongoDatabase_DB_def)
  show "fst (run_state (findMaxSequenceFromInvalidMints (transfer_env no_answers))
     (failing_world\<lparr>rw_faults := (\<lambda>_. NoFault)\<rparr>)) = Inr (Some 7)"
    by code_simp
qed

text \<open>A lock is identified by 32 characters, all of them letters and digits, whatever bytes the system's
  random source delivers.\<close>

theorem lock_identifiers:
  assumes "can_return (MongoDatabase_XLock drv r) (Inr i) \<or> can_return (MongoDatabase_SLock drv r) (Inr i)"
    and "\<And>n bs. can_return (rand_Read drv n) (Inr bs) \<Longrightarrow> length bs = n"
  shows "length i = 32 \<and> set i \<subseteq> set alphanum"
proof -
  have "can_return (randomString drv 32) (Inr i)"
    using assms(1) unfolding MongoDatabase_XLock_def MongoDatabase_SLock_def
    by (auto elim!: can_return_bindE split: sum.splits option.splits)
  then show ?thesis by (rule randomString_alphanum) (rule assms(2))
qed

theorem lock_identifiers_witness:
  "length (projr (fst (run_state (MongoDatabase_XLock ref_driver ''burns/1'') ref_init))) = 32"
proof -
  let ?m = "MongoDatabase_XLock ref_driver ''burns/1''"
  let ?i = "projr (fst (run_state ?m ref_init))"
  have "fst (run_state ?m ref_init) = Inr ?i" by code_simp
  then have "can_return ?m (Inr ?i)" by (metis can_return_def)
  moreover have "length bs = n" if "can_return (rand_Read ref_driver n) (Inr bs)" for n bs
    using that by (auto simp: can_return_def ref_driver_def)
  ultimately show ?thesis using lock_identifiers [of ref_driver] by blast
qed

section \<open>Documents\<close>



section \<open>Hexadecimal addresses\<close>

text \<open>An address written out by \<open>AddressHexFromBytes\<close> is read back by \<open>BytesFromAddressHex\<close> as the same
  bytes; and any spelling of an address that is read, in upper or lower case, with or without
  prefix, is written out as its lower-case spelling with prefix.\<close>

theorem address_hex_roundtrip:
  "(AddressHexFromBytes bs = Inr s \<longrightarrow> BytesFromAddressHex s = Inr bs) \<and>
   (BytesFromAddressHex t = Inr bs \<longrightarrow> AddressHexFromBytes bs = Inr (Ensure0xPrefix t)) \<and>
   (Bytes32FromAddressHex t = Inr cs \<longrightarrow> length cs = 32 \<and> take 12 cs = replicate 12 0 \<and>
      DecodeString (TrimPrefix t ''0x'') = Inr (drop 12 cs))"
proof (intro conjI impI)
  show "BytesFromAddressHex s = Inr bs" if "AddressHexFromBytes bs = Inr s"
    by (rule AddressHexFromBytes_roundtrip [OF that])
  show "AddressHexFromBytes bs = Inr (Ensure0xPrefix t)" if "BytesFromAddressHex t = Inr bs"
    by (rule BytesFromAddressHex_roundtrip [OF that])
  assume "Bytes32FromAddressHex t = Inr cs"
  then obtain a where a: "DecodeString (TrimPrefix t ''0x'') = Inr a" "length a = 20"
    "cs = FillBytes 32 (SetBytes a)"
    by (auto simp: Bytes32FromAddressHex_def AddressLength_def split: sum.splits if_splits)
  then have "cs = replicate 12 0 @ a" using FillBytes_SetBytes [of a 32] by simp
  then show "length cs = 32" "take 12 cs = replicate 12 0" "DecodeString (TrimPrefix t ''0x'') = Inr (drop 12 cs)"
    using a by simp_all
qed

theorem address_hex_roundtrip_witness:
  "AddressHexFromBytes (replicate 20 0xAB) = Inr (Ensure0xPrefix ''ABABABABABABABABABABABABABABABABABABABAB'')"
proof -
  have "BytesFromAddressHex ''ABABABABABABABABABABABABABABABABABABABAB'' = Inr (replicate 20 0xAB)"
    by code_simp
  then show ?thesis using address_hex_roundtrip by blast
qed

section \<open>Lists\<close>

text \<open>\<open>RemoveDuplicates\<close> keeps the first occurrence of every element, in order.\<close>

theorem RemoveDuplicates_first_occurrences:
  "RemoveDuplicates xs = rev (remdups (rev xs)) \<and>
   set (RemoveDuplicates xs) = set xs \<and> distinct (RemoveDuplicates xs)"
  by (simp add: RemoveDuplicates_eq)

end
