(* ===== verification/Services.thy ===== *)
theory Services
  imports Service_Context
begin

text \<open>
  \<open>app/service.go\<close> and \<open>app/runner.go\<close>: the empty service and the service that runs a runner in a
  loop until it is told to stop. A runner is its state together with the operations \<open>Run\<close> and
  \<open>Status\<close>; the wait group is the number of \<open>Done\<close> calls.
\<close>

section \<open>service.go\<close>

definition EmptyServiceName :: string where "EmptyServiceName = ''empty''"

definition EmptyService_Health :: "nat \<Rightarrow> nat \<Rightarrow> ServiceHealth" where
  "EmptyService_Health now later = \<lparr>sh_Name = EmptyServiceName, sh_Healthy = True,
     sh_EthBlockNumber = [], sh_PoktHeight = [], sh_LastSyncTime = now, sh_NextSyncTime = later\<rparr>"

text \<open>Calls of \<open>wg.Done\<close> by \<open>Stop\<close>.\<close>

definition EmptyService_Stop :: nat where "EmptyService_Stop = 1"

section \<open>runner.go\<close>

record 'x RunningService =
  rn_name :: string
  rn_runner :: 'x
  rn_interval :: int
  rn_health :: ServiceHealth

text \<open>\<open>None\<close> is the nil service that invalid parameters yield.\<close>

definition NewRunnerService :: "string \<Rightarrow> 'x option \<Rightarrow> bool \<Rightarrow> int \<Rightarrow> 'x RunningService option" where
  "NewRunnerService name runner wg interval =
     (case runner of
        None \<Rightarrow> None
      | Some x \<Rightarrow>
          if name = [] \<or> \<not> wg \<or> interval = 0 then None
          else Some \<lparr>rn_name = name, rn_runner = x, rn_interval = interval,
                     rn_health = empty_ServiceHealth\<lparr>sh_Name := name\<rparr>\<rparr>)"

definition updateHealth :: "'x RunningService \<Rightarrow> RunnerStatus \<Rightarrow> nat \<Rightarrow> 'x RunningService" where
  "updateHealth s status lastSyncTime = s\<lparr>rn_health := \<lparr>
     sh_Name = rn_name s, sh_Healthy = True,
     sh_EthBlockNumber = rs_EthBlockNumber status, sh_PoktHeight = rs_PoktHeight status,
     sh_LastSyncTime = lastSyncTime,
     sh_NextSyncTime = nat (int lastSyncTime + rn_interval s)\<rparr>\<rparr>"

definition RunnerService_Health :: "'x RunningService \<Rightarrow> ServiceHealth" where
  "RunnerService_Health s = rn_health s"

text \<open>One turn of the loop: run, then publish the runner's status. A panic ends the process.\<close>

definition RunnerService_turn ::
    "('x \<Rightarrow> ('w, 'x result) io) \<Rightarrow> ('x \<Rightarrow> RunnerStatus) \<Rightarrow> ('w, nat) io \<Rightarrow> 'x RunningService \<Rightarrow>
      ('w, 'x RunningService result) io" where
  "RunnerService_turn run status now s =
     then_ok (run (rn_runner s)) (\<lambda>x. do {
       t \<leftarrow> now;
       ret (Inr (updateHealth (s\<lparr>rn_runner := x\<rparr>) (status x) t)) })"

text \<open>
  The loop. \<open>stops\<close> lists what the \<open>select\<close> of each turn finds: true when the stop channel has been
  closed, false when the interval has passed first. The result is the service and the number of
  \<open>wg.Done\<close> calls; the loop is still running where the list ends.
\<close>

fun RunnerService_Start ::
    "('x \<Rightarrow> ('w, 'x result) io) \<Rightarrow> ('x \<Rightarrow> RunnerStatus) \<Rightarrow> ('w, nat) io \<Rightarrow> bool list \<Rightarrow>
      'x RunningService \<Rightarrow> ('w, ('x RunningService \<times> nat) result) io" where
  "RunnerService_Start run status now [] s = ret (Inr (s, 0))"
| "RunnerService_Start run status now (stop # stops) s =
     then_ok (RunnerService_turn run status now s) (\<lambda>s.
       if stop then ret (Inr (s, 1)) else RunnerService_Start run status now stops s)"

section \<open>Facts\<close>

lemma RunnerService_turn_health:
  assumes "can_return (RunnerService_turn run status now s) (Inr s')"
  shows "sh_PoktHeight (rn_health s') = rs_PoktHeight (status (rn_runner s'))"
    "sh_EthBlockNumber (rn_health s') = rs_EthBlockNumber (status (rn_runner s'))"
    "sh_Name (rn_health s') = rn_name s" "rn_name s' = rn_name s" "sh_Healthy (rn_health s')"
    "rn_interval s' = rn_interval s"
  using assms unfolding RunnerService_turn_def
  by (auto elim!: can_return_then_okE can_return_bindE simp: updateHealth_def)

text \<open>Every result of the loop comes from the last turn; what a turn establishes, the loop does.\<close>

lemma RunnerService_Start_last:
  assumes "can_return (RunnerService_Start run status now stops s) (Inr (s', n))" "stops \<noteq> []"
  shows "\<exists>s0. can_return (RunnerService_turn run status now s0) (Inr s') \<and> rn_name s0 = rn_name s"
  using assms
proof (induction stops arbitrary: s)
  case (Cons stop stops)
  from Cons.prems(1) obtain s1 where s1: "can_return (RunnerService_turn run status now s) (Inr s1)"
    and r: "can_return (if stop then ret (Inr (s1, 1)) else RunnerService_Start run status now stops s1)
              (Inr (s', n))"
    unfolding RunnerService_Start.simps by (rule can_return_then_okE)
  show ?case
  proof (cases "stop \<or> stops = []")
    case True
    with r s1 show ?thesis by (auto split: if_splits)
  next
    case False
    with Cons.IH [of s1] r RunnerService_turn_health(4) [OF s1] show ?thesis by auto
  qed
qed simp

lemma RunnerService_Start_done:
  assumes "can_return (RunnerService_Start run status now stops s) (Inr (s', n))"
  shows "n = (if True \<in> set stops then 1 else 0)"
  using assms
proof (induction stops arbitrary: s)
  case (Cons stop stops)
  from Cons.prems obtain s1 where
    "can_return (if stop then ret (Inr (s1, 1)) else RunnerService_Start run status now stops s1) (Inr (s', n))"
    unfolding RunnerService_Start.simps by (rule can_return_then_okE)
  with Cons.IH [of s1] show ?case by (auto split: if_splits)
qed simp

text \<open>Nothing runs after the turn that finds the stop channel closed.\<close>

lemma RunnerService_Start_stops:
  "RunnerService_Start run status now (stops @ True # rest) s =
     RunnerService_Start run status now (stops @ [True]) s"
proof (induction stops arbitrary: s)
  case (Cons stop stops)
  then show ?case by (simp cong: if_cong)
qed simp

lemma RunnerService_Start_writes:
  assumes "\<And>x. writes R v (run x)" "writes R v now"
  shows "writes R v (RunnerService_Start run status now stops s)"
  by (induction stops arbitrary: s)
     (auto intro!: writes_intros assms simp: RunnerService_turn_def)

end
