(* ===== verification/Health_Check.thy ===== *)
theory Health_Check
  imports Services
begin

text \<open>
  \<open>app/health.go\<close> and the part of \<open>main.go\<close> that hands the last health to the services: the document
  in which a validator posts the health of its services, and its recovery after a restart.
\<close>

section \<open>The document\<close>

record Health =
  h_Id :: "nat option"
  h_PoktVaultAddress :: string
  h_PoktSigners :: "string list"
  h_PoktPublicKey :: string
  h_PoktAddress :: string
  h_EthValidators :: "string list"
  h_EthAddress :: string
  h_WPoktAddress :: string
  h_Hostname :: string
  h_ValidatorId :: string
  h_Healthy :: bool
  h_CreatedAt :: nat
  h_UpdatedAt :: nat
  h_ServiceHealths :: "ServiceHealth list"
  h_MintDisabled :: bool

definition marshal_ServiceHealth :: "ServiceHealth \<Rightarrow> bson" where
  "marshal_ServiceHealth s = BDoc
     [(''name'', BStr (sh_Name s)), (''healthy'', BBool (sh_Healthy s)),
      (''eth_block_number'', BStr (sh_EthBlockNumber s)), (''pokt_height'', BStr (sh_PoktHeight s)),
      (''last_sync_time'', BTime (sh_LastSyncTime s)), (''next_sync_time'', BTime (sh_NextSyncTime s))]"

definition unmarshal_ServiceHealth :: "bson \<Rightarrow> ServiceHealth option" where
  "unmarshal_ServiceHealth b = (case b of
       BDoc d \<Rightarrow> do {
         n \<leftarrow> get_str d ''name'';
         h \<leftarrow> get_bool d ''healthy'';
         e \<leftarrow> get_str d ''eth_block_number'';
         p \<leftarrow> get_str d ''pokt_height'';
         l \<leftarrow> get_time d ''last_sync_time'';
         x \<leftarrow> get_time d ''next_sync_time'';
         Some \<lparr>sh_Name = n, sh_Healthy = h, sh_EthBlockNumber = e, sh_PoktHeight = p,
               sh_LastSyncTime = l, sh_NextSyncTime = x\<rparr> }
     | BNull \<Rightarrow> Some empty_ServiceHealth
     | _ \<Rightarrow> None)"

definition unmarshal_Health :: "doc \<Rightarrow> Health option" where
  "unmarshal_Health d = do {
     i \<leftarrow> get_id d ''_id'';
     va \<leftarrow> get_str d ''pokt_vault_address'';
     ps \<leftarrow> get_list bson_str d ''pokt_signers'';
     pk \<leftarrow> get_str d ''pokt_public_key'';
     pa \<leftarrow> get_str d ''pokt_address'';
     ev \<leftarrow> get_list bson_str d ''eth_validators'';
     ea \<leftarrow> get_str d ''eth_address'';
     wa \<leftarrow> get_str d ''wpokt_address'';
     hn \<leftarrow> get_str d ''hostname'';
     vi \<leftarrow> get_str d ''validator_id'';
     he \<leftarrow> get_bool d ''healthy'';
     ca \<leftarrow> get_time d ''created_at'';
     ua \<leftarrow> get_time d ''updated_at'';
     sh \<leftarrow> get_list unmarshal_ServiceHealth d ''service_healths'';
     md \<leftarrow> get_bool d ''mint_disabled'';
     Some \<lparr>h_Id = i, h_PoktVaultAddress = va, h_PoktSigners = ps, h_PoktPublicKey = pk,
       h_PoktAddress = pa, h_EthValidators = ev, h_EthAddress = ea, h_WPoktAddress = wa,
       h_Hostname = hn, h_ValidatorId = vi, h_Healthy = he, h_CreatedAt = ca, h_UpdatedAt = ua,
       h_ServiceHealths = sh, h_MintDisabled = md\<rparr> }"

section \<open>The runner\<close>

definition HealthCheckName :: string where "HealthCheckName = ''HEALTH''"

record HealthCheckRunner =
  hr_poktSigners :: "string list"
  hr_poktPublicKey :: string
  hr_poktAddress :: string
  hr_poktVaultAddress :: string
  hr_ethValidators :: "string list"
  hr_ethAddress :: string
  hr_wpoktAddress :: string
  hr_hostname :: string
  hr_validatorId :: string

definition HealthCheckRunner_Status :: "HealthCheckRunner \<Rightarrow> RunnerStatus" where
  "HealthCheckRunner_Status x = \<lparr>rs_EthBlockNumber = [], rs_PoktHeight = []\<rparr>"

definition health_filter :: "HealthCheckRunner \<Rightarrow> query" where
  "health_filter x = QAnd [Fld ''validator_id'' (CEq (BStr (hr_validatorId x))),
     Fld ''hostname'' (CEq (BStr (hr_hostname x)))]"

definition FindLastHealth :: "('w, 't) Env \<Rightarrow> HealthCheckRunner \<Rightarrow> ('w, Health result) io" where
  "FindLastHealth env x = do {
     r \<leftarrow> FindOne (DB env) CollectionHealthChecks (health_filter x);
     ret (case r of
         Inl e \<Rightarrow> Inl e
       | Inr d \<Rightarrow> (case unmarshal_Health d of
             None \<Rightarrow> Inl (Err ''error decoding document'')
           | Some h \<Rightarrow> Inr h)) }"

text \<open>\<open>healths\<close>: what \<open>Health\<close> of the services returns, in the order of the list of services.\<close>

fun ServiceHealths :: "ServiceHealth list \<Rightarrow> ServiceHealth list" where
  "ServiceHealths [] = []"
| "ServiceHealths (h # hs) =
     (if sh_Name h = EmptyServiceName \<or> sh_Name h = [] then ServiceHealths hs
      else h # ServiceHealths hs)"

definition health_on_insert :: "HealthCheckRunner \<Rightarrow> nat \<Rightarrow> update" where
  "health_on_insert x created =
     [(''pokt_vault_address'', BStr (hr_poktVaultAddress x)), (''pokt_signers'', strs (hr_poktSigners x)),
      (''pokt_public_key'', BStr (hr_poktPublicKey x)), (''pokt_address'', BStr (hr_poktAddress x)),
      (''eth_validators'', strs (hr_ethValidators x)), (''eth_address'', BStr (hr_ethAddress x)),
      (''wpokt_address'', BStr (hr_wpoktAddress x)), (''hostname'', BStr (hr_hostname x)),
      (''validator_id'', BStr (hr_validatorId x)), (''created_at'', BTime created)]"

definition health_on_update :: "bool \<Rightarrow> ServiceHealth list \<Rightarrow> nat \<Rightarrow> update" where
  "health_on_update mintDisabled healths now =
     [(''mint_disabled'', BBool mintDisabled), (''healthy'', BBool True),
      (''service_healths'', BArr (map marshal_ServiceHealth (ServiceHealths healths))),
      (''updated_at'', BTime now)]"

definition PostHealth ::
    "('w, 't) Env \<Rightarrow> HealthCheckRunner \<Rightarrow> ServiceHealth list \<Rightarrow> ('w, bool result) io" where
  "PostHealth env x healths = do {
     t \<leftarrow> Now env;
     now \<leftarrow> Now env;
     r \<leftarrow> UpsertOne (DB env) CollectionHealthChecks (health_filter x)
       (health_on_update (pokt_MintDisabled (Pocket env)) healths now) (health_on_insert x t);
     ret (case r of Inl e \<Rightarrow> on_error e | Inr _ \<Rightarrow> Inr True) }"

definition HealthCheckRunner_Run ::
    "('w, 't) Env \<Rightarrow> ServiceHealth list \<Rightarrow> HealthCheckRunner \<Rightarrow> ('w, HealthCheckRunner result) io" where
  "HealthCheckRunner_Run env healths x = then_ok (PostHealth env x healths) (\<lambda>_. ret (Inr x))"

section \<open>main.go: the last health of a service\<close>

text \<open>The map from names to healths: a later entry of the same name replaces an earlier one.\<close>

definition serviceHealthMap :: "Config \<Rightarrow> Health result \<Rightarrow> string \<Rightarrow> ServiceHealth option" where
  "serviceHealthMap cfg lastHealth =
     (if hc_ReadLastHealth (cfg_HealthCheck cfg) then
        (case lastHealth of
           Inl _ \<Rightarrow> Map.empty
         | Inr h \<Rightarrow> foldl (\<lambda>m s. m(sh_Name s \<mapsto> s)) Map.empty (h_ServiceHealths h))
      else Map.empty)"

definition main_lastHealth :: "Config \<Rightarrow> Health result \<Rightarrow> string \<Rightarrow> ServiceHealth" where
  "main_lastHealth cfg lastHealth serviceName =
     (case serviceHealthMap cfg lastHealth serviceName of
        Some s \<Rightarrow> s | None \<Rightarrow> empty_ServiceHealth)"

section \<open>Facts\<close>

lemma ServiceHealths_filter:
  "ServiceHealths hs = filter (\<lambda>h. sh_Name h \<noteq> EmptyServiceName \<and> sh_Name h \<noteq> []) hs"
  by (induction hs) auto

lemma unmarshal_marshal_ServiceHealth [simp]: "unmarshal_ServiceHealth (marshal_ServiceHealth s) = Some s"
  by (simp add: unmarshal_ServiceHealth_def marshal_ServiceHealth_def get_str_def get_bool_def get_time_def)

lemma those_ServiceHealths [simp]:
  "those (map unmarshal_ServiceHealth (map marshal_ServiceHealth hs)) = Some hs"
  by (induction hs) auto

lemma foldl_map_last:
  "foldl (\<lambda>m s. m(sh_Name s \<mapsto> s)) m hs n =
     (case filter (\<lambda>s. sh_Name s = n) hs of [] \<Rightarrow> m n | xs \<Rightarrow> Some (last xs))"
  by (induction hs arbitrary: m) (auto split: list.splits)

text \<open>A name that occurs once gets its own health back.\<close>

lemma main_lastHealth_posted:
  assumes "hc_ReadLastHealth (cfg_HealthCheck cfg)" "h_ServiceHealths h = ServiceHealths hs"
    and "s \<in> set hs" "sh_Name s \<notin> {[], EmptyServiceName}"
    and "\<And>s'. s' \<in> set hs \<Longrightarrow> sh_Name s' = sh_Name s \<Longrightarrow> s' = s"
  shows "main_lastHealth cfg (Inr h) (sh_Name s) = s"
proof -
  let ?xs = "filter (\<lambda>s'. sh_Name s' = sh_Name s) (ServiceHealths hs)"
  have "s \<in> set ?xs" using assms(3,4) by (simp add: ServiceHealths_filter)
  then have ne: "?xs \<noteq> []" by (metis empty_iff list.set(1))
  then have "last ?xs \<in> set ?xs" by (rule last_in_set)
  then have "last ?xs = s" using assms(5) by (auto simp: ServiceHealths_filter)
  with ne show ?thesis using assms(1,2)
    by (cases ?xs) (auto simp: main_lastHealth_def serviceHealthMap_def foldl_map_last)
qed

context validator
begin

lemma writes_PostHealth [writes_intros]:
  "writes (store_step thrC thrE) docs (PostHealth env x healths)"
  unfolding PostHealth_def by (intro writes_intros writes_upsert_health)

lemma writes_HealthCheckRunner_Run [writes_intros]:
  "writes (store_step thrC thrE) docs (HealthCheckRunner_Run env healths x)"
  unfolding HealthCheckRunner_Run_def by (intro writes_intros)

end

section \<open>A posted health is found again\<close>

text \<open>The health documents are only written by \<open>PostHealth\<close>: their keys are plain strings.\<close>

definition health_keys_plain :: "store \<Rightarrow> bool" where
  "health_keys_plain st \<longleftrightarrow> (\<forall>d \<in> set (st CollectionHealthChecks).
     \<exists>v h. map_of d ''validator_id'' = Some (BStr v) \<and> map_of d ''hostname'' = Some (BStr h))"

lemma matches_health_filter:
  "map_of d ''validator_id'' = Some (BStr v) \<Longrightarrow> map_of d ''hostname'' = Some (BStr h) \<Longrightarrow>
     matches (health_filter x) d \<longleftrightarrow> v = hr_validatorId x \<and> h = hr_hostname x"
  by (auto simp: health_filter_def field_values_def)

definition health_index :: index where
  "health_index = \<lparr>ix_Keys = [''validator_id'', ''hostname''], ix_PartialLong = False\<rparr>"

lemma unique_health [simp]: "unique_indexes CollectionHealthChecks = [health_index]"
  by (simp add: unique_indexes_def health_index_def collection_defs CollectionHealthChecks_def)

lemma same_health_key:
  assumes "map_of d ''validator_id'' = Some (BStr v)" "map_of d ''hostname'' = Some (BStr h)"
    and "map_of d' ''validator_id'' = Some (BStr v)" "map_of d' ''hostname'' = Some (BStr h)"
  shows "same_key d d' health_index"
  using assms by (simp add: same_key_def index_key_def health_index_def)

text \<open>After a successful post exactly one document has the validator's key, and it carries the healths.\<close>

lemma upserted_health:
  assumes "health_keys_plain st"
    and "updated CollectionHealthChecks (health_filter x) (health_on_update m hs t) st st' \<or>
      list_all (\<lambda>d. \<not> matches (health_filter x) d) (st CollectionHealthChecks) \<and>
      inserted CollectionHealthChecks
        (apply_set (health_on_update m hs t) (apply_set (health_on_insert x c) (eq_fields (health_filter x)))) st st'"
    and "d \<in> set (st' CollectionHealthChecks)" "matches (health_filter x) d"
  shows "map_of d ''service_healths'' = Some (BArr (map marshal_ServiceHealth (ServiceHealths hs)))"
  using assms(2)
proof (elim disjE conjE)
  assume "updated CollectionHealthChecks (health_filter x) (health_on_update m hs t) st st'"
  then obtain n where n: "n < length (st CollectionHealthChecks)"
    "matches (health_filter x) (st CollectionHealthChecks ! n)"
    "\<not> conflict CollectionHealthChecks
       (take n (st CollectionHealthChecks) @ drop (Suc n) (st CollectionHealthChecks))
       (apply_set (health_on_update m hs t) (st CollectionHealthChecks ! n))"
    "st' CollectionHealthChecks = (st CollectionHealthChecks)
       [n := apply_set (health_on_update m hs t) (st CollectionHealthChecks ! n)]"
    by (auto simp: updated_def)
  let ?ds = "st CollectionHealthChecks"
  let ?d' = "apply_set (health_on_update m hs t) (?ds ! n)"
  have keep: "map_of ?d' ''validator_id'' = map_of (?ds ! n) ''validator_id''"
    "map_of ?d' ''hostname'' = map_of (?ds ! n) ''hostname''"
    by (simp_all add: map_of_apply_set health_on_update_def)
  obtain v h where k: "map_of (?ds ! n) ''validator_id'' = Some (BStr v)" "map_of (?ds ! n) ''hostname'' = Some (BStr h)"
    using assms(1) nth_mem [OF n(1)] unfolding health_keys_plain_def by blast
  have "d = ?d' \<or> d \<in> set (take n ?ds @ drop (Suc n) ?ds)"
  proof -
    have "set (?ds[n := ?d']) \<subseteq> insert ?d' (set (take n ?ds @ drop (Suc n) ?ds))"
      using n(1) by (subst upd_conv_take_nth_drop) auto
    then show ?thesis using assms(3) n(4) by auto
  qed
  moreover have "d \<notin> set (take n ?ds @ drop (Suc n) ?ds)"
  proof
    assume d: "d \<in> set (take n ?ds @ drop (Suc n) ?ds)"
    then have "d \<in> set ?ds" by (auto dest: in_set_takeD in_set_dropD)
    then obtain v' h' where d': "map_of d ''validator_id'' = Some (BStr v')" "map_of d ''hostname'' = Some (BStr h')"
      using assms(1) by (auto simp: health_keys_plain_def)
    have "v' = v" "h' = h"
      using matches_health_filter [OF d', of x] matches_health_filter [OF k, of x] assms(4) n(2) by auto
    then have "same_key ?d' d health_index" using k d' keep by (intro same_health_key) auto
    with d n(3) show False by (auto simp: conflict_def list_ex_iff_set)
  qed
  ultimately have "d = ?d'" by blast
  then show ?thesis by (simp add: map_of_apply_set health_on_update_def)
next
  assume none: "list_all (\<lambda>d. \<not> matches (health_filter x) d) (st CollectionHealthChecks)"
    and "inserted CollectionHealthChecks
        (apply_set (health_on_update m hs t) (apply_set (health_on_insert x c) (eq_fields (health_filter x)))) st st'"
  then obtain i where "st' CollectionHealthChecks = st CollectionHealthChecks @ [with_id i
      (apply_set (health_on_update m hs t) (apply_set (health_on_insert x c) (eq_fields (health_filter x))))]"
    by (auto simp: inserted_def)
  with assms(3,4) none have "d = with_id i
      (apply_set (health_on_update m hs t) (apply_set (health_on_insert x c) (eq_fields (health_filter x))))"
    by (auto simp: list_all_iff)
  then show ?thesis by (simp add: map_of_apply_set health_on_update_def)
qed

lemma unmarshal_Health_services:
  assumes "unmarshal_Health d = Some h"
    "map_of d ''service_healths'' = Some (BArr (map marshal_ServiceHealth hs))"
  shows "h_ServiceHealths h = hs"
  using assms by (auto simp: unmarshal_Health_def bind_eq_Some_conv get_list_def simp del: map_map)

context lone_validator
begin

lemma PostHealth_FindLastHealth:
  assumes "health_keys_plain (docs w)" "run_state (PostHealth env x hs) w = (Inr True, w1)"
    and "docs w2 = docs w1" "run_state (FindLastHealth env x) w2 = (Inr h, w3)"
  shows "h_ServiceHealths h = ServiceHealths hs"
proof -
  obtain c wa where a: "run_state (Now env) w = (c, wa)" by fastforce
  obtain t wb where b: "run_state (Now env) wa = (t, wb)" by fastforce
  have wb: "docs wb = docs w" using a b quietD [OF quiet_now] by (metis snd_conv)
  let ?u = "health_on_update (pokt_MintDisabled (Pocket env)) hs t"
  obtain r wc where u: "run_state (UpsertOne (DB env) CollectionHealthChecks (health_filter x) ?u
      (health_on_insert x c)) wb = (r, wc)" by fastforce
  have "wc = w1 \<and> (\<exists>i. r = Inr i)"
    using assms(2) a b u by (auto simp: PostHealth_def run_simps split: sum.splits)
  then have up: "updated CollectionHealthChecks (health_filter x) ?u (docs w) (docs w1) \<or>
      list_all (\<lambda>d. \<not> matches (health_filter x) d) (docs w CollectionHealthChecks) \<and>
      inserted CollectionHealthChecks
        (apply_set ?u (apply_set (health_on_insert x c) (eq_fields (health_filter x)))) (docs w) (docs w1)"
    using upsert_law [OF u] wb by (auto simp: upsert_outcome_def)
  obtain r2 wd where f: "run_state (FindOne (DB env) CollectionHealthChecks (health_filter x)) w2 = (r2, wd)"
    by fastforce
  then obtain d where d: "r2 = Inr d" "unmarshal_Health d = Some h"
    using assms(4) by (auto simp: FindLastHealth_def run_simps split: sum.splits option.splits)
  have "d \<in> set (docs w1 CollectionHealthChecks)" "matches (health_filter x) d"
    using find_one_law [OF f] d(1) assms(3) by auto
  from unmarshal_Health_services [OF d(2) upserted_health [OF assms(1) up this]] show ?thesis .
qed

text \<open>A restarted process finds the health it posted last for each of its services.\<close>

lemma posted_health_found:
  assumes "health_keys_plain (docs w)" "run_state (PostHealth env x hs) w = (Inr True, w1)"
    and "docs w2 = docs w1" "run_state (FindLastHealth env x) w2 = (Inr h, w3)"
    and "hc_ReadLastHealth (cfg_HealthCheck (Cfg env))" "distinct (map sh_Name hs)"
    and "s \<in> set hs" "sh_Name s \<notin> {[], EmptyServiceName}"
  shows "main_lastHealth (Cfg env) (Inr h) (sh_Name s) = s"
proof (rule main_lastHealth_posted [OF assms(5) PostHealth_FindLastHealth [OF assms(1-4)] assms(7,8)])
  show "s' = s" if "s' \<in> set hs" "sh_Name s' = sh_Name s" for s'
    using assms(6,7) that by (metis distinct_map inj_on_eq_iff)
qed

end

end
