(* ===== verification/Validator_System.thy ===== *)
theory Validator_System
  imports Mint_Monitor Burn_Signer Burn_Executor Burn_Monitor Mint_Signer Mint_Executor Health_Check
begin

text \<open>
  The validator processes of \<open>main.go\<close> at work: each runs its enabled services and its health check,
  one turn of a service's loop at a time, on the documents all of them share. A schedule fixes in which
  order the validators' services take their turns; what happens between the single database operations
  of a turn is the interference that the locale \<open>validator\<close> allows around every operation. Every
  schedule refines the protocol of theory \<open>Protocol\<close>.
\<close>

section \<open>A process\<close>

text \<open>\<open>None\<close> is the empty service of a component that is disabled.\<close>

record 'w Process =
  pr_mintMonitor :: "MintMonitorRunner RunningService option"
  pr_burnSigner :: "'w BurnSignerRunner RunningService option"
  pr_burnExecutor :: "'w BurnExecutorRunner RunningService option"
  pr_burnMonitor :: "BurnMonitorRunner RunningService option"
  pr_mintSigner :: "MintSignerRunner RunningService option"
  pr_mintExecutor :: "MintExecutorRunner RunningService option"
  pr_healthCheck :: "HealthCheckRunner RunningService"

datatype Turn = MintMonitorTurn | BurnSignerTurn | BurnExecutorTurn | BurnMonitorTurn
  | MintSignerTurn | MintExecutorTurn | HealthCheckTurn

text \<open>
  What \<open>Health\<close> of the services returns, in one of the orders the map of factories can be iterated
  in; the empty services are left out, as \<open>ServiceHealths\<close> does with them anyway.
\<close>

definition service_health :: "'x RunningService option \<Rightarrow> ServiceHealth list" where
  "service_health s = (case s of None \<Rightarrow> [] | Some s \<Rightarrow> [RunnerService_Health s])"

definition process_healths :: "'w Process \<Rightarrow> ServiceHealth list" where
  "process_healths p = service_health (pr_mintMonitor p) @ service_health (pr_burnSigner p) @
     service_health (pr_burnExecutor p) @ service_health (pr_burnMonitor p) @
     service_health (pr_mintSigner p) @ service_health (pr_mintExecutor p) @
     [RunnerService_Health (pr_healthCheck p)]"

definition service_turn ::
    "('x \<Rightarrow> ('w, 'x result) io) \<Rightarrow> ('x \<Rightarrow> RunnerStatus) \<Rightarrow> ('w, nat) io \<Rightarrow>
      'x RunningService option \<Rightarrow> ('w, 'x RunningService option result) io" where
  "service_turn run status now s = (case s of
       None \<Rightarrow> ret (Inr None)
     | Some s \<Rightarrow> then_ok (RunnerService_turn run status now s) (\<lambda>s. ret (Inr (Some s))))"

definition process_turn ::
    "('w, 't) Env \<Rightarrow> Turn \<Rightarrow> 'w Process \<Rightarrow> ('w, 'w Process result) io" where
  "process_turn env turn p = (case turn of
       MintMonitorTurn \<Rightarrow>
         then_ok (service_turn (MintMonitor_Run env) MintMonitor_Status (Now env) (pr_mintMonitor p))
           (\<lambda>s. ret (Inr (p\<lparr>pr_mintMonitor := s\<rparr>)))
     | BurnSignerTurn \<Rightarrow>
         then_ok (service_turn (BurnSigner_Run env) BurnSigner_Status (Now env) (pr_burnSigner p))
           (\<lambda>s. ret (Inr (p\<lparr>pr_burnSigner := s\<rparr>)))
     | BurnExecutorTurn \<Rightarrow>
         then_ok (service_turn (BurnExecutor_Run env) BurnExecutor_Status (Now env) (pr_burnExecutor p))
           (\<lambda>s. ret (Inr (p\<lparr>pr_burnExecutor := s\<rparr>)))
     | BurnMonitorTurn \<Rightarrow>
         then_ok (service_turn (BurnMonitor_Run env) BurnMonitor_Status (Now env) (pr_burnMonitor p))
           (\<lambda>s. ret (Inr (p\<lparr>pr_burnMonitor := s\<rparr>)))
     | MintSignerTurn \<Rightarrow>
         then_ok (service_turn (MintSigner_Run env) MintSigner_Status (Now env) (pr_mintSigner p))
           (\<lambda>s. ret (Inr (p\<lparr>pr_mintSigner := s\<rparr>)))
     | MintExecutorTurn \<Rightarrow>
         then_ok (service_turn (MintExecutor_Run env) MintExecutor_Status (Now env) (pr_mintExecutor p))
           (\<lambda>s. ret (Inr (p\<lparr>pr_mintExecutor := s\<rparr>)))
     | HealthCheckTurn \<Rightarrow>
         then_ok (RunnerService_turn (HealthCheckRunner_Run env (process_healths p))
             HealthCheckRunner_Status (Now env) (pr_healthCheck p))
           (\<lambda>s. ret (Inr (p\<lparr>pr_healthCheck := s\<rparr>))))"

text \<open>A panic ends the process it occurs in; the others go on.\<close>

fun run_schedule ::
    "(nat \<Rightarrow> ('w, 't) Env) \<Rightarrow> (nat \<times> Turn) list \<Rightarrow> (nat \<Rightarrow> 'w Process option) \<Rightarrow>
      ('w, nat \<Rightarrow> 'w Process option) io" where
  "run_schedule envs [] ps = ret ps"
| "run_schedule envs ((i, turn) # rest) ps =
     (case ps i of
        None \<Rightarrow> run_schedule envs rest ps
      | Some p \<Rightarrow> do {
          r \<leftarrow> process_turn (envs i) turn p;
          run_schedule envs rest (ps(i := (case r of Inl _ \<Rightarrow> None | Inr p \<Rightarrow> Some p))) })"

section \<open>What the turns keep\<close>

text \<open>
  The mint signer of a process uses the threshold of the mint controller, and the signing operation
  of its burn signer changes no documents of its own.
\<close>

definition good_process ::
    "int \<Rightarrow> int \<Rightarrow> ('w \<Rightarrow> store) \<Rightarrow> 'w Process \<Rightarrow> bool" where
  "good_process thrC thrE docs p \<longleftrightarrow>
     (\<forall>s. pr_mintSigner p = Some s \<longrightarrow> ms_signerThreshold (rn_runner s) = thrE) \<and>
     (\<forall>s. pr_burnSigner p = Some s \<longrightarrow>
        (\<forall>m. writes (store_step thrC thrE) docs (CosmosSign (ps_Signer (bs_signer (rn_runner s))) m)))"

lemma service_turnE:
  assumes "can_return (service_turn run status now s) (Inr s')"
  obtains "s = None" "s' = None"
  | s0 s1 where "s = Some s0" "s' = Some s1" "can_return (run (rn_runner s0)) (Inr (rn_runner s1))"
  using assms unfolding service_turn_def RunnerService_turn_def
  by (auto elim!: can_return_then_okE can_return_bindE simp: updateHealth_def split: option.splits)

lemma MintSigner_Run_threshold:
  "can_return (MintSigner_Run env x) (Inr x') \<Longrightarrow> ms_signerThreshold x' = ms_signerThreshold x"
  unfolding MintSigner_Run_def MintSigner_UpdateBlocks_def MintSigner_UpdateValidatorCount_def
    MintSigner_UpdateMaxMintLimit_def
  by (auto elim!: can_return_then_okE can_return_bindE simp: keep_going_def split: sum.splits if_splits)

lemma BurnSigner_Run_signer:
  "can_return (BurnSigner_Run env x) (Inr x') \<Longrightarrow> bs_signer x' = bs_signer x"
  unfolding BurnSigner_Run_def BurnSigner_UpdateBlocks_def
  by (auto elim!: can_return_then_okE can_return_bindE simp: keep_going_def Let_def
      split: sum.splits if_splits)

lemma good_process_turn:
  assumes "can_return (process_turn env turn p) (Inr p')" "good_process thrC thrE docs p"
  shows "good_process thrC thrE docs p'"
  using assms unfolding process_turn_def
  by (cases turn)
     (auto elim!: can_return_then_okE service_turnE simp: good_process_def
       dest!: MintSigner_Run_threshold BurnSigner_Run_signer)

context validator
begin

lemma writes_service_turn:
  "(\<And>s'. s = Some s' \<Longrightarrow> writes (store_step thrC thrE) docs (run (rn_runner s'))) \<Longrightarrow>
     writes (store_step thrC thrE) docs (service_turn run status (Now env) s)"
  unfolding service_turn_def RunnerService_turn_def by (intro writes_intros) auto

lemma writes_process_turn:
  assumes "good_process thrC thrE docs p" "thrC = int64 (pokt_MultisigThreshold (Pocket env))"
  shows "writes (store_step thrC thrE) docs (process_turn env turn p)"
proof -
  have mm: "writes (store_step thrC thrE) docs (MintMonitor_Run env x)" for x
    by (rule writes_MintMonitor_Run)
  have be: "writes (store_step thrC thrE) docs (BurnExecutor_Run env x)" for x
    unfolding BurnExecutor_Run_def by (intro writes_intros)
  have bm: "writes (store_step thrC thrE) docs (BurnMonitor_Run env x)" for x
    unfolding BurnMonitor_Run_def BurnMonitor_UpdateCurrentBlockNumber_def by (intro writes_intros)
  have me: "writes (store_step thrC thrE) docs (MintExecutor_Run env x)" for x
    unfolding MintExecutor_Run_def MintExecutor_UpdateCurrentBlockNumber_def by (intro writes_intros)
  have ms: "writes (store_step thrC thrE) docs (MintSigner_Run env (rn_runner s))"
    if "pr_mintSigner p = Some s" for s
  proof -
    have "ms_signerThreshold (rn_runner s) = thrE" using assms(1) that by (simp add: good_process_def)
    then show ?thesis
      unfolding MintSigner_Run_def MintSigner_UpdateBlocks_def MintSigner_UpdateValidatorCount_def
        MintSigner_UpdateMaxMintLimit_def
      by (intro writes_rules writes_MintSigner_SyncTxs rely_clients)
         (auto elim!: can_return_then_okE can_return_bindE simp: keep_going_def split: sum.splits if_splits)
  qed
  have bs: "writes (store_step thrC thrE) docs (BurnSigner_Run env (rn_runner s))"
    if "pr_burnSigner p = Some s" for s
  proof -
    have "writes (store_step thrC thrE) docs (CosmosSign (ps_Signer (bs_signer (rn_runner s))) m)" for m
      using assms(1) that by (simp add: good_process_def)
    moreover have "bs_signer x = bs_signer (rn_runner s)"
      if "can_return (BurnSigner_UpdateBlocks env (rn_runner s)) (Inr x)" for x
      using that unfolding BurnSigner_UpdateBlocks_def
      by (auto elim!: can_return_bindE simp: keep_going_def Let_def split: sum.splits if_splits)
    moreover have "writes (store_step thrC thrE) docs (BurnSigner_UpdateBlocks env (rn_runner s))"
      unfolding BurnSigner_UpdateBlocks_def by (intro writes_intros)
    ultimately show ?thesis
      unfolding BurnSigner_Run_def using assms(2)
      by (intro writes_rules writes_BurnSigner_SyncTxs) auto
  qed
  show ?thesis
    unfolding process_turn_def using mm be bm me ms bs
    by (cases turn)
       (auto intro!: writes_intros writes_service_turn simp: RunnerService_turn_def)
qed

end

section \<open>Every schedule follows the protocol\<close>

lemma run_schedule_steps:
  assumes "\<And>i. validator (envs i) docs thrC thrE"
    and "\<And>i. thrC = int64 (pokt_MultisigThreshold (Pocket (envs i)))"
    and "\<And>i p. ps i = Some p \<Longrightarrow> good_process thrC thrE docs p"
  shows "(store_step thrC thrE)\<^sup>*\<^sup>* (docs w) (docs (snd (run_state (run_schedule envs schedule ps) w)))"
  using assms(3)
proof (induction schedule arbitrary: ps w)
  case Nil
  show ?case by (simp add: run_simps)
next
  case (Cons it rest)
  obtain i turn where it: "it = (i, turn)" by (cases it)
  show ?case
  proof (cases "ps i")
    case None
    with Cons it show ?thesis by simp
  next
    case (Some p)
    obtain r w1 where r: "run_state (process_turn (envs i) turn p) w = (r, w1)" by fastforce
    let ?ps = "ps(i := (case r of Inl _ \<Rightarrow> None | Inr p \<Rightarrow> Some p))"
    have good: "good_process thrC thrE docs p" using Cons.prems Some by blast
    have "(store_step thrC thrE)\<^sup>*\<^sup>* (docs w) (docs w1)"
      using writesD [OF validator.writes_process_turn [OF assms(1) [of i] good assms(2) [of i]], of w turn] r by simp
    moreover have "can_return (process_turn (envs i) turn p) r"
      using can_return_run [of "process_turn (envs i) turn p" w] r by simp
    then have "good_process thrC thrE docs q" if "?ps j = Some q" for j q
      using that Cons.prems good_process_turn [OF _ good] by (auto split: if_splits sum.splits)
    then have "(store_step thrC thrE)\<^sup>*\<^sup>* (docs w1) (docs (snd (run_state (run_schedule envs rest ?ps) w1)))"
      by (rule Cons.IH)
    ultimately show ?thesis using it Some r by (simp add: run_simps)
  qed
qed

end
