(* ===== verification/System_Properties.thy ===== *)
theory System_Properties
  imports Validator_System Reference_World
begin

text \<open>
  The properties of several validators at work on the shared database, of the loop that runs a
  service, and of the health documents from which a restarted validator resumes.
\<close>

section \<open>The shared database\<close>

text \<open>Two validators of the reference world, both with all their services enabled.\<close>

definition running :: "string \<Rightarrow> 'x \<Rightarrow> 'x RunningService" where
  "running name x = \<lparr>rn_name = name, rn_runner = x, rn_interval = 1000,
     rn_health = empty_ServiceHealth\<lparr>sh_Name := name\<rparr>\<rparr>"

definition ref_mint_signer :: MintSignerRunner where
  "ref_mint_signer = \<lparr>ms_address = ''0xkey'', ms_privateKey = \<lparr>key_AddressHex = ''0xKEY'',
       HashStructDomain = (\<lambda>_. Inr [1]), HashStructMessage = (\<lambda>_. Inr [2]), Keccak256 = id,
       key_Sign = (\<lambda>_. (replicate 65 0, None))\<rparr>, ms_vaultAddress = ref_vault,
     ms_wpoktAddress = ''0xcc'', ms_validatorCount = 2, ms_signerThreshold = 2, ms_domain = None,
     ms_cosmosHeight = 20, ms_minimumAmount = 10, ms_maximumAmount = Some 1000\<rparr>"

definition ref_health :: HealthCheckRunner where
  "ref_health = \<lparr>hr_poktSigners = [], hr_poktPublicKey = [], hr_poktAddress = [],
     hr_poktVaultAddress = ref_vault, hr_ethValidators = [], hr_ethAddress = [],
     hr_wpoktAddress = ''0xcc'', hr_hostname = ''host'', hr_validatorId = ''wpokt-validator-01''\<rparr>"

definition ref_process :: "ref_world Process" where
  "ref_process = \<lparr>pr_mintMonitor = Some (running MintMonitorName some_monitor),
     pr_burnSigner = Some (running BurnSignerName some_signer), pr_burnExecutor = None,
     pr_burnMonitor = None, pr_mintSigner = Some (running MintSignerName ref_mint_signer),
     pr_mintExecutor = None, pr_healthCheck = running HealthCheckName ref_health\<rparr>"

definition ref_processes :: "nat \<Rightarrow> ref_world Process option" where
  "ref_processes i = (if i < 2 then Some ref_process else None)"

definition ref_schedule :: "(nat \<times> Turn) list" where
  "ref_schedule = [(0, MintMonitorTurn), (1, MintMonitorTurn), (0, MintSignerTurn),
     (1, BurnSignerTurn), (0, HealthCheckTurn)]"

lemma ref_bridge:
  "validator (transfer_env ans) rw_docs 2 2"
  "(2::int) = int64 (pokt_MultisigThreshold (Pocket (transfer_env ans)))"
  "ref_processes i = Some p \<Longrightarrow> good_process 2 2 rw_docs p"
proof -
  show "validator (transfer_env ans) rw_docs 2 2"
    unfolding transfer_env_def by (rule ref_lone.is_validator)
  show "(2::int) = int64 (pokt_MultisigThreshold (Pocket (transfer_env ans)))"
    by (simp add: transfer_env_def ref_cfg_def is_int64_def)
  show "ref_processes i = Some p \<Longrightarrow> good_process 2 2 rw_docs p"
    by (auto simp: ref_processes_def ref_process_def good_process_def running_def ref_mint_signer_def
        some_signer_def ref_signer_def writes_ret split: if_splits)
qed

text \<open>C1: the bridge refines the protocol. Whatever turns the services of however many validators take,
  in whatever order, and however the database fails in between, the documents move only by the
  permitted inserts and updates.\<close>

theorem bridge_refines_protocol:
  assumes "\<And>i. validator (envs i) docs thrC thrE"
    and "\<And>i. thrC = int64 (pokt_MultisigThreshold (Pocket (envs i)))"
    and "\<And>i p. ps i = Some p \<Longrightarrow> good_process thrC thrE docs p"
  shows "(store_step thrC thrE)\<^sup>*\<^sup>* (docs w) (docs (snd (run_state (run_schedule envs schedule ps) w)))"
  by (rule run_schedule_steps [OF assms])

theorem bridge_refines_protocol_witness:
  "(store_step 2 2)\<^sup>*\<^sup>* empty_store (rw_docs (snd (run_state
     (run_schedule (\<lambda>_. transfer_env one_transfer) ref_schedule ref_processes) ref_init)))"
  using bridge_refines_protocol [of "\<lambda>_. transfer_env one_transfer" rw_docs 2 2 ref_processes ref_init
      ref_schedule, OF ref_bridge]
  by (simp add: ref_init_def)

text \<open>C2: no document is ever marked signed with too few signatures. In every state the bridge reaches,
  a signed mint has at least the threshold of signatures; a burn or invalid mint that is signed,
  submitted or successful has at least the multisig threshold of signatures and a sequence number,
  and one that is submitted or successful the hash of its transaction.\<close>

theorem bridge_keeps_signatures:
  assumes "\<And>i. validator (envs i) docs thrC thrE"
    and "\<And>i. thrC = int64 (pokt_MultisigThreshold (Pocket (envs i)))"
    and "\<And>i p. ps i = Some p \<Longrightarrow> good_process thrC thrE docs p"
    and "store_ok thrC thrE (docs w)"
    and "st = docs (snd (run_state (run_schedule envs schedule ps) w))"
  shows "(\<forall>d \<in> set (st CollectionMints). has_status d StatusSigned \<longrightarrow>
       (\<exists>gs. map_of d ''signatures'' = Some (strs gs) \<and> thrE \<le> int (length gs))) \<and>
     (\<forall>c \<in> {CollectionInvalidMints, CollectionBurns}. \<forall>d \<in> set (st c).
       (has_status d StatusSigned \<or> has_status d StatusSubmitted \<or> has_status d StatusSuccess \<longrightarrow>
         (\<exists>gs n. map_of d ''signatures'' = Some (marshal_sigs gs) \<and> thrC \<le> int (length gs) \<and>
            map_of d ''sequence'' = Some (BInt n) \<and> 0 \<le> n)) \<and>
       (has_status d StatusSubmitted \<or> has_status d StatusSuccess \<longrightarrow>
         (\<exists>h. h \<noteq> [] \<and> map_of d ''return_transaction_hash'' = Some (BStr h))))"
proof -
  have "store_ok thrC thrE st"
    unfolding assms(5) by (rule store_steps_ok [OF run_schedule_steps [OF assms(1-3)] assms(4)])
  then show ?thesis
    by (simp add: store_ok_def doc_ok_def mint_ok_def return_ok_def collection_lists)
qed

text \<open>A burn that has been paid, with the signatures of both validators.\<close>

definition paid_burn :: Burn where
  "paid_burn = some_burn\<lparr>b_Status := StatusSuccess, b_Sequence := Some 5,
     b_Signatures := [\<lparr>sig_Signer = ''0x01'', sig_Signature = ''0x0a''\<rparr>, \<lparr>sig_Signer = ''0x02'', sig_Signature = ''0x0b''\<rparr>],
     b_ReturnTransactionHash := ''0xcd''\<rparr>"

lemma paid_burn_fields:
  "has_status (marshal_Burn paid_burn) StatusSuccess"
  "map_of (marshal_Burn paid_burn) ''signatures'' = Some (marshal_sigs (b_Signatures paid_burn))"
  "map_of (marshal_Burn paid_burn) ''sequence'' = Some (BInt 5)"
  "map_of (marshal_Burn paid_burn) ''return_transaction_hash'' = Some (BStr ''0xcd'')"
  by (simp_all add: has_status_def marshal_Burn_def id_field_def paid_burn_def marshal_seq_def split: option.splits)

lemma paid_burn_ok: "store_ok 2 2 (rw_docs (world_with CollectionBurns [marshal_Burn paid_burn]))"
  using paid_burn_fields
  by (auto simp: store_ok_def world_with_def ref_init_def empty_store_def doc_ok_def plain_status_def
      mint_ok_def return_ok_def collection_lists has_status_def paid_burn_def)

theorem bridge_keeps_signatures_witness:
  "\<exists>gs. map_of (rw_docs (snd (run_state (run_schedule (\<lambda>_. transfer_env one_transfer) ref_schedule
     ref_processes) (world_with CollectionBurns [marshal_Burn paid_burn]))) CollectionBurns ! 0) ''signatures'' =
       Some (marshal_sigs gs) \<and> 2 \<le> length gs"
proof -
  let ?w = "world_with CollectionBurns [marshal_Burn paid_burn]"
  let ?st = "rw_docs (snd (run_state (run_schedule (\<lambda>_. transfer_env one_transfer) ref_schedule ref_processes) ?w))"
  have w: "rw_docs ?w CollectionBurns = [marshal_Burn paid_burn]"
    by (simp add: world_with_def ref_init_def)
  have "(store_step 2 2)\<^sup>*\<^sup>* (rw_docs ?w) ?st" by (rule run_schedule_steps [OF ref_bridge])
  from store_steps_docs [OF this paid_burn_ok, of CollectionBurns 0]
  have l: "0 < length (?st CollectionBurns)" "(doc_step CollectionBurns)\<^sup>*\<^sup>* (marshal_Burn paid_burn) (?st CollectionBurns ! 0)"
    by (simp_all add: w collection_lists)
  from doc_steps_terminal [OF l(2)] paid_burn_fields(1)
  have "has_status (?st CollectionBurns ! 0) StatusSuccess" by (simp add: collection_lists)
  moreover have "?st CollectionBurns ! 0 \<in> set (?st CollectionBurns)" using l(1) by (rule nth_mem)
  ultimately show ?thesis
    using bridge_keeps_signatures [of "\<lambda>_. transfer_env one_transfer" rw_docs 2 2 ref_processes ?w
        ?st ref_schedule, OF ref_bridge paid_burn_ok refl]
    by fastforce
qed

text \<open>C3: a document never loses its identity nor its end. While the bridge runs, every document keeps
  its place and all the fields that say which transfer it stands for, its status moves only along the
  status graph, and a failed document, or a burn or invalid mint that succeeded, never changes
  again.\<close>

theorem bridge_document_history:
  assumes "\<And>i. validator (envs i) docs thrC thrE"
    and "\<And>i. thrC = int64 (pokt_MultisigThreshold (Pocket (envs i)))"
    and "\<And>i p. ps i = Some p \<Longrightarrow> good_process thrC thrE docs p"
    and "store_ok thrC thrE (docs w)"
    and "st = docs (snd (run_state (run_schedule envs schedule ps) w))"
    and "c \<in> {CollectionMints, CollectionInvalidMints, CollectionBurns}" "n < length (docs w c)"
  shows "n < length (st c) \<and>
     (\<forall>k \<in> {''transaction_hash'', ''amount'', ''sender_address'', ''recipient_address'', ''log_index''}.
        map_of (st c ! n) k = map_of (docs w c ! n) k) \<and>
     (\<exists>s s'. has_status (docs w c ! n) s \<and> has_status (st c ! n) s' \<and> (next_status c)\<^sup>*\<^sup>* s s') \<and>
     (has_status (docs w c ! n) StatusFailed \<or>
      has_status (docs w c ! n) StatusSuccess \<and> c \<noteq> CollectionMints \<longrightarrow> st c ! n = docs w c ! n)"
proof -
  have c: "c \<in> set tracked_collections" using assms(6) by (auto simp: collection_lists)
  have "(store_step thrC thrE)\<^sup>*\<^sup>* (docs w) st"
    unfolding assms(5) by (rule run_schedule_steps [OF assms(1-3)])
  from store_steps_docs [OF this assms(4) c assms(7)]
  have h: "n < length (st c)" "(doc_step c)\<^sup>*\<^sup>* (docs w c ! n) (st c ! n)"
    by blast+
  have "{''transaction_hash'', ''amount'', ''sender_address'', ''recipient_address'', ''log_index''}
      \<inter> set mutable_fields = {}"
    by (simp add: mutable_fields_def)
  then have "\<forall>k \<in> {''transaction_hash'', ''amount'', ''sender_address'', ''recipient_address'', ''log_index''}.
      map_of (st c ! n) k = map_of (docs w c ! n) k"
    using doc_steps_fields [OF h(2)] by blast
  moreover have "\<exists>s. has_status (docs w c ! n) s"
    using assms(4,7) c by (auto simp: store_ok_def doc_ok_def plain_status_def)
  then have "\<exists>s s'. has_status (docs w c ! n) s \<and> has_status (st c ! n) s' \<and> (next_status c)\<^sup>*\<^sup>* s s'"
    using doc_steps_status [OF h(2)] by blast
  moreover have "c \<noteq> CollectionMints \<Longrightarrow> c \<in> set return_collections"
    using assms(6) by (auto simp: collection_lists)
  then have "has_status (docs w c ! n) StatusFailed \<or>
      has_status (docs w c ! n) StatusSuccess \<and> c \<noteq> CollectionMints \<longrightarrow> st c ! n = docs w c ! n"
    using doc_steps_terminal [OF h(2)] by blast
  ultimately show ?thesis using h(1) by blast
qed

theorem bridge_document_history_witness:
  "let w = world_with CollectionBurns [marshal_Burn (some_burn\<lparr>b_Status := StatusFailed\<rparr>)] in
     rw_docs (snd (run_state (run_schedule (\<lambda>_. transfer_env one_transfer) ref_schedule ref_processes) w))
       CollectionBurns ! 0 = marshal_Burn (some_burn\<lparr>b_Status := StatusFailed\<rparr>)"
proof -
  let ?d = "marshal_Burn (some_burn\<lparr>b_Status := StatusFailed\<rparr>)"
  have f: "has_status ?d StatusFailed"
    by (simp add: has_status_def marshal_Burn_def id_field_def split: option.splits)
  then have "store_ok 2 2 (rw_docs (world_with CollectionBurns [?d]))"
    by (auto simp: store_ok_def world_with_def ref_init_def empty_store_def doc_ok_def plain_status_def
        mint_ok_def return_ok_def collection_lists has_status_def)
  moreover have "rw_docs (world_with CollectionBurns [?d]) CollectionBurns = [?d]"
    by (simp add: world_with_def ref_init_def)
  ultimately show ?thesis
    using bridge_document_history [of "\<lambda>_. transfer_env one_transfer" rw_docs 2 2 ref_processes
        "world_with CollectionBurns [?d]" _ ref_schedule CollectionBurns 0, OF ref_bridge _ refl] f
    by simp
qed








end
