(* ===== verification/Key_Signers.thy ===== *)
theory Key_Signers
  imports Common_Util
begin

text \<open>
  The two implementations of \<open>common.Signer\<close>: keys derived from a mnemonic
  (\<open>common/mnemonic_signer.go\<close> with the derivations of \<open>common/cosmos.go\<close> and
  \<open>common/ethereum.go\<close>), and a key held by Google's key management service
  (\<open>common/gcp_kms_signer.go\<close>). The key libraries, ASN.1 and PEM are the record \<open>KeyLib\<close>, the remote
  service is a record of operations.
\<close>

section \<open>Key libraries\<close>

text \<open>
  \<open>'k\<close> is a private key, \<open>'p\<close> a parsed public key. \<open>WalletPrivateKey\<close> is the wallet of a mnemonic
  followed by the derivation along a path. \<open>RecoverCompact\<close> yields the uncompressed key of a compact
  signature, \<open>UnmarshalKeyInfo\<close> the algorithm identifier and the key bits of a DER key,
  \<open>UnmarshalSignature\<close> the two integers of a DER signature.
\<close>

record ('k, 'p) KeyLib =
  DeriveKey :: "string \<Rightarrow> string \<Rightarrow> string \<Rightarrow> bytes result"
  GenerateKey :: "bytes \<Rightarrow> 'k"
  WalletPrivateKey :: "string \<Rightarrow> string \<Rightarrow> 'k result"
  PrivKey_PubKey :: "'k \<Rightarrow> PubKey"
  PrivKey_Sign :: "'k \<Rightarrow> bytes \<Rightarrow> bytes result"
  PrivKey_Address :: "'k \<Rightarrow> bytes"
  ecdsa_Sign :: "bytes \<Rightarrow> 'k \<Rightarrow> bytes result"
  Keccak256_Hash :: "bytes \<Rightarrow> bytes"
  Sha256_Hash :: "bytes \<Rightarrow> bytes"
  PemDecode :: "string \<Rightarrow> bytes option"
  UnmarshalKeyInfo :: "bytes \<Rightarrow> (nat list \<times> bytes) result"
  UnmarshalSignature :: "bytes \<Rightarrow> (int \<times> int) result"
  UnmarshalPubkey :: "bytes \<Rightarrow> 'p result"
  PubkeyToAddress :: "'p \<Rightarrow> bytes"
  ParsePubKey :: "bytes \<Rightarrow> 'p result"
  SerializeCompressed :: "'p \<Rightarrow> bytes"
  RecoverCompact :: "bytes \<Rightarrow> bytes \<Rightarrow> bytes result"
  Ecrecover :: "bytes \<Rightarrow> bytes \<Rightarrow> bytes result"
  IsOverHalfOrder :: "bytes \<Rightarrow> bool"
  VerifyRS :: "bytes \<Rightarrow> bytes \<Rightarrow> bytes \<Rightarrow> 'p \<Rightarrow> bool"

definition DefaultBIP39Passphrase :: string where "DefaultBIP39Passphrase = []"

definition DefaultCosmosHDPath :: string where
  "DefaultCosmosHDPath = ''m/44'' @ [CHR 0x27] @ ''/118'' @ [CHR 0x27] @ ''/0'' @ [CHR 0x27] @ ''/0/0''"

definition DefaultETHHDPath :: string where
  "DefaultETHHDPath = ''m/44'' @ [CHR 0x27] @ ''/60'' @ [CHR 0x27] @ ''/0'' @ [CHR 0x27] @ ''/0/0''"

definition oidPublicKeyECDSA :: "nat list" where "oidPublicKeyECDSA = [1, 2, 840, 10045, 2, 1]"

text \<open>\<open>BytesToHash\<close>: the last 32 bytes, padded with zeros on the left.\<close>

definition BytesToHash :: "bytes \<Rightarrow> bytes" where
  "BytesToHash bs = (let bs = drop (length bs - 32) bs in replicate (32 - length bs) 0 @ bs)"

section \<open>cosmos.go, ethereum.go: derivations\<close>

definition CosmosPrivateKeyFromMnemonic :: "('k, 'p) KeyLib \<Rightarrow> string \<Rightarrow> 'k result" where
  "CosmosPrivateKeyFromMnemonic kl mnemonic =
     (case DeriveKey kl mnemonic DefaultBIP39Passphrase DefaultCosmosHDPath of
        Inl e \<Rightarrow> Inl e | Inr derivedPriv \<Rightarrow> Inr (GenerateKey kl derivedPriv))"

definition CosmosPublicKeyFromMnemonic :: "('k, 'p) KeyLib \<Rightarrow> string \<Rightarrow> PubKey result" where
  "CosmosPublicKeyFromMnemonic kl mnemonic =
     (case CosmosPrivateKeyFromMnemonic kl mnemonic of
        Inl e \<Rightarrow> Inl e | Inr privKey \<Rightarrow> Inr (PrivKey_PubKey kl privKey))"

definition CosmosPublicKeyHexFromMnemonic ::
    "(PubKey \<Rightarrow> bytes) \<Rightarrow> ('k, 'p) KeyLib \<Rightarrow> string \<Rightarrow> string result" where
  "CosmosPublicKeyHexFromMnemonic key_bytes kl mnemonic =
     (case CosmosPublicKeyFromMnemonic kl mnemonic of
        Inl e \<Rightarrow> Inl e | Inr pubKey \<Rightarrow> Inr (EncodeToString (key_bytes pubKey)))"

definition EthereumPrivateKeyFromMnemonic :: "('k, 'p) KeyLib \<Rightarrow> string \<Rightarrow> 'k result" where
  "EthereumPrivateKeyFromMnemonic kl mnemonic = WalletPrivateKey kl mnemonic DefaultETHHDPath"

section \<open>mnemonic_signer.go\<close>

record 'k MnemonicSigner =
  mn_ethAddress :: bytes
  mn_cosmosPubKey :: PubKey
  mn_ethPrivKey :: 'k
  mn_cosmosPrivKey :: 'k

definition NewMnemonicSigner :: "('k, 'p) KeyLib \<Rightarrow> string \<Rightarrow> 'k MnemonicSigner result" where
  "NewMnemonicSigner kl mnemonic =
     (case EthereumPrivateKeyFromMnemonic kl mnemonic of
        Inl e \<Rightarrow> Inl (wrap_error ''failed to create ethereum private key'' e)
      | Inr ethPrivKey \<Rightarrow>
     (case CosmosPrivateKeyFromMnemonic kl mnemonic of
        Inl e \<Rightarrow> Inl (wrap_error ''failed to create cosmos private key'' e)
      | Inr cosmosPrivKey \<Rightarrow> Inr \<lparr>
          mn_ethAddress = PrivKey_Address kl ethPrivKey,
          mn_cosmosPubKey = PrivKey_PubKey kl cosmosPrivKey,
          mn_ethPrivKey = ethPrivKey,
          mn_cosmosPrivKey = cosmosPrivKey\<rparr>))"

definition MnemonicSigner_EthSign ::
    "('k, 'p) KeyLib \<Rightarrow> 'k MnemonicSigner \<Rightarrow> bytes \<Rightarrow> bytes result" where
  "MnemonicSigner_EthSign kl s data =
     (let digest = (if length data \<noteq> 32 then Keccak256_Hash kl data else data) in
      case ecdsa_Sign kl (BytesToHash digest) (mn_ethPrivKey s) of
        Inl e \<Rightarrow> Inl e
      | Inr signature \<Rightarrow>
          if length signature \<le> 64 then Inl (Panic ''index out of range'')
          else Inr (if signature ! 64 = 0 \<or> signature ! 64 = 1
                    then signature[64 := signature ! 64 + 27] else signature))"

definition MnemonicSigner_CosmosSign ::
    "('k, 'p) KeyLib \<Rightarrow> 'k MnemonicSigner \<Rightarrow> bytes \<Rightarrow> bytes result" where
  "MnemonicSigner_CosmosSign kl s data = PrivKey_Sign kl (mn_cosmosPrivKey s) data"

definition MnemonicSigner_Signer :: "('k, 'p) KeyLib \<Rightarrow> 'k MnemonicSigner \<Rightarrow> 'w CosmosSigner" where
  "MnemonicSigner_Signer kl s = \<lparr>CosmosPublicKey = mn_cosmosPubKey s,
     CosmosSign = (\<lambda>data. ret (MnemonicSigner_CosmosSign kl s data))\<rparr>"

section \<open>gcp_kms_signer.go\<close>

record 'w KmsClient =
  kms_GetCryptoKeyVersion :: "string \<Rightarrow> ('w, string result) io"
  kms_GetPublicKey :: "string \<Rightarrow> ('w, string result) io"
  kms_AsymmetricSign :: "string \<Rightarrow> bytes \<Rightarrow> ('w, bytes result) io"

record 'p GcpKmsSigner =
  gk_keyName :: string
  gk_ethAddress :: bytes
  gk_cosmosPubKey :: PubKey
  gk_secp256k1PubKey :: 'p

definition resolvePubKeyBytes ::
    "('k, 'p) KeyLib \<Rightarrow> 'w KmsClient \<Rightarrow> string \<Rightarrow> ('w, bytes result) io" where
  "resolvePubKeyBytes kl client keyName = do {
     r \<leftarrow> kms_GetPublicKey client keyName;
     ret (case r of
         Inl e \<Rightarrow> Inl (wrap_error ''failed to get public key'' e)
       | Inr publicKeyPem \<Rightarrow>
       (case PemDecode kl publicKeyPem of
          None \<Rightarrow> Inl (Err ''public key PEM block empty'')
        | Some block \<Rightarrow>
       (case UnmarshalKeyInfo kl block of
          Inl e \<Rightarrow> Inl (wrap_error ''could not unmarshal public key PEM block'' e)
        | Inr (gotAlg, key) \<Rightarrow>
            if gotAlg \<noteq> oidPublicKeyECDSA then Inl (Err ''public key algorithm is not ecdsa'')
            else Inr key))) }"

text \<open>The address of an uncompressed key; slicing off the first byte of an empty key panics.\<close>

definition getEthAddr :: "('k, 'p) KeyLib \<Rightarrow> bytes \<Rightarrow> bytes result" where
  "getEthAddr kl bs =
     (if bs = [] then Inl (Panic ''slice bounds out of range'')
      else Inr (drop 12 (Keccak256_Hash kl (drop 1 bs))))"

definition EC_SIGN_SECP256K1_SHA256 :: string where
  "EC_SIGN_SECP256K1_SHA256 = ''EC_SIGN_SECP256K1_SHA256''"

definition NewGcpKmsSigner ::
    "('k, 'p) KeyLib \<Rightarrow> 'w KmsClient result \<Rightarrow> string \<Rightarrow> ('w, 'p GcpKmsSigner result) io" where
  "NewGcpKmsSigner kl newClient keyName =
     (case newClient of
        Inl e \<Rightarrow> ret (Inl (wrap_error ''failed to create KMS client'' e))
      | Inr client \<Rightarrow> do {
     v \<leftarrow> kms_GetCryptoKeyVersion client keyName;
     case v of
       Inl e \<Rightarrow> ret (Inl (wrap_error ''failed to get key version details'' e))
     | Inr algorithm \<Rightarrow>
     if algorithm \<noteq> EC_SIGN_SECP256K1_SHA256
     then ret (Inl (Err ''key algorithm is not EC_SIGN_P256_SHA256''))
     else do {
     r \<leftarrow> resolvePubKeyBytes kl client keyName;
     ret (case r of
         Inl e \<Rightarrow> Inl (wrap_error ''failed to resolve public key bytes'' e)
       | Inr pubKeyBytes \<Rightarrow>
       (case UnmarshalPubkey kl pubKeyBytes of
          Inl e \<Rightarrow> Inl (wrap_error ''failed to unmarshal public key'' e)
        | Inr ethPublicKey \<Rightarrow>
       (case getEthAddr kl pubKeyBytes of
          Inl p \<Rightarrow> Inl p
        | Inr ethAddress \<Rightarrow>
       (if ethAddress \<noteq> PubkeyToAddress kl ethPublicKey then Inl (Err ''ethereum address mismatch'')
        else case ParsePubKey kl pubKeyBytes of
          Inl e \<Rightarrow> Inl (wrap_error ''failed to get secp256k1 public key'' e)
        | Inr secp256k1PubKey \<Rightarrow> Inr \<lparr>gk_keyName = keyName, gk_ethAddress = ethAddress,
            gk_cosmosPubKey = Secp256k1PubKey (SerializeCompressed kl secp256k1PubKey),
            gk_secp256k1PubKey = secp256k1PubKey\<rparr>)))) } })"

text \<open>The number of bytes of an integer, \<open>(BitLen + 7) / 8\<close>: the least \<open>n\<close> with \<open>|v| < 256^n\<close>.\<close>

fun byte_length :: "nat \<Rightarrow> nat" where
  "byte_length v = (if v = 0 then 0 else Suc (byte_length (v div 256)))"

declare byte_length.simps [simp del]

text \<open>
  The loop over the recovery ids: \<open>recoverErr\<close> is the error of the last attempt made, the signature
  is the one whose key has the signer's address.
\<close>

fun recover_loop ::
    "('k, 'p) KeyLib \<Rightarrow> bytes \<Rightarrow> bytes \<Rightarrow> bytes \<Rightarrow> byte list \<Rightarrow> error option \<Rightarrow>
      (error option \<times> bytes option) result" where
  "recover_loop kl hash rs ethAddress [] recoverErr = Inr (recoverErr, None)"
| "recover_loop kl hash rs ethAddress (recoveryID # ids) recoverErr =
     (case RecoverCompact kl ((recoveryID + 27) # rs) hash of
        Inl e \<Rightarrow> recover_loop kl hash rs ethAddress ids (Some e)
      | Inr pubKey \<Rightarrow>
          (case getEthAddr kl pubKey of
             Inl p \<Rightarrow> Inl p
           | Inr address \<Rightarrow>
               if address = ethAddress then Inr (None, Some (rs @ [recoveryID]))
               else recover_loop kl hash rs ethAddress ids None))"

text \<open>From the integers of the signature on; \<open>r\<close> and \<open>s\<close> are taken by absolute value.\<close>

definition eth_signature ::
    "('k, 'p) KeyLib \<Rightarrow> bytes \<Rightarrow> bytes \<Rightarrow> nat \<Rightarrow> nat \<Rightarrow> bytes result" where
  "eth_signature kl hash ethAddress r s =
     (if byte_length r = 0 \<or> byte_length r > 32 \<or> byte_length s = 0 \<or> byte_length s > 32
      then Inl (Err ''asymmetric signature denied on size'')
      else case recover_loop kl hash (FillBytes 32 r @ FillBytes 32 s) ethAddress [0, 1] None of
        Inl p \<Rightarrow> Inl p
      | Inr (Some e, _) \<Rightarrow> Inl (wrap_error ''asymmetric signature address recovery failed'' e)
      | Inr (None, None) \<Rightarrow> Inl (Err ''signature address mismatch'')
      | Inr (None, Some finalSig) \<Rightarrow>
      (case Ecrecover kl hash finalSig of
         Inl e \<Rightarrow> Inl (wrap_error ''failed to recover public key'' e)
       | Inr recoveredPubKey \<Rightarrow>
      (case UnmarshalPubkey kl recoveredPubKey of
         Inl e \<Rightarrow> Inl (wrap_error ''failed to unmarshal recoverred public key'' e)
       | Inr recoveredPubKeyECDSA \<Rightarrow>
           if PubkeyToAddress kl recoveredPubKeyECDSA \<noteq> ethAddress
           then Inl (Err ''recovered address mismatch'')
           else Inr (if finalSig ! 64 < 4 then finalSig[64 := finalSig ! 64 + 27] else finalSig))))"

definition ethSignHash ::
    "('k, 'p) KeyLib \<Rightarrow> bytes \<Rightarrow> 'w KmsClient \<Rightarrow> string \<Rightarrow> bytes \<Rightarrow> ('w, bytes result) io" where
  "ethSignHash kl hash client keyName ethAddress = do {
     resp \<leftarrow> kms_AsymmetricSign client keyName hash;
     ret (case resp of
         Inl e \<Rightarrow> Inl (wrap_error ''asymmetric sign operation'' e)
       | Inr signature \<Rightarrow>
       (case UnmarshalSignature kl signature of
          Inl e \<Rightarrow> Inl (wrap_error ''asymmetric signature encoding'' e)
        | Inr (r, s) \<Rightarrow> eth_signature kl hash ethAddress (nat \<bar>r\<bar>) (nat \<bar>s\<bar>))) }"

text \<open>Parsing of a 64-byte signature: only the lower of the two forms of \<open>s\<close> is accepted.\<close>

definition signatureFromBytes :: "('k, 'p) KeyLib \<Rightarrow> bytes \<Rightarrow> (bytes \<times> bytes) result" where
  "signatureFromBytes kl sigStr =
     (if length sigStr \<noteq> 64 then Inl (Err ''signature length is not 64 bytes'')
      else if IsOverHalfOrder kl (drop 32 sigStr) then Inl (Err ''signature is not in lower-S form'')
      else Inr (take 32 sigStr, drop 32 sigStr))"

definition cosmosSignHash ::
    "('k, 'p) KeyLib \<Rightarrow> 'w KmsClient \<Rightarrow> string \<Rightarrow> bytes \<Rightarrow> 'p \<Rightarrow> ('w, bytes result) io" where
  "cosmosSignHash kl client keyName hash pubKey = do {
     resp \<leftarrow> kms_AsymmetricSign client keyName hash;
     ret (case resp of
         Inl e \<Rightarrow> Inl (wrap_error ''failed to sign'' e)
       | Inr signature \<Rightarrow>
       (case UnmarshalSignature kl signature of
          Inl e \<Rightarrow> Inl (wrap_error ''asymmetric signature encoding'' e)
        | Inr (r, s) \<Rightarrow>
            if byte_length (nat \<bar>r\<bar>) > 32 \<or> byte_length (nat \<bar>s\<bar>) > 32
            then Inl (Panic ''slice bounds out of range'')
            else let finalSig = FillBytes 32 (nat \<bar>r\<bar>) @ FillBytes 32 (nat \<bar>s\<bar>) in
            (case signatureFromBytes kl finalSig of
               Inl e \<Rightarrow> Inl (wrap_error ''failed to parse signature'' e)
             | Inr (rb, sb) \<Rightarrow>
                 if \<not> VerifyRS kl rb sb hash pubKey then Inl (Err ''signature verification failed'')
                 else Inr finalSig))) }"

definition GcpKmsSigner_EthSign ::
    "('k, 'p) KeyLib \<Rightarrow> 'w KmsClient \<Rightarrow> 'p GcpKmsSigner \<Rightarrow> bytes \<Rightarrow> ('w, bytes result) io" where
  "GcpKmsSigner_EthSign kl client s data =
     (let digest = (if length data \<noteq> 32 then Keccak256_Hash kl data else data) in
      ethSignHash kl (BytesToHash digest) client (gk_keyName s) (gk_ethAddress s))"

definition GcpKmsSigner_CosmosSign ::
    "('k, 'p) KeyLib \<Rightarrow> 'w KmsClient \<Rightarrow> 'p GcpKmsSigner \<Rightarrow> bytes \<Rightarrow> ('w, bytes result) io" where
  "GcpKmsSigner_CosmosSign kl client s data =
     (let digest = (if length data \<noteq> 32 then Sha256_Hash kl data else data) in
      cosmosSignHash kl client (gk_keyName s) (BytesToHash digest) (gk_secp256k1PubKey s))"

definition GcpKmsSigner_Signer ::
    "('k, 'p) KeyLib \<Rightarrow> 'w KmsClient \<Rightarrow> 'p GcpKmsSigner \<Rightarrow> 'w CosmosSigner" where
  "GcpKmsSigner_Signer kl client s = \<lparr>CosmosPublicKey = gk_cosmosPubKey s,
     CosmosSign = GcpKmsSigner_CosmosSign kl client s\<rparr>"

section \<open>Facts\<close>

lemma length_BytesToHash [simp]: "length (BytesToHash bs) = 32"
  by (simp add: BytesToHash_def Let_def)

lemma BytesToHash_id: "length bs = 32 \<Longrightarrow> BytesToHash bs = bs"
  by (simp add: BytesToHash_def)

lemma byte_length_bound: "v < 256 ^ byte_length v"
proof (induction v rule: byte_length.induct)
  case (1 v)
  show ?case
  proof (cases "v = 0")
    case True
    then show ?thesis by (simp add: byte_length.simps)
  next
    case False
    then have "v div 256 < 256 ^ byte_length (v div 256)" by (rule 1)
    then have "v < 256 * 256 ^ byte_length (v div 256)"
      by (metis div_less_iff_less_mult mult.commute zero_less_numeral)
    then show ?thesis using False by (subst byte_length.simps) simp
  qed
qed

text \<open>A signature found by the loop is the given \<open>r\<close> and \<open>s\<close> with a recovery id that leads to the address.\<close>

lemma recover_loop_found:
  assumes "recover_loop kl hash rs ethAddress ids e0 = Inr (e, Some sig)"
  shows "\<exists>v \<in> set ids. sig = rs @ [v] \<and> e = None \<and>
     (\<exists>pub. RecoverCompact kl ((v + 27) # rs) hash = Inr pub \<and> getEthAddr kl pub = Inr ethAddress)"
  using assms by (induction ids arbitrary: e0) (auto split: sum.splits if_splits)

lemma eth_signature_Inr:
  assumes "eth_signature kl hash ethAddress r s = Inr sig"
  shows "\<exists>v \<in> {0, 1}. sig = FillBytes 32 r @ FillBytes 32 s @ [v + 27] \<and>
     (\<exists>pub. RecoverCompact kl ((v + 27) # FillBytes 32 r @ FillBytes 32 s) hash = Inr pub \<and>
        getEthAddr kl pub = Inr ethAddress) \<and>
     (\<exists>bs pk. Ecrecover kl hash (FillBytes 32 r @ FillBytes 32 s @ [v]) = Inr bs \<and>
        UnmarshalPubkey kl bs = Inr pk \<and> PubkeyToAddress kl pk = ethAddress)"
proof -
  let ?rs = "FillBytes 32 r @ FillBytes 32 s"
  have len: "length ?rs = 64" by simp
  define bump where "bump fs = (if fs ! 64 < 4 then fs[64 := fs ! 64 + 27] else fs)" for fs :: bytes
  obtain fs bs pk where l: "recover_loop kl hash ?rs ethAddress [0, 1] None = Inr (None, Some fs)"
    and e: "Ecrecover kl hash fs = Inr bs" "UnmarshalPubkey kl bs = Inr pk" "PubkeyToAddress kl pk = ethAddress"
    and sig: "sig = bump fs"
    using assms unfolding eth_signature_def bump_def [symmetric]
    by (auto simp del: recover_loop.simps split: if_splits sum.splits prod.splits option.splits)
  obtain v where v: "v \<in> {0, 1}" "fs = ?rs @ [v]"
    "\<exists>pub. RecoverCompact kl ((v + 27) # ?rs) hash = Inr pub \<and> getEthAddr kl pub = Inr ethAddress"
    using recover_loop_found [OF l] by auto
  have small: "v < 4" using v(1) by auto
  have "fs ! 64 = v" "fs[64 := v + 27] = ?rs @ [v + 27]"
    unfolding v(2) using len by (simp_all add: nth_append list_update_append)
  with sig small have "sig = ?rs @ [v + 27]" by (simp add: bump_def)
  with v e show ?thesis by (intro bexI [of _ v]) auto
qed

lemma cosmosSignHash_Inr:
  assumes "can_return (cosmosSignHash kl client keyName hash pubKey) (Inr sig)"
  shows "length sig = 64 \<and> \<not> IsOverHalfOrder kl (drop 32 sig) \<and>
     VerifyRS kl (take 32 sig) (drop 32 sig) hash pubKey"
  using assms unfolding cosmosSignHash_def
  by (auto elim!: can_return_bindE simp: Let_def signatureFromBytes_def split: sum.splits prod.splits if_splits)

end
