(* ===== verification/Service_Properties.thy ===== *)
theory Service_Properties
  imports System_Properties Key_Signers
begin

text \<open>
  The properties of a single process: the loop that runs a service, the health documents from which
  a restarted validator resumes, and the signatures of a key held by the key management service.
\<close>

section \<open>The loop of a service\<close>

text \<open>C31: a stopped service finishes its turn, reports to the wait group exactly once, publishes the status
  of its runner under its own name, and runs no further turn, whatever would have come after.\<close>

theorem service_stops_once:
  assumes "can_return (RunnerService_Start run status now (stops @ True # rest) s) (Inr (s', n))"
  shows "n = 1 \<and> rn_name s' = rn_name s \<and> sh_Name (RunnerService_Health s') = rn_name s \<and>
     sh_PoktHeight (RunnerService_Health s') = rs_PoktHeight (status (rn_runner s')) \<and>
     sh_EthBlockNumber (RunnerService_Health s') = rs_EthBlockNumber (status (rn_runner s')) \<and>
     can_return (RunnerService_Start run status now (stops @ [True]) s) (Inr (s', n))"
proof -
  have "n = 1" using RunnerService_Start_done [OF assms(1)] by simp
  moreover obtain s0 where t: "can_return (RunnerService_turn run status now s0) (Inr s')"
    and s0: "rn_name s0 = rn_name s"
    using RunnerService_Start_last [OF assms(1)] by auto
  ultimately show ?thesis
    using RunnerService_turn_health(1-4) [OF t] assms(1) RunnerService_Start_stops [of run status now stops rest s]
    by (simp add: RunnerService_Health_def s0)
qed

text \<open>A runner that counts its runs: two turns, then the stop signal.\<close>

definition counter_run :: "int \<Rightarrow> (ref_world, int result) io" where
  "counter_run x = ret (Inr (x + 1))"

definition counter_status :: "int \<Rightarrow> RunnerStatus" where
  "counter_status x = \<lparr>rs_EthBlockNumber = [], rs_PoktHeight = FormatInt x\<rparr>"

definition counter_service :: "int RunningService" where
  "counter_service = \<lparr>rn_name = ''count'', rn_runner = 7, rn_interval = 5,
     rn_health = empty_ServiceHealth\<lparr>sh_Name := ''count''\<rparr>\<rparr>"

theorem service_stops_once_witness:
  "case fst (run_state (RunnerService_Start counter_run counter_status (ret 3) ([False] @ True # [False])
       counter_service) ref_init) of
     Inr (s', n) \<Rightarrow> n = 1 \<and> sh_PoktHeight (RunnerService_Health s') = ''9''
   | Inl _ \<Rightarrow> False"
proof -
  let ?m = "RunnerService_Start counter_run counter_status (ret 3) ([False] @ True # [False]) counter_service"
  obtain s' n where e: "fst (run_state ?m ref_init) = Inr (s', n)" "rn_runner s' = 9"
    by (simp add: RunnerService_turn_def counter_run_def counter_service_def run_simps updateHealth_def)
  then have "can_return ?m (Inr (s', n))" by (auto simp: can_return_def)
  moreover have "FormatInt 9 = ''9''" by code_simp
  ultimately show ?thesis using service_stops_once [of counter_run counter_status "ret 3" "[False]"] e
    by (simp add: counter_status_def del: RunnerService_Start.simps append.simps)
qed

section \<open>Restart\<close>

text \<open>C30: a restarted validator resumes where it stopped. When the published health of the mint monitor and
  of the burn monitor has been posted and is the last health found on restart, the new monitors
  start at the height and the block the old ones had reached.\<close>

theorem restart_resumes:
  assumes "lone_validator env docs" "health_keys_plain (docs w)"
    and "hc_ReadLastHealth (cfg_HealthCheck (Cfg env))"
    and "can_return (RunnerService_turn (MintMonitor_Run env) MintMonitor_Status (Now env) s0) (Inr s)"
    and "rn_name s0 = MintMonitorName"
    and "can_return (RunnerService_turn (BurnMonitor_Run env) BurnMonitor_Status (Now env) t0) (Inr t)"
    and "rn_name t0 = BurnMonitorName"
    and "pr_mintMonitor p = Some s" "pr_burnMonitor p = Some t"
    and "distinct (map sh_Name (process_healths p))"
    and "run_state (PostHealth env x (process_healths p)) w = (Inr True, w1)" "docs w2 = docs w1"
    and "run_state (FindLastHealth env x) w2 = (Inr h, w3)"
    and "is_int64 (mm_startHeight (rn_runner s))" "0 < mm_startHeight (rn_runner s)"
    and "is_int64 (bm_startBlockNumber (rn_runner t))" "0 < bm_startBlockNumber (rn_runner t)"
  shows "mm_startHeight (MintMonitor_InitStartHeight env
       (main_lastHealth (Cfg env) (Inr h) MintMonitorName) new) = mm_startHeight (rn_runner s) \<and>
     bm_startBlockNumber (BurnMonitor_InitStartBlockNumber env
       (main_lastHealth (Cfg env) (Inr h) BurnMonitorName) new') = bm_startBlockNumber (rn_runner t)"
proof -
  have mem: "rn_health s \<in> set (process_healths p)" "rn_health t \<in> set (process_healths p)"
    by (simp_all add: process_healths_def service_health_def RunnerService_Health_def assms(8,9))
  have n: "sh_Name (rn_health s) = MintMonitorName" "sh_Name (rn_health t) = BurnMonitorName"
    using RunnerService_turn_health(3) [OF assms(4)] RunnerService_turn_health(3) [OF assms(6)] assms(5,7)
    by simp_all
  note found = lone_validator.posted_health_found [OF assms(1,2,11-13,3,10)]
  have "main_lastHealth (Cfg env) (Inr h) MintMonitorName = rn_health s"
    "main_lastHealth (Cfg env) (Inr h) BurnMonitorName = rn_health t"
    using found [OF mem(1)] found [OF mem(2)] n
    by (simp_all add: MintMonitorName_def BurnMonitorName_def EmptyServiceName_def)
  moreover have "sh_PoktHeight (rn_health s) = FormatInt (mm_startHeight (rn_runner s))"
    "sh_EthBlockNumber (rn_health t) = FormatInt (bm_startBlockNumber (rn_runner t))"
    using RunnerService_turn_health(1) [OF assms(4)] RunnerService_turn_health(2) [OF assms(6)]
    by (simp_all add: MintMonitor_Status_def BurnMonitor_Status_def)
  ultimately show ?thesis using assms(14-17)
    by (simp add: MintMonitor_InitStartHeight_def BurnMonitor_InitStartBlockNumber_def init_start_block_def)
qed

text \<open>A process whose monitors have reached height 1 and block 12 posts its health.\<close>

definition resume_env :: "(ref_world, ref_tx) Env" where
  "resume_env = ref_env (ref_cfg\<lparr>cfg_HealthCheck := \<lparr>hc_IntervalMillis = 5, hc_ReadLastHealth = True\<rparr>\<rparr>)
     (ref_lib ref_decode) no_answers"

definition some_burn_monitor :: BurnMonitorRunner where
  "some_burn_monitor = \<lparr>bm_startBlockNumber = 12, bm_currentBlockNumber = 12, bm_minimumAmount = 10\<rparr>"

definition resumed_mint_monitor :: "MintMonitorRunner RunningService" where
  "resumed_mint_monitor = updateHealth (running MintMonitorName some_monitor)
     (MintMonitor_Status some_monitor) 3"

definition resumed_burn_monitor :: "BurnMonitorRunner RunningService" where
  "resumed_burn_monitor = updateHealth (running BurnMonitorName some_burn_monitor)
     (BurnMonitor_Status some_burn_monitor) 3"

definition resume_process :: "ref_world Process" where
  "resume_process = ref_process\<lparr>pr_mintMonitor := Some resumed_mint_monitor,
     pr_burnMonitor := Some resumed_burn_monitor\<rparr>"

definition posted :: "bool result \<times> ref_world" where
  "posted = run_state (PostHealth resume_env ref_health (process_healths resume_process)) ref_init"

definition found_health :: "Health result" where
  "found_health = fst (run_state (FindLastHealth resume_env ref_health) (snd posted))"

lemma posted: "fst posted = Inr True" "found_health = Inr (projr found_health)"
  by code_simp+

lemma resumed_turns:
  "can_return (RunnerService_turn (MintMonitor_Run resume_env) MintMonitor_Status (Now resume_env)
     (running MintMonitorName some_monitor)) (Inr resumed_mint_monitor)"
  "can_return (RunnerService_turn (BurnMonitor_Run resume_env) BurnMonitor_Status (Now resume_env)
     (running BurnMonitorName some_burn_monitor)) (Inr resumed_burn_monitor)"
proof -
  let ?w = "ref_init\<lparr>rw_clock := 3\<rparr>"
  have "fst (run_state (RunnerService_turn (MintMonitor_Run resume_env) MintMonitor_Status (Now resume_env)
      (running MintMonitorName some_monitor)) ?w) = Inr resumed_mint_monitor"
    by code_simp
  then show "can_return (RunnerService_turn (MintMonitor_Run resume_env) MintMonitor_Status (Now resume_env)
     (running MintMonitorName some_monitor)) (Inr resumed_mint_monitor)" by (auto simp: can_return_def)
  have "fst (run_state (RunnerService_turn (BurnMonitor_Run resume_env) BurnMonitor_Status (Now resume_env)
      (running BurnMonitorName some_burn_monitor)) ?w) = Inr resumed_burn_monitor"
    by code_simp
  then show "can_return (RunnerService_turn (BurnMonitor_Run resume_env) BurnMonitor_Status (Now resume_env)
     (running BurnMonitorName some_burn_monitor)) (Inr resumed_burn_monitor)" by (auto simp: can_return_def)
qed

lemma resume_names:
  "map sh_Name (process_healths resume_process) =
     [MintMonitorName, BurnSignerName, BurnMonitorName, MintSignerName, HealthCheckName]"
  "distinct [MintMonitorName, BurnSignerName, BurnMonitorName, MintSignerName, HealthCheckName]"
  by code_simp+

theorem restart_resumes_witness:
  "mm_startHeight (MintMonitor_InitStartHeight resume_env
     (main_lastHealth (Cfg resume_env) found_health MintMonitorName) (some_monitor\<lparr>mm_startHeight := 0\<rparr>)) = 1"
proof -
  have lone: "lone_validator resume_env rw_docs"
    unfolding resume_env_def by (rule ref_lone.lone_validator_axioms)
  obtain w3 where f: "run_state (FindLastHealth resume_env ref_health) (snd posted) = (Inr (projr found_health), w3)"
    using posted(2) unfolding found_health_def by (metis prod.collapse)
  have "health_keys_plain (rw_docs ref_init)"
    by (simp add: health_keys_plain_def ref_init_def empty_store_def)
  moreover have "run_state (PostHealth resume_env ref_health (process_healths resume_process)) ref_init =
      (Inr True, snd posted)"
    using posted(1) unfolding posted_def by (metis prod.collapse)
  ultimately show ?thesis
    using restart_resumes [OF lone _ _ resumed_turns(1) _ resumed_turns(2), of ref_init resume_process ref_health
        "snd posted" "snd posted" "projr found_health" w3, OF _ _ _ _ _ _ _ _ refl f] posted(2)
      resume_names
    by (simp add: resume_env_def running_def resume_process_def resumed_mint_monitor_def
        resumed_burn_monitor_def updateHealth_def some_monitor_def some_burn_monitor_def is_int64_def)
qed

text \<open>The health posted before a service has finished its first turn makes a restart forget its height.
  A new service publishes its name with empty heights; when this is the health that is posted, as the
  first turn of the health check does, a monitor restarted from it begins at the configured height
  or at the current one, not at the height reached before.\<close>

theorem early_health_forgets_height:
  assumes "lone_validator env docs" "health_keys_plain (docs w)"
    and "hc_ReadLastHealth (cfg_HealthCheck (Cfg env))"
    and "NewRunnerService MintMonitorName (Some m) True interval = Some s" "pr_mintMonitor p = Some s"
    and "distinct (map sh_Name (process_healths p))"
    and "run_state (PostHealth env x (process_healths p)) w = (Inr True, w1)" "docs w2 = docs w1"
    and "run_state (FindLastHealth env x) w2 = (Inr h, w3)"
  shows "mm_startHeight (MintMonitor_InitStartHeight env
       (main_lastHealth (Cfg env) (Inr h) MintMonitorName) new) =
     (if pokt_StartHeight (Pocket env) > 0 then pokt_StartHeight (Pocket env) else mm_currentHeight new)"
proof -
  have s: "rn_health s = empty_ServiceHealth\<lparr>sh_Name := MintMonitorName\<rparr>"
    using assms(4) by (auto simp: NewRunnerService_def split: if_splits)
  have "rn_health s \<in> set (process_healths p)"
    by (simp add: process_healths_def service_health_def RunnerService_Health_def assms(5))
  from lone_validator.posted_health_found [OF assms(1,2,7-9,3,6) this]
  have "main_lastHealth (Cfg env) (Inr h) MintMonitorName = rn_health s"
    by (simp add: s MintMonitorName_def EmptyServiceName_def)
  then show ?thesis by (simp add: MintMonitor_InitStartHeight_def s empty_ServiceHealth_def Let_def)
qed

definition young_process :: "ref_world Process" where
  "young_process = ref_process\<lparr>pr_burnMonitor := Some resumed_burn_monitor\<rparr>"

definition posted_early :: "bool result \<times> ref_world" where
  "posted_early = run_state (PostHealth resume_env ref_health (process_healths young_process)) (snd posted)"

definition found_early :: "Health result" where
  "found_early = fst (run_state (FindLastHealth resume_env ref_health) (snd posted_early))"

lemma posted_early: "fst posted_early = Inr True" "found_early = Inr (projr found_early)"
  "NewRunnerService MintMonitorName (Some some_monitor) True 1000 =
     Some (running MintMonitorName some_monitor)"
  "map sh_Name (process_healths young_process) =
     [MintMonitorName, BurnSignerName, BurnMonitorName, MintSignerName, HealthCheckName]"
  "list_all (\<lambda>d. map_of d ''validator_id'' = Some (BStr ''wpokt-validator-01'') \<and>
     map_of d ''hostname'' = Some (BStr ''host'')) (rw_docs (snd posted) CollectionHealthChecks)"
  by code_simp+

text \<open>Height 1 has been posted by the process before; the new process posts, crashes, and starts at 40.\<close>

theorem early_health_forgets_height_witness:
  "mm_startHeight (MintMonitor_InitStartHeight resume_env
     (main_lastHealth (Cfg resume_env) found_early MintMonitorName) (some_monitor\<lparr>mm_currentHeight := 40\<rparr>)) = 40"
proof -
  have lone: "lone_validator resume_env rw_docs"
    unfolding resume_env_def by (rule ref_lone.lone_validator_axioms)
  obtain w3 where f: "run_state (FindLastHealth resume_env ref_health) (snd posted_early) =
      (Inr (projr found_early), w3)"
    using posted_early(2) unfolding found_early_def by (metis prod.collapse)
  have k: "health_keys_plain (rw_docs (snd posted))"
    using posted_early(5) by (auto simp: health_keys_plain_def list_all_iff)
  have p: "run_state (PostHealth resume_env ref_health (process_healths young_process)) (snd posted) =
      (Inr True, snd posted_early)"
    using posted_early(1) unfolding posted_early_def by (metis prod.collapse)
  have h: "hc_ReadLastHealth (cfg_HealthCheck (Cfg resume_env))" "pokt_StartHeight (Pocket resume_env) = 0"
    by code_simp+
  have y: "pr_mintMonitor young_process = Some (running MintMonitorName some_monitor)"
    by (simp add: young_process_def ref_process_def)
  have d: "distinct (map sh_Name (process_healths young_process))"
    unfolding posted_early(4) by (rule resume_names(2))
  from early_health_forgets_height [OF lone k h(1) posted_early(3) y d p refl f] show ?thesis
    unfolding h(2) posted_early(2) [symmetric] by simp
qed

end
