(* ===== verification/Key_Properties.thy ===== *)
theory Key_Properties
  imports Key_Signers
begin

text \<open>
  The properties of the signatures made with a key of the key management service, with a concrete key
  library and service on which they are evaluated.
\<close>

definition ref_key_bytes65 :: bytes where
  "ref_key_bytes65 = 4 # replicate 64 9"

definition ref_keys :: "(unit, unit) KeyLib" where
  "ref_keys = \<lparr>
     DeriveKey = (\<lambda>_ _ _. Inl (Err ''no derivation'')), GenerateKey = (\<lambda>_. ()),
     WalletPrivateKey = (\<lambda>_ _. Inr ()), PrivKey_PubKey = (\<lambda>_. Secp256k1PubKey (replicate 33 1)),
     PrivKey_Sign = (\<lambda>_ _. Inr (replicate 64 1)), PrivKey_Address = (\<lambda>_. replicate 20 9),
     ecdsa_Sign = (\<lambda>_ _. Inr (replicate 65 0)), Keccak256_Hash = take 32, Sha256_Hash = take 32,
     PemDecode = (\<lambda>_. Some []), UnmarshalKeyInfo = (\<lambda>_. Inr (oidPublicKeyECDSA, ref_key_bytes65)),
     UnmarshalSignature = (\<lambda>bs. Inr (5, int (SetBytes bs))), UnmarshalPubkey = (\<lambda>_. Inr ()),
     PubkeyToAddress = (\<lambda>_. replicate 20 9), ParsePubKey = (\<lambda>_. Inr ()),
     SerializeCompressed = (\<lambda>_. replicate 33 1),
     RecoverCompact = (\<lambda>sig _. if hd sig = 28 then Inr ref_key_bytes65 else Inl (Err ''invalid point'')),
     Ecrecover = (\<lambda>_ _. Inr ref_key_bytes65), IsOverHalfOrder = (\<lambda>s. unat (hd s) \<ge> 128),
     VerifyRS = (\<lambda>_ _ _ _. True)\<rparr>"

text \<open>A service that answers every request with the signature \<open>(5, s)\<close>.\<close>

definition ref_kms :: "bytes \<Rightarrow> unit KmsClient" where
  "ref_kms s = \<lparr>kms_GetCryptoKeyVersion = (\<lambda>_. ret (Inr EC_SIGN_SECP256K1_SHA256)),
     kms_GetPublicKey = (\<lambda>_. ret (Inr ''pem'')), kms_AsymmetricSign = (\<lambda>_ _. ret (Inr s))\<rparr>"

definition ref_kms_signer :: "unit GcpKmsSigner" where
  "ref_kms_signer = \<lparr>gk_keyName = ''key'', gk_ethAddress = replicate 20 9,
     gk_cosmosPubKey = Secp256k1PubKey (replicate 33 1), gk_secp256k1PubKey = ()\<rparr>"

text \<open>C34: an Ethereum signature of the key management service has the form the contracts expect, \<open>r\<close>, \<open>s\<close>
  and a recovery byte 27 or 28, and the key recovered from it for the digest has the signer's own
  address.\<close>

theorem kms_eth_signature:
  assumes "can_return (GcpKmsSigner_EthSign kl client s data) (Inr sig)"
    and "digest = BytesToHash (if length data \<noteq> 32 then Keccak256_Hash kl data else data)"
  shows "length sig = 65 \<and> (\<exists>v \<in> {27, 28}. last sig = v \<and> (\<exists>pub.
     RecoverCompact kl (v # butlast sig) digest = Inr pub \<and> getEthAddr kl pub = Inr (gk_ethAddress s)))"
proof -
  obtain r t where sig: "eth_signature kl digest (gk_ethAddress s) r t = Inr sig"
    using assms(1) unfolding GcpKmsSigner_EthSign_def ethSignHash_def Let_def assms(2)
    by (auto elim!: can_return_bindE split: sum.splits prod.splits)
  from eth_signature_Inr [OF this] obtain v where v: "v \<in> {0, 1}"
    "sig = (FillBytes 32 r @ FillBytes 32 t) @ [v + 27]"
    "\<exists>pub. RecoverCompact kl ((v + 27) # FillBytes 32 r @ FillBytes 32 t) digest = Inr pub \<and>
       getEthAddr kl pub = Inr (gk_ethAddress s)"
    by auto
  have "butlast sig = FillBytes 32 r @ FillBytes 32 t" "last sig = v + 27" "length sig = 65"
    unfolding v(2) by (simp_all add: butlast_append)
  moreover have "v + 27 \<in> {27, 28}" using v(1) by auto
  ultimately show ?thesis using v(3) by metis
qed

theorem kms_eth_signature_witness:
  "last (projr (fst (run_state (GcpKmsSigner_EthSign ref_keys (ref_kms [6]) ref_kms_signer
     (replicate 32 5)) ()))) \<in> {27, 28}"
proof -
  let ?m = "GcpKmsSigner_EthSign ref_keys (ref_kms [6]) ref_kms_signer (replicate 32 5)"
  let ?sig = "projr (fst (run_state ?m ()))"
  have "fst (run_state ?m ()) = Inr ?sig" by code_simp
  then have "can_return ?m (Inr ?sig)" by (metis can_return_def)
  from kms_eth_signature [OF this refl] show ?thesis by blast
qed

text \<open>A Cosmos signature of the key management service has 64 bytes, is in lower-S form and verifies
  under the signer's key.\<close>

theorem kms_cosmos_signature:
  assumes "can_return (GcpKmsSigner_CosmosSign kl client s data) (Inr sig)"
    and "digest = BytesToHash (if length data \<noteq> 32 then Sha256_Hash kl data else data)"
  shows "length sig = 64 \<and> \<not> IsOverHalfOrder kl (drop 32 sig) \<and>
     VerifyRS kl (take 32 sig) (drop 32 sig) digest (gk_secp256k1PubKey s)"
  using assms(1) unfolding GcpKmsSigner_CosmosSign_def Let_def assms(2) by (rule cosmosSignHash_Inr)

theorem kms_cosmos_signature_witness:
  "length (projr (fst (run_state (GcpKmsSigner_CosmosSign ref_keys (ref_kms [6]) ref_kms_signer
     (replicate 32 5)) ()))) = 64"
proof -
  let ?m = "GcpKmsSigner_CosmosSign ref_keys (ref_kms [6]) ref_kms_signer (replicate 32 5)"
  let ?sig = "projr (fst (run_state ?m ()))"
  have "fst (run_state ?m ()) = Inr ?sig" by code_simp
  then have "can_return ?m (Inr ?sig)" by (metis can_return_def)
  from kms_cosmos_signature [OF this refl] show ?thesis by blast
qed

text \<open>A signature in higher-S form is not turned into the equivalent lower one: when the service answers
  with such a signature, valid as it is, signing fails.\<close>

theorem kms_rejects_high_S:
  assumes "digest = BytesToHash (if length data \<noteq> 32 then Sha256_Hash kl data else data)"
    and "\<And>resp. can_return (kms_AsymmetricSign client (gk_keyName s) digest) (Inr resp) \<Longrightarrow>
      \<exists>r t. UnmarshalSignature kl resp = Inr (r, t) \<and> IsOverHalfOrder kl (FillBytes 32 (nat \<bar>t\<bar>))"
  shows "\<not> can_return (GcpKmsSigner_CosmosSign kl client s data) (Inr sig)"
proof
  assume "can_return (GcpKmsSigner_CosmosSign kl client s data) (Inr sig)"
  then have "can_return (cosmosSignHash kl client (gk_keyName s) digest (gk_secp256k1PubKey s)) (Inr sig)"
    by (simp add: GcpKmsSigner_CosmosSign_def Let_def assms(1))
  then show False
    unfolding cosmosSignHash_def Let_def
    by (auto elim!: can_return_bindE dest!: assms(2) simp: signatureFromBytes_def
        split: sum.splits prod.splits if_splits)
qed

theorem kms_rejects_high_S_witness:
  "\<forall>sig. fst (run_state (GcpKmsSigner_CosmosSign ref_keys (ref_kms (replicate 32 255)) ref_kms_signer
     (replicate 32 5)) ()) \<noteq> Inr sig"
proof
  fix sig
  have t: "FillBytes 32 (SetBytes (replicate 32 255)) = replicate 32 255"
    using FillBytes_SetBytes [of "replicate 32 255" 32] by simp
  have high: "\<exists>r t. UnmarshalSignature ref_keys resp = Inr (r, t) \<and> IsOverHalfOrder ref_keys (FillBytes 32 (nat \<bar>t\<bar>))"
    if "can_return (kms_AsymmetricSign (ref_kms (replicate 32 255)) k d) (Inr resp)" for k d resp
  proof -
    have "resp = replicate 32 255" using that by (auto simp: ref_kms_def)
    moreover have "128 \<le> unat (hd (replicate 32 (255 :: byte)))" by code_simp
    ultimately show ?thesis using t by (simp add: ref_keys_def)
  qed
  let ?m = "GcpKmsSigner_CosmosSign ref_keys (ref_kms (replicate 32 255)) ref_kms_signer (replicate 32 5)"
  have no: "\<not> can_return ?m (Inr sig)" by (rule kms_rejects_high_S [OF refl high])
  show "fst (run_state ?m ()) \<noteq> Inr sig"
  proof
    assume "fst (run_state ?m ()) = Inr sig"
    then have "can_return ?m (Inr sig)" by (metis can_return_run)
    with no show False by (rule notE)
  qed
qed

end
