(* ===== verification/App_Signer.thy ===== *)
theory App_Signer
  imports Service_Context Key_Signers "HOL-Library.List_Lexorder"
begin

text \<open>
  \<open>app/signer.go\<close>: the signer of a process, from a mnemonic or from the key management service, and the
  multisig account made of the configured public keys. \<open>unmarshal\<close> stands for the parser of public
  keys, \<open>newClient\<close> for the connection to the key management service.
\<close>

definition CreatePocketSigner ::
    "('k, 'p) KeyLib \<Rightarrow> 'w KmsClient result \<Rightarrow> CosmosConfig \<Rightarrow> ('w, 'w CosmosSigner result) io" where
  "CreatePocketSigner kl newClient config =
     (if pokt_Mnemonic config = [] \<and> pokt_GcpKmsKeyName config = []
      then ret (Inl (Err ''both Mnemonic and GcpKmsKeyName are empty''))
      else if pokt_Mnemonic config \<noteq> []
      then ret (case NewMnemonicSigner kl (pokt_Mnemonic config) of
             Inl e \<Rightarrow> Inl e | Inr s \<Rightarrow> Inr (MnemonicSigner_Signer kl s))
      else do {
        r \<leftarrow> NewGcpKmsSigner kl newClient (pokt_GcpKmsKeyName config);
        ret (case (r, newClient) of
            (Inl e, _) \<Rightarrow> Inl e
          | (Inr s, Inl e) \<Rightarrow> Inl e
          | (Inr s, Inr client) \<Rightarrow> Inr (GcpKmsSigner_Signer kl client s)) })"

text \<open>The loop over the configured keys: the parsed keys, and the last index that holds the signer's own.\<close>

fun multisig_keys ::
    "(bytes \<Rightarrow> error option) \<Rightarrow> PubKey \<Rightarrow> nat \<Rightarrow> PubKey list \<Rightarrow> int \<Rightarrow> string list \<Rightarrow>
      (PubKey list \<times> int) result" where
  "multisig_keys unmarshal own index pks signerIndex [] = Inr (pks, signerIndex)"
| "multisig_keys unmarshal own index pks signerIndex (pk # rest) =
     (case CosmosPublicKeyFromHex unmarshal pk of
        Inl e \<Rightarrow> Inl (wrap_error ''error parsing multisig public key'' e)
      | Inr pKey \<Rightarrow> multisig_keys unmarshal own (Suc index) (pks @ [pKey])
                     (if pKey = own then int index else signerIndex) rest)"

text \<open>
  The keys sorted by address; two keys with one address are one key, so the instability of
  \<open>sort.Slice\<close> does not show. An error of the address encoding is ignored and leaves the address
  empty.
\<close>

definition make_multisig :: "'t Lib \<Rightarrow> int \<Rightarrow> PubKey list \<Rightarrow> PubKey" where
  "make_multisig l threshold pks = MultisigPubKey (nat threshold) (sort_key (PubKey_Address l) pks)"

definition multisig_address :: "'t Lib \<Rightarrow> string \<Rightarrow> PubKey \<Rightarrow> string" where
  "multisig_address l prefix multisigPk =
     (case Bech32FromBytes l prefix (PubKey_Address l multisigPk) of Inl _ \<Rightarrow> [] | Inr a \<Rightarrow> a)"

definition GetPocketSignerAndMultisig ::
    "'t Lib \<Rightarrow> (bytes \<Rightarrow> error option) \<Rightarrow> CosmosConfig \<Rightarrow> ('w, 'w CosmosSigner result) io \<Rightarrow>
      ('w, 'w PocketSigner result) io" where
  "GetPocketSignerAndMultisig l unmarshal config createSigner = do {
     r \<leftarrow> createSigner;
     ret (case r of
         Inl e \<Rightarrow> Inl (wrap_error ''error initializing pokt signer'' e)
       | Inr signer \<Rightarrow>
       (case Bech32FromBytes l (pokt_Bech32Prefix config) (PubKey_Address l (CosmosPublicKey signer)) of
          Inl e \<Rightarrow> Inl (wrap_error ''error getting pokt address'' e)
        | Inr poktAddress \<Rightarrow>
       (case multisig_keys unmarshal (CosmosPublicKey signer) 0 [] (-1) (pokt_MultisigPublicKeys config) of
          Inl e \<Rightarrow> Inl e
        | Inr (pks, signerIndex) \<Rightarrow>
            if signerIndex = -1
            then Inl (Err ''could not find current signer in list of multisig public keys'')
            else if pokt_MultisigThreshold config = 0 \<or>
                    pokt_MultisigThreshold config > int (length (pokt_MultisigPublicKeys config))
            then Inl (Err ''multisig threshold is invalid'')
            else let multisigPk = make_multisig l (int64 (pokt_MultisigThreshold config)) pks;
                     multisigAddress = multisig_address l (pokt_Bech32Prefix config) multisigPk in
            if \<not> EqualFold multisigAddress (pokt_MultisigAddress config)
            then Inl (Err ''multisig address does not match vault address'')
            else Inr \<lparr>ps_Signer = signer, ps_SignerAddress = poktAddress, ps_SignerIndex = signerIndex,
                      ps_Multisig = multisigPk, ps_MultisigAddress = multisigAddress\<rparr>))) }"

record EthereumSigner =
  es_PrivateKey :: EthKey
  es_Address :: string

definition GetEthereumSigner ::
    "(string \<Rightarrow> EthKey result) \<Rightarrow> EthereumConfig \<Rightarrow> EthereumSigner result" where
  "GetEthereumSigner hexToECDSA config =
     (case hexToECDSA (eth_PrivateKey config) of
        Inl e \<Rightarrow> Inl (wrap_error ''error initializing ethereum signer'' e)
      | Inr ethPK \<Rightarrow> Inr \<lparr>es_PrivateKey = ethPK, es_Address = key_AddressHex ethPK\<rparr>)"

section \<open>Facts\<close>

lemma multisig_keys_Inr:
  assumes "multisig_keys unmarshal own index pks signerIndex hexes = Inr (keys, i)"
  shows "\<exists>ks. keys = pks @ ks \<and> map Inr ks = map (CosmosPublicKeyFromHex unmarshal) hexes \<and>
     (i = signerIndex \<and> own \<notin> set ks \<or>
      (\<exists>j < length ks. i = int (index + j) \<and> ks ! j = own))"
  using assms
proof (induction hexes arbitrary: index pks signerIndex)
  case (Cons h hexes)
  then obtain k where k: "CosmosPublicKeyFromHex unmarshal h = Inr k"
    and r: "multisig_keys unmarshal own (Suc index) (pks @ [k])
      (if k = own then int index else signerIndex) hexes = Inr (keys, i)"
    by (auto split: sum.splits)
  from Cons.IH [OF r] obtain ks where ks: "keys = (pks @ [k]) @ ks"
    "map Inr ks = map (CosmosPublicKeyFromHex unmarshal) hexes"
    "i = (if k = own then int index else signerIndex) \<and> own \<notin> set ks \<or>
      (\<exists>j < length ks. i = int (Suc index + j) \<and> ks ! j = own)"
    by blast
  have "i = signerIndex \<and> own \<notin> set (k # ks) \<or>
      (\<exists>j < length (k # ks). i = int (index + j) \<and> (k # ks) ! j = own)"
    using ks(3)
  proof (elim disjE exE conjE)
    fix j assume "j < length ks" "i = int (Suc index + j)" "ks ! j = own"
    then show ?thesis by (intro disjI2 exI [of _ "Suc j"]) simp
  next
    assume "i = (if k = own then int index else signerIndex)" "own \<notin> set ks"
    then show ?thesis by (cases "k = own") (auto intro: exI [of _ 0])
  qed
  then show ?case using ks(1,2) k by (intro exI [of _ "k # ks"]) simp
qed simp

lemma mset_map_Inr: "mset (map Inr xs :: ('a + 'b) list) = mset (map Inr ys) \<Longrightarrow> mset xs = mset ys"
  using multiset.inj_map [OF inj_Inr] by (auto simp: mset_map dest: injD)

text \<open>The multisig does not depend on the order in which the keys are configured.\<close>

lemma make_multisig_order:
  assumes "mset ks = mset ks'" "inj_on (PubKey_Address l) (set ks)"
  shows "make_multisig l n ks = make_multisig l n ks'"
proof -
  let ?f = "PubKey_Address l"
  have s: "set ks = set ks'" using assms(1) by (rule mset_eq_setD)
  have "sort (map ?f ks) = map ?f (sort_key ?f ks)" "sort (map ?f ks) = map ?f (sort_key ?f ks')"
    using assms(1) by (intro properties_for_sort; simp)+
  then have "map ?f (sort_key ?f ks) = map ?f (sort_key ?f ks')" by simp
  then have "sort_key ?f ks = sort_key ?f ks'"
    by (rule map_inj_on) (use assms(2) s in simp)
  then show ?thesis by (simp add: make_multisig_def)
qed

lemma GetPocketSigner_Inr:
  assumes "can_return (GetPocketSignerAndMultisig l unmarshal config createSigner) (Inr ps)"
  shows "\<exists>ks. map Inr ks = map (CosmosPublicKeyFromHex unmarshal) (pokt_MultisigPublicKeys config) \<and>
     (\<exists>j < length ks. ps_SignerIndex ps = int j \<and> ks ! j = CosmosPublicKey (ps_Signer ps)) \<and>
     pokt_MultisigThreshold config \<noteq> 0 \<and> pokt_MultisigThreshold config \<le> int (length ks) \<and>
     ps_Multisig ps = make_multisig l (int64 (pokt_MultisigThreshold config)) ks \<and>
     ps_MultisigAddress ps = multisig_address l (pokt_Bech32Prefix config) (ps_Multisig ps) \<and>
     EqualFold (ps_MultisigAddress ps) (pokt_MultisigAddress config) \<and>
     can_return createSigner (Inr (ps_Signer ps))"
proof -
  from assms obtain signer pks i where c: "can_return createSigner (Inr signer)"
    and k: "multisig_keys unmarshal (CosmosPublicKey signer) 0 [] (-1) (pokt_MultisigPublicKeys config) = Inr (pks, i)"
    and i: "i \<noteq> -1" "pokt_MultisigThreshold config \<noteq> 0"
      "pokt_MultisigThreshold config \<le> int (length (pokt_MultisigPublicKeys config))"
    and ps: "ps_Signer ps = signer" "ps_SignerIndex ps = i"
      "ps_Multisig ps = make_multisig l (int64 (pokt_MultisigThreshold config)) pks"
      "ps_MultisigAddress ps = multisig_address l (pokt_Bech32Prefix config) (ps_Multisig ps)"
      "EqualFold (ps_MultisigAddress ps) (pokt_MultisigAddress config)"
    unfolding GetPocketSignerAndMultisig_def
    by (auto elim!: can_return_bindE simp: Let_def not_less split: sum.splits prod.splits if_splits)
  from multisig_keys_Inr [OF k] i(1) obtain j where
    m: "map Inr pks = map (CosmosPublicKeyFromHex unmarshal) (pokt_MultisigPublicKeys config)"
    and j: "j < length pks" "i = int j" "pks ! j = CosmosPublicKey signer"
    by auto
  have "length pks = length (pokt_MultisigPublicKeys config)" using m by (metis length_map)
  with c i ps m j show ?thesis by (intro exI [of _ pks]) auto
qed

end
