(* ===== verification/Config_Reading.thy ===== *)
theory Config_Reading
  imports App_Signer
begin

text \<open>
  How a process obtains its configuration: the file and its validation (\<open>app/config.go\<close>), the
  environment (\<open>app/env.go\<close>), the secret manager (\<open>app/gsm.go\<close>), the log level (\<open>app/logger.go\<close>).
  \<open>log.Fatal\<close> is the error \<open>Fatal\<close>. Reading a file, parsing YAML and loading an \<open>.env\<close> file are
  arguments, as are the services behind the keys.
\<close>

section \<open>env.go\<close>

text \<open>
  The new value of a field from its old value: an unset or empty variable, or one that does not parse,
  leaves it alone. An unset variable is the empty string, as \<open>os.Getenv\<close> has it.
\<close>

definition env_string :: "(string \<Rightarrow> string) \<Rightarrow> string \<Rightarrow> string \<Rightarrow> string" where
  "env_string getenv name old = (if getenv name \<noteq> [] then getenv name else old)"

definition env_list :: "(string \<Rightarrow> string) \<Rightarrow> string \<Rightarrow> string list \<Rightarrow> string list" where
  "env_list getenv name old = (if getenv name \<noteq> [] then Split (getenv name) CHR '','' else old)"

definition env_parsed ::
    "(string \<Rightarrow> 'a option) \<Rightarrow> (string \<Rightarrow> string) \<Rightarrow> string \<Rightarrow> 'a \<Rightarrow> 'a" where
  "env_parsed parse getenv name old =
     (if getenv name \<noteq> [] then (case parse (getenv name) of None \<Rightarrow> old | Some v \<Rightarrow> v) else old)"

abbreviation env_int :: "(string \<Rightarrow> string) \<Rightarrow> string \<Rightarrow> int \<Rightarrow> int" where
  "env_int \<equiv> env_parsed ParseInt"

abbreviation env_uint :: "(string \<Rightarrow> string) \<Rightarrow> string \<Rightarrow> int \<Rightarrow> int" where
  "env_uint \<equiv> env_parsed ParseUint"

abbreviation env_bool :: "(string \<Rightarrow> string) \<Rightarrow> string \<Rightarrow> bool \<Rightarrow> bool" where
  "env_bool \<equiv> env_parsed ParseBool"

definition env_MongoDB :: "(string \<Rightarrow> string) \<Rightarrow> MongoConfig \<Rightarrow> MongoConfig" where
  "env_MongoDB getenv c = \<lparr>
     mdb_URI = env_string getenv ''MONGODB_URI'' (mdb_URI c),
     mdb_Database = env_string getenv ''MONGODB_DATABASE'' (mdb_Database c),
     mdb_TimeoutMillis = env_int getenv ''MONGODB_TIMEOUT_MS'' (mdb_TimeoutMillis c)\<rparr>"

definition env_Ethereum :: "(string \<Rightarrow> string) \<Rightarrow> EthereumConfig \<Rightarrow> EthereumConfig" where
  "env_Ethereum getenv c = \<lparr>
     eth_StartBlockNumber = env_int getenv ''ETH_START_BLOCK_NUMBER'' (eth_StartBlockNumber c),
     eth_Confirmations = env_int getenv ''ETH_CONFIRMATIONS'' (eth_Confirmations c),
     eth_PrivateKey = env_string getenv ''ETH_PRIVATE_KEY'' (eth_PrivateKey c),
     eth_RPCURL = env_string getenv ''ETH_RPC_URL'' (eth_RPCURL c),
     eth_RPCTimeoutMillis = env_int getenv ''ETH_RPC_TIMEOUT_MS'' (eth_RPCTimeoutMillis c),
     eth_ChainID = env_string getenv ''ETH_CHAIN_ID'' (eth_ChainID c),
     eth_WrappedPocketAddress =
       env_string getenv ''ETH_WRAPPED_POCKET_ADDRESS'' (eth_WrappedPocketAddress c),
     eth_MintControllerAddress =
       env_string getenv ''ETH_MINT_CONTROLLER_ADDRESS'' (eth_MintControllerAddress c),
     eth_ValidatorAddresses = env_list getenv ''ETH_VALIDATOR_ADDRESSES'' (eth_ValidatorAddresses c)\<rparr>"

definition env_Pocket :: "(string \<Rightarrow> string) \<Rightarrow> CosmosConfig \<Rightarrow> CosmosConfig" where
  "env_Pocket getenv c = \<lparr>
     pokt_StartHeight = env_int getenv ''POKT_START_HEIGHT'' (pokt_StartHeight c),
     pokt_Confirmations = env_int getenv ''POKT_CONFIRMATIONS'' (pokt_Confirmations c),
     pokt_Mnemonic = env_string getenv ''POKT_MNEMONIC'' (pokt_Mnemonic c),
     pokt_GcpKmsKeyName = env_string getenv ''POKT_GCP_KMS_KEY_NAME'' (pokt_GcpKmsKeyName c),
     pokt_RPCURL = env_string getenv ''POKT_RPC_URL'' (pokt_RPCURL c),
     pokt_GRPCEnabled = env_bool getenv ''POKT_GRPC_ENABLED'' (pokt_GRPCEnabled c),
     pokt_GRPCHost = env_string getenv ''POKT_GRPC_HOST'' (pokt_GRPCHost c),
     pokt_GRPCPort = env_uint getenv ''POKT_GRPC_PORT'' (pokt_GRPCPort c),
     pokt_RPCTimeoutMillis = env_int getenv ''POKT_RPC_TIMEOUT_MS'' (pokt_RPCTimeoutMillis c),
     pokt_ChainID = env_string getenv ''POKT_CHAIN_ID'' (pokt_ChainID c),
     pokt_TxFee = env_int getenv ''POKT_TX_FEE'' (pokt_TxFee c),
     pokt_Bech32Prefix = env_string getenv ''POKT_BECH32_PREFIX'' (pokt_Bech32Prefix c),
     pokt_CoinDenom = env_string getenv ''POKT_COIN_DENOM'' (pokt_CoinDenom c),
     pokt_MultisigAddress = env_string getenv ''POKT_MULTISIG_ADDRESS'' (pokt_MultisigAddress c),
     pokt_MultisigPublicKeys =
       env_list getenv ''POKT_MULTISIG_PUBLIC_KEYS'' (pokt_MultisigPublicKeys c),
     pokt_MultisigThreshold = env_uint getenv ''POKT_MULTISIG_THRESHOLD'' (pokt_MultisigThreshold c),
     pokt_MintDisabled = env_bool getenv ''POKT_MINT_DISABLED'' (pokt_MintDisabled c)\<rparr>"

definition env_Service :: "(string \<Rightarrow> string) \<Rightarrow> string \<Rightarrow> ServiceConfig \<Rightarrow> ServiceConfig" where
  "env_Service getenv name c = \<lparr>
     svc_Enabled = env_bool getenv (name @ ''_ENABLED'') (svc_Enabled c),
     svc_IntervalMillis = env_int getenv (name @ ''_INTERVAL_MS'') (svc_IntervalMillis c)\<rparr>"

definition env_HealthCheck :: "(string \<Rightarrow> string) \<Rightarrow> HealthCheckConfig \<Rightarrow> HealthCheckConfig" where
  "env_HealthCheck getenv c = \<lparr>
     hc_IntervalMillis = env_int getenv ''HEALTH_CHECK_INTERVAL_MS'' (hc_IntervalMillis c),
     hc_ReadLastHealth = env_bool getenv ''HEALTH_CHECK_READ_LAST_HEALTH'' (hc_ReadLastHealth c)\<rparr>"

definition env_GSM :: "(string \<Rightarrow> string) \<Rightarrow> GoogleSecretManagerConfig \<Rightarrow> GoogleSecretManagerConfig" where
  "env_GSM getenv c = \<lparr>
     gsm_Enabled = env_bool getenv ''GOOGLE_SECRET_MANAGER_ENABLED'' (gsm_Enabled c),
     gsm_MongoSecretName = env_string getenv ''GOOGLE_MONGO_SECRET_NAME'' (gsm_MongoSecretName c),
     gsm_PoktSecretName = env_string getenv ''GOOGLE_POKT_SECRET_NAME'' (gsm_PoktSecretName c),
     gsm_EthSecretName = env_string getenv ''GOOGLE_ETH_SECRET_NAME'' (gsm_EthSecretName c)\<rparr>"

definition env_Config :: "(string \<Rightarrow> string) \<Rightarrow> Config \<Rightarrow> Config" where
  "env_Config getenv c = \<lparr>
     cfg_GoogleSecretManager = env_GSM getenv (cfg_GoogleSecretManager c),
     cfg_HealthCheck = env_HealthCheck getenv (cfg_HealthCheck c),
     cfg_Logger = \<lparr>lg_Level = env_string getenv ''LOG_LEVEL'' (lg_Level (cfg_Logger c))\<rparr>,
     cfg_MongoDB = env_MongoDB getenv (cfg_MongoDB c),
     cfg_Ethereum = env_Ethereum getenv (cfg_Ethereum c),
     cfg_Pocket = env_Pocket getenv (cfg_Pocket c),
     cfg_MintMonitor = env_Service getenv ''MINT_MONITOR'' (cfg_MintMonitor c),
     cfg_MintSigner = env_Service getenv ''MINT_SIGNER'' (cfg_MintSigner c),
     cfg_MintExecutor = env_Service getenv ''MINT_EXECUTOR'' (cfg_MintExecutor c),
     cfg_BurnMonitor = env_Service getenv ''BURN_MONITOR'' (cfg_BurnMonitor c),
     cfg_BurnSigner = env_Service getenv ''BURN_SIGNER'' (cfg_BurnSigner c),
     cfg_BurnExecutor = env_Service getenv ''BURN_EXECUTOR'' (cfg_BurnExecutor c)\<rparr>"

lemma env_idem [simp]:
  "env_string g n (env_string g n x) = env_string g n x"
  "env_list g n (env_list g n xs) = env_list g n xs"
  "env_parsed parse g n (env_parsed parse g n y) = env_parsed parse g n y"
  by (auto simp: env_string_def env_list_def env_parsed_def split: option.splits)

lemma env_unset:
  "g n = [] \<Longrightarrow> env_string g n x = x" "g n = [] \<Longrightarrow> env_list g n xs = xs"
  "g n = [] \<Longrightarrow> env_parsed parse g n y = y"
  by (simp_all add: env_string_def env_list_def env_parsed_def)

lemmas env_defs = env_Config_def env_GSM_def env_HealthCheck_def env_MongoDB_def env_Ethereum_def
  env_Pocket_def env_Service_def

lemma env_Config_idem: "env_Config g (env_Config g c) = env_Config g c"
  by (simp add: env_defs)

lemma env_Config_unset: "(\<And>name. g name = []) \<Longrightarrow> env_Config g c = c"
  by (simp add: env_defs env_unset)

text \<open>\<open>load\<close> is \<open>godotenv.Load\<close>: the environment with the file's variables added, or an error.\<close>

definition readConfigFromENV ::
    "(string \<Rightarrow> (string \<Rightarrow> string) \<Rightarrow> (string \<Rightarrow> string) result) \<Rightarrow> string \<Rightarrow> (string \<Rightarrow> string) \<Rightarrow>
      Config \<Rightarrow> Config" where
  "readConfigFromENV load envFile getenv cfg =
     (let getenv' = (if envFile \<noteq> [] then (case load envFile getenv of Inl _ \<Rightarrow> getenv | Inr g \<Rightarrow> g)
                     else getenv) in
      env_Config getenv' cfg)"

section \<open>gsm.go\<close>

text \<open>\<open>client\<close> is the secret manager's client, \<open>AccessSecretVersion\<close> its only operation in use.\<close>

type_synonym 'w SecretClient = "string \<Rightarrow> ('w, string result) io"

definition accessSecretVersion :: "'w SecretClient \<Rightarrow> string \<Rightarrow> ('w, string result) io" where
  "accessSecretVersion client name = client name"

text \<open>One secret: a field that is empty needs a secret name; a secret name replaces the field.\<close>

definition read_secret ::
    "'w SecretClient \<Rightarrow> bool \<Rightarrow> string \<Rightarrow> string \<Rightarrow> string \<Rightarrow> (string \<Rightarrow> Config) \<Rightarrow> Config \<Rightarrow>
      ('w, Config result) io" where
  "read_secret client missing name noName noAccess set_field cfg =
     (if missing \<and> name = [] then ret (Inl (Fatal noName))
      else if name = [] then ret (Inr cfg)
      else do {
        r \<leftarrow> accessSecretVersion client name;
        ret (case r of Inl e \<Rightarrow> Inl (Fatal noAccess) | Inr v \<Rightarrow> Inr (set_field v)) })"

definition readKeysFromGSM :: "'w SecretClient result \<Rightarrow> Config \<Rightarrow> ('w, Config result) io" where
  "readKeysFromGSM newClient cfg =
     (if \<not> gsm_Enabled (cfg_GoogleSecretManager cfg) then ret (Inr cfg)
      else case newClient of
        Inl e \<Rightarrow> ret (Inl (Fatal ''Failed to create secretmanager client''))
      | Inr client \<Rightarrow>
          let gsm = cfg_GoogleSecretManager cfg in
          then_ok (read_secret client (mdb_URI (cfg_MongoDB cfg) = []) (gsm_MongoSecretName gsm)
            ''Mongo secret name is empty'' ''Failed to access mongo uri''
            (\<lambda>v. cfg\<lparr>cfg_MongoDB := (cfg_MongoDB cfg)\<lparr>mdb_URI := v\<rparr>\<rparr>) cfg) (\<lambda>cfg.
          then_ok (read_secret client (eth_PrivateKey (cfg_Ethereum cfg) = []) (gsm_EthSecretName gsm)
            ''Ethereum secret name is empty'' ''Failed to access ethereum private key''
            (\<lambda>v. cfg\<lparr>cfg_Ethereum := (cfg_Ethereum cfg)\<lparr>eth_PrivateKey := v\<rparr>\<rparr>) cfg) (\<lambda>cfg.
          read_secret client
            (pokt_Mnemonic (cfg_Pocket cfg) = [] \<and> pokt_GcpKmsKeyName (cfg_Pocket cfg) = [])
            (gsm_PoktSecretName gsm) ''Pocket secret name is empty'' ''Failed to access pocket mnemonic''
            (\<lambda>v. cfg\<lparr>cfg_Pocket := (cfg_Pocket cfg)\<lparr>pokt_Mnemonic := v\<rparr>\<rparr>) cfg)))"

section \<open>logger.go\<close>

datatype LogLevel = DebugLevel | InfoLevel | WarnLevel

definition InitLogger :: "Config \<Rightarrow> LogLevel" where
  "InitLogger cfg =
     (let logLevel = ToLower (lg_Level (cfg_Logger cfg)) in
      if logLevel = ''debug'' then DebugLevel
      else if logLevel = ''info'' then InfoLevel
      else if logLevel = ''warn'' then WarnLevel
      else InfoLevel)"

end
