(* ===== verification/Config_Validation.thy ===== *)
theory Config_Validation
  imports Config_Reading
begin

text \<open>
  \<open>app/config.go\<close>: the order in which the sources of the configuration are read, and the checks after
  which a process goes on. Whatever fails ends the process.
\<close>

section \<open>The checks\<close>

text \<open>A list of conditions with the message of the one that holds; the first one ends the process.\<close>

fun fatal_if :: "(bool \<times> string) list \<Rightarrow> unit result" where
  "fatal_if [] = Inr ()"
| "fatal_if ((bad, msg) # checks) = (if bad then Inl (Fatal msg) else fatal_if checks)"

definition mongo_checks :: "MongoConfig \<Rightarrow> (bool \<times> string) list" where
  "mongo_checks c =
     [(mdb_URI c = [], ''MongoDB.URI is required''),
      (mdb_Database c = [], ''MongoDB.Database is required''),
      (mdb_TimeoutMillis c = 0, ''MongoDB.TimeoutMillis is required'')]"

definition ethereum_checks :: "EthereumConfig \<Rightarrow> (bool \<times> string) list" where
  "ethereum_checks c =
     [(eth_RPCURL c = [], ''Ethereum.RPCURL is required''),
      (eth_ChainID c = [], ''Ethereum.ChainID is required''),
      (eth_RPCTimeoutMillis c = 0, ''Ethereum.RPCTimeoutMillis is required''),
      (eth_PrivateKey c = [], ''Ethereum.PrivateKey is required''),
      (eth_WrappedPocketAddress c = [], ''Ethereum.WrappedPocketAddress is required''),
      (eth_MintControllerAddress c = [], ''Ethereum.MintControllerAddress is required''),
      (eth_ValidatorAddresses c = [], ''Ethereum.ValidatorAddresses is required'')]"

fun find_validator :: "string \<Rightarrow> bool \<Rightarrow> string list \<Rightarrow> bool result" where
  "find_validator own found [] = Inr found"
| "find_validator own found (validatorAddress # rest) =
     (if \<not> IsValidEthereumAddress validatorAddress
      then Inl (Fatal ''Ethereum.ValidatorAddresses is invalid'')
      else find_validator own (found \<or> EqualFold validatorAddress own) rest)"

definition pocket_checks :: "'t Lib \<Rightarrow> CosmosConfig \<Rightarrow> (bool \<times> string) list" where
  "pocket_checks l c =
     (if pokt_GRPCEnabled c
      then [(pokt_GRPCHost c = [], ''Pocket.GRPCHost is required when GRPCEnabled is true''),
            (pokt_GRPCPort c = 0, ''Pocket.GRPCPort is required when GRPCEnabled is true'')]
      else [(pokt_RPCURL c = [], ''Pocket.RPCURL is required when GRPCEnabled is false'')]) @
     [(pokt_RPCTimeoutMillis c = 0, ''Pocket.TimeoutMS is required''),
      (pokt_ChainID c = [], ''Pocket.ChainID is required''),
      (pokt_Bech32Prefix c = [], ''Pocket.Bech32Prefix is required''),
      (pokt_CoinDenom c = [], ''Pocket.CoinDenom is required''),
      (\<not> IsValidBech32Address l (pokt_Bech32Prefix c) (pokt_MultisigAddress c),
       ''Pocket.MultisigAddress is invalid''),
      (length (pokt_MultisigPublicKeys c) \<le> 1,
       ''Pocket.MultisigPublicKeys is required and must have at least 2 public keys''),
      (pokt_Mnemonic c = [] \<and> pokt_GcpKmsKeyName c = [],
       ''Pocket.Mnemonic or Pocket.GcpKmsKeyName is required'')]"

definition interval_check :: "ServiceConfig \<Rightarrow> string \<Rightarrow> bool \<times> string" where
  "interval_check c name = (svc_Enabled c \<and> svc_IntervalMillis c = 0, name @ ''.Interval is required'')"

definition service_checks :: "Config \<Rightarrow> (bool \<times> string) list" where
  "service_checks c =
     [interval_check (cfg_MintMonitor c) ''MintMonitor'', interval_check (cfg_MintSigner c) ''MintSigner'',
      interval_check (cfg_MintExecutor c) ''MintExecutor'', interval_check (cfg_BurnMonitor c) ''BurnMonitor'',
      interval_check (cfg_BurnSigner c) ''BurnSigner'', interval_check (cfg_BurnExecutor c) ''BurnExecutor'',
      (hc_IntervalMillis (cfg_HealthCheck c) = 0, ''HealthCheck.Interval is required'')]"

text \<open>
  \<open>hexToECDSA\<close> parses the private key, \<open>createSigner\<close> is \<open>CreatePocketSigner\<close> with its libraries. The
  private key loses its prefix on the way.
\<close>

definition trim_key :: "Config \<Rightarrow> Config" where
  "trim_key c = c\<lparr>cfg_Ethereum := (cfg_Ethereum c)
     \<lparr>eth_PrivateKey := TrimPrefix (eth_PrivateKey (cfg_Ethereum c)) ''0x''\<rparr>\<rparr>"

definition validateConfig ::
    "'t Lib \<Rightarrow> (bytes \<Rightarrow> error option) \<Rightarrow> (string \<Rightarrow> EthKey result) \<Rightarrow>
      (CosmosConfig \<Rightarrow> ('w, 'w CosmosSigner result) io) \<Rightarrow> Config \<Rightarrow> ('w, Config result) io" where
  "validateConfig l unmarshal hexToECDSA createSigner cfg =
     (case fatal_if (mongo_checks (cfg_MongoDB cfg) @ ethereum_checks (cfg_Ethereum cfg)) of
        Inl e \<Rightarrow> ret (Inl e)
      | Inr _ \<Rightarrow>
     (let cfg = trim_key cfg in
      case GetEthereumSigner hexToECDSA (cfg_Ethereum cfg) of
        Inl e \<Rightarrow> ret (Inl (Fatal ''Error creating ethereum signer''))
      | Inr signer \<Rightarrow>
     (case find_validator (es_Address signer) False (eth_ValidatorAddresses (cfg_Ethereum cfg)) of
        Inl e \<Rightarrow> ret (Inl e)
      | Inr found \<Rightarrow>
      if \<not> found
      then ret (Inl (Fatal ''Ethereum.ValidatorAddresses does not contain validator address''))
      else
     (case fatal_if (pocket_checks l (cfg_Pocket cfg)) of
        Inl e \<Rightarrow> ret (Inl e)
      | Inr _ \<Rightarrow> do {
        r \<leftarrow> GetPocketSignerAndMultisig l unmarshal (cfg_Pocket cfg) (createSigner (cfg_Pocket cfg));
        ret (case r of
            Inl e \<Rightarrow> Inl (Fatal ''Error creating pocket signer'')
          | Inr _ \<Rightarrow> (case fatal_if (service_checks cfg) of Inl e \<Rightarrow> Inl e | Inr _ \<Rightarrow> Inr cfg)) }))))"

section \<open>The sources\<close>

text \<open>
  The file replaces what it names; \<open>readFile\<close> and \<open>yaml_Unmarshal\<close> are the operating system and the
  YAML library. The second component is what the function returns.
\<close>

definition readConfigFromConfigFile ::
    "(string \<Rightarrow> string result) \<Rightarrow> (string \<Rightarrow> Config \<Rightarrow> Config result) \<Rightarrow> string \<Rightarrow> Config \<Rightarrow>
      (Config \<times> bool) result" where
  "readConfigFromConfigFile readFile yaml_Unmarshal configFile cfg =
     (if configFile = [] then Inr (cfg, False)
      else case readFile configFile of
        Inl e \<Rightarrow> Inl (Fatal ''Error reading config file'')
      | Inr yamlFile \<Rightarrow> (case yaml_Unmarshal yamlFile cfg of
            Inl e \<Rightarrow> Inl (Fatal ''Error unmarshalling config file'')
          | Inr cfg \<Rightarrow> Inr (cfg, True)))"

record ('w, 't) Sources =
  src_readFile :: "string \<Rightarrow> string result"
  src_yaml :: "string \<Rightarrow> Config \<Rightarrow> Config result"
  src_load :: "string \<Rightarrow> (string \<Rightarrow> string) \<Rightarrow> (string \<Rightarrow> string) result"
  src_getenv :: "string \<Rightarrow> string"
  src_secrets :: "'w SecretClient result"
  src_lib :: "'t Lib"
  src_unmarshal :: "bytes \<Rightarrow> error option"
  src_hexToECDSA :: "string \<Rightarrow> EthKey result"
  src_createSigner :: "CosmosConfig \<Rightarrow> ('w, 'w CosmosSigner result) io"

text \<open>File, environment, secrets, validation, in this order.\<close>

definition InitConfig :: "('w, 't) Sources \<Rightarrow> string \<Rightarrow> string \<Rightarrow> ('w, Config result) io" where
  "InitConfig src configFile envFile =
     (case readConfigFromConfigFile (src_readFile src) (src_yaml src) configFile zero_Config of
        Inl e \<Rightarrow> ret (Inl e)
      | Inr (cfg, _) \<Rightarrow>
          then_ok (readKeysFromGSM (src_secrets src)
              (readConfigFromENV (src_load src) envFile (src_getenv src) cfg))
            (validateConfig (src_lib src) (src_unmarshal src) (src_hexToECDSA src) (src_createSigner src)))"

section \<open>What a process that goes on can rely on\<close>

lemma fatal_if_Inr: "fatal_if checks = Inr () \<longleftrightarrow> (\<forall>check \<in> set checks. \<not> fst check)"
  by (induction checks rule: fatal_if.induct) auto

lemma find_validator_Inr:
  "find_validator own found vs = Inr b \<longleftrightarrow> (\<forall>v \<in> set vs. IsValidEthereumAddress v) \<and>
     b = (found \<or> (\<exists>v \<in> set vs. EqualFold v own))"
  by (induction vs arbitrary: found) auto

definition complete_config :: "'t Lib \<Rightarrow> Config \<Rightarrow> bool" where
  "complete_config l c \<longleftrightarrow>
     (\<forall>check \<in> set (mongo_checks (cfg_MongoDB c) @ pocket_checks l (cfg_Pocket c) @ service_checks c).
        \<not> fst check) \<and>
     eth_RPCURL (cfg_Ethereum c) \<noteq> [] \<and> eth_ChainID (cfg_Ethereum c) \<noteq> [] \<and>
     eth_WrappedPocketAddress (cfg_Ethereum c) \<noteq> [] \<and> eth_MintControllerAddress (cfg_Ethereum c) \<noteq> [] \<and>
     (\<forall>v \<in> set (eth_ValidatorAddresses (cfg_Ethereum c)). IsValidEthereumAddress v)"

lemma validateConfig_Inr:
  fixes createSigner :: "CosmosConfig \<Rightarrow> ('w, 'w CosmosSigner result) io"
  assumes "can_return (validateConfig l unmarshal hexToECDSA createSigner cfg) (Inr c)"
  shows "c = trim_key cfg \<and> complete_config l c \<and>
     (\<exists>signer. GetEthereumSigner hexToECDSA (cfg_Ethereum c) = Inr signer \<and>
        (\<exists>v \<in> set (eth_ValidatorAddresses (cfg_Ethereum c)). EqualFold v (es_Address signer))) \<and>
     (\<exists>ps. can_return (GetPocketSignerAndMultisig l unmarshal (cfg_Pocket c) (createSigner (cfg_Pocket c)))
        (Inr ps))"
proof -
  from assms have f: "fatal_if (mongo_checks (cfg_MongoDB cfg) @ ethereum_checks (cfg_Ethereum cfg)) = Inr ()"
    unfolding validateConfig_def by (auto split: sum.splits)
  from assms f obtain signer where s: "GetEthereumSigner hexToECDSA (cfg_Ethereum (trim_key cfg)) = Inr signer"
    unfolding validateConfig_def by (auto simp: Let_def split: sum.splits)
  from assms f s have v: "find_validator (es_Address signer) False
      (eth_ValidatorAddresses (cfg_Ethereum (trim_key cfg))) = Inr True"
    unfolding validateConfig_def by (auto simp: Let_def split: sum.splits if_splits)
  from assms f s v have p: "fatal_if (pocket_checks l (cfg_Pocket (trim_key cfg))) = Inr ()"
    unfolding validateConfig_def by (auto simp: Let_def split: sum.splits)
  let ?get = "GetPocketSignerAndMultisig l unmarshal (cfg_Pocket (trim_key cfg))
      (createSigner (cfg_Pocket (trim_key cfg)))"
  let ?fin = "\<lambda>r. (ret (case r of
      Inl e \<Rightarrow> Inl (Fatal ''Error creating pocket signer'')
    | Inr _ \<Rightarrow> (case fatal_if (service_checks (trim_key cfg)) of
          Inl e \<Rightarrow> Inl e | Inr _ \<Rightarrow> Inr (trim_key cfg))) :: ('w, Config result) io)"
  have "can_return (State_Monad.bind ?get ?fin) (Inr c)"
    using assms by (simp add: validateConfig_def Let_def f s v p)
  then obtain r where r: "can_return ?get r" "can_return (?fin r) (Inr c)" by (rule can_return_bindE)
  from r(2) obtain ps where ps': "r = Inr ps" by (auto split: sum.splits)
  with r have ps: "can_return ?get (Inr ps)" by simp
  from r(2) have c: "fatal_if (service_checks (trim_key cfg)) = Inr ()" "c = trim_key cfg"
    unfolding ps' can_return_ret by (simp_all split: sum.splits)
  have "complete_config l c"
  proof -
    have "\<forall>check \<in> set (mongo_checks (cfg_MongoDB c)). \<not> fst check"
      "\<forall>check \<in> set (ethereum_checks (cfg_Ethereum cfg)). \<not> fst check"
      using f by (simp_all add: fatal_if_Inr c(2) trim_key_def)
    moreover have "\<forall>check \<in> set (pocket_checks l (cfg_Pocket c)). \<not> fst check"
      "\<forall>check \<in> set (service_checks c). \<not> fst check"
      using p c unfolding fatal_if_Inr by simp_all
    moreover have "\<forall>v \<in> set (eth_ValidatorAddresses (cfg_Ethereum c)). IsValidEthereumAddress v"
      using v unfolding find_validator_Inr c(2) by simp
    ultimately show ?thesis
      by (simp add: complete_config_def ball_Un ethereum_checks_def c(2) trim_key_def)
  qed
  moreover have "\<exists>v \<in> set (eth_ValidatorAddresses (cfg_Ethereum c)). EqualFold v (es_Address signer)"
    using v unfolding find_validator_Inr c(2) by simp
  ultimately show ?thesis using s ps unfolding c(2) by blast
qed

lemma InitConfig_Inr:
  assumes "can_return (InitConfig src configFile envFile) (Inr c)"
  shows "\<exists>cfg. can_return (validateConfig (src_lib src) (src_unmarshal src) (src_hexToECDSA src)
     (src_createSigner src) cfg) (Inr c)"
proof (cases "readConfigFromConfigFile (src_readFile src) (src_yaml src) configFile zero_Config")
  case (Inl e)
  with assms show ?thesis by (simp add: InitConfig_def)
next
  case (Inr r)
  obtain cfg b where r: "r = (cfg, b)" by (cases r)
  have "can_return (then_ok (readKeysFromGSM (src_secrets src)
      (readConfigFromENV (src_load src) envFile (src_getenv src) cfg))
    (validateConfig (src_lib src) (src_unmarshal src) (src_hexToECDSA src) (src_createSigner src))) (Inr c)"
    using assms by (simp add: InitConfig_def Inr r)
  then show ?thesis by (rule can_return_then_okE) blast
qed

end
