(* ===== verification/Startup.thy ===== *)
theory Startup
  imports Validator_System Config_Validation
begin

text \<open>
  The start of a process: \<open>NewHealthCheck\<close> of \<open>app/health.go\<close> and \<open>main.go\<close> from the health check to
  the running services. The outcomes of connecting to the nodes and contracts, and of deriving the
  signers, are the record \<open>Connections\<close>; every factory of a process is taken to see the same ones.
\<close>

section \<open>health.go\<close>

text \<open>\<open>fmt.Sprintf("%02d", n)\<close>.\<close>

definition Sprintf02d :: "int \<Rightarrow> string" where
  "Sprintf02d n = (if 0 \<le> n \<and> n < 10 then ''0'' @ FormatInt n else FormatInt n)"

definition NewHealthCheck ::
    "('w, 't) Env \<Rightarrow> 'w PocketSigner result \<Rightarrow> EthereumSigner result \<Rightarrow> string result \<Rightarrow>
      HealthCheckRunner result" where
  "NewHealthCheck env poktSigner ethSigner hostname =
     (case poktSigner of
        Inl e \<Rightarrow> Inl (Fatal ''Error getting pokt signer and multisig'')
      | Inr ps \<Rightarrow>
     (case ethSigner of
        Inl e \<Rightarrow> Inl (Fatal ''Error getting ethereum signer'')
      | Inr es \<Rightarrow>
     (case hostname of
        Inl e \<Rightarrow> Inl (Fatal ''Error getting hostname'')
      | Inr host \<Rightarrow> Inr \<lparr>
          hr_poktSigners = pokt_MultisigPublicKeys (Pocket env),
          hr_poktPublicKey = EncodeToString (PubKey_Bytes (lib env) (CosmosPublicKey (ps_Signer ps))),
          hr_poktAddress = ps_SignerAddress ps,
          hr_poktVaultAddress = ps_MultisigAddress ps,
          hr_ethValidators = eth_ValidatorAddresses (Ethereum env),
          hr_ethAddress = es_Address es,
          hr_wpoktAddress = ToLower (eth_WrappedPocketAddress (Ethereum env)),
          hr_hostname = host,
          hr_validatorId = ''wpokt-validator-'' @ Sprintf02d (ps_SignerIndex ps + 1)\<rparr>)))"

section \<open>main.go\<close>

record 'w Connections =
  con_pocketSigner :: "'w PocketSigner result"
  con_ethereumSigner :: "EthereumSigner result"
  con_hostname :: "string result"
  con_cosmos :: "error option"
  con_ethereum :: "error option"
  con_wpokt :: "error option"
  con_mintController :: "error option"
  con_mintControllerABI :: "error option"

text \<open>
  Starting a service: \<open>NewRunnerService\<close> yields the nil service for an interval of zero, and calling
  \<open>Start\<close> on it panics.
\<close>

definition NilService :: error where "NilService = Panic ''nil pointer dereference: service''"

definition start_service :: "'x Service \<Rightarrow> 'x RunningService option result" where
  "start_service s = (case s of
       EmptyService \<Rightarrow> Inr None
     | RunnerService name x interval \<Rightarrow> (case NewRunnerService name (Some x) True interval of
           None \<Rightarrow> Inl NilService | Some r \<Rightarrow> Inr (Some r)))"

definition NewHealthService :: "Config \<Rightarrow> HealthCheckRunner \<Rightarrow> HealthCheckRunner Service" where
  "NewHealthService cfg x = RunnerService HealthCheckName x (hc_IntervalMillis (cfg_HealthCheck cfg))"

text \<open>The key a mint signer signs with is the one of the Ethereum signer.\<close>

definition eth_key :: "'w Connections \<Rightarrow> EthKey result" where
  "eth_key con = map_sum id es_PrivateKey (con_ethereumSigner con)"

definition main_start :: "('w, 't) Env \<Rightarrow> 'w Connections \<Rightarrow> ('w, 'w Process result) io" where
  "main_start env con =
     (case NewHealthCheck env (con_pocketSigner con) (con_ethereumSigner con) (con_hostname con) of
        Inl e \<Rightarrow> ret (Inl e)
      | Inr healthcheck \<Rightarrow> do {
     lastHealth \<leftarrow> (if hc_ReadLastHealth (cfg_HealthCheck (Cfg env)) then FindLastHealth env healthcheck
                  else ret (Inl ErrNoDocuments));
     let health = main_lastHealth (Cfg env) lastHealth;
     then_ok (NewMintMonitor env (con_pocketSigner con) (con_cosmos con) (con_ethereum con)
         (con_mintController con) (health MintMonitorName)) (\<lambda>mm.
     then_ok (NewBurnSigner env (con_pocketSigner con) (con_ethereum con) (con_wpokt con)
         (con_mintController con) (con_cosmos con)) (\<lambda>bs.
     then_ok (ret (NewBurnExecutor env (con_pocketSigner con) (con_cosmos con))) (\<lambda>be.
     then_ok (NewBurnMonitor env (con_ethereum con) (con_wpokt con) (health BurnMonitorName)) (\<lambda>bm.
     then_ok (NewMintSigner env (eth_key con) (con_ethereum con) (con_wpokt con)
         (con_mintController con) (con_cosmos con)) (\<lambda>ms.
     then_ok (NewMintExecutor env (con_ethereum con) (con_wpokt con) (con_mintControllerABI con)
         (health MintExecutorName)) (\<lambda>me.
     then_ok (ret (start_service mm)) (\<lambda>mm.
     then_ok (ret (start_service bs)) (\<lambda>bs.
     then_ok (ret (start_service be)) (\<lambda>be.
     then_ok (ret (start_service bm)) (\<lambda>bm.
     then_ok (ret (start_service ms)) (\<lambda>ms.
     then_ok (ret (start_service me)) (\<lambda>me.
     then_ok (ret (start_service (NewHealthService (Cfg env) healthcheck))) (\<lambda>hc.
       ret (case hc of
          None \<Rightarrow> Inl NilService
        | Some hc \<Rightarrow> Inr \<lparr>pr_mintMonitor = mm, pr_burnSigner = bs, pr_burnExecutor = be,
            pr_burnMonitor = bm, pr_mintSigner = ms, pr_mintExecutor = me,
            pr_healthCheck = hc\<rparr>)))))))))))))) })"

section \<open>What a started process is\<close>

text \<open>A running service whose runner satisfies \<open>P\<close>, under the right name.\<close>

definition service_as :: "string \<Rightarrow> ('x \<Rightarrow> bool) \<Rightarrow> 'x RunningService option \<Rightarrow> bool" where
  "service_as name P s \<longleftrightarrow> (\<forall>r. s = Some r \<longrightarrow>
     rn_name r = name \<and> sh_Name (rn_health r) = name \<and> P (rn_runner r))"

definition built_as :: "string \<Rightarrow> ServiceConfig \<Rightarrow> ('x \<Rightarrow> bool) \<Rightarrow> 'x Service \<Rightarrow> bool" where
  "built_as name c P s \<longleftrightarrow> (\<forall>n x i. s = RunnerService n x i \<longrightarrow>
     n = name \<and> i = svc_IntervalMillis c \<and> svc_Enabled c \<and> P x)"

lemma start_service_as:
  "start_service s = Inr r \<Longrightarrow> built_as name c P s \<Longrightarrow> service_as name P r"
  by (auto simp: start_service_def service_as_def built_as_def NewRunnerService_def
      split: Service.splits if_splits)

lemma start_service_ok:
  "built_as name c P s \<Longrightarrow> name \<noteq> [] \<Longrightarrow> \<not> fst (interval_check c what) \<Longrightarrow>
     \<exists>r. start_service s = Inr r \<and> (r = None \<longleftrightarrow> s = EmptyService)"
  by (auto simp: start_service_def built_as_def NewRunnerService_def interval_check_def
      split: Service.splits)

lemma NewMintMonitor_built:
  "can_return (NewMintMonitor env ps c e m h) (Inr s) \<Longrightarrow>
     built_as MintMonitorName (cfg_MintMonitor (Cfg env)) (\<lambda>_. True) s"
  unfolding NewMintMonitor_def built_as_def
  by (auto elim!: can_return_then_okE simp: Let_def split: if_splits sum.splits option.splits)

lemma BurnSigner_init_signer:
  "can_return (BurnSigner_UpdateBlocks env x) (Inr x') \<Longrightarrow> bs_signer x' = bs_signer x"
  "can_return (BurnSigner_UpdateMaxMintLimit env x) (Inr x') \<Longrightarrow> bs_signer x' = bs_signer x"
  unfolding BurnSigner_UpdateBlocks_def BurnSigner_UpdateMaxMintLimit_def
  by (auto elim!: can_return_bindE simp: keep_going_def Let_def split: sum.splits if_splits)

lemma NewBurnSigner_built:
  "can_return (NewBurnSigner env ps e w m c) (Inr s) \<Longrightarrow>
     built_as BurnSignerName (cfg_BurnSigner (Cfg env)) (\<lambda>x. ps = Inr (bs_signer x)) s"
  unfolding NewBurnSigner_def built_as_def
  by (auto elim!: can_return_then_okE dest!: BurnSigner_init_signer simp: Let_def
      split: if_splits sum.splits option.splits)

lemma NewBurnExecutor_built:
  "NewBurnExecutor env ps c = Inr s \<Longrightarrow>
     built_as BurnExecutorName (cfg_BurnExecutor (Cfg env)) (\<lambda>_. True) s"
  unfolding NewBurnExecutor_def built_as_def by (auto split: if_splits sum.splits)

lemma NewBurnMonitor_built:
  "can_return (NewBurnMonitor env e w h) (Inr s) \<Longrightarrow>
     built_as BurnMonitorName (cfg_BurnMonitor (Cfg env)) (\<lambda>_. True) s"
  unfolding NewBurnMonitor_def built_as_def
  by (auto elim!: can_return_then_okE simp: Let_def split: if_splits)

lemma NewMintExecutor_built:
  "can_return (NewMintExecutor env e w a h) (Inr s) \<Longrightarrow>
     built_as MintExecutorName (cfg_MintExecutor (Cfg env)) (\<lambda>_. True) s"
  unfolding NewMintExecutor_def built_as_def
  by (auto elim!: can_return_then_okE simp: Let_def split: if_splits)

lemma NewMintSigner_built:
  assumes "can_return (NewMintSigner env k e w m c) (Inr s)"
  shows "built_as MintSignerName (cfg_MintSigner (Cfg env))
     (\<lambda>x. ms_signerThreshold x = 0 \<and> (\<exists>e. can_return (SignerThreshold (MintCtl env)) (Inl e)) \<or>
        (\<exists>n. can_return (SignerThreshold (MintCtl env)) (Inr n) \<and> ms_signerThreshold x = int64 n)) s"
  unfolding built_as_def using NewMintSigner_started [of env k e w m c] assms by blast

lemma NewHealthService_built:
  "built_as HealthCheckName \<lparr>svc_Enabled = True, svc_IntervalMillis = hc_IntervalMillis (cfg_HealthCheck cfg)\<rparr>
     (\<lambda>_. True) (NewHealthService cfg x)"
  by (simp add: built_as_def NewHealthService_def)

lemmas services_built = NewMintMonitor_built NewBurnSigner_built NewBurnExecutor_built
  NewBurnMonitor_built NewMintSigner_built NewMintExecutor_built NewHealthService_built

lemma main_start_Inr:
  assumes "can_return (main_start env con) (Inr p)"
  shows "service_as MintMonitorName (\<lambda>_. True) (pr_mintMonitor p)"
    "service_as BurnSignerName (\<lambda>x. con_pocketSigner con = Inr (bs_signer x)) (pr_burnSigner p)"
    "service_as BurnExecutorName (\<lambda>_. True) (pr_burnExecutor p)"
    "service_as BurnMonitorName (\<lambda>_. True) (pr_burnMonitor p)"
    "service_as MintSignerName
       (\<lambda>x. ms_signerThreshold x = 0 \<and> (\<exists>e. can_return (SignerThreshold (MintCtl env)) (Inl e)) \<or>
          (\<exists>n. can_return (SignerThreshold (MintCtl env)) (Inr n) \<and> ms_signerThreshold x = int64 n))
       (pr_mintSigner p)"
    "service_as MintExecutorName (\<lambda>_. True) (pr_mintExecutor p)"
    "service_as HealthCheckName (\<lambda>_. True) (Some (pr_healthCheck p))"
proof -
  obtain hc where hc: "NewHealthCheck env (con_pocketSigner con) (con_ethereumSigner con) (con_hostname con) = Inr hc"
    using assms by (auto simp: main_start_def split: sum.splits)
  from assms obtain sm sb se st sg sx h1 h2 h3 where
    n: "can_return (NewMintMonitor env (con_pocketSigner con) (con_cosmos con) (con_ethereum con)
         (con_mintController con) h1) (Inr sm)"
      "can_return (NewBurnSigner env (con_pocketSigner con) (con_ethereum con) (con_wpokt con)
         (con_mintController con) (con_cosmos con)) (Inr sb)"
      "NewBurnExecutor env (con_pocketSigner con) (con_cosmos con) = Inr se"
      "can_return (NewBurnMonitor env (con_ethereum con) (con_wpokt con) h2) (Inr st)"
      "can_return (NewMintSigner env (eth_key con) (con_ethereum con) (con_wpokt con)
         (con_mintController con) (con_cosmos con)) (Inr sg)"
      "can_return (NewMintExecutor env (con_ethereum con) (con_wpokt con) (con_mintControllerABI con) h3) (Inr sx)"
    and s: "start_service sm = Inr (pr_mintMonitor p)" "start_service sb = Inr (pr_burnSigner p)"
      "start_service se = Inr (pr_burnExecutor p)" "start_service st = Inr (pr_burnMonitor p)"
      "start_service sg = Inr (pr_mintSigner p)" "start_service sx = Inr (pr_mintExecutor p)"
      "start_service (NewHealthService (Cfg env) hc) = Inr (Some (pr_healthCheck p))"
    unfolding main_start_def hc sum.case Let_def
    by (auto elim!: can_return_bindE can_return_then_okE split: option.splits)
  show "service_as MintMonitorName (\<lambda>_. True) (pr_mintMonitor p)"
    by (rule start_service_as [OF s(1) NewMintMonitor_built [OF n(1)]])
  show "service_as BurnSignerName (\<lambda>x. con_pocketSigner con = Inr (bs_signer x)) (pr_burnSigner p)"
    by (rule start_service_as [OF s(2) NewBurnSigner_built [OF n(2)]])
  show "service_as BurnExecutorName (\<lambda>_. True) (pr_burnExecutor p)"
    by (rule start_service_as [OF s(3) NewBurnExecutor_built [OF n(3)]])
  show "service_as BurnMonitorName (\<lambda>_. True) (pr_burnMonitor p)"
    by (rule start_service_as [OF s(4) NewBurnMonitor_built [OF n(4)]])
  show "service_as MintSignerName
       (\<lambda>x. ms_signerThreshold x = 0 \<and> (\<exists>e. can_return (SignerThreshold (MintCtl env)) (Inl e)) \<or>
          (\<exists>n. can_return (SignerThreshold (MintCtl env)) (Inr n) \<and> ms_signerThreshold x = int64 n))
       (pr_mintSigner p)"
    by (rule start_service_as [OF s(5) NewMintSigner_built [OF n(5)]])
  show "service_as MintExecutorName (\<lambda>_. True) (pr_mintExecutor p)"
    by (rule start_service_as [OF s(6) NewMintExecutor_built [OF n(6)]])
  show "service_as HealthCheckName (\<lambda>_. True) (Some (pr_healthCheck p))"
    by (rule start_service_as [OF s(7) NewHealthService_built])
qed

lemmas service_names = MintMonitorName_def BurnSignerName_def BurnExecutorName_def BurnMonitorName_def
  MintSignerName_def MintExecutorName_def HealthCheckName_def

lemma service_as_health:
  "service_as name P s \<Longrightarrow> map sh_Name (service_health s) = (if s = None then [] else [name])"
  by (auto simp: service_as_def service_health_def RunnerService_Health_def split: option.splits)

lemma process_healths_distinct:
  assumes "service_as MintMonitorName P1 (pr_mintMonitor p)" "service_as BurnSignerName P2 (pr_burnSigner p)"
    "service_as BurnExecutorName P3 (pr_burnExecutor p)" "service_as BurnMonitorName P4 (pr_burnMonitor p)"
    "service_as MintSignerName P5 (pr_mintSigner p)" "service_as MintExecutorName P6 (pr_mintExecutor p)"
    "service_as HealthCheckName P7 (Some (pr_healthCheck p))"
  shows "distinct (map sh_Name (process_healths p))"
proof -
  have h: "sh_Name (RunnerService_Health (pr_healthCheck p)) = HealthCheckName"
    using assms(7) by (simp add: service_as_def RunnerService_Health_def)
  show ?thesis
    by (simp add: service_names process_healths_def service_as_health [OF assms(1)] service_as_health [OF assms(2)]
        service_as_health [OF assms(3)] service_as_health [OF assms(4)] service_as_health [OF assms(5)]
        service_as_health [OF assms(6)] h)
qed

end
