(* ===== verification/Database_Setup.thy ===== *)
theory Database_Setup
  imports Mongo_Reference
begin

text \<open>
  \<open>app/database.go\<close>, the life of the connection: \<open>Connect\<close>, \<open>SetupIndexesAndLocker\<close>, \<open>Disconnect\<close> and
  \<open>InitDB\<close>. The deployment behind the driver is a parameter. The indexes created here are those theory
  \<open>Database_Model\<close> relies on.
\<close>

record 'w Deployment =
  dep_Connect :: "string \<Rightarrow> ('w, unit result) io"
  dep_Ping :: "('w, unit result) io"
  dep_CreateOne :: "string \<Rightarrow> index \<Rightarrow> ('w, unit result) io"
  dep_CreateLockIndexes :: "('w, unit result) io"
  dep_Disconnect :: "('w, unit result) io"

definition MongoDatabase_Connect :: "'w Deployment \<Rightarrow> string \<Rightarrow> ('w, unit result) io" where
  "MongoDatabase_Connect dep uri = then_ok (dep_Connect dep uri) (\<lambda>_. dep_Ping dep)"

definition MongoDatabase_Disconnect :: "'w Deployment \<Rightarrow> ('w, unit result) io" where
  "MongoDatabase_Disconnect dep = dep_Disconnect dep"

text \<open>The calls of \<open>CreateOne\<close>, in the order of the code; every index is unique.\<close>

definition index_models :: "(string \<times> index) list" where
  "index_models =
     [(CollectionMints, \<lparr>ix_Keys = [''transaction_hash''], ix_PartialLong = False\<rparr>),
      (CollectionInvalidMints, \<lparr>ix_Keys = [''transaction_hash''], ix_PartialLong = False\<rparr>),
      (CollectionInvalidMints, \<lparr>ix_Keys = [''sequence''], ix_PartialLong = True\<rparr>),
      (CollectionBurns, \<lparr>ix_Keys = [''transaction_hash'', ''d.logger.index''], ix_PartialLong = False\<rparr>),
      (CollectionBurns, \<lparr>ix_Keys = [''sequence''], ix_PartialLong = True\<rparr>),
      (CollectionHealthChecks, \<lparr>ix_Keys = [''validator_id'', ''hostname''], ix_PartialLong = False\<rparr>)]"

fun create_indexes :: "'w Deployment \<Rightarrow> (string \<times> index) list \<Rightarrow> ('w, unit result) io" where
  "create_indexes dep [] = ret (Inr ())"
| "create_indexes dep ((collection, i) # rest) =
     then_ok (dep_CreateOne dep collection i) (\<lambda>_. create_indexes dep rest)"

definition SetupIndexesAndLocker :: "'w Deployment \<Rightarrow> ('w, unit result) io" where
  "SetupIndexesAndLocker dep =
     then_ok (create_indexes dep index_models) (\<lambda>_. dep_CreateLockIndexes dep)"

definition InitDB :: "'w Deployment \<Rightarrow> MongoConfig \<Rightarrow> ('w, unit result) io" where
  "InitDB dep config = do {
     r \<leftarrow> MongoDatabase_Connect dep (mdb_URI config);
     case r of
       Inl e \<Rightarrow> ret (Inl (Fatal ''Failed to connect to database''))
     | Inr _ \<Rightarrow> do {
         r \<leftarrow> SetupIndexesAndLocker dep;
         ret (case r of Inl e \<Rightarrow> Inl (Fatal ''Failed to setup indexes and locker'') | Inr _ \<Rightarrow> Inr ()) } }"

section \<open>The indexes are there\<close>

text \<open>
  A deployment with a catalogue of its unique indexes: a created index is in the catalogue, and no call
  made here removes one.
\<close>

locale index_catalogue =
  fixes dep :: "'w Deployment" and catalogue :: "'w \<Rightarrow> (string \<times> index) set"
  assumes created: "run_state (dep_CreateOne dep c i) w = (r, w') \<Longrightarrow>
      catalogue w \<subseteq> catalogue w' \<and> (r = Inr () \<longrightarrow> (c, i) \<in> catalogue w')"
    and lock_indexes: "run_state (dep_CreateLockIndexes dep) w = (r, w') \<Longrightarrow> catalogue w \<subseteq> catalogue w'"
begin

lemma create_indexes_created:
  "run_state (create_indexes dep models) w = (r, w') \<Longrightarrow>
     catalogue w \<subseteq> catalogue w' \<and> (r = Inr () \<longrightarrow> set models \<subseteq> catalogue w')"
proof (induction models arbitrary: w)
  case (Cons m models)
  obtain c i where m: "m = (c, i)" by (cases m)
  obtain r1 w1 where s: "run_state (dep_CreateOne dep c i) w = (r1, w1)" by fastforce
  show ?case using Cons.prems Cons.IH [of w1] created [OF s]
    by (cases r1) (auto simp: m s run_simps)
qed (simp add: run_simps)

lemma setup_created:
  assumes "run_state (SetupIndexesAndLocker dep) w = (Inr u, w')"
  shows "set index_models \<subseteq> catalogue w'"
proof -
  obtain r1 w1 where s: "run_state (create_indexes dep index_models) w = (r1, w1)" by fastforce
  with assms obtain "r1 = Inr ()" "run_state (dep_CreateLockIndexes dep) w1 = (Inr u, w')"
    by (cases r1) (auto simp: SetupIndexesAndLocker_def run_simps)
  with create_indexes_created [OF s] lock_indexes show ?thesis by blast
qed

lemma InitDB_created:
  assumes "run_state (InitDB dep config) w = (Inr (), w')"
  shows "set index_models \<subseteq> catalogue w'"
proof -
  obtain r1 w1 where c: "run_state (MongoDatabase_Connect dep (mdb_URI config)) w = (r1, w1)" by fastforce
  obtain r2 w2 where s: "run_state (SetupIndexesAndLocker dep) w1 = (r2, w2)" by fastforce
  from assms have "\<exists>u. r2 = Inr u" "w2 = w'"
    by (auto simp: InitDB_def run_simps c s split: sum.splits)
  with setup_created s show ?thesis by blast
qed

end

lemma index_models_all: "i \<in> set (unique_indexes c) \<Longrightarrow> (c, i) \<in> set index_models"
  by (auto simp: unique_indexes_def index_models_def split: if_splits)

text \<open>A deployment whose state is its catalogue.\<close>

definition ref_deployment :: "((string \<times> index) set) Deployment" where
  "ref_deployment = \<lparr>
     dep_Connect = (\<lambda>_. ret (Inr ())), dep_Ping = ret (Inr ()),
     dep_CreateOne = (\<lambda>c i. State (\<lambda>s. (Inr (), insert (c, i) s))),
     dep_CreateLockIndexes = ret (Inr ()), dep_Disconnect = ret (Inr ())\<rparr>"

interpretation ref_catalogue: index_catalogue ref_deployment "\<lambda>s. s"
  by unfold_locales (auto simp: ref_deployment_def run_simps)

end
