(* ===== verification/Eth_Client.thy ===== *)
theory Eth_Client
  imports Service_Context
begin

text \<open>
  \<open>eth/client/eth_client.go\<close>, \<open>eth/network.go\<close> and the contract wrappers \<open>mint_controller.go\<close> and
  \<open>wpokt.go\<close> of the same package: the client of the Ethereum node and the two contracts behind their
  generated bindings. go-ethereum's client, its \<open>HexToHash\<close> and the bindings are parameters.
\<close>

section \<open>The node\<close>

text \<open>A transaction is known here by its hash; with it comes whether it is still pending.\<close>

record 'w EthNode =
  node_BlockNumber :: "('w, int result) io"
  node_ChainID :: "('w, int result) io"
  node_TransactionByHash :: "bytes \<Rightarrow> ('w, (bytes \<times> bool) result) io"
  node_TransactionReceipt :: "bytes \<Rightarrow> ('w, Log list result) io"

text \<open>The client holds no node before \<open>ValidateNetwork\<close> or \<open>NewClient\<close> has dialled one.\<close>

record 'w ethereumClient =
  ec_client :: "'w EthNode option"

definition with_node :: "'w ethereumClient \<Rightarrow> ('w EthNode \<Rightarrow> ('w, 'a result) io) \<Rightarrow> ('w, 'a result) io" where
  "with_node c f = (case ec_client c of
       None \<Rightarrow> ret (Inl (Panic ''nil pointer dereference'')) | Some node \<Rightarrow> f node)"

definition eth_GetBlockNumber :: "'w ethereumClient \<Rightarrow> ('w, int result) io" where
  "eth_GetBlockNumber c = with_node c node_BlockNumber"

definition eth_GetChainID :: "'w ethereumClient \<Rightarrow> ('w, int result) io" where
  "eth_GetChainID c = with_node c node_ChainID"

definition eth_GetTransactionByHash ::
    "(string \<Rightarrow> bytes) \<Rightarrow> 'w ethereumClient \<Rightarrow> string \<Rightarrow> ('w, (bytes \<times> bool) result) io" where
  "eth_GetTransactionByHash HexToHash c txHash =
     with_node c (\<lambda>node. node_TransactionByHash node (HexToHash txHash))"

definition eth_GetTransactionReceipt ::
    "(string \<Rightarrow> bytes) \<Rightarrow> 'w ethereumClient \<Rightarrow> string \<Rightarrow> ('w, Log list result) io" where
  "eth_GetTransactionReceipt HexToHash c txHash =
     with_node c (\<lambda>node. node_TransactionReceipt node (HexToHash txHash))"

text \<open>\<open>log.Fatalln\<close> of every failure; the result is the client with the node it has dialled.\<close>

definition fatal_unless :: "string \<Rightarrow> ('w, 'a result) io \<Rightarrow> ('w, 'a result) io" where
  "fatal_unless msg m = do {
     r \<leftarrow> m;
     ret (case r of Inl e \<Rightarrow> Inl (case e of Panic p \<Rightarrow> Panic p | _ \<Rightarrow> Fatal msg) | Inr a \<Rightarrow> Inr a) }"

definition eth_ValidateNetwork ::
    "(string \<Rightarrow> 'w EthNode result) \<Rightarrow> EthereumConfig \<Rightarrow> 'w ethereumClient \<Rightarrow> ('w, 'w ethereumClient result) io" where
  "eth_ValidateNetwork Dial config c =
     (case Dial (eth_RPCURL config) of
        Inl e \<Rightarrow> ret (Inl (Fatal ''Failed to connect to Ethereum node''))
      | Inr client \<Rightarrow>
          let c = c\<lparr>ec_client := Some client\<rparr> in
          then_ok (fatal_unless ''Failed to get chain ID'' (eth_GetChainID c)) (\<lambda>chainID.
          then_ok (fatal_unless ''Failed to get block number'' (eth_GetBlockNumber c)) (\<lambda>blockNumber.
            ret (if FormatInt chainID \<noteq> eth_ChainID config
                 then Inl (Fatal ''Chain ID Mismatch'')
                 else Inr c))))"

text \<open>\<open>eth.NewClient\<close> dials and returns the error beside the client.\<close>

definition NewEthereumClient ::
    "(string \<Rightarrow> 'w EthNode result) \<Rightarrow> EthereumConfig \<Rightarrow> 'w ethereumClient \<times> error option" where
  "NewEthereumClient Dial config =
     (case Dial (eth_RPCURL config) of
        Inl e \<Rightarrow> (\<lparr>ec_client = None\<rparr>, Some e)
      | Inr client \<Rightarrow> (\<lparr>ec_client = Some client\<rparr>, None))"

definition ethereum_client_of :: "(string \<Rightarrow> bytes) \<Rightarrow> 'w ethereumClient \<Rightarrow> 'w EthereumClient" where
  "ethereum_client_of HexToHash c = \<lparr>
     GetBlockNumber = eth_GetBlockNumber c,
     GetTransactionReceipt = eth_GetTransactionReceipt HexToHash c\<rparr>"

section \<open>The contracts\<close>

text \<open>
  The methods of the generated bindings. A filter takes the first and the last block and the topics
  to select by; the services select by no topic.
\<close>

record 'w WrappedPocketBinding =
  bnd_GetUserNonce :: "bytes \<Rightarrow> ('w, int result) io"
  bnd_FilterMinted :: "int \<Rightarrow> int \<Rightarrow> bytes list \<Rightarrow> int list \<Rightarrow> int list \<Rightarrow> ('w, Minted LogIterator result) io"
  bnd_FilterBurnAndBridge ::
    "int \<Rightarrow> int \<Rightarrow> int list \<Rightarrow> bytes list \<Rightarrow> bytes list \<Rightarrow> ('w, BurnAndBridge LogIterator result) io"
  bnd_ParseBurnAndBridge :: "Log \<Rightarrow> BurnAndBridge result"

definition impl_FilterMinted ::
    "'w WrappedPocketBinding \<Rightarrow> int \<Rightarrow> int \<Rightarrow> bytes list \<Rightarrow> int list \<Rightarrow> int list \<Rightarrow>
      ('w, Minted LogIterator result) io" where
  "impl_FilterMinted x start stop recipient amount nonce =
     then_ok (bnd_FilterMinted x start stop recipient amount nonce) (\<lambda>iterator. ret (Inr iterator))"

definition impl_FilterBurnAndBridge ::
    "'w WrappedPocketBinding \<Rightarrow> int \<Rightarrow> int \<Rightarrow> int list \<Rightarrow> bytes list \<Rightarrow> bytes list \<Rightarrow>
      ('w, BurnAndBridge LogIterator result) io" where
  "impl_FilterBurnAndBridge x start stop amount poktAddress sender =
     then_ok (bnd_FilterBurnAndBridge x start stop amount poktAddress sender) (\<lambda>iterator. ret (Inr iterator))"

definition NewWrappedPocketContract :: "'w WrappedPocketBinding \<Rightarrow> 'w WrappedPocketContract" where
  "NewWrappedPocketContract x = \<lparr>
     GetUserNonce = bnd_GetUserNonce x,
     FilterMinted = (\<lambda>start stop. impl_FilterMinted x start stop [] [] []),
     FilterBurnAndBridge = (\<lambda>start stop. impl_FilterBurnAndBridge x start stop [] [] []),
     ParseBurnAndBridge = bnd_ParseBurnAndBridge x\<rparr>"

section \<open>What a validated client can rely on\<close>

lemma can_return_fatal_unless [simp]: "can_return (fatal_unless msg m) (Inr b) \<longleftrightarrow> can_return m (Inr b)"
proof -
  have "(case r of Inl e \<Rightarrow> Inl (f e) | Inr a \<Rightarrow> Inr a) = Inr b \<longleftrightarrow> r = Inr b"
    for f :: "error \<Rightarrow> error" and r by (cases r) auto
  then show ?thesis by (simp add: fatal_unless_def can_return_def run_simps)
qed

lemma eth_ValidateNetwork_Inr:
  assumes "can_return (eth_ValidateNetwork Dial config c) (Inr c')"
  shows "\<exists>node. Dial (eth_RPCURL config) = Inr node \<and> ec_client c' = Some node \<and>
     (\<exists>chainID. can_return (node_ChainID node) (Inr chainID) \<and> FormatInt chainID = eth_ChainID config) \<and>
     (\<exists>n. can_return (node_BlockNumber node) (Inr n))"
  using assms unfolding eth_ValidateNetwork_def eth_GetChainID_def eth_GetBlockNumber_def with_node_def
  by (auto elim!: can_return_then_okE simp: Let_def split: sum.splits if_splits)

end
