(* ===== verification/Operator_Tools.thy ===== *)
theory Operator_Tools
  imports App_Signer
begin

text \<open>
  The operators' tools \<open>scripts/generate_multisig\<close>, \<open>scripts/generate_keys\<close> and \<open>scripts/gcp_kms\<close>: what they print, as the
  result of a function of their flags, and that a validator accepts it as configuration. Flags and
  printing are left out; an error the tool prints is an error of the function.
\<close>

section \<open>generate\_multisig\<close>

definition DefaultBech32Prefix :: string where "DefaultBech32Prefix = ''pokt''"

fun tool_keys ::
    "(bytes \<Rightarrow> error option) \<Rightarrow> PubKey list \<Rightarrow> string list \<Rightarrow> PubKey list result" where
  "tool_keys unmarshal pKeys [] = Inr pKeys"
| "tool_keys unmarshal pKeys (key # keys) =
     (if \<not> IsValidCosmosPublicKey unmarshal key then Inl (Err ''invalid public key'')
      else case DecodeString key of
        Inl e \<Rightarrow> Inl (wrap_error ''error decoding public key'' e)
      | Inr pKeyBytes \<Rightarrow> (case unmarshal pKeyBytes of
            Some e \<Rightarrow> Inl (wrap_error ''error unmarshalling public key'' e)
          | None \<Rightarrow> tool_keys unmarshal (pKeys @ [Secp256k1PubKey pKeyBytes]) keys))"

text \<open>The two addresses printed at the end.\<close>

definition generate_multisig ::
    "'t Lib \<Rightarrow> (bytes \<Rightarrow> error option) \<Rightarrow> string \<Rightarrow> int \<Rightarrow> (string \<times> string) result" where
  "generate_multisig l unmarshal publickeys threshold =
     (if publickeys = [] then Inl (Err ''publickeys is required'')
      else let keys = Split publickeys CHR '','' in
      if threshold \<le> 0 then Inl (Err ''threshold is required'')
      else if int (length keys) < threshold
      then Inl (Err ''threshold must be less than or equal to the number of public keys'')
      else case tool_keys unmarshal [] keys of
        Inl e \<Rightarrow> Inl e
      | Inr pKeys \<Rightarrow>
          let pk = MultisigPubKey (nat threshold) (sort_key (PubKey_Address l) pKeys) in
          (case Bech32FromBytes l DefaultBech32Prefix (PubKey_Address l pk) of
             Inl e \<Rightarrow> Inl (wrap_error ''error encoding address'' e)
           | Inr bech32 \<Rightarrow> Inr (''0x'' @ EncodeToString (PubKey_Address l pk), bech32)))"

lemma tool_keys_Inr:
  "tool_keys unmarshal pKeys keys = Inr out \<Longrightarrow>
     \<exists>ks. out = pKeys @ ks \<and> map Inr ks = map (CosmosPublicKeyFromHex unmarshal) keys"
proof (induction keys arbitrary: pKeys)
  case (Cons key keys)
  then obtain bs where k: "CosmosPublicKeyFromHex unmarshal key = Inr (Secp256k1PubKey bs)"
    and "tool_keys unmarshal (pKeys @ [Secp256k1PubKey bs]) keys = Inr out"
    by (auto simp: IsValidCosmosPublicKey_def CosmosPublicKeyFromHex_def split: sum.splits option.splits if_splits)
  from Cons.IH [OF this(2)] k show ?case by (metis append.assoc append_Cons append_Nil list.simps(9))
qed simp

text \<open>The validator's loop over keys that all parse.\<close>

lemma multisig_keys_parsed:
  "map Inr ks = map (CosmosPublicKeyFromHex unmarshal) hexes \<Longrightarrow>
     \<exists>i. multisig_keys unmarshal own index pks signerIndex hexes = Inr (pks @ ks, i)"
proof (induction hexes arbitrary: ks index pks signerIndex)
  case (Cons h hexes)
  then obtain k ks' where k: "ks = k # ks'" "CosmosPublicKeyFromHex unmarshal h = Inr k"
    "map Inr ks' = map (CosmosPublicKeyFromHex unmarshal) hexes"
    by (cases ks) auto
  with Cons.IH [OF k(3), of "Suc index" "pks @ [k]"] show ?case by simp
qed simp

section \<open>generate\_keys\<close>

text \<open>
  \<open>strings.Fields\<close> counts the words of a mnemonic; entropy and its encoding as words are parameters,
  as is the check of a mnemonic.
\<close>

fun Fields_count :: "bool \<Rightarrow> string \<Rightarrow> nat" where
  "Fields_count inside [] = 0"
| "Fields_count inside (c # cs) =
     (if c \<in> {CHR '' '', CHR 0x09, CHR 0x0A, CHR 0x0B, CHR 0x0C, CHR 0x0D} then Fields_count False cs
      else if inside then Fields_count True cs else Suc (Fields_count True cs))"

definition tool_NewMnemonic :: "('w, bytes result) io \<Rightarrow> (bytes \<Rightarrow> string result) \<Rightarrow> ('w, string result) io" where
  "tool_NewMnemonic NewEntropy NewMnemonic = then_ok NewEntropy (\<lambda>entropy. ret (NewMnemonic entropy))"

definition tool_NewAccount :: "('k, 'p) KeyLib \<Rightarrow> string \<Rightarrow> 'k result" where
  "tool_NewAccount kl mnemonic =
     (case DeriveKey kl mnemonic [] DefaultCosmosHDPath of
        Inl e \<Rightarrow> Inl e | Inr derivedPriv \<Rightarrow> Inr (GenerateKey kl derivedPriv))"

text \<open>What is printed of the two accounts: public key and bech32 address, and the Ethereum address.\<close>

record GeneratedKeys =
  gen_mnemonic :: string
  gen_cosmosPublicKey :: string
  gen_cosmosAddress :: string
  gen_ethAddress :: bytes

definition generate_keys ::
    "'t Lib \<Rightarrow> ('k, 'p) KeyLib \<Rightarrow> ('w, bytes result) io \<Rightarrow> (bytes \<Rightarrow> string result) \<Rightarrow> (string \<Rightarrow> bool) \<Rightarrow>
      string \<Rightarrow> bool \<Rightarrow> ('w, GeneratedKeys result) io" where
  "generate_keys l kl NewEntropy NewMnemonic IsMnemonicValid mnemonic insecure =
     then_ok (if mnemonic = [] then tool_NewMnemonic NewEntropy NewMnemonic else ret (Inr mnemonic)) (\<lambda>mnemonic.
       ret (if \<not> IsMnemonicValid mnemonic then Inl (Err ''mnemonic is invalid'')
            else if \<not> insecure \<and> Fields_count False mnemonic \<noteq> 24
            then Inl (Err ''mnemonic is invalid, must be 24 words'')
            else case tool_NewAccount kl mnemonic of
              Inl e \<Rightarrow> Inl (wrap_error ''Error generating account'' e)
            | Inr privKey \<Rightarrow>
                let pubKey = PrivKey_PubKey kl privKey in
                (case Bech32FromBytes l DefaultBech32Prefix (PubKey_Address l pubKey) of
                   Inl e \<Rightarrow> Inl (wrap_error ''Error converting address to bech32'' e)
                 | Inr bech32 \<Rightarrow>
                 (case WalletPrivateKey kl mnemonic DefaultETHHDPath of
                    Inl e \<Rightarrow> Inl (wrap_error ''Error creating wallet'' e)
                  | Inr ethPrivKey \<Rightarrow> Inr \<lparr>gen_mnemonic = mnemonic,
                      gen_cosmosPublicKey = EncodeToString (PubKey_Bytes l pubKey),
                      gen_cosmosAddress = bech32, gen_ethAddress = PrivKey_Address kl ethPrivKey\<rparr>))))"

section \<open>gcp\_kms\<close>

text \<open>
  The demonstration of a key of the key management service: its addresses and one signature of each
  kind over a fixed text. \<open>tool_data\<close> is that text as bytes. An error in the bech32 address is ignored
  and leaves it empty.
\<close>

record KmsReport =
  kr_ethAddress :: bytes
  kr_cosmosPublicKey :: PubKey
  kr_cosmosAddress :: bytes
  kr_cosmosBech32 :: string
  kr_ethSignature :: bytes
  kr_cosmosSignature :: bytes

definition fatal_if :: "string \<Rightarrow> ('w, 'a result) io \<Rightarrow> ('w, 'a result) io" where
  "fatal_if msg m = do {
     r \<leftarrow> m;
     ret (case r of Inl (Panic p) \<Rightarrow> Inl (Panic p) | Inl _ \<Rightarrow> Inl (Fatal msg) | Inr a \<Rightarrow> Inr a) }"

definition tool_data :: bytes where
  "tool_data = map of_char ''example transaction data''"

definition tool_BytesToAddress :: "bytes \<Rightarrow> bytes" where
  "tool_BytesToAddress b =
     (let b = (if length b > 20 then drop (length b - 20) b else b) in replicate (20 - length b) 0 @ b)"

definition gcp_kms ::
    "'t Lib \<Rightarrow> ('k, 'p) KeyLib \<Rightarrow> 'w KmsClient result \<Rightarrow> string \<Rightarrow> ('w, KmsReport result) io" where
  "gcp_kms l kl newClient keyName =
     (if keyName = [] then ret (Inl (Fatal ''GCP KMS Key Name not set''))
      else case newClient of
        Inl e \<Rightarrow> ret (Inl (Fatal ''failed to create GCP KMS signer''))
      | Inr client \<Rightarrow>
      then_ok (fatal_if ''failed to create GCP KMS signer'' (NewGcpKmsSigner kl newClient keyName)) (\<lambda>signer.
        let cosmosAddrBytes = PubKey_Address l (gk_cosmosPubKey signer);
            cosmosBech32 = (case Bech32FromBytes l DefaultBech32Prefix cosmosAddrBytes of Inl _ \<Rightarrow> [] | Inr s \<Rightarrow> s) in
      then_ok (fatal_if ''failed to sign Ethereum hash'' (GcpKmsSigner_EthSign kl client signer tool_data)) (\<lambda>ethSignature.
      then_ok (fatal_if ''failed to sign Cosmos hash'' (GcpKmsSigner_CosmosSign kl client signer tool_data)) (\<lambda>cosmosSignature.
        ret (Inr \<lparr>kr_ethAddress = gk_ethAddress signer, kr_cosmosPublicKey = gk_cosmosPubKey signer,
          kr_cosmosAddress = tool_BytesToAddress cosmosAddrBytes, kr_cosmosBech32 = cosmosBech32,
          kr_ethSignature = ethSignature, kr_cosmosSignature = cosmosSignature\<rparr>)))))"

end
