(* ===== verification/Startup_Properties.thy ===== *)
theory Startup_Properties
  imports Startup Database_Setup Eth_Client Operator_Tools Reference_World
begin

text \<open>
  The properties of the start of a process: its configuration, the account it signs for, the indexes
  of the database, and the processes that come out of \<open>main\<close>.
\<close>

section \<open>Configuration\<close>



definition full_config :: Config where
  "full_config = ref_cfg\<lparr>
     cfg_MongoDB := \<lparr>mdb_URI = ''mongodb://db'', mdb_Database = ''bridge'', mdb_TimeoutMillis = 1000\<rparr>,
     cfg_Ethereum := (cfg_Ethereum ref_cfg)\<lparr>eth_RPCURL := ''http://eth'', eth_RPCTimeoutMillis := 1000,
       eth_PrivateKey := ''0xab'', eth_WrappedPocketAddress := ref_recipient,
       eth_MintControllerAddress := ref_recipient, eth_ValidatorAddresses := [ref_recipient]\<rparr>,
     cfg_Pocket := (cfg_Pocket ref_cfg)\<lparr>pokt_RPCURL := ''http://pokt'', pokt_RPCTimeoutMillis := 1000,
       pokt_Mnemonic := ''words'',
       pokt_MultisigPublicKeys := [EncodeToString (replicate 33 2), EncodeToString (replicate 33 1)]\<rparr>,
     cfg_HealthCheck := \<lparr>hc_IntervalMillis = 5000, hc_ReadLastHealth = True\<rparr>\<rparr>"




text \<open>Reading the environment is idempotent, and changes nothing where no variable is set. A numeric
  variable that does not parse changes nothing either.\<close>

theorem environment_overrides:
  "env_Config getenv (env_Config getenv c) = env_Config getenv c \<and>
   ((\<forall>name. getenv name = []) \<longrightarrow> env_Config getenv c = c) \<and>
   (ParseInt (getenv ''POKT_CONFIRMATIONS'') = None \<longrightarrow>
      pokt_Confirmations (cfg_Pocket (env_Config getenv c)) = pokt_Confirmations (cfg_Pocket c))"
  using env_Config_idem [of getenv c] env_Config_unset [of getenv c]
  by (auto simp: env_Config_def env_Pocket_def env_parsed_def)

theorem environment_overrides_witness:
  "env_Config (\<lambda>_. []) full_config = full_config"
  using environment_overrides [of "\<lambda>_. []" full_config] by simp

section \<open>The account of the validators\<close>

text \<open>The order in which a validator lists the members does not matter. Two validators whose lists hold
  the same keys build the same multisig and the same vault address, wherever in the list they find
  themselves, as keys with different bytes have different addresses.\<close>

theorem multisig_independent_of_order:
  assumes "can_return (GetPocketSignerAndMultisig l unmarshal config createSigner) (Inr ps)"
    and "can_return (GetPocketSignerAndMultisig l unmarshal (config\<lparr>pokt_MultisigPublicKeys := hexes\<rparr>)
      createSigner') (Inr ps')"
    and "mset hexes = mset (pokt_MultisigPublicKeys config)"
    and "inj_on (PubKey_Address l) {k. Inr k \<in> CosmosPublicKeyFromHex unmarshal ` set hexes}"
  shows "ps_Multisig ps' = ps_Multisig ps \<and> ps_MultisigAddress ps' = ps_MultisigAddress ps"
proof -
  let ?parse = "CosmosPublicKeyFromHex unmarshal"
  from GetPocketSigner_Inr [OF assms(1)] obtain ks where ks:
    "map Inr ks = map ?parse (pokt_MultisigPublicKeys config)"
    "ps_Multisig ps = make_multisig l (int64 (pokt_MultisigThreshold config)) ks"
    "ps_MultisigAddress ps = multisig_address l (pokt_Bech32Prefix config) (ps_Multisig ps)"
    by auto
  from GetPocketSigner_Inr [OF assms(2)] obtain ks' where ks':
    "map Inr ks' = map ?parse hexes"
    "ps_Multisig ps' = make_multisig l (int64 (pokt_MultisigThreshold config)) ks'"
    "ps_MultisigAddress ps' = multisig_address l (pokt_Bech32Prefix config) (ps_Multisig ps')"
    by auto
  have "mset (map Inr ks' :: PubKey result list) = mset (map Inr ks)"
    unfolding ks(1) ks'(1) using assms(3) by simp
  then have "mset ks' = mset ks" by (rule mset_map_Inr)
  moreover have "set ks' \<subseteq> {k. Inr k \<in> ?parse ` set hexes}"
    using arg_cong [OF ks'(1), of set] by auto
  then have "inj_on (PubKey_Address l) (set ks')" by (rule inj_on_subset [OF assms(4)])
  ultimately have "make_multisig l n ks' = make_multisig l n ks" for n by (rule make_multisig_order)
  with ks ks' show ?thesis by simp
qed

theorem multisig_independent_of_order_witness:
  "\<exists>ps ps'. fst (run_state (GetPocketSignerAndMultisig (ref_lib ref_decode) (\<lambda>_. None)
       (cfg_Pocket full_config) (ret (Inr (ps_Signer ref_signer)))) ref_init) = Inr ps \<and>
     fst (run_state (GetPocketSignerAndMultisig (ref_lib ref_decode) (\<lambda>_. None)
       ((cfg_Pocket full_config)\<lparr>pokt_MultisigPublicKeys :=
          [EncodeToString (replicate 33 1), EncodeToString (replicate 33 2)]\<rparr>)
       (ret (Inr (ps_Signer ref_signer)))) ref_init) = Inr ps' \<and> ps_Multisig ps' = ps_Multisig ps"
proof -
  let ?hexes = "[EncodeToString (replicate 33 1), EncodeToString (replicate 33 2)]"
  let ?g = "\<lambda>c. GetPocketSignerAndMultisig (ref_lib ref_decode) (\<lambda>_. None) c (ret (Inr (ps_Signer ref_signer)))"
  let ?r = "fst (run_state (?g (cfg_Pocket full_config)) ref_init)"
  let ?r' = "fst (run_state (?g ((cfg_Pocket full_config)\<lparr>pokt_MultisigPublicKeys := ?hexes\<rparr>)) ref_init)"
  have "\<not> isl ?r" "\<not> isl ?r'" by code_simp+
  then obtain ps ps' where r: "?r = Inr ps" "?r' = Inr ps'" by (metis isl_def old.sum.exhaust)
  have "{k. Inr k \<in> CosmosPublicKeyFromHex (\<lambda>_. None) ` set ?hexes} = {key1, key2}"
  proof -
    have "map (CosmosPublicKeyFromHex (\<lambda>_. None)) ?hexes = [Inr key1, Inr key2]" by code_simp
    then show ?thesis by auto
  qed
  moreover have "inj_on (PubKey_Address (ref_lib ref_decode)) {key1, key2}"
    by (simp add: ref_lib_def key1_def key2_def inj_on_def)
  moreover have "mset ?hexes = mset (pokt_MultisigPublicKeys (cfg_Pocket full_config))"
    by (simp add: full_config_def)
  moreover have "can_return (?g (cfg_Pocket full_config)) (Inr ps)"
    "can_return (?g ((cfg_Pocket full_config)\<lparr>pokt_MultisigPublicKeys := ?hexes\<rparr>)) (Inr ps')"
    using r by (auto simp: can_return_def)
  ultimately have "ps_Multisig ps' = ps_Multisig ps"
    by (metis multisig_independent_of_order)
  with r show ?thesis by blast
qed

text \<open>C38: what the operators' tool prints is accepted. A validator configured with the keys given to
  \<open>generate_multisig\<close>, the same threshold and the printed address as its vault, builds its signer, with
  this vault address, whenever its own key is among the keys and has an address.\<close>

theorem generated_multisig_accepted:
  assumes "generate_multisig l unmarshal publickeys threshold = Inr (addressHex, vault)"
    and "threshold < 2 ^ 63"
    and "pokt_MultisigPublicKeys config = Split publickeys CHR '',''" "pokt_MultisigThreshold config = threshold"
    and "pokt_MultisigAddress config = vault" "pokt_Bech32Prefix config = ''pokt''"
    and "h \<in> set (Split publickeys CHR '','')" "CosmosPublicKeyFromHex unmarshal h = Inr (CosmosPublicKey signer)"
    and "Bech32FromBytes l ''pokt'' (PubKey_Address l (CosmosPublicKey signer)) = Inr a"
  shows "\<exists>ps. run_state (GetPocketSignerAndMultisig l unmarshal config (ret (Inr signer))) w = (Inr ps, w) \<and>
     ps_MultisigAddress ps = vault \<and> ps_Signer ps = signer"
proof -
  obtain ks where t: "0 < threshold" "threshold \<le> int (length (Split publickeys CHR '',''))"
    and ks: "map Inr ks = map (CosmosPublicKeyFromHex unmarshal) (Split publickeys CHR '','')"
    and v: "Bech32FromBytes l ''pokt'' (PubKey_Address l (make_multisig l threshold ks)) = Inr vault"
    using assms(1) tool_keys_Inr [of unmarshal "[]"]
    by (fastforce simp: generate_multisig_def make_multisig_def DefaultBech32Prefix_def Let_def
        split: if_splits sum.splits)
  have i: "int64 threshold = threshold" using t(1) assms(2) by (simp add: is_int64_def)
  obtain j where m: "multisig_keys unmarshal (CosmosPublicKey signer) 0 [] (-1) (pokt_MultisigPublicKeys config) = Inr (ks, j)"
    using multisig_keys_parsed [OF ks, of "CosmosPublicKey signer" 0 "[]" "-1"] assms(3) by auto
  have "Inr (CosmosPublicKey signer) \<in> set (map (CosmosPublicKeyFromHex unmarshal) (Split publickeys CHR '',''))"
    using assms(7,8) by force
  then have "CosmosPublicKey signer \<in> set ks" unfolding ks [symmetric] by auto
  then have "j \<noteq> -1" using multisig_keys_Inr [OF m] by auto
  then show ?thesis
    using assms t i v m
    by (simp add: GetPocketSignerAndMultisig_def run_simps multisig_address_def Let_def EqualFold_def)
qed

theorem generated_multisig_accepted_witness:
  "\<exists>ps. fst (run_state (GetPocketSignerAndMultisig (ref_lib ref_decode) (\<lambda>_. None)
     (cfg_Pocket full_config) (ret (Inr (ps_Signer ref_signer)))) ref_init) = Inr ps \<and>
     ps_MultisigAddress ps = ref_vault"
proof -
  let ?keys = "EncodeToString (replicate 33 2) @ '','' @ EncodeToString (replicate 33 1)"
  have "generate_multisig (ref_lib ref_decode) (\<lambda>_. None) ?keys 2 =
      Inr (''0x'' @ EncodeToString (replicate 20 2), ref_vault)" by code_simp
  moreover have "pokt_MultisigPublicKeys (cfg_Pocket full_config) = Split ?keys CHR '',''" by code_simp
  moreover have "CosmosPublicKeyFromHex (\<lambda>_. None) (EncodeToString (replicate 33 1)) =
      Inr (CosmosPublicKey (ps_Signer ref_signer))" by code_simp
  moreover have "EncodeToString (replicate 33 1) \<in> set (Split ?keys CHR '','')" by code_simp
  moreover have "\<not> isl (Bech32FromBytes (ref_lib ref_decode) ''pokt''
      (PubKey_Address (ref_lib ref_decode) (CosmosPublicKey (ps_Signer ref_signer))))" by code_simp
  then obtain a where "Bech32FromBytes (ref_lib ref_decode) ''pokt''
      (PubKey_Address (ref_lib ref_decode) (CosmosPublicKey (ps_Signer ref_signer))) = Inr a"
    by (metis isl_def old.sum.exhaust)
  moreover have "pokt_MultisigThreshold (cfg_Pocket full_config) = 2"
    "pokt_MultisigAddress (cfg_Pocket full_config) = ref_vault"
    "pokt_Bech32Prefix (cfg_Pocket full_config) = ''pokt''"
    by (simp_all add: full_config_def ref_cfg_def)
  ultimately show ?thesis
    using generated_multisig_accepted [of "ref_lib ref_decode" "\<lambda>_. None" ?keys 2 _ ref_vault
        "cfg_Pocket full_config" _ "ps_Signer ref_signer" a ref_init]
    by fastforce
qed

text \<open>The same for keys: the validator derives from the printed mnemonic what the tool has printed.\<close>

lemma generated_keys_accepted:
  assumes "can_return (generate_keys l kl NewEntropy NewMnemonic valid mnemonic insecure) (Inr gen)"
  shows "\<exists>s. NewMnemonicSigner kl (gen_mnemonic gen) = Inr s \<and>
     EncodeToString (PubKey_Bytes l (mn_cosmosPubKey s)) = gen_cosmosPublicKey gen \<and>
     mn_ethAddress s = gen_ethAddress gen"
  using assms unfolding generate_keys_def
  by (auto elim!: can_return_then_okE simp: tool_NewAccount_def NewMnemonicSigner_def Let_def
      EthereumPrivateKeyFromMnemonic_def CosmosPrivateKeyFromMnemonic_def DefaultBIP39Passphrase_def
      split: if_splits sum.splits)

section \<open>The database\<close>

text \<open>C39: a process goes on only when every unique index the protocol relies on exists in the database,
  those of all four collections.\<close>

theorem startup_installs_unique_indexes:
  assumes "index_catalogue dep catalogue"
    and "run_state (InitDB dep config) w = (Inr (), w')"
    and "i \<in> set (unique_indexes c)"
  shows "(c, i) \<in> catalogue w'"
  using index_catalogue.InitDB_created [OF assms(1,2)] index_models_all [OF assms(3)] by blast

theorem startup_installs_unique_indexes_witness:
  "(CollectionMints, \<lparr>ix_Keys = [''transaction_hash''], ix_PartialLong = False\<rparr>) \<in>
     snd (run_state (InitDB ref_deployment (cfg_MongoDB full_config)) {})"
proof (rule startup_installs_unique_indexes [OF ref_catalogue.index_catalogue_axioms])
  let ?r = "run_state (InitDB ref_deployment (cfg_MongoDB full_config)) {}"
  have "fst ?r = Inr ()"
    by (simp add: InitDB_def MongoDatabase_Connect_def SetupIndexesAndLocker_def index_models_def
        ref_deployment_def run_simps)
  then show "?r = (Inr (), snd ?r)" by (metis prod.collapse)
qed (simp add: unique_indexes_def)

section \<open>The processes of main\<close>






end
