(* ===== verification/Cosmos_Client.thy ===== *)
theory Cosmos_Client
  imports Service_Context "HOL-Library.Sublist"
begin

text \<open>
  \<open>cosmos/client/client.go\<close>, \<open>helpers.go\<close> and \<open>cosmos/network.go\<close>: the client of the Cosmos chain over
  a gRPC connection or an HTTP node, its paged search for transactions, and what the search returns
  of a list that grows while it is read. The two connections and the SDK's decoders are parameters;
  a context that times out shows as an error of the operation it bounds. Pointers that the code
  dereferences unchecked are options.
\<close>

section \<open>The connections\<close>

text \<open>The parts of the responses the client reads.\<close>

record Header =
  hdr_Height :: int
  hdr_ChainID :: string

record ResultStatus =
  st_LatestBlockHeight :: int
  st_Network :: string

record ResultTx =
  rtx_Height :: int
  rtx_Hash :: bytes
  rtx_Code :: int
  rtx_Events :: "Event list"
  rtx_Tx :: bytes

record ResultBlock =
  rb_Time :: nat

record GasInfo =
  gas_Wanted :: "64 word"
  gas_Used :: "64 word"

text \<open>
  The three gRPC services on one connection. \<open>GetTxsEvent\<close> takes the query, the page and the limit
  (the order is ascending) and returns the transactions of the page and the total; a broadcast
  returns code, log and hash.
\<close>

record 'w GrpcConn =
  grpc_GetLatestBlock :: "('w, Header option result) io"
  grpc_GetTxsEvent :: "string \<Rightarrow> 64 word \<Rightarrow> 64 word \<Rightarrow> ('w, (TxResponse list \<times> 64 word) result) io"
  grpc_GetTx :: "string \<Rightarrow> ('w, TxResponse option result) io"
  grpc_Account :: "string \<Rightarrow> ('w, bytes option result) io"
  grpc_BroadcastTx :: "bytes \<Rightarrow> ('w, (int \<times> string \<times> string) option result) io"
  grpc_Simulate :: "bytes \<Rightarrow> ('w, GasInfo result) io"

record 'w CosmosHTTPClient =
  http_Block :: "int \<Rightarrow> ('w, ResultBlock result) io"
  http_Status :: "('w, ResultStatus result) io"
  http_Tx :: "bytes \<Rightarrow> ('w, ResultTx result) io"
  http_TxSearch :: "string \<Rightarrow> int \<Rightarrow> int \<Rightarrow> ('w, (ResultTx list \<times> int) result) io"
  http_ABCIQuery :: "string \<Rightarrow> bytes \<Rightarrow> ('w, (int \<times> string \<times> bytes) result) io"
  http_BroadcastTxSync :: "bytes \<Rightarrow> ('w, (int \<times> string \<times> bytes) result) io"
  http_CheckTx :: "bytes \<Rightarrow> ('w, (int \<times> string \<times> int \<times> int) result) io"

text \<open>
  The SDK's codecs: the decoder of transactions, \<open>AsAny\<close> (\<open>None\<close> for a value that has no such
  method), the construction of a response, the messages of the account query.
\<close>

record 'd CometLib =
  NewTxDecoder :: "string \<Rightarrow> bytes \<Rightarrow> 'd result"
  AsAny :: "'d \<Rightarrow> bytes option"
  FormatRFC3339 :: "nat \<Rightarrow> string"
  NewResponseResultTx :: "ResultTx \<Rightarrow> bytes \<Rightarrow> string \<Rightarrow> TxResponse"
  MarshalAccountRequest :: "string \<Rightarrow> string \<Rightarrow> bytes"
  UnmarshalAccountResponse :: "bytes \<Rightarrow> bytes option result"
  UnmarshalBaseAccount :: "bytes \<Rightarrow> BaseAccount result"
  HexBytes_String :: "bytes \<Rightarrow> string"

record 'w cosmosClient =
  cc_grpcEnabled :: bool
  cc_confirmations :: "64 word"
  cc_config :: CosmosConfig
  cc_bech32Prefix :: string
  cc_coinDenom :: string
  cc_grpcConn :: "'w GrpcConn option"
  cc_rpcClient :: "'w CosmosHTTPClient option"

definition nil_pointer :: error where "nil_pointer = Panic ''nil pointer dereference''"

text \<open>A call through a connection that may be nil, and an error given a message of its own.\<close>

definition on_conn :: "'c option \<Rightarrow> ('c \<Rightarrow> ('w, 'a result) io) \<Rightarrow> ('w, 'a result) io" where
  "on_conn c f = (case c of None \<Rightarrow> ret (Inl nil_pointer) | Some c \<Rightarrow> f c)"

definition or_fail :: "string \<Rightarrow> ('w, 'a result) io \<Rightarrow> ('w, 'a result) io" where
  "or_fail msg m = do { r \<leftarrow> m; ret (map_sum (wrap_error msg) id r) }"

lemma can_return_or_fail [simp]: "can_return (or_fail msg m) (Inr b) \<longleftrightarrow> can_return m (Inr b)"
proof -
  have "map_sum f id r = Inr b \<longleftrightarrow> r = Inr b" for f :: "error \<Rightarrow> error" and r by (cases r) auto
  then show ?thesis by (simp add: or_fail_def can_return_def run_simps)
qed

section \<open>Height, chain and network\<close>

definition Confirmations :: "'w cosmosClient \<Rightarrow> 64 word" where
  "Confirmations c = cc_confirmations c"

definition getLatestBlockGRPC :: "'w cosmosClient \<Rightarrow> ('w, Header option result) io" where
  "getLatestBlockGRPC c = on_conn (cc_grpcConn c) grpc_GetLatestBlock"

definition getStatusRPC :: "'w cosmosClient \<Rightarrow> ('w, ResultStatus result) io" where
  "getStatusRPC c = on_conn (cc_rpcClient c) http_Status"

definition client_GetLatestBlockHeight :: "'w cosmosClient \<Rightarrow> ('w, int result) io" where
  "client_GetLatestBlockHeight c =
     (if cc_grpcEnabled c
      then then_ok (getLatestBlockGRPC c) (\<lambda>block. ret (case block of
             None \<Rightarrow> Inl nil_pointer | Some header \<Rightarrow> Inr (hdr_Height header)))
      else then_ok (getStatusRPC c) (\<lambda>status. ret (Inr (st_LatestBlockHeight status))))"

definition client_GetChainID :: "'w cosmosClient \<Rightarrow> ('w, string result) io" where
  "client_GetChainID c =
     (if cc_grpcEnabled c
      then then_ok (or_fail ''failed to get latest block'' (getLatestBlockGRPC c)) (\<lambda>block. ret (case block of
             None \<Rightarrow> Inl nil_pointer | Some header \<Rightarrow> Inr (hdr_ChainID header)))
      else then_ok (or_fail ''failed to get status'' (getStatusRPC c)) (\<lambda>status. ret (Inr (st_Network status))))"

definition client_ValidateNetwork :: "'w cosmosClient \<Rightarrow> ('w, unit result) io" where
  "client_ValidateNetwork c =
     then_ok (client_GetChainID c) (\<lambda>chainID. ret
       (if chainID \<noteq> pokt_ChainID (cc_config c)
        then Inl (Err (''expected chain id '' @ pokt_ChainID (cc_config c) @ '', got '' @ chainID))
        else Inr ()))"

section \<open>Transactions of a page\<close>

text \<open>The map of blocks by height: every height is fetched once.\<close>

fun getBlocksForTxResults ::
    "'w CosmosHTTPClient \<Rightarrow> (int \<rightharpoonup> ResultBlock) \<Rightarrow> ResultTx list \<Rightarrow>
      ('w, (int \<rightharpoonup> ResultBlock) result) io" where
  "getBlocksForTxResults node resBlocks [] = ret (Inr resBlocks)"
| "getBlocksForTxResults node resBlocks (resTx # rest) =
     (if resBlocks (rtx_Height resTx) = None
      then then_ok (http_Block node (rtx_Height resTx)) (\<lambda>resBlock.
             getBlocksForTxResults node (resBlocks(rtx_Height resTx \<mapsto> resBlock)) rest)
      else getBlocksForTxResults node resBlocks rest)"

definition mkTxResult ::
    "'d CometLib \<Rightarrow> string \<Rightarrow> ResultTx \<Rightarrow> ResultBlock option \<Rightarrow> TxResponse result" where
  "mkTxResult cl bech32Prefix resTx resBlock =
     (case NewTxDecoder cl bech32Prefix (rtx_Tx resTx) of
        Inl e \<Rightarrow> Inl (wrap_error ''decoding tx'' e)
      | Inr txb \<Rightarrow> (case AsAny cl txb of
           None \<Rightarrow> Inl (Err ''expecting a type implementing intoAny'')
         | Some any \<Rightarrow> (case resBlock of
              None \<Rightarrow> Inl nil_pointer
            | Some block \<Rightarrow> Inr (NewResponseResultTx cl resTx any (FormatRFC3339 cl (rb_Time block))))))"

fun formatTxResults ::
    "'d CometLib \<Rightarrow> string \<Rightarrow> ResultTx list \<Rightarrow> (int \<rightharpoonup> ResultBlock) \<Rightarrow> TxResponse list result" where
  "formatTxResults cl bech32Prefix [] resBlocks = Inr []"
| "formatTxResults cl bech32Prefix (resTx # rest) resBlocks =
     (case mkTxResult cl bech32Prefix resTx (resBlocks (rtx_Height resTx)) of
        Inl e \<Rightarrow> Inl e
      | Inr out \<Rightarrow> (case formatTxResults cl bech32Prefix rest resBlocks of
           Inl e \<Rightarrow> Inl e | Inr outs \<Rightarrow> Inr (out # outs)))"

definition getTxsByEventsPerPageGRPC ::
    "'w cosmosClient \<Rightarrow> string \<Rightarrow> nat \<Rightarrow> ('w, (TxResponse list \<times> 64 word) result) io" where
  "getTxsByEventsPerPageGRPC c query page =
     on_conn (cc_grpcConn c) (\<lambda>client. grpc_GetTxsEvent client query (of_nat page) 50)"

definition getTxsByEventsPerPageRPC ::
    "'d CometLib \<Rightarrow> 'w cosmosClient \<Rightarrow> string \<Rightarrow> nat \<Rightarrow> ('w, (TxResponse list \<times> 64 word) result) io" where
  "getTxsByEventsPerPageRPC cl c query page = on_conn (cc_rpcClient c) (\<lambda>node.
     then_ok (or_fail ''failed to get txs'' (http_TxSearch node query (int page) 100)) (\<lambda>(resTxs, totalCount).
     then_ok (or_fail ''failed to get blocks for txs'' (getBlocksForTxResults node Map.empty resTxs)) (\<lambda>resBlocks.
       ret (case formatTxResults cl (cc_bech32Prefix c) resTxs resBlocks of
          Inl e \<Rightarrow> Inl (wrap_error ''failed to format tx results'' e)
        | Inr txs \<Rightarrow> Inr (txs, word_of_int totalCount)))))"

section \<open>All pages\<close>

definition maxPageDepth :: nat where "maxPageDepth = 500"

text \<open>
  The loop of \<open>getTxsByEvents\<close>, over the request for one page. The page counter never leaves the
  range of \<open>uint64\<close>, as it stops at \<open>maxPageDepth\<close>; the total is read as \<open>int(total)\<close>.
\<close>

function all_pages ::
    "(nat \<Rightarrow> ('w, (TxResponse list \<times> 64 word) result) io) \<Rightarrow> nat \<Rightarrow> TxResponse list \<Rightarrow>
      ('w, TxResponse list result) io" where
  "all_pages per_page page txs = do {
     r \<leftarrow> per_page page;
     case r of
       Inl e \<Rightarrow> ret (Inl e)
     | Inr (respTxs, total_count) \<Rightarrow>
         if respTxs = [] \<or> int (length (txs @ respTxs)) \<ge> sint total_count \<or> page \<ge> maxPageDepth
         then ret (Inr (txs @ respTxs))
         else all_pages per_page (page + 1) (txs @ respTxs) }"
  by pat_completeness auto
termination by (relation "measure (\<lambda>(_, page, _). maxPageDepth - page)") auto

declare all_pages.simps [simp del]

definition getTxsByEvents :: "'d CometLib \<Rightarrow> 'w cosmosClient \<Rightarrow> string \<Rightarrow> ('w, TxResponse list result) io" where
  "getTxsByEvents cl c query =
     all_pages (\<lambda>page. if cc_grpcEnabled c then getTxsByEventsPerPageGRPC c query page
                       else getTxsByEventsPerPageRPC cl c query page) 1 []"

text \<open>The queries \<open>transfer.recipient='a' AND tx.height>=n\<close> and \<open>transfer.sender='a' AND tx.height>=n\<close>.\<close>

definition transfer_query :: "string \<Rightarrow> string \<Rightarrow> int \<Rightarrow> string" where
  "transfer_query role address height =
     ''transfer.'' @ role @ ''='' @ [CHR 0x27] @ address @ [CHR 0x27] @ '' AND tx.height>='' @ FormatInt height"

definition client_GetTxsSentToAddressAfterHeight ::
    "'t Lib \<Rightarrow> 'd CometLib \<Rightarrow> 'w cosmosClient \<Rightarrow> string \<Rightarrow> int \<Rightarrow> ('w, TxResponse list result) io" where
  "client_GetTxsSentToAddressAfterHeight l cl c address height =
     (if \<not> IsValidBech32Address l (cc_bech32Prefix c) address
      then ret (Inl (Err ''invalid bech32 address''))
      else getTxsByEvents cl c (transfer_query ''recipient'' address height))"

definition client_GetTxsSentFromAddressAfterHeight ::
    "'t Lib \<Rightarrow> 'd CometLib \<Rightarrow> 'w cosmosClient \<Rightarrow> string \<Rightarrow> int \<Rightarrow> ('w, TxResponse list result) io" where
  "client_GetTxsSentFromAddressAfterHeight l cl c address height =
     (if \<not> IsValidBech32Address l (cc_bech32Prefix c) address
      then ret (Inl (Err ''invalid bech32 address''))
      else getTxsByEvents cl c (transfer_query ''sender'' address height))"

section \<open>One transaction\<close>

definition getTxGRPC :: "'w cosmosClient \<Rightarrow> string \<Rightarrow> ('w, TxResponse option result) io" where
  "getTxGRPC c hash = on_conn (cc_grpcConn c) (\<lambda>client.
     or_fail ''failed to get tx'' (grpc_GetTx client hash))"

definition getTxRPC ::
    "'d CometLib \<Rightarrow> 'w cosmosClient \<Rightarrow> string \<Rightarrow> ('w, TxResponse option result) io" where
  "getTxRPC cl c hash =
     (case DecodeString hash of
        Inl e \<Rightarrow> ret (Inl (wrap_error ''failed to decode hash'' e))
      | Inr hashBytes \<Rightarrow> on_conn (cc_rpcClient c) (\<lambda>node.
          then_ok (or_fail ''failed to get tx'' (http_Tx node hashBytes)) (\<lambda>resTx.
          then_ok (or_fail ''failed to get blocks for tx'' (getBlocksForTxResults node Map.empty [resTx])) (\<lambda>resBlocks.
            ret (case mkTxResult cl (cc_bech32Prefix c) resTx (resBlocks (rtx_Height resTx)) of
               Inl e \<Rightarrow> Inl (wrap_error ''failed to format tx result'' e)
             | Inr out \<Rightarrow> Inr (Some out))))))"

definition client_GetTx ::
    "'d CometLib \<Rightarrow> 'w cosmosClient \<Rightarrow> string \<Rightarrow> ('w, TxResponse option result) io" where
  "client_GetTx cl c hash =
     (let hash = TrimPrefix hash ''0x'' in
      if cc_grpcEnabled c then getTxGRPC c hash else getTxRPC cl c hash)"

section \<open>Accounts\<close>

definition getAccountGRPC ::
    "'d CometLib \<Rightarrow> 'w cosmosClient \<Rightarrow> string \<Rightarrow> ('w, BaseAccount result) io" where
  "getAccountGRPC cl c address = on_conn (cc_grpcConn c) (\<lambda>client.
     then_ok (grpc_Account client address) (\<lambda>account. ret (case account of
        None \<Rightarrow> Inl nil_pointer | Some val \<Rightarrow> UnmarshalBaseAccount cl val)))"

definition getAccountRPC ::
    "'d CometLib \<Rightarrow> 'w cosmosClient \<Rightarrow> string \<Rightarrow> ('w, BaseAccount result) io" where
  "getAccountRPC cl c address = on_conn (cc_rpcClient c) (\<lambda>node.
     then_ok (or_fail ''failed to get account'' (http_ABCIQuery node ''/cosmos.auth.v1beta1.Query/Account''
         (MarshalAccountRequest cl (cc_bech32Prefix c) address))) (\<lambda>(code, log, val).
       ret (if code \<noteq> 0
            then Inl (Err (''failed to get account, got code '' @ FormatInt code @ '': '' @ log))
            else case UnmarshalAccountResponse cl val of
              Inl e \<Rightarrow> Inl (wrap_error ''failed to unmarshal account'' e)
            | Inr None \<Rightarrow> Inl nil_pointer
            | Inr (Some val) \<Rightarrow> map_sum (wrap_error ''failed to unmarshal base account'') id
                                  (UnmarshalBaseAccount cl val))))"

definition client_GetAccount ::
    "'t Lib \<Rightarrow> 'd CometLib \<Rightarrow> 'w cosmosClient \<Rightarrow> string \<Rightarrow> ('w, BaseAccount result) io" where
  "client_GetAccount l cl c address =
     (if \<not> IsValidBech32Address l (cc_bech32Prefix c) address
      then ret (Inl (Err ''invalid bech32 address''))
      else if cc_grpcEnabled c then getAccountGRPC cl c address else getAccountRPC cl c address)"

section \<open>Broadcast and simulation\<close>

definition broadcastTxGRPC :: "'w cosmosClient \<Rightarrow> bytes \<Rightarrow> ('w, string result) io" where
  "broadcastTxGRPC c txBytes = on_conn (cc_grpcConn c) (\<lambda>client.
     then_ok (or_fail ''failed to broadcast tx'' (grpc_BroadcastTx client txBytes)) (\<lambda>resp. ret (case resp of
        None \<Rightarrow> Inl nil_pointer
      | Some (code, rawLog, txHash) \<Rightarrow>
          if code \<noteq> 0
          then Inl (Err (''failed to broadcast tx, got code '' @ FormatInt code @ '': '' @ rawLog))
          else Inr txHash)))"

definition broadcastTxRPC :: "'d CometLib \<Rightarrow> 'w cosmosClient \<Rightarrow> bytes \<Rightarrow> ('w, string result) io" where
  "broadcastTxRPC cl c txBytes = on_conn (cc_rpcClient c) (\<lambda>node.
     then_ok (or_fail ''failed to broadcast tx'' (http_BroadcastTxSync node txBytes)) (\<lambda>(code, log, hash). ret
       (if code \<noteq> 0
        then Inl (Err (''failed to broadcast tx, got code '' @ FormatInt code @ '': '' @ log))
        else Inr (HexBytes_String cl hash))))"

definition client_BroadcastTx :: "'d CometLib \<Rightarrow> 'w cosmosClient \<Rightarrow> bytes \<Rightarrow> ('w, string result) io" where
  "client_BroadcastTx cl c txBytes =
     (if cc_grpcEnabled c then broadcastTxGRPC c txBytes else broadcastTxRPC cl c txBytes)"

definition simulateGRPC :: "'w cosmosClient \<Rightarrow> bytes \<Rightarrow> ('w, GasInfo result) io" where
  "simulateGRPC c txBytes = on_conn (cc_grpcConn c) (\<lambda>client.
     or_fail ''failed to simulate tx'' (grpc_Simulate client txBytes))"

definition simulateRPC :: "'w cosmosClient \<Rightarrow> bytes \<Rightarrow> ('w, GasInfo result) io" where
  "simulateRPC c txBytes = on_conn (cc_rpcClient c) (\<lambda>node.
     then_ok (or_fail ''failed to simulate tx'' (http_CheckTx node txBytes)) (\<lambda>(code, log, gasWanted, gasUsed). ret
       (if code \<noteq> 0
        then Inl (Err (''failed to simulate tx, got code '' @ FormatInt code @ '': '' @ log))
        else Inr \<lparr>gas_Wanted = word_of_int gasWanted, gas_Used = word_of_int gasUsed\<rparr>)))"

definition client_Simulate :: "'w cosmosClient \<Rightarrow> bytes \<Rightarrow> ('w, GasInfo result) io" where
  "client_Simulate c txBytes =
     (if cc_grpcEnabled c then simulateGRPC c txBytes else simulateRPC c txBytes)"

section \<open>Construction\<close>

text \<open>The interface the services use, implemented by a client.\<close>

definition cosmos_client_of :: "'t Lib \<Rightarrow> 'd CometLib \<Rightarrow> 'w cosmosClient \<Rightarrow> 'w CosmosClient" where
  "cosmos_client_of l cl c = \<lparr>
     GetLatestBlockHeight = client_GetLatestBlockHeight c,
     GetTxsSentToAddressAfterHeight = client_GetTxsSentToAddressAfterHeight l cl c,
     GetAccount = client_GetAccount l cl c,
     BroadcastTx = client_BroadcastTx cl c,
     GetTx = client_GetTx cl c\<rparr>"

definition new_cosmosClient ::
    "CosmosConfig \<Rightarrow> 'w GrpcConn option \<Rightarrow> 'w CosmosHTTPClient option \<Rightarrow> 'w cosmosClient" where
  "new_cosmosClient config connection client = \<lparr>
     cc_grpcEnabled = pokt_GRPCEnabled config, cc_confirmations = word_of_int (pokt_Confirmations config),
     cc_config = config, cc_bech32Prefix = pokt_Bech32Prefix config, cc_coinDenom = pokt_CoinDenom config,
     cc_grpcConn = connection, cc_rpcClient = client\<rparr>"

text \<open>
  \<open>grpcNewClient\<close> and \<open>rpchttpNew\<close> connect to the address they are given; the client is built when its
  network has been validated.
\<close>

definition NewCosmosClient ::
    "(string \<Rightarrow> 'w GrpcConn result) \<Rightarrow> (string \<Rightarrow> string \<Rightarrow> 'w CosmosHTTPClient result) \<Rightarrow> CosmosConfig \<Rightarrow>
      ('w, 'w cosmosClient result) io" where
  "NewCosmosClient grpcNewClient rpchttpNew config =
     (case (if pokt_GRPCEnabled config
            then (case grpcNewClient (pokt_GRPCHost config @ '':'' @ FormatInt (pokt_GRPCPort config)) of
                Inl e \<Rightarrow> Inl (Err ''failed to connect to grpc'')
              | Inr conn \<Rightarrow> Inr (new_cosmosClient config (Some conn) None))
            else (case rpchttpNew (pokt_RPCURL config) ''/websocket'' of
                Inl e \<Rightarrow> Inl (Err ''failed to connect to rpc'')
              | Inr client \<Rightarrow> Inr (new_cosmosClient config None (Some client)))) of
        Inl e \<Rightarrow> ret (Inl e)
      | Inr c \<Rightarrow> then_ok (or_fail ''failed to validate network'' (client_ValidateNetwork c)) (\<lambda>_. ret (Inr c)))"

text \<open>\<open>cosmos.ValidateNetwork\<close> panics where the client cannot be built.\<close>

definition cosmos_ValidateNetwork :: "('w, 'w cosmosClient result) io \<Rightarrow> ('w, unit result) io" where
  "cosmos_ValidateNetwork newClient = do {
     r \<leftarrow> newClient;
     ret (case r of Inl (Panic p) \<Rightarrow> Inl (Panic p) | Inl e \<Rightarrow> Inl (Panic ''failed to create client'')
        | Inr _ \<Rightarrow> Inr ()) }"

end
