(* ===== verification/Cosmos_Paging.thy ===== *)
theory Cosmos_Paging
  imports Cosmos_Client
begin

text \<open>
  What the paged search of the Cosmos client returns: the locale \<open>paged_search\<close> states what a request
  for one page promises of a list that may grow between requests; the locales \<open>grpc_node\<close> and
  \<open>http_node\<close> state the documented answers of the two kinds of node, and the client's page requests
  satisfy \<open>paged_search\<close> over either of them.
\<close>

section \<open>The contract of a page request\<close>

locale paged_search =
  fixes per_page :: "nat \<Rightarrow> ('w, (TxResponse list \<times> 64 word) result) io"
    and found :: "'w \<Rightarrow> 'r list" and response :: "'r \<Rightarrow> TxResponse"
    and limit :: nat
  assumes limit_pos: "0 < limit"
    and page_law: "run_state (per_page page) w = (Inr (ts, n), w') \<Longrightarrow> 1 \<le> page \<Longrightarrow> page \<le> maxPageDepth \<Longrightarrow>
      \<exists>L. prefix (found w) L \<and> prefix L (found w') \<and>
        ts = map response (take limit (drop ((page - 1) * limit) L)) \<and> sint n = int (length L)"
begin

lemma take_page: "1 \<le> page \<Longrightarrow> take ((page - 1) * limit) L @ take limit (drop ((page - 1) * limit) L) = take (page * limit) L"
  by (cases page) (simp_all add: take_add [symmetric] add.commute)

lemma all_pages_found:
  assumes "run_state (all_pages per_page page txs) w = (Inr out, w')"
    and "1 \<le> page" "page \<le> maxPageDepth"
    and "txs = map response (take ((page - 1) * limit) (found w))" "length txs = (page - 1) * limit"
  shows "\<exists>L. prefix (found w) L \<and> prefix L (found w') \<and> out = map response (take (maxPageDepth * limit) L)"
  using assms
proof (induction "maxPageDepth - page" arbitrary: page txs w rule: less_induct)
  case less
  obtain r w1 where r: "run_state (per_page page) w = (r, w1)" by fastforce
  obtain ts n where ts: "r = Inr (ts, n)"
    using less.prems(1) by (subst (asm) all_pages.simps) (auto simp: run_simps r split: sum.splits)
  obtain L where L: "prefix (found w) L" "prefix L (found w1)"
    "ts = map response (take limit (drop ((page - 1) * limit) L))" "sint n = int (length L)"
    using page_law r ts less.prems(2,3) by blast
  have "map response (take ((page - 1) * limit) L) = txs"
    using L(1) less.prems(4,5) by (auto simp: prefix_def)
  then have out: "txs @ ts = map response (take (page * limit) L)"
    using take_page [OF less.prems(2), of L] L(3) by (metis map_append)
  show ?case
  proof (cases "ts = [] \<or> int (length (txs @ ts)) \<ge> sint n \<or> page \<ge> maxPageDepth")
    case True
    then have "out = txs @ ts" "w' = w1"
      using less.prems(1) by (subst (asm) all_pages.simps; auto simp: run_simps r ts)+
    moreover have "take (page * limit) L = take (maxPageDepth * limit) L"
      using True
    proof (elim disjE)
      assume "ts = []"
      then have "length L \<le> (page - 1) * limit" using L(3) limit_pos by simp
      moreover have "(page - 1) * limit \<le> page * limit" "page * limit \<le> maxPageDepth * limit"
        using less.prems(3) by (auto intro: mult_right_mono)
      ultimately show ?thesis by (metis le_trans take_all)
    next
      assume "int (length (txs @ ts)) \<ge> sint n"
      then have "length L \<le> page * limit" using L(4) out by simp
      moreover have "page * limit \<le> maxPageDepth * limit"
        using less.prems(3) by (auto intro: mult_right_mono)
      ultimately show ?thesis by (metis le_trans take_all)
    next
      assume "page \<ge> maxPageDepth" then show ?thesis using less.prems(3) by simp
    qed
    ultimately show ?thesis using L out by auto
  next
    case False
    then have "run_state (all_pages per_page (page + 1) (txs @ ts)) w1 = (Inr out, w')"
      using less.prems(1) by (subst (asm) all_pages.simps) (auto simp: run_simps r ts)
    moreover have "length L > page * limit" using False out L(4) by auto
    then have "txs @ ts = map response (take ((page + 1 - 1) * limit) (found w1))" "length (txs @ ts) = (page + 1 - 1) * limit"
      using out L(2) by (auto simp: prefix_def)
    moreover have "maxPageDepth - (page + 1) < maxPageDepth - page" "1 \<le> page + 1" "page + 1 \<le> maxPageDepth"
      using False by auto
    ultimately have "\<exists>L. prefix (found w1) L \<and> prefix L (found w') \<and> out = map response (take (maxPageDepth * limit) L)"
      using less.hyps by blast
    then obtain L' where "prefix (found w1) L'" "prefix L' (found w')" "out = map response (take (maxPageDepth * limit) L')" by blast
    moreover have "prefix (found w) (found w1)" using L(1,2) by (rule prefix_order.trans)
    ultimately show ?thesis by (blast intro: prefix_order.trans)
  qed
qed

lemma first_page:
  assumes "run_state (all_pages per_page 1 []) w = (Inr out, w')"
  shows "\<exists>L. prefix (found w) L \<and> prefix L (found w') \<and> out = map response (take (maxPageDepth * limit) L)"
  by (rule all_pages_found [OF assms]) (simp_all add: maxPageDepth_def)

end

section \<open>The requests of a search\<close>

text \<open>The pages are asked for in order, each once, and at most \<open>maxPageDepth\<close> of them.\<close>

lemma all_pages_requests:
  assumes "\<And>p w. asked (snd (run_state (per_page p) w)) = asked w @ [ask p]"
    and "page \<le> maxPageDepth"
  shows "\<exists>k. page \<le> k \<and> k \<le> maxPageDepth \<and>
     asked (snd (run_state (all_pages per_page page txs) w)) = asked w @ map ask [page ..< Suc k]"
  using assms(2)
proof (induction "maxPageDepth - page" arbitrary: page txs w rule: less_induct)
  case less
  obtain r w1 where r: "run_state (per_page page) w = (r, w1)" by fastforce
  then have a: "asked w1 = asked w @ [ask page]" using assms(1) [of page w] by simp
  show ?case
  proof (cases "\<exists>ts n. r = Inr (ts, n) \<and> \<not> (ts = [] \<or> int (length (txs @ ts)) \<ge> sint n \<or> page \<ge> maxPageDepth)")
    case False
    then have "snd (run_state (all_pages per_page page txs) w) = w1"
      by (subst all_pages.simps) (auto simp: run_simps r split: sum.splits)
    with a less.prems show ?thesis by (intro exI [of _ page]) simp
  next
    case True
    then obtain ts n where t: "r = Inr (ts, n)"
      "\<not> (ts = [] \<or> int (length (txs @ ts)) \<ge> sint n \<or> page \<ge> maxPageDepth)" by blast
    then have next_page: "run_state (all_pages per_page page txs) w = run_state (all_pages per_page (page + 1) (txs @ ts)) w1"
      by (subst all_pages.simps) (auto simp: run_simps r)
    have "maxPageDepth - (page + 1) < maxPageDepth - page" "page + 1 \<le> maxPageDepth" using t(2) by auto
    then obtain k where k: "page + 1 \<le> k" "k \<le> maxPageDepth"
      "asked (snd (run_state (all_pages per_page (page + 1) (txs @ ts)) w1)) = asked w1 @ map ask [page + 1 ..< Suc k]"
      using less.hyps by blast
    moreover have "[page ..< Suc k] = page # [page + 1 ..< Suc k]" using k(1) by (simp add: upt_conv_Cons)
    ultimately show ?thesis by (intro exI [of _ k]) (simp add: next_page a)
  qed
qed

section \<open>A gRPC node\<close>

text \<open>
  \<open>GetTxsEvent\<close> answers with a page of the transactions that match the query, in ascending order, and
  with their number; while time passes, matching transactions are only added, at the end.
\<close>

locale grpc_node =
  fixes conn :: "'w GrpcConn" and txs_of :: "string \<Rightarrow> 'w \<Rightarrow> TxResponse list"
  assumes txs_event: "run_state (grpc_GetTxsEvent conn q p n) w = (Inr (ts, t), w') \<Longrightarrow> 1 \<le> p \<Longrightarrow> 1 \<le> n \<Longrightarrow>
    \<exists>L. prefix (txs_of q w) L \<and> prefix L (txs_of q w') \<and>
      ts = take (unat n) (drop ((unat p - 1) * unat n) L) \<and> t = of_nat (length L) \<and> length L < 2 ^ 63"

locale grpc_client = grpc_node +
  fixes c :: "'w cosmosClient"
  assumes enabled: "cc_grpcEnabled c" and connected: "cc_grpcConn c = Some conn"

lemma sint_of_length: "length L < 2 ^ 63 \<Longrightarrow> sint (of_nat (length L) :: 64 word) = int (length L)"
  using sint_sbintrunc' [where 'a = 64, of "int (length L)"]
  by (simp add: signed_take_bit_int_eq_self)

lemma page_word: "page \<le> maxPageDepth \<Longrightarrow> unat (of_nat page :: 64 word) = page"
  by (simp add: maxPageDepth_def unat_of_nat)

sublocale grpc_client \<subseteq> grpc_pages: paged_search "getTxsByEventsPerPageGRPC c q" "txs_of q" id 50 for q
proof unfold_locales
  fix page w ts n w'
  assume r: "run_state (getTxsByEventsPerPageGRPC c q page) w = (Inr (ts, n), w')"
    and p: "1 \<le> page" "page \<le> maxPageDepth"
  have u: "unat (of_nat page :: 64 word) = page" using p(2) by (rule page_word)
  have "(1::64 word) \<le> of_nat page" "(1::64 word) \<le> 50" using p(1) u by (simp_all add: word_le_nat_alt)
  moreover have "run_state (grpc_GetTxsEvent conn q (of_nat page) 50) w = (Inr (ts, n), w')"
    using r by (simp add: getTxsByEventsPerPageGRPC_def on_conn_def connected)
  ultimately obtain L where "prefix (txs_of q w) L" "prefix L (txs_of q w')"
    "ts = take (unat (50 :: 64 word)) (drop ((unat (of_nat page :: 64 word) - 1) * unat (50 :: 64 word)) L)"
    "n = of_nat (length L)" "length L < 2 ^ 63"
    using txs_event by blast
  with u show "\<exists>L. prefix (txs_of q w) L \<and> prefix L (txs_of q w') \<and>
      ts = map id (take 50 (drop ((page - 1) * 50) L)) \<and> sint n = int (length L)"
    using sint_of_length [of L] by (intro exI [of _ L]) simp
qed simp

section \<open>An HTTP node\<close>

text \<open>
  \<open>TxSearch\<close> answers like \<open>GetTxsEvent\<close>, with the raw transactions; the block of a height never
  changes. \<open>tx_response\<close> is the response the client makes of a raw transaction.
\<close>

definition tx_response ::
    "(int \<Rightarrow> ResultBlock) \<Rightarrow> 'd CometLib \<Rightarrow> string \<Rightarrow> ResultTx \<Rightarrow> TxResponse" where
  "tx_response block_of cl p tx = projr (mkTxResult cl p tx (Some (block_of (rtx_Height tx))))"

locale http_node =
  fixes node :: "'w CosmosHTTPClient" and raw_of :: "string \<Rightarrow> 'w \<Rightarrow> ResultTx list"
    and block_of :: "int \<Rightarrow> ResultBlock"
  assumes tx_search: "run_state (http_TxSearch node q p n) w = (Inr (ts, t), w') \<Longrightarrow> 1 \<le> p \<Longrightarrow> 1 \<le> n \<Longrightarrow>
    \<exists>L. prefix (raw_of q w) L \<and> prefix L (raw_of q w') \<and>
      ts = take (nat n) (drop (nat (p - 1) * nat n) L) \<and> t = int (length L) \<and> length L < 2 ^ 63"
    and fixed_block: "run_state (http_Block node h) w = (r, w') \<Longrightarrow>
      prefix (raw_of q w) (raw_of q w') \<and> (\<forall>b. r = Inr b \<longrightarrow> b = block_of h)"
begin

definition true_blocks :: "(int \<rightharpoonup> ResultBlock) \<Rightarrow> bool" where
  "true_blocks m \<longleftrightarrow> (\<forall>h b. m h = Some b \<longrightarrow> b = block_of h)"

lemma blocks_found:
  "run_state (getBlocksForTxResults node m ts) w = (r, w') \<Longrightarrow> true_blocks m \<Longrightarrow>
     prefix (raw_of q w) (raw_of q w') \<and>
     (\<forall>m'. r = Inr m' \<longrightarrow> dom m' = dom m \<union> rtx_Height ` set ts \<and> true_blocks m')"
proof (induction ts arbitrary: m w)
  case (Cons tx ts)
  let ?h = "rtx_Height tx"
  show ?case
  proof (cases "m ?h")
    case None
    obtain r1 w1 where b: "run_state (http_Block node ?h) w = (r1, w1)" by fastforce
    note f = fixed_block [OF b, of q]
    show ?thesis
    proof (cases r1)
      case (Inl e)
      with Cons.prems(1) None b f show ?thesis by (auto simp: run_simps)
    next
      case (Inr blk)
      with f have "blk = block_of ?h" by simp
      then have t: "true_blocks (m(?h \<mapsto> blk))" using Cons.prems(2) by (simp add: true_blocks_def)
      have "run_state (getBlocksForTxResults node (m(?h \<mapsto> blk)) ts) w1 = (r, w')"
        using Cons.prems(1) None b Inr by (simp add: run_simps)
      from Cons.IH [OF this t] f show ?thesis by (auto intro: prefix_order.trans)
    qed
  next
    case (Some b)
    then have "run_state (getBlocksForTxResults node m ts) w = (r, w')" "?h \<in> dom m"
      using Cons.prems(1) by auto
    from Cons.IH [OF this(1) Cons.prems(2)] this(2) show ?thesis by (metis Un_insert_left Un_insert_right insert_absorb list.set(2) image_insert)
  qed
qed (auto simp: run_simps)

lemma formatted:
  "formatTxResults cl p ts m = Inr outs \<Longrightarrow> rtx_Height ` set ts \<subseteq> dom m \<Longrightarrow> true_blocks m \<Longrightarrow>
     outs = map (tx_response block_of cl p) ts"
  by (induction ts arbitrary: outs)
    (auto simp: tx_response_def true_blocks_def split: sum.splits; metis sum.sel(2))+

end

locale http_client = http_node +
  fixes c :: "'w cosmosClient"
  assumes disabled: "\<not> cc_grpcEnabled c" and connected: "cc_rpcClient c = Some node"

sublocale http_client \<subseteq> http_pages: paged_search "getTxsByEventsPerPageRPC cl c q" "raw_of q" "tx_response block_of cl (cc_bech32Prefix c)" 100
  for cl q
proof unfold_locales
  fix page w ts n w'
  assume r: "run_state (getTxsByEventsPerPageRPC cl c q page) w = (Inr (ts, n), w')"
    and p: "1 \<le> page" "page \<le> maxPageDepth"
  obtain r1 w1 where s: "run_state (http_TxSearch node q (int page) 100) w = (r1, w1)" by fastforce
  then obtain raw t where t: "r1 = Inr (raw, t)" using r
    by (cases r1) (auto simp: getTxsByEventsPerPageRPC_def on_conn_def connected or_fail_def run_simps)
  obtain r2 w2 where b: "run_state (getBlocksForTxResults node Map.empty raw) w1 = (r2, w2)" by fastforce
  with r s t obtain m where m: "r2 = Inr m" "w2 = w'" "n = word_of_int t"
    "formatTxResults cl (cc_bech32Prefix c) raw m = Inr ts"
    by (cases r2) (auto simp: getTxsByEventsPerPageRPC_def on_conn_def connected or_fail_def run_simps
        split: sum.splits)
  obtain L where L: "prefix (raw_of q w) L" "prefix L (raw_of q w1)"
    "raw = take 100 (drop ((page - 1) * 100) L)" "t = int (length L)" "length L < 2 ^ 63"
    using tx_search [OF s [unfolded t]] p(1) by (auto simp: nat_diff_distrib)
  have g: "prefix (raw_of q w1) (raw_of q w')" "dom m = rtx_Height ` set raw" "true_blocks m"
    using blocks_found [OF b, of q] m(1,2) by (auto simp: true_blocks_def)
  have "ts = map (tx_response block_of cl (cc_bech32Prefix c)) raw" using formatted [OF m(4)] g by simp
  moreover have "prefix L (raw_of q w')" using L(2) g(1) by (rule prefix_order.trans)
  ultimately show "\<exists>L. prefix (raw_of q w) L \<and> prefix L (raw_of q w') \<and>
      ts = map (tx_response block_of cl (cc_bech32Prefix c)) (take 100 (drop ((page - 1) * 100) L)) \<and>
      sint n = int (length L)"
    using L(1,3,4,5) m(3) sint_of_length [of L] by (intro exI [of _ L]) simp
qed simp

text \<open>The searches of a client over either node.\<close>

context grpc_client
begin

lemma search:
  assumes "run_state (getTxsByEvents cl c q) w = (Inr txs, w')"
  shows "\<exists>L. prefix (txs_of q w) L \<and> prefix L (txs_of q w') \<and> txs = take 25000 L"
  using grpc_pages.first_page [of q w txs w'] assms enabled
  by (simp add: getTxsByEvents_def maxPageDepth_def)

end

context http_client
begin

lemma search:
  assumes "run_state (getTxsByEvents cl c q) w = (Inr txs, w')"
  shows "\<exists>L. prefix (raw_of q w) L \<and> prefix L (raw_of q w') \<and>
     txs = map (tx_response block_of cl (cc_bech32Prefix c)) (take 50000 L)"
  using http_pages.first_page [of cl q w txs w'] assms disabled
  by (simp add: getTxsByEvents_def maxPageDepth_def)

end

end
