(* ===== verification/Client_Frame.thy ===== *)
theory Client_Frame
  imports Cosmos_Paging Reference_World
begin

text \<open>
  The Cosmos client in its place: the operations of the client over connections that leave the
  documents alone satisfy what the services ask of their client, and a reference node whose list of
  transactions grows while it is read.
\<close>

section \<open>What the operations of the client change\<close>

definition framed_grpc :: "('v \<Rightarrow> 'v \<Rightarrow> bool) \<Rightarrow> ('w \<Rightarrow> 'v) \<Rightarrow> 'w GrpcConn \<Rightarrow> bool" where
  "framed_grpc R v conn \<longleftrightarrow> writes R v (grpc_GetLatestBlock conn) \<and>
     (\<forall>q p n. writes R v (grpc_GetTxsEvent conn q p n)) \<and> (\<forall>h. writes R v (grpc_GetTx conn h)) \<and>
     (\<forall>a. writes R v (grpc_Account conn a)) \<and> (\<forall>bs. writes R v (grpc_BroadcastTx conn bs))"

definition framed_http :: "('v \<Rightarrow> 'v \<Rightarrow> bool) \<Rightarrow> ('w \<Rightarrow> 'v) \<Rightarrow> 'w CosmosHTTPClient \<Rightarrow> bool" where
  "framed_http R v node \<longleftrightarrow> (\<forall>h. writes R v (http_Block node h)) \<and> writes R v (http_Status node) \<and>
     (\<forall>h. writes R v (http_Tx node h)) \<and> (\<forall>q p n. writes R v (http_TxSearch node q p n)) \<and>
     (\<forall>a bs. writes R v (http_ABCIQuery node a bs)) \<and> (\<forall>bs. writes R v (http_BroadcastTxSync node bs))"

definition framed_client :: "('v \<Rightarrow> 'v \<Rightarrow> bool) \<Rightarrow> ('w \<Rightarrow> 'v) \<Rightarrow> 'w cosmosClient \<Rightarrow> bool" where
  "framed_client R v c \<longleftrightarrow> (\<forall>conn. cc_grpcConn c = Some conn \<longrightarrow> framed_grpc R v conn) \<and>
     (\<forall>node. cc_rpcClient c = Some node \<longrightarrow> framed_http R v node)"

lemma writes_on_conn:
  "(\<And>x. c = Some x \<Longrightarrow> writes R v (f x)) \<Longrightarrow> writes R v (on_conn c f)"
  by (auto simp: on_conn_def intro: writes_ret split: option.splits)

lemma writes_or_fail [writes_intros]: "writes R v m \<Longrightarrow> writes R v (or_fail msg m)"
  unfolding or_fail_def by (intro writes_intros)

lemma writes_blocks:
  "(\<And>h. writes R v (http_Block node h)) \<Longrightarrow> writes R v (getBlocksForTxResults node m ts)"
  by (induction ts arbitrary: m) (auto intro!: writes_intros)

lemma writes_all_pages:
  assumes "\<And>p. writes R v (per_page p)"
  shows "writes R v (all_pages per_page page txs)"
proof (induction "maxPageDepth - page" arbitrary: page txs rule: less_induct)
  case less
  show ?case by (subst all_pages.simps) (intro writes_intros assms, auto intro!: less writes_intros)
qed

text \<open>The rules for the connections of a framed client.\<close>

lemma framed_grpcD:
  "framed_client R v c \<Longrightarrow> cc_grpcConn c = Some conn \<Longrightarrow> framed_grpc R v conn"
  by (simp add: framed_client_def)

lemma framed_httpD:
  "framed_client R v c \<Longrightarrow> cc_rpcClient c = Some node \<Longrightarrow> framed_http R v node"
  by (simp add: framed_client_def)

lemma framed_grpc_ops:
  "framed_grpc R v conn \<Longrightarrow> writes R v (grpc_GetLatestBlock conn)"
  "framed_grpc R v conn \<Longrightarrow> writes R v (grpc_GetTxsEvent conn q p n)"
  "framed_grpc R v conn \<Longrightarrow> writes R v (grpc_GetTx conn h)"
  "framed_grpc R v conn \<Longrightarrow> writes R v (grpc_Account conn a)"
  "framed_grpc R v conn \<Longrightarrow> writes R v (grpc_BroadcastTx conn bs)"
  by (simp_all add: framed_grpc_def)

lemma framed_http_ops:
  "framed_http R v node \<Longrightarrow> writes R v (http_Block node i)"
  "framed_http R v node \<Longrightarrow> writes R v (http_Status node)"
  "framed_http R v node \<Longrightarrow> writes R v (http_Tx node bs)"
  "framed_http R v node \<Longrightarrow> writes R v (http_TxSearch node q j k)"
  "framed_http R v node \<Longrightarrow> writes R v (http_ABCIQuery node a bs)"
  "framed_http R v node \<Longrightarrow> writes R v (http_BroadcastTxSync node bs)"
  by (simp_all add: framed_http_def)

lemmas client_frame = writes_intros writes_on_conn writes_blocks writes_all_pages
  framed_grpc_ops [OF framed_grpcD] framed_http_ops [OF framed_httpD]

lemma client_height_writes: "framed_client R v c \<Longrightarrow> writes R v (client_GetLatestBlockHeight c)"
  unfolding client_GetLatestBlockHeight_def getLatestBlockGRPC_def getStatusRPC_def
  by (intro client_frame)

lemma client_search_writes: "framed_client R v c \<Longrightarrow> writes R v (getTxsByEvents cl c q)"
  unfolding getTxsByEvents_def getTxsByEventsPerPageGRPC_def getTxsByEventsPerPageRPC_def
  by (intro client_frame)

lemma client_transfers_writes:
  "framed_client R v c \<Longrightarrow> writes R v (client_GetTxsSentToAddressAfterHeight l cl c a h)"
  unfolding client_GetTxsSentToAddressAfterHeight_def by (intro client_frame client_search_writes)

lemma client_account_writes: "framed_client R v c \<Longrightarrow> writes R v (client_GetAccount l cl c a)"
  unfolding client_GetAccount_def getAccountGRPC_def getAccountRPC_def by (intro client_frame)

lemma client_broadcast_writes: "framed_client R v c \<Longrightarrow> writes R v (client_BroadcastTx cl c bs)"
  unfolding client_BroadcastTx_def broadcastTxGRPC_def broadcastTxRPC_def by (intro client_frame)

lemma client_tx_writes: "framed_client R v c \<Longrightarrow> writes R v (client_GetTx cl c h)"
  unfolding client_GetTx_def getTxGRPC_def getTxRPC_def Let_def by (intro client_frame)

lemma cosmos_client_simps [simp]:
  "GetLatestBlockHeight (cosmos_client_of l cl c) = client_GetLatestBlockHeight c"
  "GetTxsSentToAddressAfterHeight (cosmos_client_of l cl c) = client_GetTxsSentToAddressAfterHeight l cl c"
  "GetAccount (cosmos_client_of l cl c) = client_GetAccount l cl c"
  "BroadcastTx (cosmos_client_of l cl c) = client_BroadcastTx cl c"
  "GetTx (cosmos_client_of l cl c) = client_GetTx cl c"
  by (simp_all add: cosmos_client_of_def)

lemmas client_writes = client_height_writes client_transfers_writes client_account_writes
  client_broadcast_writes client_tx_writes

lemma client_validator:
  assumes "validator env docs thrC thrE" "framed_client (store_step thrC thrE) docs c"
  shows "validator (env\<lparr>Cosmos := cosmos_client_of l cl c\<rparr>) docs thrC thrE"
proof (rule validator.intro)
  show "shared_store (DB (env\<lparr>Cosmos := cosmos_client_of l cl c\<rparr>)) docs thrC thrE"
    using validator.axioms(1) [OF assms(1)] by simp
  show "validator_axioms (env\<lparr>Cosmos := cosmos_client_of l cl c\<rparr>) docs thrC thrE"
    using validator.axioms(2) [OF assms(1)]
    by (simp add: validator_axioms_def client_writes [OF assms(2)])
qed

section \<open>Reference nodes\<close>

text \<open>
  A chain on which the transactions of a list appear one after the other, one with every request of a
  page; \<open>appeared\<close> are those on it so far.
\<close>

definition appeared :: "'a list \<Rightarrow> ref_world \<Rightarrow> 'a list" where
  "appeared txs w = take (Suc (rw_clock w)) txs"

definition page_of :: "nat \<Rightarrow> nat \<Rightarrow> 'a list \<Rightarrow> 'a list" where
  "page_of p n xs = take n (drop ((p - 1) * n) xs)"

definition tick :: "ref_world \<Rightarrow> ref_world" where
  "tick w = w\<lparr>rw_clock := Suc (rw_clock w)\<rparr>"

definition ref_txs :: "TxResponse list" where
  "ref_txs = [ref_transfer (ref_recipient @ '',1'') 100, (ref_transfer ''refund'' 70)\<lparr>txr_TxHash := ''cd''\<rparr>]"

definition ref_grpc :: "ref_world GrpcConn" where
  "ref_grpc = \<lparr>
     grpc_GetLatestBlock = ret (Inr (Some \<lparr>hdr_Height = 9, hdr_ChainID = ''pocket''\<rparr>)),
     grpc_GetTxsEvent = (\<lambda>_ p n. State (\<lambda>w.
       (Inr (page_of (unat p) (unat n) (appeared ref_txs w), of_nat (length (appeared ref_txs w))), tick w))),
     grpc_GetTx = (\<lambda>_. ret (Inr None)),
     grpc_Account = (\<lambda>_. ret (Inr None)),
     grpc_BroadcastTx = (\<lambda>_. ret (Inr None)),
     grpc_Simulate = (\<lambda>_. ret (Inl (Err ''unavailable'')))\<rparr>"

definition ref_config :: CosmosConfig where
  "ref_config = (cfg_Pocket ref_cfg)\<lparr>pokt_GRPCEnabled := True, pokt_GRPCHost := ''node'', pokt_GRPCPort := 9090\<rparr>"

definition ref_grpc_client :: "ref_world cosmosClient" where
  "ref_grpc_client = new_cosmosClient ref_config (Some ref_grpc) None"

definition ref_raw :: "ResultTx list" where
  "ref_raw = [\<lparr>rtx_Height = 5, rtx_Hash = [0xab], rtx_Code = 0, rtx_Events = [], rtx_Tx = [1]\<rparr>,
     \<lparr>rtx_Height = 6, rtx_Hash = [0xcd], rtx_Code = 3, rtx_Events = [], rtx_Tx = [2]\<rparr>]"

definition ref_http :: "ref_world CosmosHTTPClient" where
  "ref_http = \<lparr>
     http_Block = (\<lambda>h. State (\<lambda>w. (Inr \<lparr>rb_Time = nat h\<rparr>, tick w))),
     http_Status = ret (Inr \<lparr>st_LatestBlockHeight = 9, st_Network = ''pocket''\<rparr>),
     http_Tx = (\<lambda>_. ret (Inr (hd ref_raw))),
     http_TxSearch = (\<lambda>_ p n. State (\<lambda>w.
       (Inr (page_of (nat p) (nat n) (appeared ref_raw w), int (length (appeared ref_raw w))), tick w))),
     http_ABCIQuery = (\<lambda>_ _. ret (Inr (1, ''unknown'', []))),
     http_BroadcastTxSync = (\<lambda>_. ret (Inr (0, [], [0xab]))),
     http_CheckTx = (\<lambda>_. ret (Inr (0, [], 7, 5)))\<rparr>"

definition ref_comet :: "bytes CometLib" where
  "ref_comet = \<lparr>
     NewTxDecoder = (\<lambda>_ bs. Inr bs), AsAny = Some, FormatRFC3339 = (\<lambda>t. FormatInt (int t)),
     NewResponseResultTx = (\<lambda>tx any _. \<lparr>txr_Height = rtx_Height tx, txr_TxHash = EncodeToString (rtx_Hash tx),
       txr_Code = rtx_Code tx, txr_Events = rtx_Events tx, txr_Tx = any\<rparr>),
     MarshalAccountRequest = (\<lambda>_ _. []), UnmarshalAccountResponse = (\<lambda>bs. Inr (Some bs)),
     UnmarshalBaseAccount = (\<lambda>_. Inr \<lparr>acc_AccountNumber = 0, acc_Sequence = 0\<rparr>),
     HexBytes_String = EncodeToString\<rparr>"

definition ref_http_client :: "ref_world cosmosClient" where
  "ref_http_client = new_cosmosClient (cfg_Pocket ref_cfg) None (Some ref_http)"

lemma appeared_tick: "prefix (appeared txs w) (appeared txs (tick w))"
  unfolding appeared_def tick_def by (metis lessI less_imp_le min.absorb1 ref_world.select_convs(2)
      ref_world.surjective ref_world.update_convs(2) Suc_le_mono take_is_prefix take_take)

lemma appeared_length: "length (appeared ref_txs w) < 2 ^ 63" "length (appeared ref_raw w) < 2 ^ 63"
  by (simp_all add: appeared_def ref_txs_def ref_raw_def)

lemma ref_grpc_event:
  assumes "run_state (grpc_GetTxsEvent ref_grpc q p n) w = (Inr (ts, t), w')"
  shows "\<exists>L. prefix (appeared ref_txs w) L \<and> prefix L (appeared ref_txs w') \<and>
      ts = take (unat n) (drop ((unat p - 1) * unat n) L) \<and> t = of_nat (length L) \<and> length L < 2 ^ 63"
  using assms appeared_length
  by (intro exI [of _ "appeared ref_txs w"]) (auto simp: ref_grpc_def page_of_def appeared_tick)

lemma ref_http_search:
  assumes "run_state (http_TxSearch ref_http q p n) w = (Inr (ts, t), w')" "1 \<le> p"
  shows "\<exists>L. prefix (appeared ref_raw w) L \<and> prefix L (appeared ref_raw w') \<and>
      ts = take (nat n) (drop (nat (p - 1) * nat n) L) \<and> t = int (length L) \<and> length L < 2 ^ 63"
  using assms appeared_length
  by (intro exI [of _ "appeared ref_raw w"]) (auto simp: ref_http_def page_of_def appeared_tick nat_diff_distrib)

interpretation ref_grpc_node: grpc_client ref_grpc "\<lambda>_. appeared ref_txs" ref_grpc_client
proof unfold_locales
  fix q p n w ts t w'
  assume "run_state (grpc_GetTxsEvent ref_grpc q p n) w = (Inr (ts, t), w')" "1 \<le> p" "1 \<le> n"
  then show "\<exists>L. prefix (appeared ref_txs w) L \<and> prefix L (appeared ref_txs w') \<and>
      ts = take (unat n) (drop ((unat p - 1) * unat n) L) \<and> t = of_nat (length L) \<and> length L < 2 ^ 63"
    by (intro ref_grpc_event)
qed (auto simp: ref_grpc_client_def new_cosmosClient_def ref_config_def)

interpretation ref_http_node: http_client ref_http "\<lambda>_. appeared ref_raw" "\<lambda>h. \<lparr>rb_Time = nat h\<rparr>" ref_http_client
proof unfold_locales
  fix q p n w ts t w'
  assume "run_state (http_TxSearch ref_http q p n) w = (Inr (ts, t), w')" "1 \<le> p" "1 \<le> n"
  then show "\<exists>L. prefix (appeared ref_raw w) L \<and> prefix L (appeared ref_raw w') \<and>
      ts = take (nat n) (drop (nat (p - 1) * nat n) L) \<and> t = int (length L) \<and> length L < 2 ^ 63"
    by (intro ref_http_search)
qed (auto simp: ref_http_client_def new_cosmosClient_def ref_cfg_def zero_Pocket_def ref_http_def appeared_tick)

lemma ref_grpc_framed: "framed_client R rw_docs ref_grpc_client"
  by (auto simp: framed_client_def framed_grpc_def ref_grpc_client_def new_cosmosClient_def ref_grpc_def tick_def
      intro!: writes_ret quiet_writes quiet_state)

end
