(* ===== verification/Client_Properties.thy ===== *)
theory Client_Properties
  imports Client_Frame
begin

text \<open>
  The properties of the Cosmos client, and of the mint monitor over it.
\<close>

section \<open>The search for transactions\<close>

text \<open>C18: over an HTTP node the search returns, in ascending order and each once, the responses of the
  matching transactions of the chain, although the chain grows between the requests: all of those that
  were there at the start and of those that came later a first part, as long as they are at most 50,000;
  of more it returns the first 50,000, and no error. Each response carries the time of the block of its
  height.\<close>

theorem search_returns_first_transactions:
  assumes "http_client node raw_of block_of c"
    and "run_state (getTxsByEvents cl c query) w = (Inr txs, w')"
  shows "\<exists>L. prefix (raw_of query w) L \<and> prefix L (raw_of query w') \<and>
     txs = map (tx_response block_of cl (cc_bech32Prefix c)) (take 50000 L)"
  using assms by (rule http_client.search)

theorem search_returns_first_transactions_witness:
  "\<exists>L. prefix (take 1 ref_raw) L \<and> fst (run_state (getTxsByEvents ref_comet ref_http_client ''q'') ref_init) =
     Inr (map (tx_response (\<lambda>h. \<lparr>rb_Time = nat h\<rparr>) ref_comet ''pokt'') (take 50000 L))"
proof -
  let ?r = "run_state (getTxsByEvents ref_comet ref_http_client ''q'') ref_init"
  have "isl (fst ?r) = False" by code_simp
  then obtain txs where "?r = (Inr txs, snd ?r)" by (metis isl_def old.sum.exhaust prod.collapse)
  from search_returns_first_transactions [OF ref_http_node.http_client_axioms this]
  have "\<exists>L. prefix (appeared ref_raw ref_init) L \<and>
      txs = map (tx_response (\<lambda>h. \<lparr>rb_Time = nat h\<rparr>) ref_comet (cc_bech32Prefix ref_http_client)) (take 50000 L)"
    by blast
  moreover have "appeared ref_raw ref_init = take 1 ref_raw" "cc_bech32Prefix ref_http_client = ''pokt''"
    by code_simp+
  ultimately show ?thesis using \<open>?r = (Inr txs, snd ?r)\<close> by (metis fst_conv)
qed




section \<open>The client built at the start\<close>

text \<open>A client is built only over the connection its configuration asks for, to the address it names,
  and only when the node reports the configured chain; with \<open>GRPCEnabled\<close> it has a gRPC connection and no
  other, without it the HTTP client and no other.\<close>

theorem NewCosmosClient_validated:
  assumes "can_return (NewCosmosClient grpcNew httpNew config) (Inr c)"
  shows "cc_config c = config \<and> cc_grpcEnabled c = pokt_GRPCEnabled config \<and>
     can_return (client_GetChainID c) (Inr (pokt_ChainID config)) \<and>
     (if pokt_GRPCEnabled config
      then cc_rpcClient c = None \<and> (\<exists>conn. cc_grpcConn c = Some conn \<and>
        grpcNew (pokt_GRPCHost config @ '':'' @ FormatInt (pokt_GRPCPort config)) = Inr conn)
      else cc_grpcConn c = None \<and> (\<exists>node. cc_rpcClient c = Some node \<and>
        httpNew (pokt_RPCURL config) ''/websocket'' = Inr node))"
proof -
  have c: "can_return (client_ValidateNetwork c) (Inr ())"
    "\<exists>conn node. c = new_cosmosClient config conn node \<and>
       (if pokt_GRPCEnabled config then node = None else conn = None) \<and>
       (pokt_GRPCEnabled config \<longrightarrow> conn \<noteq> None \<and>
         grpcNew (pokt_GRPCHost config @ '':'' @ FormatInt (pokt_GRPCPort config)) = Inr (the conn)) \<and>
       (\<not> pokt_GRPCEnabled config \<longrightarrow> node \<noteq> None \<and> httpNew (pokt_RPCURL config) ''/websocket'' = Inr (the node))"
    using assms unfolding NewCosmosClient_def
    by (auto elim!: can_return_then_okE split: sum.splits if_splits)
  from c(1) have "can_return (client_GetChainID c) (Inr (pokt_ChainID (cc_config c)))"
    unfolding client_ValidateNetwork_def by (auto elim!: can_return_then_okE split: if_splits)
  with c(2) show ?thesis by (auto simp: new_cosmosClient_def split: if_splits)
qed

theorem NewCosmosClient_validated_witness:
  "can_return (client_GetChainID ref_grpc_client) (Inr ''pocket'')"
proof -
  have "fst (run_state (NewCosmosClient (\<lambda>_. Inr ref_grpc) (\<lambda>_ _. Inl (Err [])) ref_config) ref_init) =
      Inr ref_grpc_client"
    by (simp add: NewCosmosClient_def client_ValidateNetwork_def client_GetChainID_def getLatestBlockGRPC_def
        on_conn_def or_fail_def ref_grpc_client_def new_cosmosClient_def ref_config_def ref_cfg_def ref_grpc_def run_simps)
  then have "can_return (NewCosmosClient (\<lambda>_. Inr ref_grpc) (\<lambda>_ _. Inl (Err [])) ref_config) (Inr ref_grpc_client)"
    by (auto simp: can_return_def)
  from NewCosmosClient_validated [OF this] show ?thesis
    by (simp add: ref_config_def ref_cfg_def)
qed

section \<open>The client among the services\<close>



text \<open>C6: from the chain to the database. When the mint monitor, over a client with a gRPC connection, moves
  its start height, the first 25,000 of the transfers to the vault that the node held when the turn began,
  from the old start height on, are recorded, each under its hash, as a mint or as an invalid mint.\<close>

theorem mint_monitor_records_chain:
  assumes "validator env docs thrC thrE" "Cosmos env = cosmos_client_of l cl c"
    and "grpc_client conn txs_of c"
    and "run_state (MintMonitor_SyncTxs env x) w = (Inr (ok, x'), w')"
    and "mm_startHeight x' \<noteq> mm_startHeight x"
    and "query = transfer_query ''recipient'' (mm_vaultAddress x) (uint64 (mm_startHeight x))"
    and "tx \<in> set (take 25000 (txs_of query w))"
  shows "seen (Ensure0xPrefix (txr_TxHash tx)) (docs w') \<and> mm_startHeight x' = mm_currentHeight x"
proof -
  obtain txs w1 where q: "run_state (client_GetTxsSentToAddressAfterHeight l cl c (mm_vaultAddress x)
      (uint64 (mm_startHeight x))) w = (Inr txs, w1)"
    and s: "\<forall>tx \<in> set txs. seen (Ensure0xPrefix (txr_TxHash tx)) (docs w')"
      "mm_startHeight x' = mm_currentHeight x"
    using validator.MintMonitor_SyncTxs_complete [OF assms(1,4,5)] by (auto simp: assms(2))
  from q have "run_state (getTxsByEvents cl c query) w = (Inr txs, w1)"
    by (auto simp: client_GetTxsSentToAddressAfterHeight_def run_simps assms(6) split: if_splits)
  from grpc_client.search [OF assms(3) this] obtain L where "prefix (txs_of query w) L" "txs = take 25000 L"
    by blast
  then have "tx \<in> set txs" using assms(7) by (auto simp: prefix_def)
  with s show ?thesis by blast
qed

definition client_env :: "(ref_world, ref_tx) Env" where
  "client_env = (ref_env ref_cfg (ref_lib ref_decode) no_answers)
     \<lparr>Cosmos := cosmos_client_of (ref_lib ref_decode) ref_comet ref_grpc_client\<rparr>"

theorem mint_monitor_records_chain_witness:
  "seen ''0xab'' (rw_docs (snd (run_state (MintMonitor_SyncTxs client_env some_monitor) ref_init)))"
proof -
  let ?r = "run_state (MintMonitor_SyncTxs client_env some_monitor) ref_init"
  let ?q = "transfer_query ''recipient'' (mm_vaultAddress some_monitor) (uint64 (mm_startHeight some_monitor))"
  let ?t = "ref_transfer (ref_recipient @ '',1'') 100"
  have "fst ?r = Inr (True, some_monitor\<lparr>mm_startHeight := 9\<rparr>)" by code_simp
  then have run: "?r = (Inr (True, some_monitor\<lparr>mm_startHeight := 9\<rparr>), snd ?r)" by (metis prod.collapse)
  have val: "validator client_env rw_docs 2 2"
    unfolding client_env_def by (rule client_validator [OF ref_lone.alone.validator_axioms ref_grpc_framed])
  have "Cosmos client_env = cosmos_client_of (ref_lib ref_decode) ref_comet ref_grpc_client"
    by (simp add: client_env_def)
  moreover have "mm_startHeight (some_monitor\<lparr>mm_startHeight := 9\<rparr>) \<noteq> mm_startHeight some_monitor"
    by (simp add: some_monitor_def)
  moreover have "?t \<in> set (take 25000 (appeared ref_txs ref_init))"
    by (simp add: appeared_def ref_txs_def)
  ultimately have "seen (Ensure0xPrefix (txr_TxHash ?t)) (rw_docs (snd ?r))"
    using mint_monitor_records_chain [OF val _ ref_grpc_node.grpc_client_axioms run _ refl] by blast
  moreover have "Ensure0xPrefix (txr_TxHash ?t) = ''0xab''" by code_simp
  ultimately show ?thesis by simp
qed

text \<open>A longer list is cut off without an error.\<close>

theorem long_search_cut_off:
  assumes "grpc_client conn txs_of c"
    and "run_state (getTxsByEvents cl c query) w = (Inr txs, w')"
    and "25000 < length (txs_of query w)"
  shows "length txs = 25000"
  using grpc_client.search [OF assms(1,2)] assms(3) prefix_length_le by fastforce

end
