(* ===== verification/Spec2Isabelle.thy ===== *)
theory Spec2Isabelle
  imports Cosmos_Properties Executor_Properties Eth_Properties Database_Properties
    System_Properties Service_Properties Key_Properties Startup_Properties Client_Properties
begin

text \<open>
  A verification development for the wPOKT validator, the process that runs the bridge between POKT
  on a Cosmos chain and wPOKT, an ERC-20 token on Ethereum. Several validators run the same program
  over one shared MongoDB database. A transfer of POKT to the vault, a multisig account, becomes a
  document in the collection of mints, collects the signatures of the validators and is minted by the
  user through the mint controller; a transfer that cannot be minted becomes an invalid mint and is
  refunded; a burn of wPOKT is paid out on the Cosmos chain. Refunds and payments are transactions of
  the multisig account, which collect the signatures of its members in the database and are broadcast
  when the threshold is met.

  \<^bold>\<open>Conventions.\<close> A Go struct is a record, its fields with a prefix of the type; an interface is a
  record of operations. Everything that reaches the database, a chain, a key service or the clock is a
  state transformer over a world \<open>'w\<close> about which nothing is assumed but what an interface promises
  (type \<open>('w, 'a) io\<close>, the state monad of the library). An error is a value of the type \<open>error\<close>, on the
  left of a sum; a panic and \<open>log.Fatal\<close> are two of its constructors, and every early return of the code
  is a branch. \<open>int64\<close> and \<open>uint64\<close> write out the conversions of Go; sequences, totals and account numbers
  are words. Third-party code is never defined: the pure functions of the Cosmos SDK and go-ethereum
  are the records \<open>Lib\<close> and \<open>CometLib\<close>, those of the key libraries \<open>KeyLib\<close>, the driver of the database
  \<open>Driver\<close> and \<open>Deployment\<close>, the nodes \<open>GrpcConn\<close>, \<open>CosmosHTTPClient\<close> and \<open>EthNode\<close>.

  \<^bold>\<open>Theories that prepare the ground.\<close>
  \<^item> \<open>Validator_Prelude\<close>: errors, computations and the predicates to reason about them: \<open>can_return\<close>
    (a possible result), \<open>writes\<close> (a relation that covers all changes), \<open>quiet\<close> (no change) and \<open>triple\<close>
    (pre- and postcondition), each with a collection of compositional rules.
  \<^item> \<open>Go_Std\<close>: what the program uses of \<open>strings\<close>, \<open>strconv\<close> and \<open>encoding/hex\<close>.
  \<^item> \<open>Models\<close>, \<open>Codec\<close> (package \<open>models\<close>): the documents, their statuses and their BSON form, with
    queries, updates and pipelines as data and their meaning on a document.
  \<^item> \<open>Config_Types\<close>, \<open>Interfaces\<close>: the configuration tree and the interfaces of the services.

  \<^bold>\<open>The program.\<close>
  \<^item> \<open>Common_Util\<close> (package \<open>common\<close>), \<open>Key_Signers\<close> (\<open>common/gcp_kms_signer.go\<close>,
    \<open>common/mnemonic_signer.go\<close>, derivation of keys), \<open>App_Signer\<close> (\<open>app/signer.go\<close>).
  \<^item> \<open>Cosmos_Util\<close> (\<open>cosmos/util\<close>) and \<open>Eth_Util\<close> (\<open>eth/util\<close>): validation of a transfer and its memo,
    creation of documents, confirmations, building and signing of transactions and of mints;
    \<open>Mint_Signatures\<close>: the signatures several validators add to one mint; \<open>Mint_Progress\<close>: the turns
    of several mint signers, in any order, bring a mint to its threshold (the locale \<open>steady_signer\<close> is
    a signer to which database and chains answer); \<open>Sign_And_Execute\<close>: the members of the multisig sign
    a return transaction in turn and the burn executor accepts what they collect (the locale
    \<open>signing_sdk\<close> is what the SDK promises about transactions and their signatures).
  \<^item> \<open>Database_Model\<close>, \<open>Database_Setup\<close> (\<open>app/database.go\<close>): the wrapper \<open>MongoDatabase\<close> over the driver,
    its locks, its unique indexes and how they come to be. The locale \<open>document_store\<close> is the contract
    of the interface \<open>Database\<close>; \<open>mongo_driver\<close> is what the driver documents, and a sublocale proves that
    the wrapper turns the second into the first.
  \<^item> \<open>Cosmos_Client\<close>, \<open>Cosmos_Paging\<close>, \<open>Client_Frame\<close> (\<open>cosmos/client\<close>, \<open>cosmos/network.go\<close>): the client
    over gRPC and HTTP. The loop over pages ends by the measure 500 minus the page; the locale
    \<open>paged_search\<close> is the contract of one page request over a list that may grow, and both kinds of node
    are proved to satisfy it. \<open>Eth_Client\<close> (\<open>eth/client\<close>): the client of the Ethereum node and the
    contracts behind their bindings. \<open>Contract_Bindings\<close> (\<open>eth/autogen\<close>): of the bindings abigen has
    generated, the calls, filters and event iterators the services use. An iterator and the goroutine
    that delivers the logs into its channel interleave freely, so \<open>Next\<close> is a step relation; the channel
    holds 128 logs, and the iteration is proved to end, and to miss nothing it does not report as an
    error, in every interleaving.
  \<^item> the six services, each with its runner record, its handlers and its constructor: \<open>Mint_Monitor\<close>
    (\<open>cosmos/monitor.go\<close>), \<open>Burn_Sequence\<close> and \<open>Burn_Signer\<close> (\<open>cosmos/sequence.go\<close>, \<open>cosmos/tx_sign.go\<close>,
    \<open>cosmos/signer.go\<close>), \<open>Burn_Executor\<close> (\<open>cosmos/executor.go\<close>), \<open>Eth_Blocks\<close> and \<open>Burn_Monitor\<close>
    (\<open>eth/monitor.go\<close>, the loop over block ranges), \<open>Mint_Signer\<close> (\<open>eth/signer.go\<close>), \<open>Mint_Executor\<close>
    (\<open>eth/executor.go\<close>).
  \<^item> \<open>Services\<close>, \<open>Health_Check\<close> (\<open>app/runner.go\<close>, \<open>app/service.go\<close>, \<open>app/health.go\<close>): the loop of a service,
    its stop, the published health and the heights a restarted process takes from it.
  \<^item> \<open>Operator_Tools\<close> (\<open>scripts/generate_keys\<close>, \<open>scripts/generate_multisig\<close>, \<open>scripts/gcp_kms\<close>): what the
    tools that prepare a deployment print for their flags, which the configuration of the validators
    then holds.
  \<^item> \<open>Config_Reading\<close>, \<open>Config_Validation\<close> (\<open>app/env.go\<close>, \<open>app/gsm.go\<close>, \<open>app/logger.go\<close>, \<open>app/config.go\<close>) and
    \<open>Startup\<close> (\<open>main.go\<close>): from the sources of the configuration to the running services.

  \<^bold>\<open>The specification.\<close> Theory \<open>Protocol\<close> says what a validator may do to the documents: insert a new
  one, or make one of the writes of \<open>legal_write\<close>, each with the guard that must stand in its query. The
  relation \<open>store_step\<close> is one such step by anybody. Its invariants (\<open>store_ok\<close>: a signed document has its
  threshold of signatures, a submitted one its hash; \<open>unique_keys\<close>; the order of statuses) are proved by
  rule induction. The locale \<open>shared_store\<close> is a database on which others take such steps between any two
  operations, \<open>validator\<close> a validator over it, \<open>lone_validator\<close> one that works alone. Every service is shown to
  change documents by steps of the protocol only; \<open>Validator_System\<close> composes the services of a process and
  the processes of the bridge into schedules of turns. So what is proved of \<open>store_step\<close> holds of the
  bridge, in whatever order the services of however many validators run, with faults of the database
  and of the chains anywhere.

  \<^bold>\<open>The properties\<close>, by theory.
  \<^item> \<open>System_Properties\<close>: the bridge refines the protocol; signatures, identity, order of statuses and
    unique keys in every state it reaches.
  \<^item> \<open>Cosmos_Properties\<close>, \<open>Executor_Properties\<close>, \<open>Eth_Properties\<close>: the services. Nothing a chain reported
    is passed over; only what passed its checks is signed; only what carries its threshold of verified
    signatures is broadcast; sequences and nonces are fresh; what the checks mean.
  \<^item> \<open>Client_Properties\<close>: what a search of the chain returns, how many requests it makes, and the mint
    monitor from the chain to the database.
  \<^item> \<open>Service_Properties\<close>, \<open>Startup_Properties\<close>: stop, restart, configuration, the common multisig, the
    indexes, and that \<open>main\<close> starts processes of the kind the refinement is about.
  \<^item> \<open>Database_Properties\<close>, \<open>Key_Properties\<close>: the wrapper and its contract, round trips, signatures.
  A property with a hypothesis has a \<open>_witness\<close>, in which it is applied to the reference database
  (\<open>Mongo_Reference\<close>: a driver with faults and locks that satisfies the contract), the reference world
  (\<open>Reference_World\<close>, and \<open>Answering_World\<close> for one without faults) and the reference nodes
  (\<open>Client_Frame\<close>), and the definitions are evaluated.
  Several lemmas show where the code does not do what it means to; they stand beside the properties.

  \<^bold>\<open>Bounds.\<close> No definition uses fuel. The loops over documents, events, keys and pages are structural
  or end by a measure; the loop of a service runs over the list of what the stop channel answers, so that
  a service that is never stopped is every prefix of its turns. Locks are the driver's: a lock is taken
  for a name, can fail, and can expire, so no property rests on mutual exclusion.

  \<^bold>\<open>Not modelled.\<close> The transactions, watches, sessions and unused events of the generated bindings, which
  nothing calls, and the mocks of the tests; the registration of SDK codecs (\<open>cosmos/util/codec.go\<close>); the
  unused constants of \<open>models/tx.go\<close>; logging; command line flags, signals and the final wait of \<open>main\<close>;
  time-outs, except as errors of the operations they bound. A goroutine of a service is the sequence of its
  turns; the interleaving within a turn is the interference that \<open>shared_store\<close> allows.
\<close>

end
